(* ===== verification/Go_Base.thy ===== *)
theory Go_Base
  imports Main "HOL-Library.Monad_Syntax"
begin

text \<open>
  The prelude of the development: what the Go sources use of their standard library on
  strings and slices, the lemma collections, and the interfaces shared by several
  components (a bounded tail buffer).

  Strings are byte lists. \<open>TrimSpace\<close>, \<open>ToLower\<close> and \<open>EqualFold\<close> are modelled on ASCII:
  Unicode white space and case mapping outside ASCII is left as it is. Lengths count bytes,
  as Go's \<open>len\<close> does.
\<close>

named_theorems go_simps "rewrite rules for the Go standard library model"
named_theorems component_defs "definitions unfolded by a component's own lemmas"

section \<open>Strings\<close>

definition is_space :: "char \<Rightarrow> bool" where
  "is_space c \<longleftrightarrow> c \<in> {CHR '' '', CHR 0x09, CHR 0x0A, CHR 0x0B, CHR 0x0C, CHR 0x0D}"

definition TrimSpace :: "string \<Rightarrow> string" where
  "TrimSpace s = rev (dropWhile is_space (rev (dropWhile is_space s)))"

definition lower_char :: "char \<Rightarrow> char" where
  "lower_char c = (let n = (of_char c :: nat) in if 65 \<le> n \<and> n \<le> 90 then char_of (n + 32) else c)"

definition ToLower :: "string \<Rightarrow> string" where
  "ToLower s = map lower_char s"

definition EqualFold :: "string \<Rightarrow> string \<Rightarrow> bool" where
  "EqualFold s t \<longleftrightarrow> ToLower s = ToLower t"

definition HasPrefix :: "string \<Rightarrow> string \<Rightarrow> bool" where
  "HasPrefix s p \<longleftrightarrow> take (length p) s = p"

definition HasSuffix :: "string \<Rightarrow> string \<Rightarrow> bool" where
  "HasSuffix s p \<longleftrightarrow> HasPrefix (rev s) (rev p)"

definition TrimPrefix :: "string \<Rightarrow> string \<Rightarrow> string" where
  "TrimPrefix s p = (if HasPrefix s p then drop (length p) s else s)"

definition TrimSuffix :: "string \<Rightarrow> string \<Rightarrow> string" where
  "TrimSuffix s p = (if HasSuffix s p then take (length s - length p) s else s)"

text \<open>\<open>strings.Split(s, sep)\<close> for a separator of one byte: never the empty list.\<close>

fun split_on :: "char \<Rightarrow> string \<Rightarrow> string list" where
  "split_on c [] = [[]]"
| "split_on c (x # xs) =
     (if x = c then [] # split_on c xs
      else (case split_on c xs of [] \<Rightarrow> [[x]] | w # ws \<Rightarrow> (x # w) # ws))"

text \<open>\<open>strings.Cut(s, sep)\<close> for a separator of one byte: before, after, found.\<close>

fun cut_on :: "char \<Rightarrow> string \<Rightarrow> (string \<times> string) option" where
  "cut_on c [] = None"
| "cut_on c (x # xs) = (if x = c then Some ([], xs) else map_option (\<lambda>(a, b). (x # a, b)) (cut_on c xs))"

text \<open>\<open>strings.Contains\<close>.\<close>

fun Contains :: "string \<Rightarrow> string \<Rightarrow> bool" where
  "Contains [] p = (p = [])"
| "Contains (x # xs) p = (HasPrefix (x # xs) p \<or> Contains xs p)"

lemma dropWhile_idem [go_simps, simp]: "dropWhile P (dropWhile P xs) = dropWhile P xs"
  by (induction xs) auto

lemma hd_dropWhile_rev_stable:
  "dropWhile P xs = xs \<Longrightarrow> dropWhile P (rev (dropWhile P (rev xs))) = rev (dropWhile P (rev xs))"
proof (cases "rev (dropWhile P (rev xs))")
  case Nil
  then show ?thesis by (simp only: Nil dropWhile.simps)
next
  case (Cons y ys)
  assume stable: "dropWhile P xs = xs"
  have "xs = rev (dropWhile P (rev xs)) @ rev (takeWhile P (rev xs))"
    by (metis rev_append rev_rev_ident takeWhile_dropWhile_id)
  with Cons have "xs = y # ys @ rev (takeWhile P (rev xs))" by simp
  with stable have "\<not> P y"
    by (metis dropWhile_eq_self_iff list.sel(1) list.discI)
  with Cons show ?thesis by simp
qed

lemma TrimSpace_idem [go_simps, simp]: "TrimSpace (TrimSpace s) = TrimSpace s"
proof -
  let ?d = "dropWhile is_space s"
  have "dropWhile is_space (rev (dropWhile is_space (rev ?d))) = rev (dropWhile is_space (rev ?d))"
    by (rule hd_dropWhile_rev_stable) simp
  then show ?thesis by (simp add: TrimSpace_def)
qed

lemma TrimSpace_Nil [go_simps, simp]: "TrimSpace [] = []"
  by (simp add: TrimSpace_def)

lemma length_TrimSpace: "length (TrimSpace s) \<le> length s"
  unfolding TrimSpace_def length_rev
  by (rule order_trans [OF length_dropWhile_le]) (simp add: length_dropWhile_le)

lemma lower_char_idem [simp]: "lower_char (lower_char c) = lower_char c"
proof (cases "65 \<le> (of_char c :: nat) \<and> (of_char c :: nat) \<le> 90")
  case True
  define n where "n = (of_char c :: nat)"
  have low: "lower_char c = char_of (n + 32)"
    using True by (simp add: lower_char_def n_def)
  have "(of_char (char_of (n + 32) :: char) :: nat) = (n + 32) mod 256"
    by (simp only: of_char_of)
  also have "\<dots> = n + 32" using True by (simp add: n_def)
  finally have "\<not> (of_char (lower_char c) :: nat) \<le> 90"
    using True by (simp add: low n_def)
  then show ?thesis by (simp add: lower_char_def [of "lower_char c"] Let_def)
next
  case False
  then have "lower_char c = c" unfolding lower_char_def Let_def by (rule if_not_P)
  then show ?thesis by simp
qed

lemma ToLower_idem [go_simps, simp]: "ToLower (ToLower s) = ToLower s"
  by (simp add: ToLower_def)

lemma EqualFold_refl [go_simps, simp]: "EqualFold s s"
  by (simp add: EqualFold_def)

lemma split_on_nonempty [simp]: "split_on c s \<noteq> []"
  by (induction s) (auto split: list.splits)

lemma cut_on_Some: "cut_on c s = Some (a, b) \<longleftrightarrow> s = a @ c # b \<and> c \<notin> set a"
proof (induction s arbitrary: a)
  case Nil
  then show ?case by simp
next
  case (Cons x xs)
  show ?case
  proof (cases a)
    case Nil
    then show ?thesis by (cases "x = c") auto
  next
    case (Cons y ys)
    then show ?thesis using Cons.IH [of ys] by (cases "x = c") auto
  qed
qed

section \<open>Slices\<close>

text \<open>The slice \<open>xs[len(xs)-n:]\<close> where \<open>len(xs) > n\<close>, else \<open>xs\<close>: the last \<open>n\<close> elements.\<close>

definition keep_last :: "nat \<Rightarrow> 'a list \<Rightarrow> 'a list" where
  "keep_last n xs = (if n < length xs then drop (length xs - n) xs else xs)"

lemma length_keep_last [simp]: "length (keep_last n xs) = min n (length xs)"
  by (simp add: keep_last_def)

lemma keep_last_short [simp]: "length xs \<le> n \<Longrightarrow> keep_last n xs = xs"
  by (simp add: keep_last_def)

lemma keep_last_drop: "keep_last n xs = drop (length xs - n) xs"
  by (simp add: keep_last_def)

lemma keep_last_suffix: "\<exists>ys. xs = ys @ keep_last n xs"
  by (metis append_take_drop_id keep_last_drop)

lemma keep_last_append_absorb: "keep_last n (keep_last n xs @ ys) = keep_last n (xs @ ys)"
  by (simp add: keep_last_drop) (cases "n \<le> length xs"; simp add: add.commute)

lemma set_keep_last: "set (keep_last n xs) \<subseteq> set xs"
  by (simp add: keep_last_drop set_drop_subset)

text \<open>Deduplication with a \<open>seen\<close> map, first occurrence kept: the idiom of the routing registry.\<close>

fun dedup_seen :: "'a set \<Rightarrow> 'a list \<Rightarrow> 'a list" where
  "dedup_seen seen [] = []"
| "dedup_seen seen (x # xs) =
     (if x \<in> seen then dedup_seen seen xs else x # dedup_seen (insert x seen) xs)"

lemma set_dedup_seen [simp]: "set (dedup_seen seen xs) = set xs - seen"
  by (induction seen xs rule: dedup_seen.induct) auto

lemma distinct_dedup_seen [simp]: "distinct (dedup_seen seen xs)"
  by (induction seen xs rule: dedup_seen.induct) auto

lemma dedup_seen_id: "distinct xs \<Longrightarrow> set xs \<inter> seen = {} \<Longrightarrow> dedup_seen seen xs = xs"
  by (induction seen xs rule: dedup_seen.induct) auto

lemma hd_dedup_seen: "xs \<noteq> [] \<Longrightarrow> hd (dedup_seen {} xs) = hd xs"
  by (cases xs) auto

section \<open>The bounded tail buffer\<close>

text \<open>
  Three components keep only the last entries of a stream: the log service, the output
  tail of a tunnel daemon and the stderr tail of a location worker. Each appends, then cuts
  the slice to its capacity. The contract is the single law \<open>items_add\<close>; the lemmas on whole
  streams are proved once.
\<close>

locale tail_buffer =
  fixes add :: "'e \<Rightarrow> 's \<Rightarrow> 's"
    and items :: "'s \<Rightarrow> 'e list"
    and cap :: nat
  assumes items_add: "items (add x s) = keep_last cap (items s @ [x])"
begin

lemma items_fold: "items (fold add xs s) = (if xs = [] then items s else keep_last cap (items s @ xs))"
proof (induction xs arbitrary: s)
  case Nil
  then show ?case by simp
next
  case (Cons x xs)
  then show ?case
    using keep_last_append_absorb [of cap "items s @ [x]" xs] by (simp add: items_add)
qed

lemma bounded_add: "length (items (add x s)) \<le> cap"
  by (simp add: items_add)

lemma bounded_fold: "length (items s) \<le> cap \<Longrightarrow> length (items (fold add xs s)) \<le> cap"
  by (simp add: items_fold)

lemma newest_kept: "0 < cap \<Longrightarrow> last (items (add x s)) = x \<and> items (add x s) \<noteq> []"
  by (auto simp: items_add keep_last_drop last_drop)

lemma add_below_cap: "length (items s) < cap \<Longrightarrow> items (add x s) = items s @ [x]"
  by (simp add: items_add)

end

end
