(* ===== verification/Go_Float.thy ===== *)
theory Go_Float
  imports Complex_Main Go_Base
begin

text \<open>
  Go's \<open>float64\<close>: finite values as reals, the two infinities and NaN, with the comparisons of
  IEEE 754 (NaN is unordered and unequal to itself). The two zeros are one value, read as +0.

  Arithmetic rounds. The rounding is a parameter, the field \<open>rnd\<close> of a record \<open>fpu\<close> that every
  arithmetic operation takes: it maps the exact real result to the \<open>float64\<close> the hardware
  delivers, an infinity on overflow included. A theorem that holds for every \<open>fpu\<close> holds for
  the IEEE rounding; quantitative theorems are stated for \<open>exact_fpu\<close>, which rounds nothing.
  The field \<open>oob_int\<close> is the result of Go's conversion \<open>int(x)\<close> for an \<open>x\<close> that no \<open>int\<close>
  represents, which the language leaves to the implementation.
\<close>

datatype f64 = Fin real | PInf | NInf | NaN

record fpu =
  rnd :: "real \<Rightarrow> f64"
  oob_int :: "f64 \<Rightarrow> int"

definition exact_fpu :: fpu where
  "exact_fpu = \<lparr>rnd = Fin, oob_int = (\<lambda>_. - (2 ^ 63))\<rparr>"

section \<open>Comparisons\<close>

fun flt :: "f64 \<Rightarrow> f64 \<Rightarrow> bool" where
  "flt (Fin a) (Fin b) = (a < b)"
| "flt NaN _ = False"
| "flt _ NaN = False"
| "flt NInf NInf = False"
| "flt NInf _ = True"
| "flt PInf _ = False"
| "flt (Fin a) PInf = True"
| "flt (Fin a) NInf = False"

fun feq :: "f64 \<Rightarrow> f64 \<Rightarrow> bool" where
  "feq NaN _ = False"
| "feq a b = (a = b)"

definition fle :: "f64 \<Rightarrow> f64 \<Rightarrow> bool" where
  "fle a b \<longleftrightarrow> flt a b \<or> feq a b"

definition is_finite :: "f64 \<Rightarrow> bool" where
  "is_finite x \<longleftrightarrow> (case x of Fin _ \<Rightarrow> True | _ \<Rightarrow> False)"

definition IsNaN :: "f64 \<Rightarrow> bool" where
  "IsNaN x \<longleftrightarrow> x = NaN"

definition IsInf :: "f64 \<Rightarrow> bool" where
  "IsInf x \<longleftrightarrow> x = PInf \<or> x = NInf"

lemma fle_Fin [simp]: "fle (Fin a) (Fin b) = (a \<le> b)"
  by (auto simp: fle_def)

lemma fle_NaN [simp]: "\<not> fle NaN x" "\<not> fle x NaN"
  by (cases x; simp add: fle_def)+

lemma feq_NaN [simp]: "\<not> feq x NaN"
  by (cases x) auto

lemma feq_eq: "feq a b \<Longrightarrow> a = b"
  by (cases a) auto

lemma feq_finite [simp]: "is_finite a \<Longrightarrow> feq a b = (a = b)"
  by (cases a) (auto simp: is_finite_def)

lemma feq_refl_iff: "feq a a \<longleftrightarrow> a \<noteq> NaN"
  by (cases a) auto

lemma feq_sym: "feq a b = feq b a"
  by (cases a; cases b) auto

lemma is_finite_iff: "is_finite x \<longleftrightarrow> (\<exists>r. x = Fin r)"
  by (cases x) (auto simp: is_finite_def)

lemma is_finite_not_special: "is_finite x \<longleftrightarrow> \<not> IsNaN x \<and> \<not> IsInf x"
  by (cases x) (auto simp: is_finite_def IsNaN_def IsInf_def)

lemma is_finite_simps [simp]:
  "is_finite (Fin r)" "\<not> is_finite NaN" "\<not> is_finite PInf" "\<not> is_finite NInf"
  by (simp_all add: is_finite_def)

section \<open>Arithmetic\<close>

fun fneg :: "f64 \<Rightarrow> f64" where
  "fneg (Fin a) = Fin (- a)"
| "fneg PInf = NInf"
| "fneg NInf = PInf"
| "fneg NaN = NaN"

fun fadd :: "fpu \<Rightarrow> f64 \<Rightarrow> f64 \<Rightarrow> f64" where
  "fadd u (Fin a) (Fin b) = rnd u (a + b)"
| "fadd u NaN _ = NaN"
| "fadd u _ NaN = NaN"
| "fadd u PInf NInf = NaN"
| "fadd u NInf PInf = NaN"
| "fadd u PInf _ = PInf"
| "fadd u NInf _ = NInf"
| "fadd u _ x = x"

definition fsub :: "fpu \<Rightarrow> f64 \<Rightarrow> f64 \<Rightarrow> f64" where
  "fsub u a b = fadd u a (fneg b)"

fun inf_of_sign :: "real \<Rightarrow> f64" where
  "inf_of_sign a = (if 0 < a then PInf else if a < 0 then NInf else NaN)"

fun fmul :: "fpu \<Rightarrow> f64 \<Rightarrow> f64 \<Rightarrow> f64" where
  "fmul u (Fin a) (Fin b) = rnd u (a * b)"
| "fmul u NaN _ = NaN"
| "fmul u _ NaN = NaN"
| "fmul u PInf (Fin b) = inf_of_sign b"
| "fmul u NInf (Fin b) = inf_of_sign (- b)"
| "fmul u (Fin a) PInf = inf_of_sign a"
| "fmul u (Fin a) NInf = inf_of_sign (- a)"
| "fmul u PInf PInf = PInf"
| "fmul u NInf NInf = PInf"
| "fmul u PInf NInf = NInf"
| "fmul u NInf PInf = NInf"

fun fdiv :: "fpu \<Rightarrow> f64 \<Rightarrow> f64 \<Rightarrow> f64" where
  "fdiv u (Fin a) (Fin b) = (if b = 0 then inf_of_sign a else rnd u (a / b))"
| "fdiv u NaN _ = NaN"
| "fdiv u _ NaN = NaN"
| "fdiv u (Fin a) _ = Fin 0"
| "fdiv u PInf (Fin b) = (if b < 0 then NInf else PInf)"
| "fdiv u NInf (Fin b) = (if b < 0 then PInf else NInf)"
| "fdiv u _ _ = NaN"

section \<open>The functions of package math\<close>

fun fsin :: "fpu \<Rightarrow> f64 \<Rightarrow> f64" where
  "fsin u (Fin a) = rnd u (sin a)"
| "fsin u _ = NaN"

fun fcos :: "fpu \<Rightarrow> f64 \<Rightarrow> f64" where
  "fcos u (Fin a) = rnd u (cos a)"
| "fcos u _ = NaN"

fun fsqrt :: "fpu \<Rightarrow> f64 \<Rightarrow> f64" where
  "fsqrt u (Fin a) = (if a < 0 then NaN else rnd u (sqrt a))"
| "fsqrt u PInf = PInf"
| "fsqrt u _ = NaN"

definition atan2r :: "real \<Rightarrow> real \<Rightarrow> real" where
  "atan2r y x =
     (if 0 < x then arctan (y / x)
      else if x < 0 then (if 0 \<le> y then arctan (y / x) + pi else arctan (y / x) - pi)
      else if 0 < y then pi / 2 else if y < 0 then - pi / 2 else 0)"

text \<open>\<open>math.Atan2\<close> on finite arguments; the code never calls it on an infinity.\<close>

fun fatan2 :: "fpu \<Rightarrow> f64 \<Rightarrow> f64 \<Rightarrow> f64" where
  "fatan2 u (Fin y) (Fin x) = rnd u (atan2r y x)"
| "fatan2 u _ _ = NaN"

fun ffloor :: "f64 \<Rightarrow> f64" where
  "ffloor (Fin a) = Fin (of_int \<lfloor>a\<rfloor>)"
| "ffloor x = x"

text \<open>\<open>int(x)\<close> truncates towards zero; out of range it is whatever the platform delivers.\<close>

definition f64_to_int :: "fpu \<Rightarrow> f64 \<Rightarrow> int" where
  "f64_to_int u x =
     (case x of
        Fin a \<Rightarrow> (let n = (if 0 \<le> a then \<lfloor>a\<rfloor> else \<lceil>a\<rceil>)
                  in if - (2 ^ 63) \<le> n \<and> n < 2 ^ 63 then n else oob_int u x)
      | _ \<Rightarrow> oob_int u x)"

lemma rnd_exact [simp]: "rnd exact_fpu = Fin"
  by (simp add: exact_fpu_def)

lemma fsub_exact [simp]: "fsub exact_fpu (Fin a) (Fin b) = Fin (a - b)"
  by (simp add: fsub_def)

lemma f64_to_int_floor:
  "0 \<le> a \<Longrightarrow> a < 2 ^ 63 \<Longrightarrow> f64_to_int u (ffloor (Fin a)) = \<lfloor>a\<rfloor>"
proof -
  assume a: "0 \<le> a" "a < 2 ^ 63"
  then have "\<lfloor>a\<rfloor> < 2 ^ 63" by (simp add: floor_less_iff)
  moreover have "0 \<le> \<lfloor>a\<rfloor>" using a by simp
  ultimately show ?thesis by (simp add: f64_to_int_def Let_def)
qed

end
