(* ===== verification/Domain.thy ===== *)
theory Domain
  imports Go_Float
begin

text \<open>
  The shared data of the engine: the types of \<open>internal/domain/types.go\<close> and the status object
  of \<open>internal/api/status.go\<close>. A pointer field is an \<open>option\<close>; epoch milliseconds and ports are
  \<open>int\<close>; the run state, a string in Go that only ever takes these six values, is a datatype.
\<close>

section \<open>domain/types.go\<close>

type_synonym driver_id = string

definition DriverPmd3 :: driver_id where "DriverPmd3 = ''pymobiledevice''"
definition DriverGoIos :: driver_id where "DriverGoIos = ''go-ios''"
definition DriverGoIosNative :: driver_id where "DriverGoIosNative = ''go-ios-native''"

datatype connection_type = ConnUSB | ConnWiFi | ConnManual | ConnUnknown

type_synonym leg_type = string

definition LegStart :: leg_type where "LegStart = ''start''"
definition LegDrive :: leg_type where "LegDrive = ''drive''"
definition LegWalk :: leg_type where "LegWalk = ''walk''"
definition LegFlight :: leg_type where "LegFlight = ''flight''"
definition LegWait :: leg_type where "LegWait = ''wait''"

lemmas leg_type_defs = LegStart_def LegDrive_def LegWalk_def LegFlight_def LegWait_def

record latlon =
  ll_lat :: f64
  ll_lon :: f64

record favorite =
  fav_lat :: f64
  fav_lon :: f64
  fav_name :: string
  fav_time :: int

type_synonym history_entry = favorite

record patrol_bounds =
  pb_NE :: latlon
  pb_SW :: latlon

record patrol_zone =
  pz_type :: string
  pz_center :: "latlon option"
  pz_radius :: f64
  pz_bounds :: "patrol_bounds option"
  pz_active :: bool

record route_leg =
  leg_type :: leg_type
  leg_start :: latlon
  leg_end :: latlon
  leg_startTime :: int
  leg_endTime :: int
  leg_speed :: f64

record sequence_point =
  sp_lat :: f64
  sp_lon :: f64
  sp_time :: int

record device_info =
  di_udid :: string
  di_name :: string
  di_driver :: driver_id

datatype nav_state = NavRunning | NavPaused | NavStopped

record nav_progress =
  np_index :: nat
  np_total :: nat
  np_lat :: f64
  np_lon :: f64
  np_speed :: f64

record coords =
  co_lat :: f64
  co_lon :: f64
  co_name :: string

record nav_status =
  ns_state :: nav_state
  ns_index :: nat
  ns_total :: nat
  ns_destination :: "coords option"

record navigation =
  nav_progress :: "nav_progress option"
  nav_status :: "nav_status option"

abbreviation LatLon :: "f64 \<Rightarrow> f64 \<Rightarrow> latlon" where
  "LatLon la lo \<equiv> \<lparr>ll_lat = la, ll_lon = lo\<rparr>"

section \<open>api/status.go\<close>

datatype run_state = Idle | Starting | Ready | Running | Moving | Paused

record env_info =
  env_OS :: string
  env_IsDocker :: bool
  env_Mode :: string
  env_Version :: string

record cluster_peer_info =
  cp_Address :: string
  cp_Port :: int
  cp_Online :: bool
  cp_Role :: string
  cp_Name :: string
  cp_Discovered :: bool

record cluster_info =
  ci_Role :: string
  ci_Mode :: string
  ci_Peers :: "cluster_peer_info list"

record location_stamp =
  ls_lat :: f64
  ls_lon :: f64
  ls_name :: string
  ls_time :: int

record real_location =
  rl_lat :: f64
  rl_lon :: f64
  rl_drift :: f64
  rl_time :: int

record tunnel_health =
  th_establishedAt :: int
  th_lastInjectionOkAt :: int
  th_failures :: int
  th_lastReresolveAt :: int
  th_lastCheckRTTms :: int
  th_searching :: bool

text \<open>The zero value of a Go struct.\<close>

definition zero_health :: tunnel_health where
  "zero_health = \<lparr>th_establishedAt = 0, th_lastInjectionOkAt = 0, th_failures = 0,
     th_lastReresolveAt = 0, th_lastCheckRTTms = 0, th_searching = False\<rparr>"

record routing_provider_info =
  rpi_ID :: string
  rpi_Name :: string
  rpi_Available :: bool
  rpi_Configured :: bool
  rpi_Profiles :: "string list"

record routing_info =
  ri_Mode :: string
  ri_Provider :: string
  ri_ActiveProvider :: string
  ri_Priority :: "string list"
  ri_AvailableProviders :: "string list"
  ri_Providers :: "routing_provider_info list"

record status =
  st_State :: run_state
  st_TunnelActive :: bool
  st_RSDAddress :: string
  st_RSDPort :: int
  st_ConnectionType :: connection_type
  st_DeviceInfo :: "device_info option"
  st_LastInjected :: "location_stamp option"
  st_LastVerified :: "location_stamp option"
  st_LastActive :: "location_stamp option"
  st_LastReal :: "real_location option"
  st_TunnelHealth :: "tunnel_health option"
  st_MaintainActive :: bool
  st_LastHeartbeat :: int
  st_UsbDriver :: driver_id
  st_WifiDriver :: driver_id
  st_Fallback :: bool
  st_Notifications :: bool
  st_DynamicIsland :: bool
  st_Jitter :: bool
  st_Favorites :: "favorite list"
  st_History :: "history_entry list"
  st_Preview :: "sequence_point list"
  st_Patrol :: "patrol_zone option"
  st_Navigation :: navigation
  st_EnvInfo :: env_info
  st_Cluster :: "cluster_info option"
  st_OsrmBaseURL :: string
  st_Routing :: routing_info
  st_HeartbeatSec :: int
  st_MasterDeadSec :: int
  st_PeerTimeoutSec :: int

end
