(* ===== verification/Validation.thy ===== *)
theory Validation
  imports Domain
begin

text \<open>
  The sanity boundary for inbound payloads, \<open>internal/api/validate.go\<close>: one function per
  \<open>Validate\<close> method, an error where the method returns one, checks in the order of the source.
  Payload types are those of \<open>internal/api/messages.go\<close>.
\<close>

section \<open>Payloads\<close>

record set_location_payload =
  slp_lat :: f64
  slp_lon :: f64
  slp_name :: string

record play_route_payload =
  prp_endLat :: f64
  prp_endLon :: f64
  prp_speed :: f64
  prp_profile :: string

record play_sequence_payload =
  psp_legs :: "route_leg list"
  psp_looping :: bool

record play_gpx_payload =
  pgp_content :: string
  pgp_speed :: f64

record favorite_payload =
  fp_lat :: f64
  fp_lon :: f64
  fp_name :: string
  fp_newName :: string

record real_location_payload =
  rlp_latitude :: f64
  rlp_longitude :: f64

record debug_log_payload =
  dlp_message :: string
  dlp_level :: string
  dlp_source :: string
  dlp_category :: string
  dlp_action :: string
  dlp_fields :: "(string \<times> string) list"

datatype validation_error =
    NotFinite
  | LatOutOfRange f64
  | LonOutOfRange f64
  | SpeedOutOfRange f64
  | NameTooLong
  | UnknownProfile string
  | NoLegs
  | TooManyLegs nat
  | LegStartError nat validation_error
  | LegEndError nat validation_error
  | LegError nat validation_error
  | EmptyGpx
  | GpxTooLong
  | MessageTooLong
  | NoCenter
  | RadiusOutOfRange f64
  | NoBounds
  | UnknownZoneType string

type_synonym vresult = "validation_error option"

section \<open>The validators\<close>

definition maxSpeedKmh :: real where "maxSpeedKmh = 2000"
definition maxNameLen :: nat where "maxNameLen = 200"
definition maxMessageLen :: nat where "maxMessageLen = 4000"
definition maxGpxLen :: nat where "maxGpxLen = 16 * 1024 * 1024"
definition maxLegs :: nat where "maxLegs = 500"
definition maxRadiusM :: real where "maxRadiusM = 1000000"

lemmas limit_defs = maxSpeedKmh_def maxNameLen_def maxMessageLen_def maxGpxLen_def maxLegs_def maxRadiusM_def

text \<open>\<open>if err := f; err != nil \<open>return err\<close>\<close>, then the rest.\<close>

fun and_then :: "vresult \<Rightarrow> vresult \<Rightarrow> vresult" where
  "and_then (Some e) _ = Some e"
| "and_then None r = r"

definition validLatLon :: "f64 \<Rightarrow> f64 \<Rightarrow> vresult" where
  "validLatLon lat lon =
     (if IsNaN lat \<or> IsNaN lon \<or> IsInf lat \<or> IsInf lon then Some NotFinite
      else if flt lat (Fin (- 90)) \<or> flt (Fin 90) lat then Some (LatOutOfRange lat)
      else if flt lon (Fin (- 180)) \<or> flt (Fin 180) lon then Some (LonOutOfRange lon)
      else None)"

definition validSpeed :: "f64 \<Rightarrow> vresult" where
  "validSpeed speed =
     (if feq speed (Fin 0) then None
      else if IsNaN speed \<or> IsInf speed \<or> flt speed (Fin 0) \<or> flt (Fin maxSpeedKmh) speed
      then Some (SpeedOutOfRange speed)
      else None)"

definition validName :: "string \<Rightarrow> vresult" where
  "validName name = (if maxNameLen < length name then Some NameTooLong else None)"

definition Validate_SetLocation :: "set_location_payload \<Rightarrow> vresult" where
  "Validate_SetLocation p = and_then (validLatLon (slp_lat p) (slp_lon p)) (validName (slp_name p))"

definition Validate_PlayRoute :: "play_route_payload \<Rightarrow> vresult" where
  "Validate_PlayRoute p =
     and_then (validLatLon (prp_endLat p) (prp_endLon p))
    (and_then (validSpeed (prp_speed p))
     (if prp_profile p \<in> {'''', ''driving'', ''walking'', ''cycling''} then None
      else Some (UnknownProfile (prp_profile p))))"

text \<open>The loop over the legs, with the index it reports.\<close>

fun check_legs :: "nat \<Rightarrow> route_leg list \<Rightarrow> vresult" where
  "check_legs i [] = None"
| "check_legs i (leg # legs) =
     (case validLatLon (ll_lat (leg_start leg)) (ll_lon (leg_start leg)) of
        Some e \<Rightarrow> Some (LegStartError i e)
      | None \<Rightarrow>
          (case validLatLon (ll_lat (leg_end leg)) (ll_lon (leg_end leg)) of
             Some e \<Rightarrow> Some (LegEndError i e)
           | None \<Rightarrow>
               (case validSpeed (leg_speed leg) of
                  Some e \<Rightarrow> Some (LegError i e)
                | None \<Rightarrow> check_legs (Suc i) legs)))"

definition Validate_PlaySequence :: "play_sequence_payload \<Rightarrow> vresult" where
  "Validate_PlaySequence p =
     (if psp_legs p = [] then Some NoLegs
      else if maxLegs < length (psp_legs p) then Some (TooManyLegs (length (psp_legs p)))
      else check_legs 0 (psp_legs p))"

definition Validate_PlayCustomGpx :: "play_gpx_payload \<Rightarrow> vresult" where
  "Validate_PlayCustomGpx p =
     (if pgp_content p = [] then Some EmptyGpx
      else if maxGpxLen < length (pgp_content p) then Some GpxTooLong
      else validSpeed (pgp_speed p))"

definition Validate_Favorite :: "favorite_payload \<Rightarrow> vresult" where
  "Validate_Favorite p =
     and_then (validLatLon (fp_lat p) (fp_lon p))
    (and_then (validName (fp_name p)) (validName (fp_newName p)))"

definition Validate_RealLocation :: "real_location_payload \<Rightarrow> vresult" where
  "Validate_RealLocation p = validLatLon (rlp_latitude p) (rlp_longitude p)"

definition Validate_DebugLog :: "debug_log_payload \<Rightarrow> vresult" where
  "Validate_DebugLog p = (if maxMessageLen < length (dlp_message p) then Some MessageTooLong else None)"

definition Validate_PatrolUpdate :: "patrol_zone \<Rightarrow> vresult" where
  "Validate_PatrolUpdate z =
     (if \<not> pz_active z then None
      else if pz_type z = ''circle'' then
        (case pz_center z of
           None \<Rightarrow> Some NoCenter
         | Some c \<Rightarrow>
             and_then (validLatLon (ll_lat c) (ll_lon c))
              (if fle (pz_radius z) (Fin 0) \<or> flt (Fin maxRadiusM) (pz_radius z)
               then Some (RadiusOutOfRange (pz_radius z)) else None))
      else if pz_type z = ''rectangle'' then
        (case pz_bounds z of
           None \<Rightarrow> Some NoBounds
         | Some b \<Rightarrow>
             and_then (validLatLon (ll_lat (pb_NE b)) (ll_lon (pb_NE b)))
              (validLatLon (ll_lat (pb_SW b)) (ll_lon (pb_SW b))))
      else Some (UnknownZoneType (pz_type z)))"

section \<open>What passing a validator means\<close>

definition in_range :: "real \<Rightarrow> real \<Rightarrow> f64 \<Rightarrow> bool" where
  "in_range lo hi x \<longleftrightarrow> (\<exists>r. x = Fin r \<and> lo \<le> r \<and> r \<le> hi)"

definition good_coord :: "latlon \<Rightarrow> bool" where
  "good_coord p \<longleftrightarrow> in_range (- 90) 90 (ll_lat p) \<and> in_range (- 180) 180 (ll_lon p)"

definition good_speed :: "f64 \<Rightarrow> bool" where
  "good_speed s \<longleftrightarrow> in_range 0 maxSpeedKmh s"

lemma and_then_None [simp]: "and_then a b = None \<longleftrightarrow> a = None \<and> b = None"
  by (cases a) auto

lemma validLatLon_iff: "validLatLon lat lon = None \<longleftrightarrow> good_coord (LatLon lat lon)"
  by (cases lat; cases lon)
     (auto simp: validLatLon_def good_coord_def in_range_def IsNaN_def IsInf_def)

lemma validSpeed_iff: "validSpeed s = None \<longleftrightarrow> good_speed s"
  by (cases s) (auto simp: validSpeed_def good_speed_def in_range_def IsNaN_def IsInf_def maxSpeedKmh_def)

definition good_leg :: "route_leg \<Rightarrow> bool" where
  "good_leg l \<longleftrightarrow> good_coord (leg_start l) \<and> good_coord (leg_end l) \<and> good_speed (leg_speed l)"

lemma validLatLon_point: "validLatLon (ll_lat p) (ll_lon p) = None \<longleftrightarrow> good_coord p"
  by (simp add: validLatLon_iff good_coord_def)

lemma check_legs_iff: "check_legs i legs = None \<longleftrightarrow> list_all good_leg legs"
  by (induction i legs rule: check_legs.induct)
     (auto simp: good_leg_def validLatLon_point validSpeed_iff split: option.splits,
      (metis validLatLon_point validSpeed_iff option.distinct(1))+)

text \<open>
  The reported leg is the first bad one: every leg before it is good.
\<close>

fun leg_index :: "validation_error \<Rightarrow> nat option" where
  "leg_index (LegStartError i _) = Some i"
| "leg_index (LegEndError i _) = Some i"
| "leg_index (LegError i _) = Some i"
| "leg_index _ = None"

lemma check_legs_first_bad:
  "check_legs i legs = Some e \<Longrightarrow>
   \<exists>k. leg_index e = Some (i + k) \<and> k < length legs \<and> \<not> good_leg (legs ! k) \<and> list_all good_leg (take k legs)"
proof (induction i legs rule: check_legs.induct)
  case (1 i)
  then show ?case by simp
next
  case (2 i leg legs)
  show ?case
  proof (cases "good_leg leg")
    case True
    then have "check_legs i (leg # legs) = check_legs (Suc i) legs"
      by (simp add: good_leg_def validLatLon_point [symmetric] validSpeed_iff [symmetric])
    with "2.prems" have "check_legs (Suc i) legs = Some e" by simp
    with True obtain k where "leg_index e = Some (Suc i + k)" "k < length legs"
        "\<not> good_leg (legs ! k)" "list_all good_leg (take k legs)"
      using "2.IH" by (metis good_leg_def validLatLon_point validSpeed_iff)
    with True show ?thesis by (intro exI [of _ "Suc k"]) auto
  next
    case False
    then have "leg_index e = Some i"
      using "2.prems" by (auto simp: good_leg_def validLatLon_point [symmetric] validSpeed_iff [symmetric]
          split: option.splits)
    with False show ?thesis by (intro exI [of _ 0]) auto
  qed
qed

section \<open>Properties\<close>

text \<open>
  \<open>PLAY_SEQUENCE\<close> payloads are accepted exactly when there is at least one leg, at most 500,
  and every leg has finite end points with latitude in [-90, 90] and longitude in [-180, 180] and
  a finite speed in [0, 2000] km/h, 0 standing for the default.
\<close>

theorem PlaySequence_accepts_iff:
  "Validate_PlaySequence p = None \<longleftrightarrow>
     psp_legs p \<noteq> [] \<and> length (psp_legs p) \<le> 500 \<and>
     list_all (\<lambda>l. in_range (- 90) 90 (ll_lat (leg_start l)) \<and> in_range (- 180) 180 (ll_lon (leg_start l)) \<and>
                   in_range (- 90) 90 (ll_lat (leg_end l)) \<and> in_range (- 180) 180 (ll_lon (leg_end l)) \<and>
                   in_range 0 2000 (leg_speed l)) (psp_legs p)"
  by (auto simp: Validate_PlaySequence_def check_legs_iff good_leg_def good_coord_def good_speed_def
      limit_defs list_all_iff)

text \<open>
  A rejected leg is the first bad one. When a non-empty list of at most 500 legs is refused,
  the error names an index inside the list, the leg at that index is invalid and every leg
  before it is valid.
\<close>

theorem PlaySequence_reports_first_bad_leg:
  assumes "Validate_PlaySequence p = Some e" and "psp_legs p \<noteq> []" and "length (psp_legs p) \<le> 500"
  shows "\<exists>k < length (psp_legs p). leg_index e = Some k \<and> \<not> good_leg (psp_legs p ! k) \<and>
           list_all good_leg (take k (psp_legs p))"
proof -
  have "check_legs 0 (psp_legs p) = Some e"
    using assms by (simp add: Validate_PlaySequence_def maxLegs_def)
  from check_legs_first_bad [OF this] show ?thesis by auto
qed

definition sample_leg :: "real \<Rightarrow> route_leg" where
  "sample_leg lat = \<lparr>leg_type = LegDrive, leg_start = LatLon (Fin lat) (Fin 2), leg_end = LatLon (Fin 48) (Fin 3),
     leg_startTime = 0, leg_endTime = 0, leg_speed = Fin 50\<rparr>"

theorem PlaySequence_reports_first_bad_leg_witness:
  "\<exists>k < 2. leg_index (LegStartError 1 (LatOutOfRange (Fin 91))) = Some k \<and>
     \<not> good_leg ([sample_leg 48, sample_leg 91] ! k) \<and> list_all good_leg (take k [sample_leg 48, sample_leg 91])"
proof -
  let ?p = "\<lparr>psp_legs = [sample_leg 48, sample_leg 91], psp_looping = False\<rparr>"
  have "Validate_PlaySequence ?p = Some (LegStartError 1 (LatOutOfRange (Fin 91)))"
    by (simp add: Validate_PlaySequence_def maxLegs_def sample_leg_def validLatLon_def validSpeed_def
        IsNaN_def IsInf_def maxSpeedKmh_def)
  from PlaySequence_reports_first_bad_leg [OF this] show ?thesis by simp
qed

text \<open>
  What \<open>PATROL_UPDATE\<close> accepts: every stop request; a circle with a valid centre whose radius
  is in (0, 1000000] metres or is NaN, since both comparisons of the radius check are false on NaN;
  a rectangle with two valid corners; nothing else.
\<close>

theorem PatrolUpdate_accepts_iff:
  "Validate_PatrolUpdate z = None \<longleftrightarrow>
     pz_active z = False \<or>
     (pz_type z = ''circle'' \<and> (\<exists>c. pz_center z = Some c \<and> good_coord c) \<and>
        (pz_radius z = NaN \<or> (\<exists>r. pz_radius z = Fin r \<and> 0 < r \<and> r \<le> 1000000))) \<or>
     (pz_type z = ''rectangle'' \<and> (\<exists>b. pz_bounds z = Some b \<and> good_coord (pb_NE b) \<and> good_coord (pb_SW b)))"
proof -
  have r: "\<not> fle x (Fin 0) \<and> \<not> flt (Fin maxRadiusM) x \<longleftrightarrow>
      x = NaN \<or> (\<exists>r. x = Fin r \<and> 0 < r \<and> r \<le> 1000000)" for x
    by (cases x) (auto simp: fle_def maxRadiusM_def)
  show ?thesis
    using r [of "pz_radius z"]
    by (auto simp: Validate_PatrolUpdate_def validLatLon_point split: option.splits if_splits)
qed

end
