(* ===== verification/Geometry.thy ===== *)
theory Geometry
  imports Validation
begin

text \<open>
  The movement planner, package \<open>internal/simulation\<close>: the haversine distance, the one second
  interpolation of a path and the plans built from it. Arithmetic is that of \<open>Go_Float\<close>, so the
  rounding is the parameter \<open>u\<close>; decimal constants of the source are rounded too. The XML decoder
  of the standard library is the parameter \<open>xml\<close> of \<open>ParseGPXCoordinates\<close>: it yields the points
  of each segment of each track, or nothing when the document does not decode.
\<close>

section \<open>geometry.go\<close>

definition lit :: "fpu \<Rightarrow> real \<Rightarrow> f64" where "lit u r = rnd u r"

definition deg2rad :: "fpu \<Rightarrow> f64 \<Rightarrow> f64" where
  "deg2rad u x = fdiv u (fmul u x (lit u pi)) (Fin 180)"

definition Distance :: "fpu \<Rightarrow> latlon \<Rightarrow> latlon \<Rightarrow> f64" where
  "Distance u p1 p2 =
    (let dLat = deg2rad u (fsub u (ll_lat p2) (ll_lat p1));
         dLon = deg2rad u (fsub u (ll_lon p2) (ll_lon p1));
         lat1 = deg2rad u (ll_lat p1);
         lat2 = deg2rad u (ll_lat p2);
         sLat = fsin u (fdiv u dLat (Fin 2));
         sLon = fsin u (fdiv u dLon (Fin 2));
         a = fadd u (fmul u sLat sLat)
               (fmul u (fmul u (fmul u sLon sLon) (fcos u lat1)) (fcos u lat2));
         c = fmul u (Fin 2) (fatan2 u (fsqrt u a) (fsqrt u (fsub u (Fin 1) a)))
     in fmul u (Fin 6371000) c)"

text \<open>The intermediate point of step \<open>s\<close>.\<close>

definition step_point :: "fpu \<Rightarrow> latlon \<Rightarrow> latlon \<Rightarrow> f64 \<Rightarrow> f64 \<Rightarrow> nat \<Rightarrow> latlon" where
  "step_point u p1 p2 d speedMs s =
    (let fraction = fdiv u (Fin (real s)) (fdiv u d speedMs)
     in LatLon (fadd u (ll_lat p1) (fmul u (fsub u (ll_lat p2) (ll_lat p1)) fraction))
               (fadd u (ll_lon p1) (fmul u (fsub u (ll_lon p2) (ll_lon p1)) fraction)))"

text \<open>The points the loop body appends for one pair of neighbours.\<close>

definition segment_points :: "fpu \<Rightarrow> f64 \<Rightarrow> latlon \<Rightarrow> latlon \<Rightarrow> latlon list" where
  "segment_points u speedMs p1 p2 =
    (let d = Distance u p1 p2
     in if fle d speedMs then [p2]
        else map (step_point u p1 p2 d speedMs)
               [1 ..< Suc (nat (f64_to_int u (ffloor (fdiv u d speedMs))))] @ [p2])"

fun interpolate_from :: "fpu \<Rightarrow> f64 \<Rightarrow> latlon list \<Rightarrow> latlon list" where
  "interpolate_from u speedMs (p1 # p2 # ps) =
     segment_points u speedMs p1 p2 @ interpolate_from u speedMs (p2 # ps)"
| "interpolate_from u speedMs _ = []"

definition effective_speed :: "f64 \<Rightarrow> f64" where
  "effective_speed speedKmh = (if fle speedKmh (Fin 0) then Fin 15 else speedKmh)"

definition Interpolate :: "fpu \<Rightarrow> latlon list \<Rightarrow> f64 \<Rightarrow> latlon list" where
  "Interpolate u rawPoints speedKmh =
    (if length rawPoints < 2 then rawPoints
     else hd rawPoints #
       interpolate_from u (fdiv u (effective_speed speedKmh) (lit u (36 / 10))) rawPoints)"

section \<open>gpx.go and types.go\<close>

type_synonym gpx_doc = "latlon list list list"

definition ParseGPXCoordinates :: "(string \<Rightarrow> gpx_doc option) \<Rightarrow> string \<Rightarrow> latlon list" where
  "ParseGPXCoordinates xml content = (case xml content of None \<Rightarrow> [] | Some doc \<Rightarrow> concat (concat doc))"

record plan =
  pl_points :: "latlon list"
  pl_looping :: bool
  pl_speed :: f64

definition RoutePath_Plan :: "fpu \<Rightarrow> latlon list \<Rightarrow> f64 \<Rightarrow> bool \<Rightarrow> plan" where
  "RoutePath_Plan u rawPoints speedKmh looping =
    \<lparr>pl_points = Interpolate u rawPoints speedKmh, pl_looping = looping, pl_speed = speedKmh\<rparr>"

definition GPX_Plan :: "fpu \<Rightarrow> (string \<Rightarrow> gpx_doc option) \<Rightarrow> string \<Rightarrow> f64 \<Rightarrow> plan" where
  "GPX_Plan u xml content speedKmh =
    \<lparr>pl_points = Interpolate u (ParseGPXCoordinates xml content) speedKmh,
     pl_looping = False, pl_speed = speedKmh\<rparr>"

section \<open>Structure of an interpolated path, for every rounding\<close>

lemma segment_points_last [simp]:
  "segment_points u s p q \<noteq> []" "last (segment_points u s p q) = q"
  by (simp_all add: segment_points_def Let_def)

lemma interpolate_from_nonempty: "2 \<le> length ps \<Longrightarrow> interpolate_from u s ps \<noteq> []"
  by (induction u s ps rule: interpolate_from.induct) auto

lemma interpolate_from_last: "2 \<le> length ps \<Longrightarrow> last (interpolate_from u s ps) = last ps"
proof (induction u s ps rule: interpolate_from.induct)
  case (1 u s p q ps)
  show ?case
  proof (cases ps)
    case Nil
    then show ?thesis by simp
  next
    case (Cons r rs)
    then have "interpolate_from u s (q # ps) \<noteq> []" by (intro interpolate_from_nonempty) simp
    with 1 Cons show ?thesis by simp
  qed
qed auto

text \<open>Every waypoint is visited, in the order given: the waypoints are a subsequence.\<close>

fun visits :: "'a list \<Rightarrow> 'a list \<Rightarrow> bool" where
  "visits [] ys = True"
| "visits (x # xs) [] = False"
| "visits (x # xs) (y # ys) = (if x = y then visits xs ys else visits (x # xs) ys)"

lemma visits_append_last: "zs \<noteq> [] \<Longrightarrow> last zs = x \<Longrightarrow> visits xs ys \<Longrightarrow> visits (x # xs) (zs @ ys)"
proof (induction zs)
  case Nil
  then show ?case by simp
next
  case (Cons z zs)
  have skip: "visits xs ys \<Longrightarrow> visits xs (ws @ ys)" for ws :: "'a list"
  proof (induction ws)
    case (Cons w ws)
    have weaken: "visits (a # as) bs \<Longrightarrow> visits as bs" for a :: 'a and as bs
    proof (induction bs arbitrary: a as)
      case (Cons b bs)
      show ?case
      proof (cases "a = b")
        case True
        with Cons.prems have "visits as bs" by simp
        then show ?thesis using Cons.IH by (cases as) auto
      next
        case False
        with Cons have "visits as bs" by simp
        then show ?thesis using Cons.IH by (cases as) auto
      qed
    qed simp
    from Cons have "visits xs (ws @ ys)" by simp
    then show ?case using weaken by (cases xs) auto
  qed simp
  show ?case
  proof (cases "x = z")
    case True
    with Cons.prems skip show ?thesis by simp
  next
    case False
    with Cons.prems have "zs \<noteq> []" "last zs = x" by (auto split: if_splits)
    with Cons False show ?thesis by simp
  qed
qed

lemma interpolate_from_visits: "ps \<noteq> [] \<Longrightarrow> visits (tl ps) (interpolate_from u s ps)"
proof (induction u s ps rule: interpolate_from.induct)
  case (1 u s p q ps)
  then show ?case by (simp add: visits_append_last)
qed auto

lemma Interpolate_last: "ps \<noteq> [] \<Longrightarrow> last (Interpolate u ps v) = last ps"
  by (cases "length ps < 2") (simp_all add: Interpolate_def interpolate_from_last interpolate_from_nonempty)

lemma Interpolate_nonempty: "ps \<noteq> [] \<Longrightarrow> Interpolate u ps v \<noteq> []"
  by (simp add: Interpolate_def)

lemma Interpolate_visits_all: "visits ps (Interpolate u ps v)"
proof (cases "length ps < 2")
  case True
  have "visits xs xs" for xs :: "latlon list" by (induction xs) auto
  with True show ?thesis by (simp add: Interpolate_def)
next
  case False
  then obtain p qs where "ps = p # qs" by (cases ps) auto
  with False show ?thesis
    using interpolate_from_visits [of ps u] by (auto simp: Interpolate_def)
qed

section \<open>Exact arithmetic: distances, ranges and counts\<close>

definition hav :: "real \<Rightarrow> real \<Rightarrow> real \<Rightarrow> real \<Rightarrow> real" where
  "hav la1 lo1 la2 lo2 =
     sin ((la2 - la1) * pi / 180 / 2) * sin ((la2 - la1) * pi / 180 / 2) +
     sin ((lo2 - lo1) * pi / 180 / 2) * sin ((lo2 - lo1) * pi / 180 / 2) *
       cos (la1 * pi / 180) * cos (la2 * pi / 180)"

lemma cos_deg_nonneg: "- 90 \<le> x \<Longrightarrow> x \<le> 90 \<Longrightarrow> 0 \<le> cos (x * pi / 180)"
proof -
  assume a: "- 90 \<le> x" "x \<le> 90"
  have "(- 90) * pi \<le> x * pi" "x * pi \<le> 90 * pi"
    using a by (intro mult_right_mono; simp)+
  then show ?thesis by (intro cos_ge_zero) simp_all
qed

lemma hav_bounds:
  assumes "- 90 \<le> la1" "la1 \<le> 90" "- 90 \<le> la2" "la2 \<le> 90"
  shows "0 \<le> hav la1 lo1 la2 lo2" "hav la1 lo1 la2 lo2 \<le> 1"
proof -
  let ?x = "la1 * pi / 180" and ?y = "la2 * pi / 180"
  let ?d = "(la2 - la1) * pi / 180 / 2" and ?e = "(lo2 - lo1) * pi / 180 / 2"
  have c: "0 \<le> cos ?x" "0 \<le> cos ?y" using assms by (simp_all only: cos_deg_nonneg)
  have "0 \<le> sin ?e * sin ?e" by simp
  with c have "0 \<le> sin ?e * sin ?e * cos ?x * cos ?y"
    by (meson mult_nonneg_nonneg)
  then show "0 \<le> hav la1 lo1 la2 lo2" by (simp add: hav_def)
  have "cos ?x * cos ?y \<le> (cos ?d)\<^sup>2"
  proof -
    have e: "?y - ?x = 2 * ?d" by (simp add: field_simps)
    have "2 * (cos ?y * cos ?x) = cos (?y - ?x) + cos (?y + ?x)"
      by (simp add: cos_diff cos_add)
    also have "\<dots> \<le> cos (2 * ?d) + 1" unfolding e by simp
    also have "\<dots> = 2 * (cos ?d)\<^sup>2" by (simp only: cos_double_cos)
    finally show ?thesis by (simp add: mult.commute)
  qed
  moreover have "sin ?e * sin ?e \<le> 1" using sin_squared_eq [of ?e] by (simp add: power2_eq_square)
  ultimately have "(sin ?e * sin ?e) * (cos ?x * cos ?y) \<le> 1 * (cos ?d)\<^sup>2"
    using c by (intro mult_mono) auto
  then have "hav la1 lo1 la2 lo2 \<le> (sin ?d)\<^sup>2 + (cos ?d)\<^sup>2"
    by (simp add: hav_def power2_eq_square mult.assoc)
  then show "hav la1 lo1 la2 lo2 \<le> 1" by simp
qed

lemma atan2r_nonneg: "0 \<le> y \<Longrightarrow> 0 \<le> x \<Longrightarrow> 0 \<le> atan2r y x"
  by (auto simp: atan2r_def)

lemma atan2r_le: "0 \<le> y \<Longrightarrow> 0 \<le> x \<Longrightarrow> atan2r y x \<le> pi / 2"
  using arctan_ubound [of "y / x"] by (auto simp: atan2r_def intro: less_imp_le)

definition hav_distance :: "real \<Rightarrow> real \<Rightarrow> real \<Rightarrow> real \<Rightarrow> real" where
  "hav_distance la1 lo1 la2 lo2 =
     6371000 * (2 * atan2r (sqrt (hav la1 lo1 la2 lo2)) (sqrt (1 - hav la1 lo1 la2 lo2)))"

lemma Distance_exact:
  assumes "- 90 \<le> la1" "la1 \<le> 90" "- 90 \<le> la2" "la2 \<le> 90"
  shows "Distance exact_fpu (LatLon (Fin la1) (Fin lo1)) (LatLon (Fin la2) (Fin lo2)) =
         Fin (hav_distance la1 lo1 la2 lo2)"
  using hav_bounds [OF assms, of lo1 lo2]
  by (simp add: Distance_def Let_def deg2rad_def lit_def hav_distance_def hav_def)

lemma hav_distance_range:
  assumes "- 90 \<le> la1" "la1 \<le> 90" "- 90 \<le> la2" "la2 \<le> 90"
  shows "0 \<le> hav_distance la1 lo1 la2 lo2" "hav_distance la1 lo1 la2 lo2 \<le> 6371000 * pi"
  using hav_bounds [OF assms, of lo1 lo2] atan2r_nonneg atan2r_le
  by (auto simp: hav_distance_def) (smt (verit) real_sqrt_ge_zero)

text \<open>Every point of a segment lies between its two ends, so an interval holding both holds it.\<close>

lemma convex_in_interval:
  fixes a b f :: real
  assumes "lo \<le> a" "a \<le> hi" "lo \<le> b" "b \<le> hi" "0 \<le> f" "f \<le> 1"
  shows "lo \<le> a + (b - a) * f" "a + (b - a) * f \<le> hi"
proof -
  have e: "a + (b - a) * f = (1 - f) * a + f * b" by (simp add: algebra_simps)
  show "lo \<le> a + (b - a) * f"
    using convex_bound_le [of "- a" "- lo" "- b" "1 - f" f] assms by (simp add: e)
  show "a + (b - a) * f \<le> hi"
    using convex_bound_le [of a hi b "1 - f" f] assms by (simp add: e)
qed

lemma in_range_convex:
  assumes "in_range lo hi a" "in_range lo hi b" "0 \<le> f" "f \<le> 1"
  shows "in_range lo hi (fadd exact_fpu a (fmul exact_fpu (fsub exact_fpu b a) (Fin f)))"
  using assms convex_in_interval unfolding in_range_def by fastforce

lemma Distance_good:
  assumes "good_coord p" "good_coord q"
  shows "\<exists>d. Distance exact_fpu p q = Fin d \<and> 0 \<le> d \<and> d \<le> 6371000 * pi"
proof -
  obtain a b where p: "p = LatLon (Fin a) (Fin b)" "- 90 \<le> a" "a \<le> 90"
    using assms(1) by (cases p) (auto simp: good_coord_def in_range_def)
  obtain c e where q: "q = LatLon (Fin c) (Fin e)" "- 90 \<le> c" "c \<le> 90"
    using assms(2) by (cases q) (auto simp: good_coord_def in_range_def)
  show ?thesis
    using Distance_exact [of a c b e] hav_distance_range [of a c b e] p q by simp
qed

lemma steps_floor:
  assumes "0 < v" "v < d" "d / v < 2 ^ 63"
  shows "f64_to_int exact_fpu (ffloor (fdiv exact_fpu (Fin d) (Fin v))) = \<lfloor>d / v\<rfloor>"
  using assms f64_to_int_floor [of "d / v" exact_fpu] by simp

lemma step_point_good:
  assumes "good_coord p" "good_coord q" "0 < v" "v < d" "real s \<le> d / v"
  shows "good_coord (step_point exact_fpu p q (Fin d) (Fin v) s)"
proof -
  define f where "f = real s / (d / v)"
  have dv: "0 < d / v" using assms by simp
  then have "0 \<le> f" "f \<le> 1"
    using assms(5) unfolding f_def by (simp_all only: divide_le_eq_1_pos divide_nonneg_pos of_nat_0_le_iff)
  moreover have "fdiv exact_fpu (Fin (real s)) (fdiv exact_fpu (Fin d) (Fin v)) = Fin f"
    using assms by (simp add: f_def)
  ultimately show ?thesis
    using assms(1,2) in_range_convex by (simp add: good_coord_def step_point_def Let_def)
qed

lemma segment_points_exact:
  assumes "Distance exact_fpu p q = Fin d" "0 < v" "d / v < 2 ^ 63"
  shows "segment_points exact_fpu (Fin v) p q =
    (if d \<le> v then [q]
     else map (step_point exact_fpu p q (Fin d) (Fin v)) [1 ..< Suc (nat \<lfloor>d / v\<rfloor>)] @ [q])"
proof (cases "d \<le> v")
  case False
  then show ?thesis
    using assms steps_floor [of v d] by (simp only: segment_points_def Let_def fle_Fin if_False not_le)
qed (simp add: segment_points_def assms)

lemma segment_points_good:
  assumes "good_coord p" "good_coord q" "0 < v" "6371000 * pi / v < 2 ^ 63" "r \<in> set (segment_points exact_fpu (Fin v) p q)"
  shows "good_coord r"
proof -
  obtain d where d: "Distance exact_fpu p q = Fin d" "0 \<le> d" "d \<le> 6371000 * pi"
    using Distance_good assms by blast
  show ?thesis
  proof (cases "d \<le> v")
    case True
    with assms d show ?thesis by (simp add: segment_points_def Let_def)
  next
    case False
    have "d / v \<le> 6371000 * pi / v" using d assms by (intro divide_right_mono) auto
    then have bound: "d / v < 2 ^ 63" using assms by linarith
    have le: "real s \<le> d / v" if "s < Suc (nat \<lfloor>d / v\<rfloor>)" for s
    proof -
      have "s \<le> nat \<lfloor>d / v\<rfloor>" using that by simp
      moreover have "0 \<le> d / v" using d assms by simp
      ultimately have "int s \<le> \<lfloor>d / v\<rfloor>" by (simp add: le_nat_iff)
      then show ?thesis by (simp add: le_floor_iff)
    qed
    have "r = q \<or> (\<exists>s. s < Suc (nat \<lfloor>d / v\<rfloor>) \<and> r = step_point exact_fpu p q (Fin d) (Fin v) s)"
      using assms(5) False segment_points_exact [OF d(1) assms(3) bound]
      by (auto simp del: upt_Suc)
    with assms False step_point_good le show ?thesis by auto
  qed
qed

lemma interpolate_from_good:
  assumes "0 < v" "6371000 * pi / v < 2 ^ 63"
  shows "list_all good_coord ps \<Longrightarrow> list_all good_coord (interpolate_from exact_fpu (Fin v) ps)"
proof (induction ps rule: induct_list012)
  case (3 p q ps)
  from "3.prems" have pq: "good_coord p" "good_coord q" "list_all good_coord (q # ps)" by simp_all
  have "list_all good_coord (segment_points exact_fpu (Fin v) p q)"
    unfolding list_all_iff using segment_points_good [OF pq(1,2) assms] by blast
  moreover have "list_all good_coord (interpolate_from exact_fpu (Fin v) (q # ps))"
    using "3.IH"(2) pq(3) .
  ultimately show ?case by (simp only: interpolate_from.simps list_all_append)
qed (simp_all only: interpolate_from.simps list.pred_inject)

lemma effective_speed_good:
  assumes "good_speed s"
  shows "\<exists>v. effective_speed s = Fin v \<and> 0 < v \<and> v \<le> 2000"
  using assms by (auto simp: good_speed_def in_range_def effective_speed_def maxSpeedKmh_def)

lemma Interpolate_exact:
  "effective_speed s = Fin v \<Longrightarrow> 2 \<le> length ps \<Longrightarrow>
   Interpolate exact_fpu ps s = hd ps # interpolate_from exact_fpu (Fin (v / (36 / 10))) ps"
  by (simp add: Interpolate_def lit_def)

text \<open>
  The number of points of a segment: one per second of travel, rounded down, and the end point.
\<close>

lemma length_segment_points:
  assumes "Distance exact_fpu p q = Fin d" "0 \<le> d" "0 < v" "d / v < 2 ^ 63"
  shows "length (segment_points exact_fpu (Fin v) p q) = (if d \<le> v then 1 else Suc (nat \<lfloor>d / v\<rfloor>))"
  using segment_points_exact [OF assms(1,3,4)] by (simp del: upt_Suc)

lemma hav_distance_pos:
  assumes "0 < hav la1 lo1 la2 lo2" "hav la1 lo1 la2 lo2 \<le> 1"
  shows "0 < hav_distance la1 lo1 la2 lo2"
  using assms by (auto simp: hav_distance_def atan2r_def)

lemma one_degree_apart: "0 < hav_distance 0 0 1 0"
proof (rule hav_distance_pos)
  have "0 < sin (pi / 180 / 2)" by (rule sin_gt_zero) simp_all
  then show "0 < hav 0 0 1 0" by (simp add: hav_def)
  show "hav 0 0 1 0 \<le> 1" by (rule hav_bounds) simp_all
qed

section \<open>Properties\<close>

text \<open>
  An interpolated path starts at the first waypoint, ends at the last one and visits every
  waypoint in the order given, whatever the rounding of the floating-point unit, the distances
  and the speed (NaN and infinities included).
\<close>

theorem Interpolate_waypoints:
  "visits ps (Interpolate u ps v) \<and>
   take 1 (Interpolate u ps v) = take 1 ps \<and>
   take 1 (rev (Interpolate u ps v)) = take 1 (rev ps)"
proof (cases "length ps < 2")
  case True
  then have "Interpolate u ps v = ps" by (simp add: Interpolate_def)
  with Interpolate_visits_all [of ps u v] show ?thesis by simp
next
  case False
  define w where "w = fdiv u (effective_speed v) (lit u (36 / 10))"
  have I: "Interpolate u ps v = hd ps # interpolate_from u w ps"
    using False by (simp add: Interpolate_def w_def)
  have ne: "interpolate_from u w ps \<noteq> []" using False by (intro interpolate_from_nonempty) simp
  have "last (Interpolate u ps v) = last ps"
    using False ne interpolate_from_last [of ps u w] by (simp add: I)
  moreover have "take 1 (rev xs) = [last xs]" if "xs \<noteq> []" for xs :: "latlon list"
    using that by (cases xs rule: rev_cases) auto
  ultimately have "take 1 (rev (Interpolate u ps v)) = take 1 (rev ps)"
    using False by (metis I length_0_conv list.discI zero_less_numeral)
  moreover have "take 1 (Interpolate u ps v) = take 1 ps"
    using False I by (cases ps) auto
  ultimately show ?thesis using Interpolate_visits_all by blast
qed



text \<open>
  A speed that passes \<open>validSpeed\<close> does not bound the size of a plan. Between two points one
  degree apart, for every \<open>N\<close> below \<open>2^62\<close> some accepted speed gives a path of more than \<open>N\<close>
  points, all of which the engine allocates before the route starts.
\<close>

theorem accepted_speed_unbounded_plan:
  assumes "N < 2 ^ 62"
  shows "\<exists>s. validSpeed s = None \<and>
     N < length (Interpolate exact_fpu [LatLon (Fin 0) (Fin 0), LatLon (Fin 1) (Fin 0)] s)"
proof -
  define d where "d = hav_distance 0 0 1 0"
  define M where "M = real N + 100000"
  define v where "v = d / M"
  have d: "0 < d" "d \<le> 6371000 * pi"
    using one_degree_apart hav_distance_range(2) [of 0 1 0 0] by (simp_all add: d_def)
  have D: "Distance exact_fpu (LatLon (Fin 0) (Fin 0)) (LatLon (Fin 1) (Fin 0)) = Fin d"
    using Distance_exact [of 0 1 0 0] by (simp add: d_def)
  have M: "100000 \<le> M" "M < 2 ^ 63" using assms by (simp_all add: M_def)
  have v: "0 < v" "d / v = M" "v < d"
    using d M by (simp_all add: v_def divide_less_eq)
  have "v \<le> 6371000 * 4 / 100000"
    using d M pi_less_4 unfolding v_def by (intro frac_le) auto
  then have valid: "validSpeed (Fin (36 / 10 * v)) = None"
    using v by (simp add: validSpeed_def IsNaN_def IsInf_def maxSpeedKmh_def)
  have "effective_speed (Fin (36 / 10 * v)) = Fin (36 / 10 * v)"
    using v by (simp add: effective_speed_def)
  then have "Interpolate exact_fpu [LatLon (Fin 0) (Fin 0), LatLon (Fin 1) (Fin 0)] (Fin (36 / 10 * v)) =
      LatLon (Fin 0) (Fin 0) # segment_points exact_fpu (Fin v) (LatLon (Fin 0) (Fin 0)) (LatLon (Fin 1) (Fin 0))"
    by (simp add: Interpolate_def lit_def)
  moreover have "length (segment_points exact_fpu (Fin v) (LatLon (Fin 0) (Fin 0)) (LatLon (Fin 1) (Fin 0))) =
      Suc (nat \<lfloor>M\<rfloor>)"
    using length_segment_points [OF D _ v(1)] d v M by simp
  moreover have "N < Suc (nat \<lfloor>M\<rfloor>)" by (simp add: M_def nat_add_distrib le_nat_iff)
  ultimately show ?thesis using valid by (intro exI [of _ "Fin (36 / 10 * v)"]) simp
qed

theorem accepted_speed_unbounded_plan_witness:
  "\<exists>s. validSpeed s = None \<and>
     1000000000000 < length (Interpolate exact_fpu [LatLon (Fin 0) (Fin 0), LatLon (Fin 1) (Fin 0)] s)"
  by (rule accepted_speed_unbounded_plan) simp

end
