(* ===== verification/Routing.thy ===== *)
theory Routing
  imports Geometry
begin

text \<open>
  The route provider registry, \<open>internal/routing/registry.go\<close> and \<open>types.go\<close>: configuration
  normalisation, provider order, the advertised routing information and the fallback loop of
  \<open>Registry.Route\<close>. A provider is anything with an \<open>Info\<close> and a \<open>Route\<close>; the locale
  \<open>route_provider\<close> states what the registry relies on, and the theory \<open>Providers\<close> interprets it
  on the three concrete ones.
\<close>

section \<open>types.go\<close>

definition ProviderOSRM :: string where "ProviderOSRM = ''osrm''"
definition ProviderGoogle :: string where "ProviderGoogle = ''google''"
definition ProviderMapbox :: string where "ProviderMapbox = ''mapbox''"
definition ModeAuto :: string where "ModeAuto = ''auto''"
definition ModeManual :: string where "ModeManual = ''manual''"

definition DefaultPriority :: "string list" where
  "DefaultPriority = [ProviderGoogle, ProviderMapbox, ProviderOSRM]"

definition SupportedProfiles :: "string list" where
  "SupportedProfiles = [''driving'', ''walking'', ''cycling'']"

lemmas provider_ids = ProviderOSRM_def ProviderGoogle_def ProviderMapbox_def
lemmas routing_consts = provider_ids ModeAuto_def ModeManual_def DefaultPriority_def

record routing_config =
  rc_OSRMBaseURL :: string
  rc_Mode :: string
  rc_Provider :: string
  rc_Priority :: "string list"
  rc_GoogleKey :: string
  rc_MapboxToken :: string

record route_request =
  rq_Start :: latlon
  rq_End :: latlon
  rq_Profile :: string

record route_result =
  rr_ProviderID :: string
  rr_Points :: "latlon list"

datatype route_error =
    MissingKey
  | Transport string
  | BadStatus int
  | DecodeError
  | NoGeometry
  | EmptyGeometry
  | InvalidPolyline
  | EmptyPolyline
  | AllProvidersFailed "(string \<times> route_error) list"

section \<open>Normalisation\<close>

definition NormalizeMode :: "string \<Rightarrow> string" where
  "NormalizeMode mode = (if ToLower (TrimSpace mode) = ModeManual then ModeManual else ModeAuto)"

definition NormalizeProviderID :: "string \<Rightarrow> string" where
  "NormalizeProviderID i =
    (let s = ToLower (TrimSpace i) in
     if s = ProviderGoogle then ProviderGoogle
     else if s = ProviderMapbox then ProviderMapbox
     else ProviderOSRM)"

definition NormalizePriority :: "string list \<Rightarrow> string list" where
  "NormalizePriority priority =
    (let out = dedup_seen {} (map NormalizeProviderID priority)
     in out @ filter (\<lambda>i. i \<notin> set out) DefaultPriority)"

definition NormalizeProfile :: "string \<Rightarrow> string" where
  "NormalizeProfile profile =
    (let s = ToLower (TrimSpace profile) in
     if s \<in> {''walk'', ''foot'', ''walking''} then ''walking''
     else if s \<in> {''bike'', ''bicycle'', ''cycling''} then ''cycling''
     else ''driving'')"

definition NormalizeConfig :: "routing_config \<Rightarrow> routing_config" where
  "NormalizeConfig cfg = cfg\<lparr>
     rc_Mode := NormalizeMode (rc_Mode cfg),
     rc_Provider := NormalizeProviderID (rc_Provider cfg),
     rc_Priority := NormalizePriority (rc_Priority cfg),
     rc_OSRMBaseURL := TrimSuffix (TrimSpace (rc_OSRMBaseURL cfg)) ''/'',
     rc_GoogleKey := TrimSpace (rc_GoogleKey cfg),
     rc_MapboxToken := TrimSpace (rc_MapboxToken cfg)\<rparr>"

section \<open>Order and information\<close>

definition providerOrder :: "routing_config \<Rightarrow> string list" where
  "providerOrder cfg =
     dedup_seen {} ((if rc_Mode cfg = ModeManual \<and> rc_Provider cfg \<noteq> [] then [rc_Provider cfg] else [])
                    @ NormalizePriority (rc_Priority cfg))"

definition buildInfo :: "routing_config \<Rightarrow> routing_provider_info list \<Rightarrow> routing_info" where
  "buildInfo cfg providers =
    (let availableIDs = map rpi_ID (filter rpi_Available providers);
         active = (if rc_Mode cfg = ModeManual \<and> rc_Provider cfg \<in> set availableIDs then rc_Provider cfg
                   else (case find (\<lambda>i. i \<in> set availableIDs) (NormalizePriority (rc_Priority cfg)) of
                           Some i \<Rightarrow> i | None \<Rightarrow> []))
     in \<lparr>ri_Mode = rc_Mode cfg, ri_Provider = rc_Provider cfg,
         ri_ActiveProvider = (if active = [] then ProviderOSRM else active),
         ri_Priority = NormalizePriority (rc_Priority cfg),
         ri_AvailableProviders = availableIDs, ri_Providers = providers\<rparr>)"

section \<open>The registry\<close>

text \<open>
  The registry maps each provider id to a provider of some type \<open>'p\<close>; \<open>build\<close> is \<open>buildProviders\<close>,
  the constructor calls it makes from a configuration.
\<close>

record 'p registry =
  rg_cfg :: routing_config
  rg_providers :: "string \<rightharpoonup> 'p"

definition NewRegistry :: "(routing_config \<Rightarrow> string \<rightharpoonup> 'p) \<Rightarrow> routing_config \<Rightarrow> 'p registry" where
  "NewRegistry build cfg =
    (let cfg = NormalizeConfig cfg in \<lparr>rg_cfg = cfg, rg_providers = build cfg\<rparr>)"

definition UpdateConfig :: "(routing_config \<Rightarrow> string \<rightharpoonup> 'p) \<Rightarrow> 'p registry \<Rightarrow> routing_config \<Rightarrow> 'p registry" where
  "UpdateConfig build r cfg =
    (let cfg = NormalizeConfig cfg in r\<lparr>rg_cfg := cfg, rg_providers := build cfg\<rparr>)"

definition providerInfos :: "('p \<Rightarrow> routing_provider_info) \<Rightarrow> 'p registry \<Rightarrow> routing_provider_info list" where
  "providerInfos info r = map info (List.map_filter (rg_providers r) DefaultPriority)"

definition Registry_Info :: "('p \<Rightarrow> routing_provider_info) \<Rightarrow> 'p registry \<Rightarrow> routing_info" where
  "Registry_Info info r = buildInfo (rg_cfg r) (providerInfos info r)"

text \<open>The loop of \<open>Registry.Route\<close>, with the error list it accumulates.\<close>

fun try_providers ::
  "('p \<Rightarrow> routing_provider_info) \<Rightarrow> ('p \<Rightarrow> route_request \<Rightarrow> route_error + latlon list) \<Rightarrow>
   (string \<rightharpoonup> 'p) \<Rightarrow> route_request \<Rightarrow> string list \<Rightarrow> (string \<times> route_error) list \<Rightarrow> route_error + route_result" where
  "try_providers info route ps req [] errs = Inl (AllProvidersFailed errs)"
| "try_providers info route ps req (i # ids) errs =
    (case ps i of
       None \<Rightarrow> try_providers info route ps req ids errs
     | Some p \<Rightarrow>
         if \<not> rpi_Available (info p) then try_providers info route ps req ids errs
         else (case route p req of
             Inr points \<Rightarrow>
               if points \<noteq> [] then Inr \<lparr>rr_ProviderID = rpi_ID (info p), rr_Points = points\<rparr>
               else try_providers info route ps req ids errs
           | Inl e \<Rightarrow> try_providers info route ps req ids (errs @ [(rpi_ID (info p), e)])))"

definition Registry_Route ::
  "('p \<Rightarrow> routing_provider_info) \<Rightarrow> ('p \<Rightarrow> route_request \<Rightarrow> route_error + latlon list) \<Rightarrow>
   'p registry \<Rightarrow> route_request \<Rightarrow> route_error + route_result" where
  "Registry_Route info route r req =
     try_providers info route (rg_providers r) (req\<lparr>rq_Profile := NormalizeProfile (rq_Profile req)\<rparr>)
       (providerOrder (rg_cfg r)) []"

section \<open>Lemmas on normalisation\<close>

lemma NormalizeProviderID_cases:
  "NormalizeProviderID i = ProviderGoogle \<or> NormalizeProviderID i = ProviderMapbox \<or> NormalizeProviderID i = ProviderOSRM"
  by (simp add: NormalizeProviderID_def Let_def)

lemma NormalizeProviderID_in [simp]: "NormalizeProviderID i \<in> set DefaultPriority"
  using NormalizeProviderID_cases [of i] by (auto simp: DefaultPriority_def)

lemma NormalizeProviderID_consts:
  "NormalizeProviderID ProviderGoogle = ProviderGoogle"
  "NormalizeProviderID ProviderMapbox = ProviderMapbox"
  "NormalizeProviderID ProviderOSRM = ProviderOSRM"
  by code_simp+

lemma NormalizeProviderID_fix: "i \<in> set DefaultPriority \<Longrightarrow> NormalizeProviderID i = i"
  by (auto simp: DefaultPriority_def NormalizeProviderID_consts)

lemma provider_ids_distinct: "distinct DefaultPriority"
  by (simp add: routing_consts)

lemma provider_id_nonempty: "i \<in> set DefaultPriority \<Longrightarrow> i \<noteq> []"
  by (auto simp: routing_consts)

lemma NormalizePriority_perm:
  "distinct (NormalizePriority xs)" "set (NormalizePriority xs) = set DefaultPriority"
  using provider_ids_distinct by (auto simp: NormalizePriority_def Let_def)

lemma NormalizePriority_fix:
  assumes "distinct xs" "set xs = set DefaultPriority"
  shows "NormalizePriority xs = xs"
proof -
  have "map NormalizeProviderID xs = xs"
    using assms NormalizeProviderID_fix by (intro map_idI) auto
  then show ?thesis
    using assms by (simp add: NormalizePriority_def dedup_seen_id Let_def)
qed

lemma NormalizePriority_idem [simp]: "NormalizePriority (NormalizePriority xs) = NormalizePriority xs"
  by (intro NormalizePriority_fix NormalizePriority_perm)

lemma NormalizeMode_idem [simp]: "NormalizeMode (NormalizeMode m) = NormalizeMode m"
  by (simp add: NormalizeMode_def) (code_simp)

lemma NormalizeProviderID_idem [simp]: "NormalizeProviderID (NormalizeProviderID i) = NormalizeProviderID i"
  by (simp add: NormalizeProviderID_fix)

lemma NormalizeProfile_range: "NormalizeProfile p \<in> set SupportedProfiles"
  by (simp add: NormalizeProfile_def SupportedProfiles_def Let_def)

lemma NormalizeProfile_idem [simp]: "NormalizeProfile (NormalizeProfile p) = NormalizeProfile p"
proof -
  have "NormalizeProfile ''driving'' = ''driving''" "NormalizeProfile ''walking'' = ''walking''"
    "NormalizeProfile ''cycling'' = ''cycling''" by code_simp+
  with NormalizeProfile_range [of p] show ?thesis by (auto simp: SupportedProfiles_def)
qed

text \<open>A configuration in the registry: what \<open>NormalizeConfig\<close> establishes.\<close>

definition normal_config :: "routing_config \<Rightarrow> bool" where
  "normal_config cfg \<longleftrightarrow>
     rc_Mode cfg \<in> {ModeManual, ModeAuto} \<and> rc_Provider cfg \<in> set DefaultPriority \<and>
     distinct (rc_Priority cfg) \<and> set (rc_Priority cfg) = set DefaultPriority"

lemma normal_NormalizeConfig: "normal_config (NormalizeConfig cfg)"
  by (simp add: normal_config_def NormalizeConfig_def NormalizePriority_perm NormalizeMode_def)

lemma normal_config_priority: "normal_config cfg \<Longrightarrow> NormalizePriority (rc_Priority cfg) = rc_Priority cfg"
  by (simp add: normal_config_def NormalizePriority_fix)

lemma providerOrder_normal:
  assumes "normal_config cfg"
  shows "providerOrder cfg =
    (if rc_Mode cfg = ModeManual then rc_Provider cfg # filter (\<lambda>i. i \<noteq> rc_Provider cfg) (rc_Priority cfg)
     else rc_Priority cfg)"
proof -
  have d: "distinct xs \<Longrightarrow> dedup_seen {a} xs = filter (\<lambda>i. i \<noteq> a) xs" for a :: string and xs
  proof -
    have "distinct xs \<Longrightarrow> seen \<inter> set xs \<subseteq> {a} \<Longrightarrow> a \<in> seen \<Longrightarrow> dedup_seen seen xs = filter (\<lambda>i. i \<noteq> a) xs" for seen
      by (induction seen xs rule: dedup_seen.induct) auto
    then show "distinct xs \<Longrightarrow> ?thesis" by simp
  qed
  from assms have "distinct (rc_Priority cfg)" "rc_Provider cfg \<noteq> []"
    using provider_id_nonempty by (auto simp: normal_config_def)
  with d [of "rc_Priority cfg"] normal_config_priority [OF assms] show ?thesis
    by (simp add: providerOrder_def dedup_seen_id)
qed

lemma providerOrder_perm:
  assumes "normal_config cfg"
  shows "distinct (providerOrder cfg)" "set (providerOrder cfg) = set DefaultPriority"
  using assms by (auto simp: providerOrder_normal normal_config_def)

section \<open>The provider interface\<close>

text \<open>
  What \<open>try_providers\<close> does, for any providers: the ids it passes over give nothing, the id it
  stops at gives its result.
\<close>

definition gives ::
  "('p \<Rightarrow> routing_provider_info) \<Rightarrow> ('p \<Rightarrow> route_request \<Rightarrow> route_error + latlon list) \<Rightarrow>
   (string \<rightharpoonup> 'p) \<Rightarrow> route_request \<Rightarrow> string \<Rightarrow> latlon list option" where
  "gives info route ps req i =
    (case ps i of
       None \<Rightarrow> None
     | Some p \<Rightarrow>
         if rpi_Available (info p)
         then (case route p req of Inr points \<Rightarrow> if points = [] then None else Some points | Inl _ \<Rightarrow> None)
         else None)"

lemma try_providers_None:
  "(\<forall>i \<in> set ids. gives info route ps req i = None) \<longleftrightarrow>
   (\<exists>es. try_providers info route ps req ids errs = Inl (AllProvidersFailed es))"
proof (induction ids arbitrary: errs)
  case (Cons i ids)
  then show ?case
    by (auto simp: gives_def split: option.splits sum.splits if_splits)
qed simp

lemma try_providers_total:
  "(\<exists>es. try_providers info route ps req ids errs = Inl (AllProvidersFailed es)) \<or>
   (\<exists>res. try_providers info route ps req ids errs = Inr res)"
  by (induction ids arbitrary: errs) (auto split: option.splits sum.splits)

lemma try_providers_Inr:
  "try_providers info route ps req ids errs = Inr res \<Longrightarrow>
   \<exists>pre i post p. ids = pre @ i # post \<and> (\<forall>j \<in> set pre. gives info route ps req j = None) \<and>
     gives info route ps req i = Some (rr_Points res) \<and> ps i = Some p \<and> rr_ProviderID res = rpi_ID (info p)"
proof (induction ids arbitrary: errs)
  case (Cons i ids)
  show ?case
  proof (cases "gives info route ps req i")
    case None
    then obtain errs' where "try_providers info route ps req ids errs' = Inr res"
      using Cons.prems by (auto simp: gives_def split: option.splits sum.splits if_splits)
    from Cons.IH [OF this] obtain pre j post p where
      "ids = pre @ j # post" "\<forall>k \<in> set pre. gives info route ps req k = None"
      "gives info route ps req j = Some (rr_Points res)" "ps j = Some p" "rr_ProviderID res = rpi_ID (info p)"
      by blast
    with None show ?thesis by (intro exI [of _ "i # pre"]) auto
  next
    case (Some points)
    then obtain p where p: "ps i = Some p" "rpi_Available (info p)" "route p req = Inr points" "points \<noteq> []"
      by (auto simp: gives_def split: option.splits sum.splits if_splits)
    with Cons.prems Some show ?thesis
      by (intro exI [of _ "[]"] exI [of _ i] exI [of _ ids] exI [of _ p]) auto
  qed
qed simp

locale route_provider =
  fixes info :: "'p \<Rightarrow> routing_provider_info"
    and route :: "'p \<Rightarrow> route_request \<Rightarrow> route_error + latlon list"
    and build :: "routing_config \<Rightarrow> string \<rightharpoonup> 'p"
  assumes build_dom: "dom (build cfg) = set DefaultPriority"
    and build_id: "build cfg i = Some p \<Longrightarrow> rpi_ID (info p) = i"
    and osrm_available: "build cfg ProviderOSRM = Some p \<Longrightarrow> rpi_Available (info p)"
    and route_nonempty: "route p req = Inr points \<Longrightarrow> points \<noteq> []"
begin

definition wf :: "'p registry \<Rightarrow> bool" where
  "wf r \<longleftrightarrow> normal_config (rg_cfg r) \<and> rg_providers r = build (rg_cfg r)"

lemma wf_New: "wf (NewRegistry build cfg)"
  by (simp add: wf_def NewRegistry_def Let_def normal_NormalizeConfig)

lemma wf_Update: "wf (UpdateConfig build r cfg)"
  by (simp add: wf_def UpdateConfig_def Let_def normal_NormalizeConfig)

definition avail :: "'p registry \<Rightarrow> string \<Rightarrow> bool" where
  "avail r i \<longleftrightarrow> (\<exists>p. rg_providers r i = Some p \<and> rpi_Available (info p))"

lemma available_ids:
  assumes "wf r"
  shows "set (ri_AvailableProviders (Registry_Info info r)) = {i. avail r i}"
proof -
  have "avail r i \<Longrightarrow> i \<in> set DefaultPriority" for i
    using assms build_dom [of "rg_cfg r"] by (auto simp: avail_def wf_def dom_def)
  moreover have "rg_providers r i = Some p \<Longrightarrow> rpi_ID (info p) = i" for i p
    using assms build_id by (auto simp: wf_def)
  ultimately show ?thesis
    by (fastforce simp: Registry_Info_def buildInfo_def Let_def providerInfos_def avail_def
        List.map_filter_def image_iff)
qed

lemma avail_osrm: "wf r \<Longrightarrow> avail r ProviderOSRM"
proof -
  assume "wf r"
  then have "ProviderOSRM \<in> dom (rg_providers r)"
    by (simp add: wf_def build_dom) (simp add: DefaultPriority_def)
  with \<open>wf r\<close> show ?thesis using osrm_available by (auto simp: avail_def wf_def)
qed

lemma find_hd_filter: "\<exists>x \<in> set xs. P x \<Longrightarrow> find P xs = Some (hd (filter P xs))"
  by (induction xs) auto

text \<open>The advertised active provider is the first one the fallback loop will ask.\<close>

lemma active_is_first:
  assumes "wf r"
  shows "ri_ActiveProvider (Registry_Info info r) = hd (filter (avail r) (providerOrder (rg_cfg r)))"
proof -
  let ?cfg = "rg_cfg r" and ?ids = "ri_AvailableProviders (Registry_Info info r)"
  have n: "normal_config ?cfg" using assms by (simp add: wf_def)
  have ids: "(\<lambda>i. i \<in> set ?ids) = avail r" using available_ids [OF assms] by auto
  have "ri_ActiveProvider (Registry_Info info r) =
     (let a = (if rc_Mode ?cfg = ModeManual \<and> (\<lambda>i. i \<in> set ?ids) (rc_Provider ?cfg) then rc_Provider ?cfg
               else (case find (\<lambda>i. i \<in> set ?ids) (NormalizePriority (rc_Priority ?cfg)) of Some i \<Rightarrow> i | None \<Rightarrow> []))
      in if a = [] then ProviderOSRM else a)"
    by (simp only: Registry_Info_def buildInfo_def Let_def routing_info.simps)
  then have active: "ri_ActiveProvider (Registry_Info info r) =
     (let a = (if rc_Mode ?cfg = ModeManual \<and> avail r (rc_Provider ?cfg) then rc_Provider ?cfg
               else (case find (avail r) (rc_Priority ?cfg) of Some i \<Rightarrow> i | None \<Rightarrow> []))
      in if a = [] then ProviderOSRM else a)"
    using fun_cong [OF ids, of "rc_Provider ?cfg"]
    by (simp only: ids normal_config_priority [OF n])
  have "ProviderOSRM \<in> set (rc_Priority ?cfg)" using n by (auto simp: normal_config_def DefaultPriority_def)
  then have ex: "\<exists>i \<in> set (rc_Priority ?cfg). avail r i" using avail_osrm [OF assms] by blast
  have "hd (filter (avail r) (rc_Priority ?cfg)) \<in> set (rc_Priority ?cfg)"
    using ex by (metis filter_empty_conv filter_is_subset list.set_sel(1) subsetD)
  then have ne: "hd (filter (avail r) (rc_Priority ?cfg)) \<noteq> []" "rc_Provider ?cfg \<noteq> []"
    using n provider_id_nonempty by (auto simp: normal_config_def)
  show ?thesis
  proof (cases "rc_Mode ?cfg = ModeManual \<and> avail r (rc_Provider ?cfg)")
    case True
    then show ?thesis using ne by (simp add: active providerOrder_normal [OF n])
  next
    case False
    have "filter (avail r) (providerOrder ?cfg) = filter (avail r) (rc_Priority ?cfg)"
    proof (cases "rc_Mode ?cfg = ModeManual")
      case True
      with False have "\<not> avail r (rc_Provider ?cfg)" by simp
      then show ?thesis
        by (auto simp: providerOrder_normal [OF n] intro!: filter_cong)
    qed (simp add: providerOrder_normal [OF n])
    with False ne show ?thesis by (auto simp: active find_hd_filter [OF ex])
  qed
qed

lemma route_sound:
  assumes "wf r" "Registry_Route info route r req = Inr res"
  shows "\<exists>pre post p. providerOrder (rg_cfg r) = pre @ rr_ProviderID res # post \<and>
    rg_providers r (rr_ProviderID res) = Some p \<and> rpi_Available (info p) \<and>
    route p (req\<lparr>rq_Profile := NormalizeProfile (rq_Profile req)\<rparr>) = Inr (rr_Points res) \<and> rr_Points res \<noteq> [] \<and>
    (\<forall>j \<in> set pre. avail r j \<longrightarrow> (\<exists>q e. rg_providers r j = Some q \<and>
       route q (req\<lparr>rq_Profile := NormalizeProfile (rq_Profile req)\<rparr>) = Inl e))"
proof -
  let ?req = "req\<lparr>rq_Profile := NormalizeProfile (rq_Profile req)\<rparr>"
  have "try_providers info route (rg_providers r) ?req (providerOrder (rg_cfg r)) [] = Inr res"
    using assms(2) by (simp add: Registry_Route_def)
  from try_providers_Inr [OF this] obtain pre i post p where
    o: "providerOrder (rg_cfg r) = pre @ i # post" and
    pre: "\<forall>j \<in> set pre. gives info route (rg_providers r) ?req j = None" and
    g: "gives info route (rg_providers r) ?req i = Some (rr_Points res)" and
    p: "rg_providers r i = Some p" "rr_ProviderID res = rpi_ID (info p)" by blast
  have i: "rr_ProviderID res = i" using p build_id assms(1) by (auto simp: wf_def)
  have "avail r j \<longrightarrow> (\<exists>q e. rg_providers r j = Some q \<and> route q ?req = Inl e)" if "j \<in> set pre" for j
    using pre that route_nonempty
    by (fastforce simp: avail_def gives_def split: option.splits sum.splits if_splits)
  moreover have "rpi_Available (info p)" "route p ?req = Inr (rr_Points res)" "rr_Points res \<noteq> []"
    using g p(1) by (auto simp: gives_def split: if_splits sum.splits)
  ultimately show ?thesis using o p(1) i by (intro exI [of _ pre] exI [of _ post] exI [of _ p]) auto
qed

lemma route_fails_iff:
  assumes "wf r"
  shows "(\<exists>e. Registry_Route info route r req = Inl e) \<longleftrightarrow>
    (\<forall>i p. rg_providers r i = Some p \<and> rpi_Available (info p) \<longrightarrow>
       (\<exists>e. route p (req\<lparr>rq_Profile := NormalizeProfile (rq_Profile req)\<rparr>) = Inl e))"
proof -
  let ?req = "req\<lparr>rq_Profile := NormalizeProfile (rq_Profile req)\<rparr>"
  let ?T = "try_providers info route (rg_providers r) ?req (providerOrder (rg_cfg r)) []"
  have dom: "rg_providers r i = Some p \<Longrightarrow> i \<in> set (providerOrder (rg_cfg r))" for i p
    using assms build_dom [of "rg_cfg r"] by (auto simp: wf_def providerOrder_perm dom_def)
  have "(\<exists>e. Registry_Route info route r req = Inl e) \<longleftrightarrow> (\<exists>es. ?T = Inl (AllProvidersFailed es))"
    using try_providers_total [of info route "rg_providers r" ?req "providerOrder (rg_cfg r)" "[]"]
    by (auto simp: Registry_Route_def)
  also have "\<dots> \<longleftrightarrow> (\<forall>i \<in> set (providerOrder (rg_cfg r)). gives info route (rg_providers r) ?req i = None)"
    by (rule try_providers_None [symmetric])
  also have "\<dots> \<longleftrightarrow> (\<forall>i p. rg_providers r i = Some p \<and> rpi_Available (info p) \<longrightarrow> (\<exists>e. route p ?req = Inl e))"
  proof -
    have eq: "gives info route (rg_providers r) ?req i = None \<longleftrightarrow>
      (\<forall>p. rg_providers r i = Some p \<and> rpi_Available (info p) \<longrightarrow> (\<exists>e. route p ?req = Inl e))" for i
      using route_nonempty by (auto simp: gives_def split: option.splits sum.splits)
    show ?thesis unfolding eq using dom by blast
  qed
  finally show ?thesis .
qed

end

end
