(* ===== verification/Providers.thy ===== *)
theory Providers
  imports Routing "HOL-Library.Word"
begin

text \<open>
  The three route providers of \<open>internal/routing\<close> (\<open>osrm.go\<close>, \<open>google.go\<close>, \<open>mapbox.go\<close>) and
  the geometry decoders of \<open>geometry.go\<close>. The HTTP client and the JSON decoder are parameters:
  the record \<open>net\<close> gives, for a request, either a transport error or a status code with the
  decoded body, \<open>None\<close> where the body does not decode. \<open>fmt_f\<close> is \<open>fmt\<close>'s verb for floats.
\<close>

unbundle bit_operations_syntax

section \<open>Encoded polylines\<close>

text \<open>
  \<open>decodePolylineValue\<close>: the rest of the string stands for the index into it, \<open>int\<close> is a 64-bit
  word. A shift of 64 or more gives 0, in Go as in \<open>push_bit\<close>.
\<close>

fun decode_chunks :: "string \<Rightarrow> 64 word \<Rightarrow> nat \<Rightarrow> (64 word \<times> string) option" where
  "decode_chunks [] result shift = None"
| "decode_chunks (c # rest) result shift =
    (let b = (of_nat (of_char c) :: 64 word) - 63;
         result = result OR push_bit shift (b AND 0x1f)
     in if b <s 0x20 then Some (result, rest) else decode_chunks rest result (shift + 5))"

definition decodePolylineValue :: "string \<Rightarrow> (64 word \<times> string) option" where
  "decodePolylineValue encoded =
    (case decode_chunks encoded 0 0 of
       None \<Rightarrow> None
     | Some (result, rest) \<Rightarrow>
         Some (if result AND 1 \<noteq> 0 then NOT (signed_drop_bit 1 result) else signed_drop_bit 1 result, rest))"

definition word_coord :: "fpu \<Rightarrow> 64 word \<Rightarrow> f64" where
  "word_coord u w = fdiv u (rnd u (of_int (sint w))) (Fin 100000)"

lemma decode_chunks_shorter: "decode_chunks s r k = Some (v, rest) \<Longrightarrow> length rest < length s"
proof (induction s arbitrary: r k)
  case (Cons c s)
  then show ?case
    by (fastforce simp: Let_def simp del: push_bit_and split: if_splits dest: less_SucI)
qed simp

lemma decodePolylineValue_shorter: "decodePolylineValue s = Some (v, rest) \<Longrightarrow> length rest < length s"
  by (auto simp: decodePolylineValue_def decode_chunks_shorter split: option.splits)

function decode_points :: "fpu \<Rightarrow> string \<Rightarrow> 64 word \<Rightarrow> 64 word \<Rightarrow> latlon list option" where
  "decode_points u encoded lat lon =
    (if encoded = [] then Some []
     else case decodePolylineValue encoded of
       None \<Rightarrow> None
     | Some (dLat, rest) \<Rightarrow>
         (case decodePolylineValue rest of
            None \<Rightarrow> None
          | Some (dLon, rest') \<Rightarrow>
              map_option ((#) (LatLon (word_coord u (lat + dLat)) (word_coord u (lon + dLon))))
                (decode_points u rest' (lat + dLat) (lon + dLon))))"
  by pat_completeness auto

termination
proof (relation "measure (\<lambda>(u, s, _). length s)")
  fix u :: fpu and s lat lon x dLat rest y dLon rest'
  assume "decodePolylineValue s = Some x" "(dLat, rest) = x"
    and "decodePolylineValue rest = Some y" "(dLon, rest') = y"
  then show "((u, rest', lat + dLat, lon + dLon), u, s, lat, lon) \<in> measure (\<lambda>(u, s, _). length s)"
    using decodePolylineValue_shorter [of s dLat rest] decodePolylineValue_shorter [of rest dLon rest'] by auto
qed simp

declare decode_points.simps [simp del]

definition decodeEncodedPolyline :: "fpu \<Rightarrow> string \<Rightarrow> route_error + latlon list" where
  "decodeEncodedPolyline u encoded =
    (case decode_points u encoded 0 0 of
       None \<Rightarrow> Inl InvalidPolyline
     | Some points \<Rightarrow> if points = [] then Inl EmptyPolyline else Inr points)"

text \<open>A coordinate with fewer than two numbers is skipped, further numbers are ignored.\<close>

fun geojson_points :: "f64 list list \<Rightarrow> latlon list" where
  "geojson_points [] = []"
| "geojson_points ((x # y # _) # cs) = LatLon y x # geojson_points cs"
| "geojson_points (_ # cs) = geojson_points cs"

definition latLonFromGeoJSON :: "f64 list list \<Rightarrow> route_error + latlon list" where
  "latLonFromGeoJSON coords =
    (let points = geojson_points coords in if points = [] then Inl EmptyGeometry else Inr points)"

section \<open>The providers\<close>

datatype 'b http_reply = NoReply string | Reply int "'b option"

record net =
  fmt_f :: "f64 \<Rightarrow> string"
  osrm_get :: "string \<Rightarrow> f64 list list list http_reply"
  mapbox_get :: "string \<Rightarrow> string \<Rightarrow> f64 list list list http_reply"
  google_post :: "string \<Rightarrow> latlon \<Rightarrow> latlon \<Rightarrow> string \<Rightarrow> string list http_reply"

datatype provider = OSRMProvider string | GoogleProvider string | MapboxProvider string

definition NewOSRMProvider :: "string \<Rightarrow> provider" where
  "NewOSRMProvider baseURL = OSRMProvider baseURL"

definition NewGoogleProvider :: "string \<Rightarrow> provider" where
  "NewGoogleProvider apiKey = GoogleProvider (TrimSpace apiKey)"

definition NewMapboxProvider :: "string \<Rightarrow> provider" where
  "NewMapboxProvider accessToken = MapboxProvider (TrimSpace accessToken)"

definition OSRM_Info :: "string \<Rightarrow> routing_provider_info" where
  "OSRM_Info baseURL =
     \<lparr>rpi_ID = ProviderOSRM, rpi_Name = ''OSRM'', rpi_Available = True, rpi_Configured = True,
      rpi_Profiles = SupportedProfiles\<rparr>"

definition Google_Info :: "string \<Rightarrow> routing_provider_info" where
  "Google_Info apiKey =
     \<lparr>rpi_ID = ProviderGoogle, rpi_Name = ''Google Routes'', rpi_Available = (apiKey \<noteq> []),
      rpi_Configured = (apiKey \<noteq> []), rpi_Profiles = SupportedProfiles\<rparr>"

definition Mapbox_Info :: "string \<Rightarrow> routing_provider_info" where
  "Mapbox_Info accessToken =
     \<lparr>rpi_ID = ProviderMapbox, rpi_Name = ''Mapbox'', rpi_Available = (accessToken \<noteq> []),
      rpi_Configured = (accessToken \<noteq> []), rpi_Profiles = SupportedProfiles\<rparr>"

fun Provider_Info :: "provider \<Rightarrow> routing_provider_info" where
  "Provider_Info (OSRMProvider baseURL) = OSRM_Info baseURL"
| "Provider_Info (GoogleProvider apiKey) = Google_Info apiKey"
| "Provider_Info (MapboxProvider accessToken) = Mapbox_Info accessToken"

lemmas info_defs = OSRM_Info_def Google_Info_def Mapbox_Info_def

definition googleTravelMode :: "string \<Rightarrow> string" where
  "googleTravelMode profile =
    (let p = NormalizeProfile profile in
     if p = ''walking'' then ''WALK'' else if p = ''cycling'' then ''BICYCLE'' else ''DRIVE'')"

definition mapboxProfile :: "string \<Rightarrow> string" where
  "mapboxProfile profile =
    (let p = NormalizeProfile profile in
     if p = ''walking'' then ''mapbox/walking'' else if p = ''cycling'' then ''mapbox/cycling''
     else ''mapbox/driving'')"

definition osrmProfile :: "string \<Rightarrow> string" where
  "osrmProfile profile = NormalizeProfile profile"

text \<open>The path \<open>%f,%f;%f,%f\<close> of both GeoJSON services: longitude first.\<close>

definition lonlat_path :: "net \<Rightarrow> route_request \<Rightarrow> string" where
  "lonlat_path n req =
     fmt_f n (ll_lon (rq_Start req)) @ '','' @ fmt_f n (ll_lat (rq_Start req)) @ '';'' @
     fmt_f n (ll_lon (rq_End req)) @ '','' @ fmt_f n (ll_lat (rq_End req))"

definition osrm_url :: "net \<Rightarrow> string \<Rightarrow> route_request \<Rightarrow> string" where
  "osrm_url n baseURL req =
     (if baseURL = [] then ''http://router.project-osrm.org'' else baseURL) @ ''/route/v1/'' @
     osrmProfile (rq_Profile req) @ ''/'' @ lonlat_path n req @ ''?overview=full&geometries=geojson''"

definition mapbox_url :: "net \<Rightarrow> route_request \<Rightarrow> string" where
  "mapbox_url n req =
     ''https://api.mapbox.com/directions/v5/'' @ mapboxProfile (rq_Profile req) @ ''/'' @ lonlat_path n req"

text \<open>What follows the call, the same in \<open>osrm.go\<close> and \<open>mapbox.go\<close>.\<close>

fun geojson_reply :: "f64 list list list http_reply \<Rightarrow> route_error + latlon list" where
  "geojson_reply (NoReply e) = Inl (Transport e)"
| "geojson_reply (Reply code body) =
    (if code \<noteq> 200 then Inl (BadStatus code)
     else case body of
       None \<Rightarrow> Inl DecodeError
     | Some routes \<Rightarrow>
         if routes = [] \<or> hd routes = [] then Inl NoGeometry else latLonFromGeoJSON (hd routes))"

fun google_reply :: "fpu \<Rightarrow> string list http_reply \<Rightarrow> route_error + latlon list" where
  "google_reply u (NoReply e) = Inl (Transport e)"
| "google_reply u (Reply code body) =
    (if code \<noteq> 200 then Inl (BadStatus code)
     else case body of
       None \<Rightarrow> Inl DecodeError
     | Some routes \<Rightarrow>
         if routes = [] \<or> hd routes = [] then Inl NoGeometry else decodeEncodedPolyline u (hd routes))"

definition OSRM_Route :: "net \<Rightarrow> string \<Rightarrow> route_request \<Rightarrow> route_error + latlon list" where
  "OSRM_Route n baseURL req = geojson_reply (osrm_get n (osrm_url n baseURL req))"

definition Google_Route :: "fpu \<Rightarrow> net \<Rightarrow> string \<Rightarrow> route_request \<Rightarrow> route_error + latlon list" where
  "Google_Route u n apiKey req =
    (if apiKey = [] then Inl MissingKey
     else google_reply u (google_post n apiKey (rq_Start req) (rq_End req) (googleTravelMode (rq_Profile req))))"

definition Mapbox_Route :: "net \<Rightarrow> string \<Rightarrow> route_request \<Rightarrow> route_error + latlon list" where
  "Mapbox_Route n accessToken req =
    (if accessToken = [] then Inl MissingKey
     else geojson_reply (mapbox_get n accessToken (mapbox_url n req)))"

fun Provider_Route :: "fpu \<Rightarrow> net \<Rightarrow> provider \<Rightarrow> route_request \<Rightarrow> route_error + latlon list" where
  "Provider_Route u n (OSRMProvider baseURL) req = OSRM_Route n baseURL req"
| "Provider_Route u n (GoogleProvider apiKey) req = Google_Route u n apiKey req"
| "Provider_Route u n (MapboxProvider accessToken) req = Mapbox_Route n accessToken req"

lemmas route_defs = OSRM_Route_def Google_Route_def Mapbox_Route_def

definition buildProviders :: "routing_config \<Rightarrow> string \<rightharpoonup> provider" where
  "buildProviders cfg = [
     ProviderOSRM \<mapsto> NewOSRMProvider (rc_OSRMBaseURL cfg),
     ProviderGoogle \<mapsto> NewGoogleProvider (rc_GoogleKey cfg),
     ProviderMapbox \<mapsto> NewMapboxProvider (rc_MapboxToken cfg)]"

section \<open>The reference encoder\<close>

text \<open>
  The published algorithm: a difference is doubled with its sign in the lowest bit, then cut into
  groups of five bits, lowest first, each followed by a continuation bit and shifted to printable
  characters. The code only decodes; the encoder is what the decoder is judged against.
\<close>

fun encode_nat :: "nat \<Rightarrow> string" where
  "encode_nat n = (if n < 32 then [char_of (n + 63)] else char_of (32 + n mod 32 + 63) # encode_nat (n div 32))"

declare encode_nat.simps [simp del]

definition zigzag :: "int \<Rightarrow> nat" where
  "zigzag v = nat (if v < 0 then - 2 * v - 1 else 2 * v)"

fun encode_polyline :: "int \<Rightarrow> int \<Rightarrow> (int \<times> int) list \<Rightarrow> string" where
  "encode_polyline lat lon [] = []"
| "encode_polyline lat lon ((a, b) # ps) =
     encode_nat (zigzag (a - lat)) @ encode_nat (zigzag (b - lon)) @ encode_polyline a b ps"

lemma nat_or_disjoint: "(r::nat) < 2 ^ k \<Longrightarrow> r OR push_bit k m = r + push_bit k m"
proof -
  assume "r < 2 ^ k"
  then have "take_bit k r = r" by (simp add: take_bit_nat_eq_self)
  then have "\<not> bit r n" if "k \<le> n" for n using that by (metis bit_take_bit_iff linorder_not_le)
  then have "r AND push_bit k m = 0"
    by (intro bit_eqI) (auto simp: bit_simps not_le)
  then show ?thesis by (simp add: disjunctive_add_eq_or)
qed

lemma chunk_char: "c < 64 \<Longrightarrow> (of_nat (of_char (char_of (c + 63) :: char)) :: 64 word) - 63 = of_nat c"
  by (simp add: of_char_of)

lemma chunk_last: "c < 64 \<Longrightarrow> (of_nat c :: 64 word) <s 0x20 \<longleftrightarrow> c < 32"
  by (simp add: word_sless_alt signed_of_nat signed_take_bit_int_eq_self)

lemma chunk_bits: "(of_nat c :: 64 word) AND 0x1f = of_nat (c mod 32)"
proof -
  have "(of_nat c :: 64 word) AND mask 5 = take_bit 5 (of_nat c)" by (rule take_bit_eq_mask [symmetric])
  also have "\<dots> = of_nat (take_bit 5 c)" by (simp add: take_bit_of_nat)
  finally show ?thesis by (simp add: mask_eq_exp_minus_1 take_bit_eq_mod)
qed

lemma chunk_or:
  "r < 2 ^ k \<Longrightarrow> (of_nat r :: 64 word) OR push_bit k (of_nat m) = of_nat (r + m * 2 ^ k)"
proof -
  assume "r < 2 ^ k"
  have "(of_nat r :: 64 word) OR push_bit k (of_nat m) = of_nat (r OR push_bit k m)"
    by (simp only: of_nat_or_eq push_bit_of_nat)
  then show ?thesis using \<open>r < 2 ^ k\<close> by (simp only: nat_or_disjoint) (simp add: push_bit_eq_mult)
qed

lemma decode_chunks_encode:
  "r < 2 ^ k \<Longrightarrow> decode_chunks (encode_nat n @ rest) (of_nat r) k = Some (of_nat (r + n * 2 ^ k), rest)"
proof (induction n arbitrary: r k rule: encode_nat.induct)
  case (1 n)
  show ?case
  proof (cases "n < 32")
    case True
    then show ?thesis using \<open>r < 2 ^ k\<close>
      by (simp only: encode_nat.simps [of n] if_True append.simps decode_chunks.simps Let_def
          chunk_char chunk_last chunk_bits chunk_or mod_less)
  next
    case False
    let ?c = "32 + n mod 32"
    have c: "?c < 64" "\<not> ?c < 32" by simp_all
    have r: "r + n mod 32 * 2 ^ k < 2 ^ (k + 5)"
    proof -
      have "n mod 32 * 2 ^ k \<le> 31 * 2 ^ k" by (intro mult_right_mono) auto
      then have "r + n mod 32 * 2 ^ k < 2 ^ k + 31 * 2 ^ k" using \<open>r < 2 ^ k\<close> by linarith
      then show ?thesis by (simp add: power_add)
    qed
    have "decode_chunks (encode_nat n @ rest) (of_nat r) k =
      decode_chunks (encode_nat (n div 32) @ rest) (of_nat (r + n mod 32 * 2 ^ k)) (k + 5)"
      using \<open>r < 2 ^ k\<close> c False
      by (simp only: encode_nat.simps [of n] if_False append.simps decode_chunks.simps Let_def
          chunk_char chunk_last chunk_bits chunk_or mod_add_self1 mod_mod_trivial)
    also have "\<dots> = Some (of_nat (r + n mod 32 * 2 ^ k + n div 32 * 2 ^ (k + 5)), rest)"
      by (rule "1.IH" [OF False r])
    also have "r + n mod 32 * 2 ^ k + n div 32 * 2 ^ (k + 5) = r + n * 2 ^ k"
    proof -
      have "n * 2 ^ k = (n mod 32 + n div 32 * 32) * 2 ^ k" by simp
      then show ?thesis by (simp only: power_add add_mult_distrib) simp
    qed
    finally show ?thesis .
  qed
qed

lemma zigzag_word:
  assumes "- (2 ^ 62) \<le> v" "v < 2 ^ 62"
  defines "w \<equiv> (of_nat (zigzag v) :: 64 word)"
  shows "(if w AND 1 \<noteq> 0 then NOT (signed_drop_bit 1 w) else signed_drop_bit 1 w) = of_int v"
proof -
  define m where "m = (if v < 0 then - 2 * v - 1 else 2 * v)"
  have m: "0 \<le> m" "m < 2 ^ 63" using assms by (auto simp: m_def)
  have w: "w = of_int m" using m by (simp add: w_def zigzag_def m_def)
  have s: "sint w = m" using m by (simp add: w signed_of_int signed_take_bit_int_eq_self)
  have "sint (signed_drop_bit 1 w) = m div 2"
    by (simp add: sint_signed_drop_bit_eq s drop_bit_eq_div)
  moreover have "sint (of_int (m div 2) :: 64 word) = m div 2"
    using m by (simp add: signed_of_int signed_take_bit_int_eq_self)
  ultimately have h: "signed_drop_bit 1 w = of_int (m div 2)" by (metis signed_word_eqI)
  have odd: "w AND 1 \<noteq> 0 \<longleftrightarrow> odd m"
  proof -
    have "w AND 1 = of_int (m AND 1)" by (simp only: w of_int_and_eq) simp
    then have "w AND 1 = of_int (m mod 2)" by (simp only: and_one_eq)
    then show ?thesis by (cases "odd m") (simp_all add: odd_iff_mod_2_eq_one)
  qed
  show ?thesis
  proof (cases "v < 0")
    case True
    then have "odd m" "m div 2 = - v - 1" by (simp_all add: m_def)
    moreover have "NOT (of_int (- v - 1) :: 64 word) = of_int v" by (simp add: not_eq_complement)
    ultimately show ?thesis using odd h by (simp only:) simp
  next
    case False
    then show ?thesis using odd h by (simp add: m_def)
  qed
qed

lemma decodePolylineValue_encode:
  "- (2 ^ 62) \<le> v \<Longrightarrow> v < 2 ^ 62 \<Longrightarrow>
   decodePolylineValue (encode_nat (zigzag v) @ rest) = Some (of_int v, rest)"
  using decode_chunks_encode [of 0 0 "zigzag v" rest] zigzag_word [of v]
  by (simp add: decodePolylineValue_def)

lemma encode_nat_nonempty [simp]: "encode_nat n \<noteq> []"
  by (simp add: encode_nat.simps [of n])

text \<open>Coordinates in the 1e-5 degree grid, within \<open>2^61\<close>: every difference fits.\<close>

definition on_grid :: "int \<times> int \<Rightarrow> bool" where
  "on_grid p \<longleftrightarrow> \<bar>fst p\<bar> < 2 ^ 61 \<and> \<bar>snd p\<bar> < 2 ^ 61"

definition grid_coord :: "fpu \<Rightarrow> int \<Rightarrow> f64" where
  "grid_coord u a = fdiv u (rnd u (of_int a)) (Fin 100000)"

lemma word_coord_of_int: "\<bar>a\<bar> < 2 ^ 61 \<Longrightarrow> word_coord u (of_int a) = grid_coord u a"
  by (simp add: word_coord_def grid_coord_def signed_of_int signed_take_bit_int_eq_self)

lemma decode_points_encode:
  "list_all on_grid ps \<Longrightarrow> \<bar>lat\<bar> < 2 ^ 61 \<Longrightarrow> \<bar>lon\<bar> < 2 ^ 61 \<Longrightarrow>
   decode_points u (encode_polyline lat lon ps) (of_int lat) (of_int lon) =
     Some (map (\<lambda>(a, b). LatLon (grid_coord u a) (grid_coord u b)) ps)"
proof (induction ps arbitrary: lat lon)
  case Nil
  then show ?case by (simp add: decode_points.simps)
next
  case (Cons p ps)
  obtain a b where p: "p = (a, b)" by (cases p)
  from Cons.prems have ab: "\<bar>a\<bar> < 2 ^ 61" "\<bar>b\<bar> < 2 ^ 61" by (auto simp: p on_grid_def)
  have d: "- (2 ^ 62) \<le> a - lat" "a - lat < 2 ^ 62" "- (2 ^ 62) \<le> b - lon" "b - lon < 2 ^ 62"
    using ab Cons.prems by simp_all
  have w: "of_int lat + of_int (a - lat) = (of_int a :: 64 word)" "of_int lon + of_int (b - lon) = (of_int b :: 64 word)"
    by simp_all
  have IH: "decode_points u (encode_polyline a b ps) (of_int a) (of_int b) =
     Some (map (\<lambda>(a, b). LatLon (grid_coord u a) (grid_coord u b)) ps)"
    using Cons.IH [of a b] Cons.prems ab by simp
  have v: "decodePolylineValue (encode_nat (zigzag (a - lat)) @ R) = Some (of_int (a - lat), R)"
    "decodePolylineValue (encode_nat (zigzag (b - lon)) @ R) = Some (of_int (b - lon), R)" for R
    by (intro decodePolylineValue_encode d)+
  show ?case
    by (subst decode_points.simps)
      (simp add: p v w IH word_coord_of_int [OF ab(1)] word_coord_of_int [OF ab(2)] del: of_int_diff)
qed

section \<open>The registry on these providers\<close>

lemma latLonFromGeoJSON_nonempty: "latLonFromGeoJSON cs = Inr points \<Longrightarrow> points \<noteq> []"
  by (auto simp: latLonFromGeoJSON_def Let_def split: if_splits)

lemma decodeEncodedPolyline_nonempty: "decodeEncodedPolyline u s = Inr points \<Longrightarrow> points \<noteq> []"
  by (auto simp: decodeEncodedPolyline_def split: option.splits if_splits)

lemma geojson_reply_nonempty: "geojson_reply r = Inr points \<Longrightarrow> points \<noteq> []"
  by (cases r) (auto split: if_splits option.splits dest: latLonFromGeoJSON_nonempty)

lemma google_reply_nonempty: "google_reply u r = Inr points \<Longrightarrow> points \<noteq> []"
  by (cases r) (auto split: if_splits option.splits dest: decodeEncodedPolyline_nonempty)

interpretation prov: route_provider Provider_Info "Provider_Route u n" buildProviders
proof
  fix cfg show "dom (buildProviders cfg) = set DefaultPriority"
    by (auto simp: buildProviders_def DefaultPriority_def)
next
  fix cfg i p assume "buildProviders cfg i = Some p"
  then show "rpi_ID (Provider_Info p) = i"
    by (auto simp: buildProviders_def NewOSRMProvider_def NewGoogleProvider_def NewMapboxProvider_def info_defs
        split: if_splits)
next
  fix cfg p assume "buildProviders cfg ProviderOSRM = Some p"
  then show "rpi_Available (Provider_Info p)"
    by (auto simp: buildProviders_def NewOSRMProvider_def info_defs routing_consts split: if_splits)
next
  fix p req points assume "Provider_Route u n p req = Inr points"
  then show "points \<noteq> []"
    by (cases p) (auto simp: route_defs split: if_splits dest: geojson_reply_nonempty google_reply_nonempty)
qed

definition the_registry :: "routing_config \<Rightarrow> provider registry" where
  "the_registry cfg = NewRegistry buildProviders cfg"

lemma wf_the_registry: "prov.wf (the_registry cfg)"
  unfolding the_registry_def by (rule prov.wf_New)

definition can_answer :: "routing_config \<Rightarrow> string \<Rightarrow> bool" where
  "can_answer cfg i \<longleftrightarrow>
     i = ProviderOSRM \<or> i = ProviderGoogle \<and> TrimSpace (rc_GoogleKey cfg) \<noteq> [] \<or>
     i = ProviderMapbox \<and> TrimSpace (rc_MapboxToken cfg) \<noteq> []"

lemma avail_can_answer: "prov.avail (the_registry cfg) = can_answer cfg"
proof
  fix i
  show "prov.avail (the_registry cfg) i = can_answer cfg i"
    by (auto simp: prov.avail_def the_registry_def NewRegistry_def Let_def buildProviders_def can_answer_def
        NewOSRMProvider_def NewGoogleProvider_def NewMapboxProvider_def NormalizeConfig_def info_defs routing_consts)
qed

section \<open>Properties\<close>

text \<open>
  Whatever the operator configures (unknown ids, duplicates, an empty list), the order in
  which \<open>Registry.Route\<close> asks the providers contains each of the three exactly once, and in
  manual mode the chosen provider comes first.
\<close>
theorem providerOrder_complete:
  "distinct (providerOrder (NormalizeConfig cfg)) \<and>
   set (providerOrder (NormalizeConfig cfg)) = {ProviderGoogle, ProviderMapbox, ProviderOSRM} \<and>
   hd (providerOrder (NormalizeConfig cfg)) =
     (if NormalizeMode (rc_Mode cfg) = ModeManual then NormalizeProviderID (rc_Provider cfg)
      else hd (NormalizePriority (rc_Priority cfg)))"
proof -
  have n: "normal_config (NormalizeConfig cfg)" by (rule normal_NormalizeConfig)
  have "hd (providerOrder (NormalizeConfig cfg)) =
     (if NormalizeMode (rc_Mode cfg) = ModeManual then NormalizeProviderID (rc_Provider cfg)
      else hd (NormalizePriority (rc_Priority cfg)))"
    by (simp add: providerOrder_normal [OF n]) (simp add: NormalizeConfig_def)
  then show ?thesis using providerOrder_perm [OF n] by (simp add: DefaultPriority_def)
qed

text \<open>
  The provider that \<open>Info\<close> advertises as active is the first one, in the order of the
  fallback loop, that has what it needs to answer: the status shown to the user and the loop
  agree on every configuration.
\<close>
theorem active_provider_is_first_asked:
  "ri_ActiveProvider (Registry_Info Provider_Info (the_registry cfg)) =
   hd (filter (can_answer cfg) (providerOrder (NormalizeConfig cfg)))"
proof -
  have "rg_cfg (the_registry cfg) = NormalizeConfig cfg" by (simp add: the_registry_def NewRegistry_def Let_def)
  then show ?thesis
    using prov.active_is_first [OF wf_the_registry, of cfg] by (simp add: avail_can_answer)
qed

text \<open>
  C27: A route is the non-empty answer of the provider it is attributed to, and every available
  provider earlier in the order was asked, with the same request, and failed.
\<close>
theorem route_is_first_success:
  assumes "Registry_Route Provider_Info (Provider_Route u n) (the_registry cfg) req = Inr res"
  shows "\<exists>pre post p.
     providerOrder (NormalizeConfig cfg) = pre @ rr_ProviderID res # post \<and>
     buildProviders (NormalizeConfig cfg) (rr_ProviderID res) = Some p \<and>
     Provider_Route u n p (req\<lparr>rq_Profile := NormalizeProfile (rq_Profile req)\<rparr>) = Inr (rr_Points res) \<and>
     rr_Points res \<noteq> [] \<and>
     (\<forall>j \<in> set pre. can_answer cfg j \<longrightarrow> (\<exists>q e. buildProviders (NormalizeConfig cfg) j = Some q \<and>
        Provider_Route u n q (req\<lparr>rq_Profile := NormalizeProfile (rq_Profile req)\<rparr>) = Inl e))"
proof -
  have "rg_cfg (the_registry cfg) = NormalizeConfig cfg"
    "rg_providers (the_registry cfg) = buildProviders (NormalizeConfig cfg)"
    by (simp_all add: the_registry_def NewRegistry_def Let_def)
  then show ?thesis
    using prov.route_sound [OF wf_the_registry assms] unfolding avail_can_answer by simp blast
qed

definition offline_net :: net where
  "offline_net = \<lparr>fmt_f = (\<lambda>_. ''0''), osrm_get = (\<lambda>_. Reply 200 (Some [[[Fin 2, Fin 48], [Fin 3, Fin 49]]])),
     mapbox_get = (\<lambda>_ _. Reply 401 None), google_post = (\<lambda>_ _ _ _. NoReply ''timeout'')\<rparr>"

definition demo_config :: routing_config where
  "demo_config = \<lparr>rc_OSRMBaseURL = '''', rc_Mode = ''manual'', rc_Provider = ''google'', rc_Priority = [''mapbox''],
     rc_GoogleKey = ''k'', rc_MapboxToken = ''t''\<rparr>"

definition demo_request :: route_request where
  "demo_request = \<lparr>rq_Start = LatLon (Fin 48) (Fin 2), rq_End = LatLon (Fin 49) (Fin 3), rq_Profile = ''foot''\<rparr>"

lemma demo_route:
  "Registry_Route Provider_Info (Provider_Route exact_fpu offline_net) (the_registry demo_config) demo_request =
   Inr \<lparr>rr_ProviderID = ''osrm'', rr_Points = [LatLon (Fin 48) (Fin 2), LatLon (Fin 49) (Fin 3)]\<rparr>"
  by code_simp

theorem route_is_first_success_witness:
  "\<exists>pre post. providerOrder (NormalizeConfig demo_config) = pre @ ''osrm'' # post"
  using route_is_first_success [OF demo_route] by auto

text \<open>
  Routing fails exactly when every provider that can answer fails: no configuration makes
  \<open>Registry.Route\<close> give up while a provider would have answered.
\<close>
theorem route_fails_only_if_all_fail:
  "(\<exists>e. Registry_Route Provider_Info (Provider_Route u n) (the_registry cfg) req = Inl e) =
   (\<nexists>i p points. buildProviders (NormalizeConfig cfg) i = Some p \<and> can_answer cfg i \<and>
      Provider_Route u n p (req\<lparr>rq_Profile := NormalizeProfile (rq_Profile req)\<rparr>) = Inr points)"
proof -
  let ?req = "req\<lparr>rq_Profile := NormalizeProfile (rq_Profile req)\<rparr>"
  have r: "rg_providers (the_registry cfg) = buildProviders (NormalizeConfig cfg)"
    by (simp add: the_registry_def NewRegistry_def Let_def)
  have a: "buildProviders (NormalizeConfig cfg) i = Some p \<and> rpi_Available (Provider_Info p) \<longleftrightarrow>
     buildProviders (NormalizeConfig cfg) i = Some p \<and> can_answer cfg i" for i p
    using fun_cong [OF avail_can_answer [of cfg], of i] by (auto simp: prov.avail_def r)
  have "\<not> (\<exists>e. Provider_Route u n p ?req = Inl e) \<longleftrightarrow> (\<exists>points. Provider_Route u n p ?req = Inr points)" for p
    by (cases "Provider_Route u n p ?req") auto
  then show ?thesis
    unfolding prov.route_fails_iff [OF wf_the_registry] r a by blast
qed

text \<open>
  C28: The polyline decoder inverts the published encoding: any non-empty list of points on the
  1e-5 degree grid is recovered exactly, negative coordinates and differences included.
\<close>
theorem polyline_roundtrip:
  assumes "ps \<noteq> []" "list_all on_grid ps"
  shows "decodeEncodedPolyline u (encode_polyline 0 0 ps) =
     Inr (map (\<lambda>(a, b). LatLon (grid_coord u a) (grid_coord u b)) ps)"
  using decode_points_encode [of ps 0 0 u] assms by (simp add: decodeEncodedPolyline_def)

theorem polyline_roundtrip_witness:
  "decodeEncodedPolyline exact_fpu (encode_polyline 0 0 [(3850000, -12020000), (4070000, -12095000)]) =
     Inr [LatLon (Fin (77/2)) (Fin (- 601/5)), LatLon (Fin (407/10)) (Fin (- 2419/20))]"
  using polyline_roundtrip [of "[(3850000, -12020000), (4070000, -12095000)]" exact_fpu]
  by (simp add: on_grid_def grid_coord_def)

end
