(* ===== verification/Settings_Store.thy ===== *)
theory Settings_Store
  imports Providers
begin

text \<open>
  The persisted configuration, \<open>internal/settings\<close>: the schema and its defaults, the subset the
  engine reads at run time, and the SQLite store. A JSON document is the association list of its
  members under the names of the struct tags; a member tagged \<open>omitempty\<close> is left out where its
  value is the zero value, and decoding starts from \<open>Default()\<close>, as \<open>Load\<close> does.
\<close>

section \<open>schema.go\<close>

datatype operation_mode = ModeHybrid | ModeClientServer | ModeAutonomous

record settings =
  se_WifiIp :: string
  se_WifiPort :: int
  se_CompanionPort :: int
  se_ConnectionMode :: string
  se_OperationMode :: operation_mode
  se_EveilMode :: bool
  se_EveilInterval :: int
  se_PreferredDriver :: driver_id
  se_UsbDriver :: driver_id
  se_WifiDriver :: driver_id
  se_FallbackEnabled :: bool
  se_ServerIp :: string
  se_PreferredIp :: string
  se_ManualTunnelMode :: bool
  se_ManualTunnelAddress :: string
  se_NetworkOnlyMode :: bool
  se_ClusterMode :: string
  se_ClusterNodes :: "string list"
  se_ServerName :: string
  se_ClusterSyncCerts :: bool
  se_HeartbeatSec :: int
  se_MasterDeadSec :: int
  se_PeerTimeoutSec :: int
  se_OsrmBaseURL :: string
  se_RoutingMode :: string
  se_RoutingProvider :: string
  se_RoutingPriority :: "string list"
  se_LogLevel :: string
  se_Notifications :: bool
  se_DynamicIsland :: bool
  se_Jitter :: bool
  se_Favorites :: "favorite list"
  se_History :: "history_entry list"
  se_LastActive :: "coords option"

definition Default_settings :: settings where
  "Default_settings = \<lparr>
     se_WifiIp = '''', se_WifiPort = 0, se_CompanionPort = 8080, se_ConnectionMode = ''both'',
     se_OperationMode = ModeHybrid, se_EveilMode = True, se_EveilInterval = 5,
     se_PreferredDriver = DriverGoIos, se_UsbDriver = DriverGoIos, se_WifiDriver = DriverGoIos,
     se_FallbackEnabled = True, se_ServerIp = '''', se_PreferredIp = '''', se_ManualTunnelMode = False,
     se_ManualTunnelAddress = '''', se_NetworkOnlyMode = False, se_ClusterMode = ''off'',
     se_ClusterNodes = [], se_ServerName = '''', se_ClusterSyncCerts = False,
     se_HeartbeatSec = 10, se_MasterDeadSec = 30, se_PeerTimeoutSec = 3,
     se_OsrmBaseURL = '''', se_RoutingMode = ''auto'', se_RoutingProvider = ''osrm'',
     se_RoutingPriority = [''google'', ''mapbox'', ''osrm''], se_LogLevel = ''info'',
     se_Notifications = True, se_DynamicIsland = True, se_Jitter = True,
     se_Favorites = [], se_History = [], se_LastActive = None\<rparr>"

section \<open>runtime\_config.go\<close>

record runtime_config =
  rt_CompanionPort :: int
  rt_PreferredDriver :: driver_id
  rt_UsbDriver :: driver_id
  rt_WifiDriver :: driver_id
  rt_FallbackEnabled :: bool
  rt_ClusterMode :: string
  rt_HeartbeatSec :: int
  rt_MasterDeadSec :: int
  rt_PeerTimeoutSec :: int
  rt_OsrmBaseURL :: string
  rt_RoutingMode :: string
  rt_RoutingProvider :: string
  rt_RoutingPriority :: "string list"
  rt_Notifications :: bool
  rt_DynamicIsland :: bool
  rt_Jitter :: bool
  rt_Favorites :: "favorite list"
  rt_History :: "history_entry list"

definition RuntimeConfig :: "settings \<Rightarrow> runtime_config" where
  "RuntimeConfig s = \<lparr>
     rt_CompanionPort = se_CompanionPort s, rt_PreferredDriver = se_PreferredDriver s,
     rt_UsbDriver = se_UsbDriver s, rt_WifiDriver = se_WifiDriver s, rt_FallbackEnabled = se_FallbackEnabled s,
     rt_ClusterMode = se_ClusterMode s, rt_HeartbeatSec = se_HeartbeatSec s,
     rt_MasterDeadSec = se_MasterDeadSec s, rt_PeerTimeoutSec = se_PeerTimeoutSec s,
     rt_OsrmBaseURL = se_OsrmBaseURL s, rt_RoutingMode = se_RoutingMode s,
     rt_RoutingProvider = se_RoutingProvider s, rt_RoutingPriority = se_RoutingPriority s,
     rt_Notifications = se_Notifications s, rt_DynamicIsland = se_DynamicIsland s, rt_Jitter = se_Jitter s,
     rt_Favorites = se_Favorites s, rt_History = se_History s\<rparr>"

record secrets =
  sec_Google :: string
  sec_Mapbox :: string

section \<open>The JSON document\<close>

datatype jval =
    JStr string | JInt int | JBool bool | JMode operation_mode
  | JStrs "string list" | JFavs "favorite list" | JCoords coords

type_synonym json_doc = "(string \<times> jval) list"

definition omit_str :: "string \<Rightarrow> string \<Rightarrow> json_doc" where
  "omit_str k v = (if v = [] then [] else [(k, JStr v)])"
definition omit_int :: "string \<Rightarrow> int \<Rightarrow> json_doc" where
  "omit_int k v = (if v = 0 then [] else [(k, JInt v)])"
definition omit_strs :: "string \<Rightarrow> string list \<Rightarrow> json_doc" where
  "omit_strs k v = (if v = [] then [] else [(k, JStrs v)])"
definition omit_coords :: "string \<Rightarrow> coords option \<Rightarrow> json_doc" where
  "omit_coords k v = (case v of None \<Rightarrow> [] | Some c \<Rightarrow> [(k, JCoords c)])"

lemmas omit_defs = omit_str_def omit_int_def omit_strs_def omit_coords_def

definition marshal_settings :: "settings \<Rightarrow> json_doc" where
  "marshal_settings s =
     omit_str ''wifiIp'' (se_WifiIp s) @ omit_int ''wifiPort'' (se_WifiPort s) @
     [(''companionPort'', JInt (se_CompanionPort s)), (''connectionMode'', JStr (se_ConnectionMode s)),
      (''operationMode'', JMode (se_OperationMode s)), (''isEveilMode'', JBool (se_EveilMode s)),
      (''eveilInterval'', JInt (se_EveilInterval s)), (''preferredDriver'', JStr (se_PreferredDriver s)),
      (''usbDriver'', JStr (se_UsbDriver s)), (''wifiDriver'', JStr (se_WifiDriver s)),
      (''fallbackEnabled'', JBool (se_FallbackEnabled s))] @
     omit_str ''serverIp'' (se_ServerIp s) @ omit_str ''preferredIp'' (se_PreferredIp s) @
     [(''manualTunnelMode'', JBool (se_ManualTunnelMode s))] @
     omit_str ''manualTunnelAddress'' (se_ManualTunnelAddress s) @
     [(''networkOnlyMode'', JBool (se_NetworkOnlyMode s)), (''clusterMode'', JStr (se_ClusterMode s))] @
     omit_strs ''clusterNodes'' (se_ClusterNodes s) @ omit_str ''serverName'' (se_ServerName s) @
     [(''clusterSyncCerts'', JBool (se_ClusterSyncCerts s))] @
     omit_int ''clusterHeartbeatSeconds'' (se_HeartbeatSec s) @
     omit_int ''clusterMasterDeadSeconds'' (se_MasterDeadSec s) @
     omit_int ''clusterPeerTimeoutSeconds'' (se_PeerTimeoutSec s) @
     omit_str ''osrmBaseUrl'' (se_OsrmBaseURL s) @ omit_str ''routingMode'' (se_RoutingMode s) @
     omit_str ''routingProvider'' (se_RoutingProvider s) @
     omit_strs ''routingProviderPriority'' (se_RoutingPriority s) @
     [(''logLevel'', JStr (se_LogLevel s)), (''notificationsEnabled'', JBool (se_Notifications s)),
      (''dynamicIslandEnabled'', JBool (se_DynamicIsland s)), (''jitterEnabled'', JBool (se_Jitter s)),
      (''favorites'', JFavs (se_Favorites s)), (''recentHistory'', JFavs (se_History s))] @
     omit_coords ''lastActiveLocation'' (se_LastActive s)"

definition get_str :: "json_doc \<Rightarrow> string \<Rightarrow> string \<Rightarrow> string" where
  "get_str d k v = (case map_of d k of Some (JStr x) \<Rightarrow> x | _ \<Rightarrow> v)"
definition get_int :: "json_doc \<Rightarrow> string \<Rightarrow> int \<Rightarrow> int" where
  "get_int d k v = (case map_of d k of Some (JInt x) \<Rightarrow> x | _ \<Rightarrow> v)"
definition get_bool :: "json_doc \<Rightarrow> string \<Rightarrow> bool \<Rightarrow> bool" where
  "get_bool d k v = (case map_of d k of Some (JBool x) \<Rightarrow> x | _ \<Rightarrow> v)"
definition get_mode :: "json_doc \<Rightarrow> string \<Rightarrow> operation_mode \<Rightarrow> operation_mode" where
  "get_mode d k v = (case map_of d k of Some (JMode x) \<Rightarrow> x | _ \<Rightarrow> v)"
definition get_strs :: "json_doc \<Rightarrow> string \<Rightarrow> string list \<Rightarrow> string list" where
  "get_strs d k v = (case map_of d k of Some (JStrs x) \<Rightarrow> x | _ \<Rightarrow> v)"
definition get_favs :: "json_doc \<Rightarrow> string \<Rightarrow> favorite list \<Rightarrow> favorite list" where
  "get_favs d k v = (case map_of d k of Some (JFavs x) \<Rightarrow> x | _ \<Rightarrow> v)"
definition get_coords :: "json_doc \<Rightarrow> string \<Rightarrow> coords option \<Rightarrow> coords option" where
  "get_coords d k v = (case map_of d k of Some (JCoords x) \<Rightarrow> Some x | _ \<Rightarrow> v)"

lemmas get_defs = get_str_def get_int_def get_bool_def get_mode_def get_strs_def get_favs_def get_coords_def

definition unmarshal_settings :: "json_doc \<Rightarrow> settings \<Rightarrow> settings" where
  "unmarshal_settings d s = \<lparr>
     se_WifiIp = get_str d ''wifiIp'' (se_WifiIp s), se_WifiPort = get_int d ''wifiPort'' (se_WifiPort s),
     se_CompanionPort = get_int d ''companionPort'' (se_CompanionPort s),
     se_ConnectionMode = get_str d ''connectionMode'' (se_ConnectionMode s),
     se_OperationMode = get_mode d ''operationMode'' (se_OperationMode s),
     se_EveilMode = get_bool d ''isEveilMode'' (se_EveilMode s),
     se_EveilInterval = get_int d ''eveilInterval'' (se_EveilInterval s),
     se_PreferredDriver = get_str d ''preferredDriver'' (se_PreferredDriver s),
     se_UsbDriver = get_str d ''usbDriver'' (se_UsbDriver s),
     se_WifiDriver = get_str d ''wifiDriver'' (se_WifiDriver s),
     se_FallbackEnabled = get_bool d ''fallbackEnabled'' (se_FallbackEnabled s),
     se_ServerIp = get_str d ''serverIp'' (se_ServerIp s),
     se_PreferredIp = get_str d ''preferredIp'' (se_PreferredIp s),
     se_ManualTunnelMode = get_bool d ''manualTunnelMode'' (se_ManualTunnelMode s),
     se_ManualTunnelAddress = get_str d ''manualTunnelAddress'' (se_ManualTunnelAddress s),
     se_NetworkOnlyMode = get_bool d ''networkOnlyMode'' (se_NetworkOnlyMode s),
     se_ClusterMode = get_str d ''clusterMode'' (se_ClusterMode s),
     se_ClusterNodes = get_strs d ''clusterNodes'' (se_ClusterNodes s),
     se_ServerName = get_str d ''serverName'' (se_ServerName s),
     se_ClusterSyncCerts = get_bool d ''clusterSyncCerts'' (se_ClusterSyncCerts s),
     se_HeartbeatSec = get_int d ''clusterHeartbeatSeconds'' (se_HeartbeatSec s),
     se_MasterDeadSec = get_int d ''clusterMasterDeadSeconds'' (se_MasterDeadSec s),
     se_PeerTimeoutSec = get_int d ''clusterPeerTimeoutSeconds'' (se_PeerTimeoutSec s),
     se_OsrmBaseURL = get_str d ''osrmBaseUrl'' (se_OsrmBaseURL s),
     se_RoutingMode = get_str d ''routingMode'' (se_RoutingMode s),
     se_RoutingProvider = get_str d ''routingProvider'' (se_RoutingProvider s),
     se_RoutingPriority = get_strs d ''routingProviderPriority'' (se_RoutingPriority s),
     se_LogLevel = get_str d ''logLevel'' (se_LogLevel s),
     se_Notifications = get_bool d ''notificationsEnabled'' (se_Notifications s),
     se_DynamicIsland = get_bool d ''dynamicIslandEnabled'' (se_DynamicIsland s),
     se_Jitter = get_bool d ''jitterEnabled'' (se_Jitter s),
     se_Favorites = get_favs d ''favorites'' (se_Favorites s),
     se_History = get_favs d ''recentHistory'' (se_History s),
     se_LastActive = get_coords d ''lastActiveLocation'' (se_LastActive s)\<rparr>"

section \<open>store.go\<close>

text \<open>
  The two tables. A statement can fail: the index of the failing statement, if any, is an
  argument. \<open>None\<close> in the settings table is \<open>sql.ErrNoRows\<close>; \<open>Some None\<close> is a row whose text is not
  JSON.
\<close>

record sql_db =
  db_settings :: "json_doc option option"
  db_secrets :: "string \<rightharpoonup> string"

datatype store_error = SqlError nat | DecodeSettings

definition Load_settings :: "nat option \<Rightarrow> sql_db \<Rightarrow> settings \<times> store_error option" where
  "Load_settings fail db =
    (if fail = Some 0 then (Default_settings, Some (SqlError 0))
     else case db_settings db of
       None \<Rightarrow> (Default_settings, None)
     | Some None \<Rightarrow> (Default_settings, Some DecodeSettings)
     | Some (Some d) \<Rightarrow> (unmarshal_settings d Default_settings, None))"

definition Save_settings :: "nat option \<Rightarrow> settings \<Rightarrow> sql_db \<Rightarrow> store_error option \<times> sql_db" where
  "Save_settings fail cfg db =
    (if fail = Some 0 then (Some (SqlError 0), db)
     else (None, db\<lparr>db_settings := Some (Some (marshal_settings cfg))\<rparr>))"

definition saveSecret :: "string \<Rightarrow> string \<Rightarrow> (string \<rightharpoonup> string) \<Rightarrow> (string \<rightharpoonup> string)" where
  "saveSecret key v t = (if v = [] then t(key := None) else t(key \<mapsto> v))"

definition SaveSecrets :: "nat option \<Rightarrow> secrets \<Rightarrow> sql_db \<Rightarrow> store_error option \<times> sql_db" where
  "SaveSecrets fail s db =
    (if fail = Some 0 then (Some (SqlError 0), db)
     else let tx1 = saveSecret ''googleRoutesApiKey'' (sec_Google s) (db_secrets db) in
     if fail = Some 1 then (Some (SqlError 1), db)
     else let tx2 = saveSecret ''mapboxAccessToken'' (sec_Mapbox s) tx1 in
     if fail = Some 2 then (Some (SqlError 2), db)
     else if fail = Some 3 then (Some (SqlError 3), db)
     else (None, db\<lparr>db_secrets := tx2\<rparr>))"

definition LoadSecrets :: "nat option \<Rightarrow> sql_db \<Rightarrow> secrets \<times> store_error option" where
  "LoadSecrets fail db =
    (if fail = Some 0 then (\<lparr>sec_Google = '''', sec_Mapbox = ''''\<rparr>, Some (SqlError 0))
     else (\<lparr>sec_Google = (case db_secrets db ''googleRoutesApiKey'' of Some v \<Rightarrow> v | None \<Rightarrow> ''''),
            sec_Mapbox = (case db_secrets db ''mapboxAccessToken'' of Some v \<Rightarrow> v | None \<Rightarrow> '''')\<rparr>, None))"

section \<open>Round trips\<close>

text \<open>What a save and a load give back: a zero value of a member tagged \<open>omitempty\<close> that has a
  non-zero default comes back as the default.\<close>

definition restored :: "settings \<Rightarrow> settings" where
  "restored s = s\<lparr>
     se_HeartbeatSec := (if se_HeartbeatSec s = 0 then 10 else se_HeartbeatSec s),
     se_MasterDeadSec := (if se_MasterDeadSec s = 0 then 30 else se_MasterDeadSec s),
     se_PeerTimeoutSec := (if se_PeerTimeoutSec s = 0 then 3 else se_PeerTimeoutSec s),
     se_RoutingMode := (if se_RoutingMode s = [] then ''auto'' else se_RoutingMode s),
     se_RoutingProvider := (if se_RoutingProvider s = [] then ''osrm'' else se_RoutingProvider s),
     se_RoutingPriority := (if se_RoutingPriority s = [] then [''google'', ''mapbox'', ''osrm'']
                            else se_RoutingPriority s)\<rparr>"

lemma get_member [simp]:
  "get_str ((k, JStr x) # d) k v = x" "get_int ((k, JInt y) # d) k w = y"
  "get_bool ((k, JBool b) # d) k c = b" "get_mode ((k, JMode m) # d) k n = m"
  "get_strs ((k, JStrs xs) # d) k vs = xs" "get_favs ((k, JFavs fs) # d) k gs = fs"
  "get_coords ((k, JCoords q) # d) k r = Some q"
  by (simp_all add: get_defs)

lemma get_other [simp]:
  "k \<noteq> k' \<Longrightarrow> get_str ((k', j) # d) k v = get_str d k v"
  "k \<noteq> k' \<Longrightarrow> get_int ((k', j) # d) k w = get_int d k w"
  "k \<noteq> k' \<Longrightarrow> get_bool ((k', j) # d) k c = get_bool d k c"
  "k \<noteq> k' \<Longrightarrow> get_mode ((k', j) # d) k m = get_mode d k m"
  "k \<noteq> k' \<Longrightarrow> get_strs ((k', j) # d) k vs = get_strs d k vs"
  "k \<noteq> k' \<Longrightarrow> get_favs ((k', j) # d) k fs = get_favs d k fs"
  "k \<noteq> k' \<Longrightarrow> get_coords ((k', j) # d) k q = get_coords d k q"
  by (simp_all add: get_defs)

lemma get_nil [simp]:
  "get_str [] k v = v" "get_int [] k w = w" "get_bool [] k b = b" "get_mode [] k m = m"
  "get_strs [] k vs = vs" "get_favs [] k fs = fs" "get_coords [] k q = q"
  by (simp_all add: get_defs)

lemma get_omit_other [simp]:
  "k \<noteq> k' \<Longrightarrow> get_str (omit_str k' x @ d) k v = get_str d k v"
  "k \<noteq> k' \<Longrightarrow> get_str (omit_int k' y @ d) k v = get_str d k v"
  "k \<noteq> k' \<Longrightarrow> get_str (omit_strs k' z @ d) k v = get_str d k v"
  "k \<noteq> k' \<Longrightarrow> get_int (omit_str k' x @ d) k w = get_int d k w"
  "k \<noteq> k' \<Longrightarrow> get_int (omit_int k' y @ d) k w = get_int d k w"
  "k \<noteq> k' \<Longrightarrow> get_int (omit_strs k' z @ d) k w = get_int d k w"
  "k \<noteq> k' \<Longrightarrow> get_bool (omit_str k' x @ d) k b = get_bool d k b"
  "k \<noteq> k' \<Longrightarrow> get_bool (omit_int k' y @ d) k b = get_bool d k b"
  "k \<noteq> k' \<Longrightarrow> get_bool (omit_strs k' z @ d) k b = get_bool d k b"
  "k \<noteq> k' \<Longrightarrow> get_mode (omit_str k' x @ d) k m = get_mode d k m"
  "k \<noteq> k' \<Longrightarrow> get_mode (omit_int k' y @ d) k m = get_mode d k m"
  "k \<noteq> k' \<Longrightarrow> get_strs (omit_str k' x @ d) k vs = get_strs d k vs"
  "k \<noteq> k' \<Longrightarrow> get_strs (omit_int k' y @ d) k vs = get_strs d k vs"
  "k \<noteq> k' \<Longrightarrow> get_strs (omit_strs k' z @ d) k vs = get_strs d k vs"
  "k \<noteq> k' \<Longrightarrow> get_favs (omit_str k' x @ d) k fs = get_favs d k fs"
  "k \<noteq> k' \<Longrightarrow> get_favs (omit_int k' y @ d) k fs = get_favs d k fs"
  "k \<noteq> k' \<Longrightarrow> get_favs (omit_strs k' z @ d) k fs = get_favs d k fs"
  "k \<noteq> k' \<Longrightarrow> get_coords (omit_str k' x @ d) k q = get_coords d k q"
  "k \<noteq> k' \<Longrightarrow> get_coords (omit_int k' y @ d) k q = get_coords d k q"
  "k \<noteq> k' \<Longrightarrow> get_coords (omit_strs k' z @ d) k q = get_coords d k q"
  by (simp_all add: omit_defs)

lemma get_omit_same [simp]:
  "get_str (omit_str k x @ d) k v = (if x = [] then get_str d k v else x)"
  "get_int (omit_int k y @ d) k w = (if y = 0 then get_int d k w else y)"
  "get_strs (omit_strs k z @ d) k vs = (if z = [] then get_strs d k vs else z)"
  by (simp_all add: omit_defs)

lemma get_omit_last [simp]:
  "k \<noteq> k' \<Longrightarrow> get_str (omit_coords k' c) k v = v"
  "k \<noteq> k' \<Longrightarrow> get_int (omit_coords k' c) k w = w"
  "k \<noteq> k' \<Longrightarrow> get_strs (omit_coords k' c) k vs = vs"
  "get_coords (omit_coords k c) k None = c"
  by (simp_all add: omit_defs split: option.splits)

lemma unmarshal_marshal: "unmarshal_settings (marshal_settings s) Default_settings = restored s"
proof -
  have "unmarshal_settings (marshal_settings s) Default_settings = \<lparr>
     se_WifiIp = se_WifiIp s, se_WifiPort = se_WifiPort s, se_CompanionPort = se_CompanionPort s,
     se_ConnectionMode = se_ConnectionMode s, se_OperationMode = se_OperationMode s,
     se_EveilMode = se_EveilMode s, se_EveilInterval = se_EveilInterval s,
     se_PreferredDriver = se_PreferredDriver s, se_UsbDriver = se_UsbDriver s, se_WifiDriver = se_WifiDriver s,
     se_FallbackEnabled = se_FallbackEnabled s, se_ServerIp = se_ServerIp s, se_PreferredIp = se_PreferredIp s,
     se_ManualTunnelMode = se_ManualTunnelMode s, se_ManualTunnelAddress = se_ManualTunnelAddress s,
     se_NetworkOnlyMode = se_NetworkOnlyMode s, se_ClusterMode = se_ClusterMode s,
     se_ClusterNodes = se_ClusterNodes s, se_ServerName = se_ServerName s,
     se_ClusterSyncCerts = se_ClusterSyncCerts s,
     se_HeartbeatSec = (if se_HeartbeatSec s = 0 then 10 else se_HeartbeatSec s),
     se_MasterDeadSec = (if se_MasterDeadSec s = 0 then 30 else se_MasterDeadSec s),
     se_PeerTimeoutSec = (if se_PeerTimeoutSec s = 0 then 3 else se_PeerTimeoutSec s),
     se_OsrmBaseURL = se_OsrmBaseURL s,
     se_RoutingMode = (if se_RoutingMode s = [] then ''auto'' else se_RoutingMode s),
     se_RoutingProvider = (if se_RoutingProvider s = [] then ''osrm'' else se_RoutingProvider s),
     se_RoutingPriority = (if se_RoutingPriority s = [] then [''google'', ''mapbox'', ''osrm'']
                           else se_RoutingPriority s),
     se_LogLevel = se_LogLevel s, se_Notifications = se_Notifications s,
     se_DynamicIsland = se_DynamicIsland s, se_Jitter = se_Jitter s,
     se_Favorites = se_Favorites s, se_History = se_History s, se_LastActive = se_LastActive s\<rparr>"
    by (simp add: unmarshal_settings_def marshal_settings_def Default_settings_def)
  also have "\<dots> = restored s"
    by (cases s) (simp add: restored_def)
  finally show ?thesis .
qed


text \<open>
  Saving the secrets is all or nothing: whichever statement fails, the transaction leaves the
  stored keys as they were; when none fails, loading gives back exactly what was saved, an empty
  key included (the explicit way to clear a secret), and no other row changes.
\<close>
theorem secrets_atomic:
  "case SaveSecrets fail s db of
     (Some _, db') \<Rightarrow> db' = db
   | (None, db') \<Rightarrow> LoadSecrets None db' = (s, None) \<and> db_settings db' = db_settings db \<and>
       (\<forall>k. k = ''googleRoutesApiKey'' \<or> k = ''mapboxAccessToken'' \<or> db_secrets db' k = db_secrets db k)"
  by (cases s) (simp add: SaveSecrets_def LoadSecrets_def saveSecret_def Let_def)

end
