(* ===== verification/Log_Service.thy ===== *)
theory Log_Service
  imports Domain
begin

text \<open>
  The in-memory log, \<open>internal/logging/service.go\<close>. The rendered message text is not modelled: an
  entry keeps its level, source, category, action and the values of its fields; \<open>LvErr\<close> stands for the
  text of the error at hand.
\<close>

datatype log_value = LvF f64 | LvS string | LvI int | LvB bool | LvErr

type_synonym log_fields = "(string \<times> log_value) list"

record log_entry =
  le_Timestamp :: int
  le_Level :: string
  le_Source :: string
  le_Category :: string
  le_Action :: string
  le_Fields :: log_fields

record log_service =
  lg_logs :: "log_entry list"
  lg_maxLogs :: nat

definition NewService :: "nat \<Rightarrow> log_service" where
  "NewService maxLogs = \<lparr>lg_logs = [], lg_maxLogs = maxLogs\<rparr>"

definition normalizeLevel :: "string \<Rightarrow> string" where
  "normalizeLevel level =
    (if level \<in> {''warn'', ''error'', ''debug'', ''console''} then level else ''info'')"

definition mk_entry :: "int \<Rightarrow> string \<Rightarrow> string \<Rightarrow> string \<Rightarrow> string \<Rightarrow> log_fields \<Rightarrow> log_entry" where
  "mk_entry now level source category action fs =
    \<lparr>le_Timestamp = now, le_Level = normalizeLevel level, le_Source = source, le_Category = category,
     le_Action = action, le_Fields = fs\<rparr>"

definition Log_Add :: "log_entry \<Rightarrow> log_service \<Rightarrow> log_service" where
  "Log_Add entry s =
    (let logs = lg_logs s @ [entry]
     in s\<lparr>lg_logs := (if lg_maxLogs s < length logs then drop (length logs - lg_maxLogs s) logs else logs)\<rparr>)"

definition Log_Get :: "log_service \<Rightarrow> log_entry list" where
  "Log_Get s = lg_logs s"

text \<open>The service of the engine keeps the 500 newest entries; the capacity never changes.\<close>

definition maxLogEntries :: nat where "maxLogEntries = 500"

lemma Log_Add_keep: "lg_logs (Log_Add e s) = keep_last (lg_maxLogs s) (lg_logs s @ [e])"
  by (simp add: Log_Add_def Let_def keep_last_def)

lemma Log_Add_cap [simp]: "lg_maxLogs (Log_Add e s) = lg_maxLogs s"
  by (simp add: Log_Add_def Let_def)

lemma normalizeLevel_idem [simp]: "normalizeLevel (normalizeLevel l) = normalizeLevel l"
  by (simp add: normalizeLevel_def)

text \<open>The buffer as an interface: a service whose capacity is \<open>n\<close>, read through its entries.\<close>

definition add_capped :: "nat \<Rightarrow> log_entry \<Rightarrow> log_service \<Rightarrow> log_service" where
  "add_capped n e s = Log_Add e (s\<lparr>lg_maxLogs := n\<rparr>)"

lemma add_capped_Log_Add: "lg_maxLogs s = n \<Longrightarrow> add_capped n e s = Log_Add e s"
  unfolding add_capped_def by (cases s) simp

interpretation lg: tail_buffer "add_capped n" lg_logs n for n
  by unfold_locales (simp add: add_capped_def Log_Add_keep)

lemma fold_Log_Add:
  "lg_maxLogs s = n \<Longrightarrow> fold Log_Add es s = fold (add_capped n) es s"
proof (induction es arbitrary: s)
  case (Cons e es)
  then show ?case by (simp add: add_capped_Log_Add)
qed simp

lemma lg_maxLogs_fold [simp]: "lg_maxLogs (fold Log_Add es s) = lg_maxLogs s"
  by (induction es arbitrary: s) auto

text \<open>
  The log buffer always holds the most recent entries: after any stream of entries a service
  created with capacity \<open>n\<close> returns the last \<open>n\<close> of them, in order, and never more.
\<close>
theorem log_keeps_newest:
  "Log_Get (fold Log_Add es (NewService n)) = drop (length es - n) es"
proof -
  have "lg_maxLogs (NewService n) = n" "lg_logs (NewService n) = []" by (simp_all add: NewService_def)
  then show ?thesis
    by (simp add: Log_Get_def fold_Log_Add [of "NewService n" n] lg.items_fold keep_last_drop)
qed

end
