(* ===== verification/Go_Net.thy ===== *)
theory Go_Net
  imports Go_Base
begin

text \<open>
  What the sources use of Go's packages \<open>strconv\<close> and \<open>net\<close>: decimal numbers, \<open>host:port\<close> pairs
  and IP literals. \<open>None\<close> stands for an error result.
\<close>

section \<open>strconv\<close>

definition digit_val :: "char \<Rightarrow> nat option" where
  "digit_val c = (let n = (of_char c :: nat) in if 48 \<le> n \<and> n \<le> 57 then Some (n - 48) else None)"

definition hex_val :: "char \<Rightarrow> nat option" where
  "hex_val c =
    (let n = (of_char c :: nat) in
     if 48 \<le> n \<and> n \<le> 57 then Some (n - 48)
     else if 97 \<le> n \<and> n \<le> 102 then Some (n - 87)
     else if 65 \<le> n \<and> n \<le> 70 then Some (n - 55) else None)"

fun digits_acc :: "(char \<Rightarrow> nat option) \<Rightarrow> nat \<Rightarrow> nat \<Rightarrow> string \<Rightarrow> nat option" where
  "digits_acc dig base n [] = Some n"
| "digits_acc dig base n (c # cs) =
    (case dig c of None \<Rightarrow> None | Some d \<Rightarrow> digits_acc dig base (base * n + d) cs)"

definition parse_nat :: "string \<Rightarrow> nat option" where
  "parse_nat s = (if s = [] then None else digits_acc digit_val 10 0 s)"

text \<open>\<open>strconv.Atoi\<close>: an optional sign, decimal digits, within 64 bits.\<close>

definition Atoi :: "string \<Rightarrow> int option" where
  "Atoi s =
    (let (neg, ds) = (case s of
           [] \<Rightarrow> (False, [])
         | c # cs \<Rightarrow> if c = CHR ''-'' then (True, cs) else if c = CHR ''+'' then (False, cs) else (False, s))
     in case parse_nat ds of
          None \<Rightarrow> None
        | Some n \<Rightarrow>
            (let v = (if neg then - int n else int n)
             in if - (2 ^ 63) \<le> v \<and> v < 2 ^ 63 then Some v else None))"

fun show_nat :: "nat \<Rightarrow> string" where
  "show_nat n = (if n < 10 then [char_of (48 + n)] else show_nat (n div 10) @ [char_of (48 + n mod 10)])"

declare show_nat.simps [simp del]

definition Itoa :: "int \<Rightarrow> string" where
  "Itoa i = (if i < 0 then CHR ''-'' # show_nat (nat (- i)) else show_nat (nat i))"

lemma digit_val_char [simp]: "d < 10 \<Longrightarrow> digit_val (char_of (48 + d)) = Some d"
  by (simp add: digit_val_def of_char_of)

lemma digits_acc_append:
  "digits_acc dig b n (xs @ ys) = (case digits_acc dig b n xs of None \<Rightarrow> None | Some m \<Rightarrow> digits_acc dig b m ys)"
  by (induction xs arbitrary: n) (auto split: option.splits)

lemma digits_show_nat: "digits_acc digit_val 10 0 (show_nat n) = Some n"
proof (induction n rule: show_nat.induct)
  case (1 n)
  show ?case
  proof (cases "n < 10")
    case True
    then have "digit_val (char_of (48 + n)) = Some n" by simp
    with True show ?thesis by (subst show_nat.simps) (simp del: digit_val_char)
  next
    case False
    then show ?thesis using 1 by (subst show_nat.simps) (simp add: digits_acc_append)
  qed
qed

lemma show_nat_nonempty [simp]: "show_nat n \<noteq> []"
  by (subst show_nat.simps) simp

lemma parse_show_nat [simp]: "parse_nat (show_nat n) = Some n"
  by (simp add: parse_nat_def digits_show_nat)

lemma show_nat_digits: "c \<in> set (show_nat n) \<Longrightarrow> digit_val c \<noteq> None"
proof (induction n rule: show_nat.induct)
  case (1 n)
  then show ?case
    by (subst (asm) (2) show_nat.simps) (auto split: if_splits)
qed

lemma show_nat_hd: "digit_val (hd (show_nat n)) \<noteq> None"
  by (rule show_nat_digits [of _ n]) simp

lemma Atoi_Itoa:
  assumes "- (2 ^ 63) \<le> i" "i < 2 ^ 63"
  shows "Atoi (Itoa i) = Some i"
proof (cases "i < 0")
  case True
  then show ?thesis using assms by (simp add: Atoi_def Itoa_def)
next
  case False
  obtain c cs where s: "show_nat (nat i) = c # cs" by (cases "show_nat (nat i)") auto
  have "digit_val c \<noteq> None" using show_nat_hd [of "nat i"] by (simp add: s)
  then have "c \<noteq> CHR ''-''" "c \<noteq> CHR ''+''" by (auto simp: digit_val_def)
  then show ?thesis using False assms parse_show_nat [of "nat i"]
    by (simp add: Atoi_def Itoa_def s del: parse_show_nat)
qed

lemma not_in_show_nat: "digit_val c = None \<Longrightarrow> c \<notin> set (show_nat n)"
  using show_nat_digits by blast

lemma Itoa_no_colon: "CHR '':'' \<notin> set (Itoa i)"
  by (simp add: Itoa_def not_in_show_nat digit_val_def)

lemma Itoa_no_bracket: "CHR ''['' \<notin> set (Itoa i)" "CHR '']'' \<notin> set (Itoa i)"
  by (simp_all add: Itoa_def not_in_show_nat digit_val_def)

section \<open>host:port\<close>

definition cut_last :: "char \<Rightarrow> string \<Rightarrow> (string \<times> string) option" where
  "cut_last c s = map_option (\<lambda>(a, b). (rev b, rev a)) (cut_on c (rev s))"

definition SplitHostPort :: "string \<Rightarrow> (string \<times> string) option" where
  "SplitHostPort s =
    (if s \<noteq> [] \<and> hd s = CHR ''['' then
       (case cut_on (CHR '']'') s of
          Some (br_host, c # port) \<Rightarrow>
            if c = CHR '':'' \<and> CHR '':'' \<notin> set port \<and> CHR ''['' \<notin> set (tl br_host @ port) \<and> CHR '']'' \<notin> set port
            then Some (tl br_host, port) else None
        | _ \<Rightarrow> None)
     else
       (case cut_last (CHR '':'') s of
          Some (host, port) \<Rightarrow>
            if CHR '':'' \<in> set host \<or> CHR ''['' \<in> set s \<or> CHR '']'' \<in> set s then None else Some (host, port)
        | None \<Rightarrow> None))"

definition JoinHostPort :: "string \<Rightarrow> string \<Rightarrow> string" where
  "JoinHostPort host port =
    (if CHR '':'' \<in> set host then ''['' @ host @ '']:'' @ port else host @ '':'' @ port)"

lemma cut_last_Some: "cut_last c s = Some (a, b) \<longleftrightarrow> s = a @ c # b \<and> c \<notin> set b"
proof -
  have "cut_last c s = Some (a, b) \<longleftrightarrow> cut_on c (rev s) = Some (rev b, rev a)"
    by (auto simp: cut_last_def)
  also have "\<dots> \<longleftrightarrow> rev s = rev b @ c # rev a \<and> c \<notin> set b" by (simp add: cut_on_Some)
  also have "rev s = rev b @ c # rev a \<longleftrightarrow> s = a @ c # b"
    by (metis append.assoc append_Cons append_Nil rev.simps(2) rev_append rev_rev_ident)
  finally show ?thesis .
qed

lemma Split_Join:
  assumes "CHR ''['' \<notin> set host" "CHR '']'' \<notin> set host"
    and "CHR '':'' \<notin> set port" "CHR ''['' \<notin> set port" "CHR '']'' \<notin> set port"
  shows "SplitHostPort (JoinHostPort host port) = Some (host, port)"
proof (cases "CHR '':'' \<in> set host")
  case True
  have "cut_on (CHR '']'') (CHR ''['' # host @ CHR '']'' # CHR '':'' # port) =
      Some (CHR ''['' # host, CHR '':'' # port)"
    using assms by (simp add: cut_on_Some)
  with True assms show ?thesis by (simp add: SplitHostPort_def JoinHostPort_def)
next
  case False
  then have "cut_last (CHR '':'') (host @ CHR '':'' # port) = Some (host, port)"
    using assms by (simp add: cut_last_Some)
  moreover have "\<not> (host @ CHR '':'' # port \<noteq> [] \<and> hd (host @ CHR '':'' # port) = CHR ''['')"
    using assms by (cases host) auto
  ultimately show ?thesis using False assms by (simp add: SplitHostPort_def JoinHostPort_def)
qed

section \<open>IP literals\<close>

text \<open>\<open>net.ParseIP\<close>: an IPv4 address is four bytes, an IPv6 address eight words.\<close>

datatype ip = IPv4 "nat list" | IPv6 "nat list"

definition v4_field :: "string \<Rightarrow> nat option" where
  "v4_field s =
    (if s = [] \<or> 3 < length s \<or> 1 < length s \<and> hd s = CHR ''0'' then None
     else case parse_nat s of Some n \<Rightarrow> if n \<le> 255 then Some n else None | None \<Rightarrow> None)"

definition v6_field :: "string \<Rightarrow> nat option" where
  "v6_field s = (if s = [] \<or> 4 < length s then None else digits_acc hex_val 16 0 s)"

fun all_some :: "'a option list \<Rightarrow> 'a list option" where
  "all_some [] = Some []"
| "all_some (None # xs) = None"
| "all_some (Some x # xs) = map_option ((#) x) (all_some xs)"

definition parse_v4 :: "string \<Rightarrow> nat list option" where
  "parse_v4 s = (let ps = split_on (CHR ''.'') s in if length ps = 4 then all_some (map v4_field ps) else None)"

text \<open>Words separated by colons; the last field may be an IPv4 address, which is two words.\<close>

fun v6_words :: "string list \<Rightarrow> nat list option" where
  "v6_words [] = Some []"
| "v6_words [f] =
    (case v6_field f of
       Some w \<Rightarrow> Some [w]
     | None \<Rightarrow> (case parse_v4 f of Some [a, b, c, d] \<Rightarrow> Some [256 * a + b, 256 * c + d] | _ \<Rightarrow> None))"
| "v6_words (f # fs) =
    (case v6_field f of None \<Rightarrow> None | Some w \<Rightarrow> map_option ((#) w) (v6_words fs))"

definition v6_side :: "string \<Rightarrow> nat list option" where
  "v6_side s = (if s = [] then Some [] else v6_words (split_on (CHR '':'') s))"

fun cut_double :: "string \<Rightarrow> (string \<times> string) option" where
  "cut_double (c # d # s) =
    (if c = CHR '':'' \<and> d = CHR '':'' then Some ([], s) else map_option (\<lambda>(a, b). (c # a, b)) (cut_double (d # s)))"
| "cut_double _ = None"

definition parse_v6 :: "string \<Rightarrow> nat list option" where
  "parse_v6 s =
    (case cut_double s of
       None \<Rightarrow> (case v6_side s of Some ws \<Rightarrow> if length ws = 8 then Some ws else None | None \<Rightarrow> None)
     | Some (l, r) \<Rightarrow>
         (if list_ex (\<lambda>c. c = CHR ''.'') l then None
          else case (v6_side l, v6_side r) of
            (Some a, Some b) \<Rightarrow>
              if length a + length b < 8 then Some (a @ replicate (8 - length a - length b) 0 @ b) else None
          | _ \<Rightarrow> None))"

definition ParseIP :: "string \<Rightarrow> ip option" where
  "ParseIP s =
    (if CHR '':'' \<in> set s then
       (case parse_v6 s of
          None \<Rightarrow> None
        | Some ws \<Rightarrow>
            if take 6 ws = [0, 0, 0, 0, 0, 65535]
            then Some (IPv4 [ws ! 6 div 256, ws ! 6 mod 256, ws ! 7 div 256, ws ! 7 mod 256])
            else Some (IPv6 ws))
     else map_option IPv4 (parse_v4 s))"

fun IsLoopback :: "ip \<Rightarrow> bool" where
  "IsLoopback (IPv4 b) = (hd b = 127)"
| "IsLoopback (IPv6 w) = (w = [0, 0, 0, 0, 0, 0, 0, 1])"

fun IsLinkLocalUnicast :: "ip \<Rightarrow> bool" where
  "IsLinkLocalUnicast (IPv4 b) = (take 2 b = [169, 254])"
| "IsLinkLocalUnicast (IPv6 w) = (hd w div 64 = 1018)"

text \<open>\<open>IP.IsPrivate\<close>: RFC 1918 and RFC 4193.\<close>

fun IsPrivate :: "ip \<Rightarrow> bool" where
  "IsPrivate (IPv4 b) = (hd b = 10 \<or> hd b = 172 \<and> b ! 1 div 16 = 1 \<or> take 2 b = [192, 168])"
| "IsPrivate (IPv6 w) = (hd w div 512 = 126)"

lemmas ip_defs = ParseIP_def parse_v4_def parse_v6_def v6_side_def v6_field_def v4_field_def
  parse_nat_def hex_val_def digit_val_def

lemma ParseIP_v4_loopback: "ParseIP ''127.0.0.1'' = Some (IPv4 [127, 0, 0, 1])"
  by (simp add: ip_defs)

lemma ParseIP_v6_loopback: "ParseIP ''::1'' = Some (IPv6 [0, 0, 0, 0, 0, 0, 0, 1])"
proof -
  have "replicate 7 (0::nat) = [0, 0, 0, 0, 0, 0, 0]" by (simp add: numeral_eq_Suc)
  then show ?thesis by (simp add: ip_defs)
qed

lemma ParseIP_name: "ParseIP ''localhost'' = None"
  by (simp add: ip_defs)

end
