(* ===== verification/Driver_Base.thy ===== *)
theory Driver_Base
  imports Log_Service Go_Net "HOL-Library.Multiset" "HOL-Library.List_Lexorder" "HOL-Library.Char_ord"
begin

text \<open>
  The parts of \<open>internal/driver\<close> shared by every backend: the types of \<open>driver.go\<close>, the transport
  classification, the endpoint constructor, the registry of backends, the start budget and the
  developer-image mount gate. Times and durations are milliseconds; the zero \<open>time.Time\<close> is \<open>None\<close>.
\<close>

section \<open>driver.go\<close>

definition ProbeTimeout :: int where "ProbeTimeout = 10 * 1000"

record tunnel_info =
  ti_Address :: string
  ti_Port :: int
  ti_Type :: connection_type
  ti_Since :: int
  ti_UserspacePort :: int

record device =
  dv_UDID :: string
  dv_Name :: string
  dv_Source :: string

record network_device =
  nd_UDID :: string
  nd_Address :: string
  nd_Port :: int
  nd_UserspacePort :: int

record device_details =
  dd_UDID :: string
  dd_Name :: string
  dd_ProductType :: string
  dd_ProductVersion :: string
  dd_SerialNumber :: string
  dd_WifiAddress :: string
  dd_TunnelAddress :: string

record device_state =
  ds_DeveloperMode :: "bool option"
  ds_ImageMounted :: "bool option"

definition NormalizeSource :: "string \<Rightarrow> string" where
  "NormalizeSource raw =
    (let s = ToLower (TrimSpace raw) in
     if s = ''usb'' then ''usb''
     else if s = ''network'' \<or> s = ''wifi'' then ''wifi''
     else if s = [] then ''usbmux'' else s)"

text \<open>The error a backend reports; \<open>ctx\<close> errors are a case of their own.\<close>

datatype driver_error =
    DriverError string
  | Cancelled
  | BadManualAddress string
  | BadManualPort string
  | UnknownDriver driver_id "driver_id list"
  | DaemonExited "string list"
  | StartTimedOut "string list"
  | MissingStarter
  | MissingResolver

section \<open>transport.go\<close>

datatype transport_kind = TransportAuto | TransportUSB | TransportWiFi

fun transport_String :: "transport_kind \<Rightarrow> string" where
  "transport_String TransportUSB = ''USB''"
| "transport_String TransportWiFi = ''WiFi''"
| "transport_String TransportAuto = ''Auto''"

definition Classify :: "string \<Rightarrow> connection_type" where
  "Classify address =
    (let host = (case SplitHostPort address of Some (h, _) \<Rightarrow> h | None \<Rightarrow> address);
         host = ToLower (TrimSpace host);
         host = (case cut_on (CHR ''%'') host of Some (h, _) \<Rightarrow> h | None \<Rightarrow> host)
     in if host = [] then ConnUnknown
        else if host = ''::1'' \<or> host = ''127.0.0.1'' \<or> HasPrefix host ''fe80'' then ConnUSB
        else (case ParseIP host of
                Some a \<Rightarrow> if IsLoopback a \<or> IsLinkLocalUnicast a then ConnUSB else ConnWiFi
              | None \<Rightarrow> ConnWiFi))"

definition ParseManual :: "int \<Rightarrow> string \<Rightarrow> driver_error + tunnel_info" where
  "ParseManual now addr =
    (case SplitHostPort addr of
       None \<Rightarrow> Inl (BadManualAddress addr)
     | Some (host, portStr) \<Rightarrow>
         (case Atoi portStr of
            None \<Rightarrow> Inl (BadManualPort addr)
          | Some port \<Rightarrow> Inr \<lparr>ti_Address = host, ti_Port = port, ti_Type = Classify host, ti_Since = now,
                              ti_UserspacePort = 0\<rparr>))"

section \<open>endpoint.go\<close>

record tunnel_endpoint =
  te_Info :: tunnel_info
  te_UDID :: string

definition NewTunnelEndpoint :: "int \<Rightarrow> string \<Rightarrow> int \<Rightarrow> string \<Rightarrow> tunnel_endpoint option" where
  "NewTunnelEndpoint now address port udid =
    (let address = TrimSpace address in
     if address = [] \<or> port \<le> 0 then None
     else Some \<lparr>te_Info = \<lparr>ti_Address = address, ti_Port = port, ti_Type = Classify address, ti_Since = now,
                           ti_UserspacePort = 0\<rparr>,
               te_UDID = TrimSpace udid\<rparr>)"

section \<open>budget.go\<close>

definition prepBudget :: int where "prepBudget = 75 * 1000"
definition startAttempts :: int where "startAttempts = 2"

definition StartBudget :: "int \<Rightarrow> int" where
  "StartBudget perAttempt =
    (let perAttempt = (if perAttempt \<le> 0 then 60 * 1000 else perAttempt)
     in prepBudget + startAttempts * perAttempt)"

section \<open>registry.go\<close>

record driver_config =
  dc_Transport :: transport_kind
  dc_BinaryPaths :: "string \<rightharpoonup> string"
  dc_ManualAddress :: string
  dc_TargetUDID :: string
  dc_DaemonAPIPort :: int
  dc_StartTimeout :: int

datatype capability = CapTunnelReresolve | CapDeviceInfo | CapNetworkDevices | CapPairing

record provider_info =
  pi_ID :: driver_id
  pi_Name :: string
  pi_Capabilities :: "capability list"

text \<open>A Go map from ids: an association list without repeated keys.\<close>

type_synonym 'd factory = "driver_config \<Rightarrow> driver_error + 'd"

record 'd driver_registry =
  dr_factories :: "(driver_id \<times> 'd factory) list"
  dr_infos :: "(driver_id \<times> provider_info) list"

definition put :: "'k \<Rightarrow> 'v \<Rightarrow> ('k \<times> 'v) list \<Rightarrow> ('k \<times> 'v) list" where
  "put k v m = (k, v) # filter (\<lambda>(k', _). k' \<noteq> k) m"

definition RegisterWithInfo :: "provider_info \<Rightarrow> 'd factory \<Rightarrow> 'd driver_registry \<Rightarrow> 'd driver_registry" where
  "RegisterWithInfo info f r =
    (let info = (if pi_Name info = [] then info\<lparr>pi_Name := pi_ID info\<rparr> else info)
     in r\<lparr>dr_factories := put (pi_ID info) f (dr_factories r), dr_infos := put (pi_ID info) info (dr_infos r)\<rparr>)"

definition Register :: "driver_id \<Rightarrow> 'd factory \<Rightarrow> 'd driver_registry \<Rightarrow> 'd driver_registry" where
  "Register i f r = RegisterWithInfo \<lparr>pi_ID = i, pi_Name = i, pi_Capabilities = []\<rparr> f r"

definition Available :: "'d driver_registry \<Rightarrow> driver_id list" where
  "Available r = sort (map fst (dr_factories r))"

definition AvailableInfo :: "'d driver_registry \<Rightarrow> provider_info list" where
  "AvailableInfo r = sort_key pi_ID (map snd (dr_infos r))"

definition New_driver :: "'d driver_registry \<Rightarrow> driver_id \<Rightarrow> driver_config \<Rightarrow> driver_error + 'd" where
  "New_driver r i cfg =
    (case map_of (dr_factories r) i of
       None \<Rightarrow> Inl (UnknownDriver i (Available r))
     | Some f \<Rightarrow> f cfg)"

definition wf_registry :: "'d driver_registry \<Rightarrow> bool" where
  "wf_registry r \<longleftrightarrow>
     distinct (map fst (dr_factories r)) \<and> distinct (map fst (dr_infos r)) \<and>
     set (map fst (dr_factories r)) = set (map fst (dr_infos r)) \<and>
     (\<forall>(i, info) \<in> set (dr_infos r). pi_ID info = i)"

lemma put_simps:
  "map fst (put k v m) = k # filter (\<lambda>k'. k' \<noteq> k) (map fst m)"
  "set (put k v m) = insert (k, v) {x \<in> set m. fst x \<noteq> k}"
  by (auto simp: put_def filter_map comp_def split_def)

lemma map_of_put: "map_of (put k v m) i = (if i = k then Some v else map_of m i)"
proof (cases "i = k")
  case False
  have "map_of (filter (\<lambda>(k', _). k' \<noteq> k) m) i = map_of m i"
    using False by (induction m) auto
  with False show ?thesis by (simp add: put_def)
qed (simp add: put_def)

lemma wf_RegisterWithInfo: "wf_registry r \<Longrightarrow> wf_registry (RegisterWithInfo info f r)"
  unfolding wf_registry_def RegisterWithInfo_def Let_def
  by (auto simp: put_simps)

lemma wf_empty_registry: "wf_registry \<lparr>dr_factories = [], dr_infos = []\<rparr>"
  by (simp add: wf_registry_def)

lemma Available_set: "set (Available r) = dom (map_of (dr_factories r))"
  by (simp add: Available_def dom_map_of_conv_image_fst)

definition register_all :: "(provider_info \<times> 'd factory) list \<Rightarrow> 'd driver_registry \<Rightarrow> 'd driver_registry" where
  "register_all regs r = fold (\<lambda>(info, f). RegisterWithInfo info f) regs r"

lemma wf_register_all: "wf_registry r \<Longrightarrow> wf_registry (register_all regs r)"
  unfolding register_all_def by (induction regs arbitrary: r) (auto intro: wf_RegisterWithInfo)

lemma Available_register_all:
  "set (Available (register_all regs r)) = pi_ID ` fst ` set regs \<union> set (Available r)"
  unfolding register_all_def Available_set
proof (induction regs arbitrary: r)
  case (Cons x regs)
  obtain info f where x: "x = (info, f)" by (cases x)
  have "dom (map_of (dr_factories (RegisterWithInfo info f r))) = insert (pi_ID info) (dom (map_of (dr_factories r)))"
    by (auto simp: RegisterWithInfo_def Let_def map_of_put dom_def)
  with Cons x show ?case by simp
qed simp

lemma AvailableInfo_ids: "wf_registry r \<Longrightarrow> map pi_ID (AvailableInfo r) = Available r"
proof -
  assume w: "wf_registry r"
  have "map pi_ID (map snd (dr_infos r)) = map fst (dr_infos r)"
    using w by (auto simp: wf_registry_def)
  moreover have "map pi_ID (sort_key pi_ID xs) = sort (map pi_ID xs)" for xs :: "provider_info list"
    by (rule properties_for_sort [symmetric]) simp_all
  moreover have "sort (map fst (dr_infos r)) = sort (map fst (dr_factories r))"
    using w by (auto simp: wf_registry_def intro!: sorted_distinct_set_unique)
  ultimately show ?thesis by (simp only: AvailableInfo_def Available_def)
qed

lemma New_driver_unknown: "i \<notin> set (Available r) \<Longrightarrow> New_driver r i cfg = Inl (UnknownDriver i (Available r))"
  by (auto simp: New_driver_def Available_set dom_def split: option.splits)

section \<open>mountgate.go\<close>

record mount_gate =
  mg_udid :: string
  mg_seen :: "int option"

definition MountGateTTL :: int where "MountGateTTL = 5 * 60 * 1000"

definition gate_zero :: mount_gate where "gate_zero = \<lparr>mg_udid = [], mg_seen = None\<rparr>"

definition Gate_Mounted :: "int \<Rightarrow> string \<Rightarrow> mount_gate \<Rightarrow> bool" where
  "Gate_Mounted now udid g =
    (case mg_seen g of None \<Rightarrow> False | Some seen \<Rightarrow> mg_udid g = udid \<and> now - seen < MountGateTTL)"

definition MarkMounted :: "int \<Rightarrow> string \<Rightarrow> mount_gate \<Rightarrow> mount_gate" where
  "MarkMounted now udid g = g\<lparr>mg_udid := udid, mg_seen := Some now\<rparr>"

definition Gate_Forget :: "mount_gate \<Rightarrow> mount_gate" where
  "Gate_Forget g = g\<lparr>mg_udid := [], mg_seen := None\<rparr>"

text \<open>A history of the gate: what was observed when.\<close>

datatype gate_event = GMark int string | GForget

fun gate_step :: "gate_event \<Rightarrow> mount_gate \<Rightarrow> mount_gate" where
  "gate_step (GMark now udid) g = MarkMounted now udid g"
| "gate_step GForget g = Gate_Forget g"

text \<open>
  The gate trusts only what was observed: it reports the image mounted for a device exactly
  when the last thing that happened to it is a successful observation of that very device, less
  than five minutes ago.
\<close>
theorem mount_gate_trusts_last_observation:
  "Gate_Mounted now udid (fold gate_step es gate_zero) =
   (es \<noteq> [] \<and> (\<exists>seen. last es = GMark seen udid \<and> now - seen < 5 * 60 * 1000))"
proof (cases es rule: rev_cases)
  case Nil
  then show ?thesis by (simp add: Gate_Mounted_def gate_zero_def)
next
  case (snoc fs e)
  then show ?thesis
    by (cases e) (auto simp: Gate_Mounted_def MarkMounted_def Gate_Forget_def MountGateTTL_def)
qed

text \<open>
  The registry is the runtime menu: after any registrations the listed ids are exactly those a
  driver can be built for, sorted and without repetition, and asking for any other id is an error
  that carries this list.
\<close>
theorem registry_menu:
  "let r = register_all regs \<lparr>dr_factories = [], dr_infos = []\<rparr>
   in sorted (Available r) \<and> distinct (Available r) \<and> map pi_ID (AvailableInfo r) = Available r \<and>
      set (Available r) = pi_ID ` fst ` set regs \<and>
      (\<forall>i cfg. i \<in> pi_ID ` fst ` set regs \<or> New_driver r i cfg = Inl (UnknownDriver i (Available r)))"
proof -
  define r where "r = register_all regs \<lparr>dr_factories = [], dr_infos = []\<rparr>"
  have w: "wf_registry r" unfolding r_def by (intro wf_register_all wf_empty_registry)
  have k: "set (Available r) = pi_ID ` fst ` set regs"
    unfolding r_def Available_register_all by (simp add: Available_def)
  have "sorted (Available r)" "distinct (Available r)"
    using w by (auto simp: Available_def wf_registry_def)
  moreover have "i \<in> pi_ID ` fst ` set regs \<or> New_driver r i cfg = Inl (UnknownDriver i (Available r))" for i cfg
    unfolding k [symmetric] using New_driver_unknown by metis
  ultimately show ?thesis
    unfolding Let_def r_def [symmetric] using k AvailableInfo_ids [OF w] by simp
qed

end
