(* ===== verification/Engine_State.thy ===== *)
theory Engine_State
  imports Settings_Store Driver_Base
begin

text \<open>
  The state of the engine (\<open>internal/engine/engine.go\<close>) and what every operation uses: the driver
  behind its pointer, the broadcast of events, the log, the tunnel-health block and the counters.

  An operation is a function on the state; what the machine supplies during it (the clock, random
  numbers, the network, the outcome of a write) is the record \<open>world\<close>. A driver is an abstract
  state with the operations of the interface \<open>driver.Driver\<close>; \<open>en_drv\<close> is the pointer, so that two
  drivers with equal states are still two drivers. A simulation goroutine is an entry of \<open>en_sims\<close>
  and its context an id, cancelled when in \<open>en_cancelled\<close>. Emitted events are appended to \<open>en_out\<close>,
  each STATUS with the snapshot that was taken.
\<close>

section \<open>Cluster tuning\<close>

text \<open>\<open>time.Duration\<close> is a 64-bit count of nanoseconds.\<close>

definition wrap64 :: "int \<Rightarrow> int" where
  "wrap64 x = (x + 2 ^ 63) mod 2 ^ 64 - 2 ^ 63"

definition seconds :: "int \<Rightarrow> int" where
  "seconds n = wrap64 (n * 1000000000)"

record tuning =
  tu_heartbeat :: int
  tu_masterDead :: int
  tu_peerTimeout :: int

definition SetTuning :: "int \<Rightarrow> int \<Rightarrow> int \<Rightarrow> tuning \<Rightarrow> tuning" where
  "SetTuning heartbeat masterDead peerTimeout t =
    \<lparr>tu_heartbeat = (if 0 < heartbeat then heartbeat else tu_heartbeat t),
     tu_masterDead = (if 0 < masterDead then masterDead else tu_masterDead t),
     tu_peerTimeout = (if 0 < peerTimeout then peerTimeout else tu_peerTimeout t)\<rparr>"

definition GetTuning :: "tuning \<Rightarrow> int \<times> int \<times> int" where
  "GetTuning t = (tu_heartbeat t, tu_masterDead t, tu_peerTimeout t)"

lemma wrap64_id: "- (2 ^ 63) \<le> x \<Longrightarrow> x < 2 ^ 63 \<Longrightarrow> wrap64 x = x"
  by (simp add: wrap64_def)

section \<open>Drivers\<close>

record 'd driver_ops =
  op_ID :: "'d \<Rightarrow> driver_id"
  op_StartTunnel :: "int \<Rightarrow> 'd \<Rightarrow> (driver_error + tunnel_info) \<times> 'd"
  op_StopTunnel :: "'d \<Rightarrow> driver_error option \<times> 'd"
  op_SetLocation :: "f64 \<Rightarrow> f64 \<Rightarrow> 'd \<Rightarrow> driver_error option \<times> 'd"
  op_ClearLocation :: "'d \<Rightarrow> driver_error option \<times> 'd"
  op_CheckHealth :: "'d \<Rightarrow> bool \<times> 'd"
  op_Reresolve :: "'d \<Rightarrow> ((tunnel_info \<times> bool \<times> bool) \<times> 'd) option"
  op_DeviceDetails :: "'d \<Rightarrow> ((driver_error + device_details) \<times> 'd) option"
  op_Pair :: "'d \<Rightarrow> (driver_error option \<times> 'd) option"
  op_ListNetwork :: "'d \<Rightarrow> ((driver_error + network_device list) \<times> 'd) option"

text \<open>The optional interfaces are \<open>None\<close> where a driver does not implement them.\<close>

record 'd world =
  w_now :: int
  w_fpu :: fpu
  w_net :: net
  w_ops :: "'d driver_ops"
  w_drivers :: "'d driver_registry"
  w_storeFail :: "nat option"
  w_secretFail :: "nat option"
  w_gpx :: "string \<Rightarrow> gpx_doc option"
  w_rand :: "nat \<Rightarrow> real"
  w_osrmEnv :: string
  w_googleEnv :: string
  w_googleEnv2 :: string
  w_mapboxEnv :: string
  w_env :: env_info
  w_killPmd3 :: "driver_error option"
  w_restartMdns :: "driver_error option"

section \<open>The engine\<close>

record engine_metrics =
  em_injectionsOK :: "64 word"
  em_injectionsFailed :: "64 word"
  em_tunnelStarts :: "64 word"
  em_tunnelStartFailures :: "64 word"
  em_tunnelReresolves :: "64 word"
  em_tunnelRestarts :: "64 word"
  em_lastStartNanos :: int

definition zero_metrics :: engine_metrics where
  "zero_metrics = \<lparr>em_injectionsOK = 0, em_injectionsFailed = 0, em_tunnelStarts = 0, em_tunnelStartFailures = 0,
     em_tunnelReresolves = 0, em_tunnelRestarts = 0, em_lastStartNanos = 0\<rparr>"

datatype event =
    EvStatus status
  | EvAck f64 f64 int
  | EvLocation f64 f64 string
  | EvRouteFinished int
  | EvLog log_entry

datatype sim_proc =
    RouteInit plan
  | RouteLoop plan nat
  | PatrolInit patrol_zone
  | PatrolLoop patrol_zone latlon "latlon option"
  | SimDone

record cluster_view =
  cv_Role :: string
  cv_Mode :: string
  cv_Peers :: "cluster_peer_info list"
  cv_SyncCerts :: bool

record 'd engine =
  en_drv :: nat
  en_drivers :: "nat \<Rightarrow> 'd"
  en_nextDrv :: nat
  en_st :: status
  en_wired :: bool
  en_out :: "event list"
  en_cancelSim :: "nat option"
  en_simPaused :: bool
  en_sims :: "nat \<Rightarrow> sim_proc"
  en_cancelled :: "nat set"
  en_nextSim :: nat
  en_activeStart :: bool
  en_generation :: "64 word"
  en_driftFailures :: nat
  en_lastReinjection :: "int option"
  en_log :: log_service
  en_driverCfg :: driver_config
  en_cluster :: "cluster_view option"
  en_clusterUpdates :: "(string \<times> string list \<times> bool) list"
  en_tuning :: tuning
  en_registry :: "provider registry"
  en_hasStore :: bool
  en_hasSecretStore :: bool
  en_db :: sql_db
  en_healthReset :: bool
  en_metrics :: engine_metrics

datatype engine_error =
    TunnelStarting
  | FromDriver driver_error
  | Unsupported driver_id
  | NoPointsToPlay
  | NoGpxPoints

section \<open>Events, log and status\<close>

definition emit :: "event \<Rightarrow> 'd engine \<Rightarrow> 'd engine" where
  "emit ev e = (if en_wired e then e\<lparr>en_out := en_out e @ [ev]\<rparr> else e)"

definition OnEvent :: "'d engine \<Rightarrow> 'd engine" where
  "OnEvent e = e\<lparr>en_wired := True\<rparr>"

definition emitStatus :: "'d engine \<Rightarrow> 'd engine" where
  "emitStatus e = emit (EvStatus (en_st e)) e"

definition LogEvent :: "'d world \<Rightarrow> string \<Rightarrow> string \<Rightarrow> string \<Rightarrow> string \<Rightarrow> log_fields \<Rightarrow> 'd engine \<Rightarrow> 'd engine" where
  "LogEvent w level source category action fs e =
    (let entry = mk_entry (w_now w) level source category action fs
     in emit (EvLog entry) (e\<lparr>en_log := Log_Add entry (en_log e)\<rparr>))"

definition Log :: "'d world \<Rightarrow> string \<Rightarrow> string \<Rightarrow> 'd engine \<Rightarrow> 'd engine" where
  "Log w level source e = LogEvent w level source '''' '''' [] e"

definition LogDebug :: "'d world \<Rightarrow> string \<Rightarrow> 'd engine \<Rightarrow> 'd engine" where
  "LogDebug w source e = LogEvent w ''debug'' source '''' '''' [] e"

definition LogConsole :: "'d world \<Rightarrow> string \<Rightarrow> 'd engine \<Rightarrow> 'd engine" where
  "LogConsole w source e = LogEvent w ''console'' source '''' '''' [] e"

definition GetLogs :: "'d engine \<Rightarrow> log_entry list" where
  "GetLogs e = Log_Get (en_log e)"

definition Status :: "'d engine \<Rightarrow> status" where
  "Status e =
    (case en_cluster e of
       None \<Rightarrow> en_st e
     | Some v \<Rightarrow> (en_st e)\<lparr>st_Cluster := Some \<lparr>ci_Role = cv_Role v, ci_Mode = cv_Mode v, ci_Peers = cv_Peers v\<rparr>\<rparr>)"

definition SetClusterManager :: "cluster_view option \<Rightarrow> 'd engine \<Rightarrow> 'd engine" where
  "SetClusterManager v e = e\<lparr>en_cluster := v\<rparr>"

definition SetDriverConfigBase :: "driver_config \<Rightarrow> 'd engine \<Rightarrow> 'd engine" where
  "SetDriverConfigBase cfg e = e\<lparr>en_driverCfg := cfg\<rparr>"

definition TunnelActive :: "'d engine \<Rightarrow> bool" where
  "TunnelActive e = st_TunnelActive (en_st e)"

definition TunnelStartBudget :: "'d engine \<Rightarrow> int" where
  "TunnelStartBudget e = StartBudget (dc_StartTimeout (en_driverCfg e))"

definition upd_st :: "(status \<Rightarrow> status) \<Rightarrow> 'd engine \<Rightarrow> 'd engine" where
  "upd_st f e = e\<lparr>en_st := f (en_st e)\<rparr>"

definition upd_metrics :: "(engine_metrics \<Rightarrow> engine_metrics) \<Rightarrow> 'd engine \<Rightarrow> 'd engine" where
  "upd_metrics f e = e\<lparr>en_metrics := f (en_metrics e)\<rparr>"

definition updateTunnelHealth :: "(tunnel_health \<Rightarrow> tunnel_health) \<Rightarrow> 'd engine \<Rightarrow> 'd engine" where
  "updateTunnelHealth f e =
    (let th = (case st_TunnelHealth (en_st e) of Some th \<Rightarrow> th | None \<Rightarrow> zero_health)
     in upd_st (\<lambda>st. st\<lparr>st_TunnelHealth := Some (f th)\<rparr>) e)"

definition ResetHealthBackoff :: "'d engine \<Rightarrow> 'd engine" where
  "ResetHealthBackoff e = e\<lparr>en_healthReset := True\<rparr>"

section \<open>The current driver\<close>

definition driver :: "'d engine \<Rightarrow> 'd" where
  "driver e = en_drivers e (en_drv e)"

definition set_driver :: "nat \<Rightarrow> 'd \<Rightarrow> 'd engine \<Rightarrow> 'd engine" where
  "set_driver p d e = e\<lparr>en_drivers := (en_drivers e)(p := d)\<rparr>"

definition driverSetLocation :: "'d world \<Rightarrow> f64 \<Rightarrow> f64 \<Rightarrow> 'd engine \<Rightarrow> driver_error option \<times> 'd engine" where
  "driverSetLocation w lat lon e =
    (let (err, d) = op_SetLocation (w_ops w) lat lon (driver e);
         e = set_driver (en_drv e) d e;
         e = upd_metrics (\<lambda>m. case err of
               Some _ \<Rightarrow> m\<lparr>em_injectionsFailed := em_injectionsFailed m + 1\<rparr>
             | None \<Rightarrow> m\<lparr>em_injectionsOK := em_injectionsOK m + 1\<rparr>) e
     in (err, updateTunnelHealth (\<lambda>th. case err of
               Some _ \<Rightarrow> th\<lparr>th_failures := th_failures th + 1\<rparr>
             | None \<Rightarrow> th\<lparr>th_lastInjectionOkAt := w_now w, th_failures := 0\<rparr>) e))"

definition GetDeviceInfo :: "'d world \<Rightarrow> 'd engine \<Rightarrow> (engine_error + device_details) \<times> 'd engine" where
  "GetDeviceInfo w e =
    (case op_DeviceDetails (w_ops w) (driver e) of
       None \<Rightarrow> (Inl (Unsupported (op_ID (w_ops w) (driver e))), e)
     | Some (r, d) \<Rightarrow>
         (case r of Inl err \<Rightarrow> Inl (FromDriver err) | Inr x \<Rightarrow> Inr x, set_driver (en_drv e) d e))"

definition PairDevice :: "'d world \<Rightarrow> 'd engine \<Rightarrow> engine_error option \<times> 'd engine" where
  "PairDevice w e =
    (let drv = op_ID (w_ops w) (driver e) in
     case op_Pair (w_ops w) (driver e) of
       None \<Rightarrow> (Some (Unsupported drv), e)
     | Some (err, d) \<Rightarrow>
         (let e = set_driver (en_drv e) d e in
          case err of
            Some x \<Rightarrow> (Some (FromDriver x), LogEvent w ''error'' ''tunnel'' ''pairing'' ''pair'' [(''driver'', LvS drv), (''error'', LvErr)] e)
          | None \<Rightarrow> (None, LogEvent w ''info'' ''tunnel'' ''pairing'' ''pair'' [(''driver'', LvS drv)] e)))"

definition ListNetworkDevices :: "'d world \<Rightarrow> 'd engine \<Rightarrow> (engine_error + network_device list) \<times> 'd engine" where
  "ListNetworkDevices w e =
    (case op_ListNetwork (w_ops w) (driver e) of
       None \<Rightarrow> (Inl (Unsupported (op_ID (w_ops w) (driver e))), e)
     | Some (r, d) \<Rightarrow>
         (case r of Inl err \<Rightarrow> Inl (FromDriver err) | Inr x \<Rightarrow> Inr x, set_driver (en_drv e) d e))"

end
