(* ===== verification/Engine_Location.thy ===== *)
theory Engine_Location
  imports Engine_State
begin

text \<open>
  Positions (\<open>internal/engine/engine.go\<close>): injection, history, clearing, the companion's heartbeat,
  the anti-drift shield and the relance of a held position.
\<close>

section \<open>History\<close>

definition maxHistoryEntries :: nat where "maxHistoryEntries = 20"

definition push :: "f64 \<Rightarrow> f64 \<Rightarrow> string \<Rightarrow> int \<Rightarrow> history_entry list \<Rightarrow> history_entry list" where
  "push lat lon name now hs =
    (if hs \<noteq> [] \<and> feq (fav_lat (hd hs)) lat \<and> feq (fav_lon (hd hs)) lon then hs
     else take maxHistoryEntries (\<lparr>fav_lat = lat, fav_lon = lon, fav_name = name, fav_time = now\<rparr> # hs))"

definition pushHistory :: "f64 \<Rightarrow> f64 \<Rightarrow> string \<Rightarrow> int \<Rightarrow> 'd engine \<Rightarrow> 'd engine" where
  "pushHistory lat lon name now e = upd_st (\<lambda>st. st\<lparr>st_History := push lat lon name now (st_History st)\<rparr>) e"

section \<open>Injection\<close>

definition set_fields :: "f64 \<Rightarrow> f64 \<Rightarrow> string \<Rightarrow> bool \<Rightarrow> log_fields" where
  "set_fields lat lon name recordHistory =
    [(''lat'', LvF lat), (''lon'', LvF lon), (''name'', LvS name), (''recordHistory'', LvB recordHistory), (''error'', LvErr)]"

definition injectLocation ::
  "'d world \<Rightarrow> f64 \<Rightarrow> f64 \<Rightarrow> string \<Rightarrow> bool \<Rightarrow> 'd engine \<Rightarrow> engine_error option \<times> 'd engine" where
  "injectLocation w lat lon name recordHistory e =
    (if st_State (en_st e) = Starting \<and> \<not> st_TunnelActive (en_st e) then
       (Some TunnelStarting,
        LogEvent w ''warn'' ''engine'' ''location'' ''set'' (set_fields lat lon name recordHistory) e)
     else
       let (err, e) = driverSetLocation w lat lon e in
       case err of
         Some x \<Rightarrow>
           (Some (FromDriver x),
            LogEvent w ''error'' ''engine'' ''location'' ''set'' (set_fields lat lon name recordHistory) e)
       | None \<Rightarrow>
           (let now = w_now w;
                e = upd_st (\<lambda>st. st\<lparr>st_LastInjected := Some \<lparr>ls_lat = lat, ls_lon = lon, ls_name = name, ls_time = now\<rparr>,
                                   st_State := Running\<rparr>) e;
                e = (if recordHistory then pushHistory lat lon name now e else e);
                st = en_st e;
                e = emit (EvAck lat lon now) e;
                e = emit (EvLocation lat lon name) e;
                e = emit (EvStatus st) e
            in (None,
                if recordHistory
                then LogEvent w ''info'' ''engine'' ''location'' ''set''
                       [(''lat'', LvF lat), (''lon'', LvF lon), (''name'', LvS name)] e
                else e)))"

definition SetLocation :: "'d world \<Rightarrow> f64 \<Rightarrow> f64 \<Rightarrow> string \<Rightarrow> 'd engine \<Rightarrow> engine_error option \<times> 'd engine" where
  "SetLocation w lat lon name e = injectLocation w lat lon name True e"

definition simSetLocation :: "'d world \<Rightarrow> f64 \<Rightarrow> f64 \<Rightarrow> string \<Rightarrow> 'd engine \<Rightarrow> engine_error option \<times> 'd engine" where
  "simSetLocation w lat lon name e = injectLocation w lat lon name False e"

definition ClearLocation :: "'d world \<Rightarrow> 'd engine \<Rightarrow> engine_error option \<times> 'd engine" where
  "ClearLocation w e =
    (let (err, d) = op_ClearLocation (w_ops w) (driver e);
         e = set_driver (en_drv e) d e
     in case err of
          Some x \<Rightarrow> (Some (FromDriver x),
            LogEvent w ''error'' ''engine'' ''location'' ''clear'' [(''error'', LvErr)] e)
        | None \<Rightarrow>
            (let e = upd_st (\<lambda>st. st\<lparr>st_LastInjected := None,
                                    st_State := (if st_TunnelActive st then Ready else Idle)\<rparr>) e;
                 st = en_st e;
                 e = emit (EvAck (Fin 0) (Fin 0) (w_now w)) e;
                 e = emit (EvStatus st) e
             in (None, LogEvent w ''info'' ''engine'' ''location'' ''clear'' [] e)))"

record heartbeat_payload =
  hb_IsMaintaining :: bool
  hb_Latitude :: f64
  hb_Longitude :: f64
  hb_Timestamp :: int

definition Heartbeat :: "'d world \<Rightarrow> heartbeat_payload \<Rightarrow> 'd engine \<Rightarrow> int \<times> 'd engine" where
  "Heartbeat w p e =
    (w_now w, upd_st (\<lambda>st. st\<lparr>st_MaintainActive := hb_IsMaintaining p, st_LastHeartbeat := w_now w\<rparr>) e)"

section \<open>The anti-drift shield\<close>

definition driftThresholdMeters :: real where "driftThresholdMeters = 100"
definition driftConfirmFailures :: nat where "driftConfirmFailures = 2"
definition driftReinjectionCooldown :: int where "driftReinjectionCooldown = 15 * 1000"

definition drift_target :: "status \<Rightarrow> location_stamp option" where
  "drift_target st = (case st_LastInjected st of Some t \<Rightarrow> Some t | None \<Rightarrow> st_LastVerified st)"

definition stamp_point :: "location_stamp \<Rightarrow> latlon" where
  "stamp_point t = LatLon (ls_lat t) (ls_lon t)"

definition cooled_down :: "int \<Rightarrow> 'd engine \<Rightarrow> bool" where
  "cooled_down now e =
    (case en_lastReinjection e of None \<Rightarrow> True | Some t \<Rightarrow> driftReinjectionCooldown < now - t)"

text \<open>The part under the lock: record the report, decide whether to re-inject.\<close>

definition drift_report :: "'d world \<Rightarrow> f64 \<Rightarrow> f64 \<Rightarrow> location_stamp \<Rightarrow> 'd engine \<Rightarrow> bool \<times> f64 \<times> 'd engine" where
  "drift_report w lat lon target e =
    (let d = Distance (w_fpu w) (LatLon lat lon) (stamp_point target);
         now = w_now w;
         e = upd_st (\<lambda>st. st\<lparr>st_LastReal := Some \<lparr>rl_lat = lat, rl_lon = lon, rl_drift = d, rl_time = now\<rparr>\<rparr>) e
     in if flt (Fin driftThresholdMeters) d then
          (let e = e\<lparr>en_driftFailures := en_driftFailures e + 1\<rparr> in
           if driftConfirmFailures \<le> en_driftFailures e \<and> cooled_down now e
           then (True, d, e\<lparr>en_lastReinjection := Some now\<rparr>)
           else (False, d, e))
        else
          (False, d, upd_st (\<lambda>st. st\<lparr>st_LastVerified := Some \<lparr>ls_lat = ls_lat target, ls_lon = ls_lon target,
                                      ls_name = ls_name target, ls_time = now\<rparr>\<rparr>)
                       (e\<lparr>en_driftFailures := 0\<rparr>)))"

definition ReportRealLocation :: "'d world \<Rightarrow> f64 \<Rightarrow> f64 \<Rightarrow> 'd engine \<Rightarrow> 'd engine" where
  "ReportRealLocation w lat lon e =
    (case drift_target (en_st e) of
       None \<Rightarrow> e
     | Some target \<Rightarrow>
         (let (reinject, d, e) = drift_report w lat lon target e;
              e = emitStatus e
          in if reinject then
               (let e = LogEvent w ''warn'' ''anti-drift'' ''location'' ''reinject''
                          [(''distanceMeters'', LvF d), (''lat'', LvF (ls_lat target)), (''lon'', LvF (ls_lon target))] e;
                    (err, e) = SetLocation w (ls_lat target) (ls_lon target) (ls_name target) e
                in case err of
                     Some _ \<Rightarrow> LogEvent w ''error'' ''anti-drift'' ''location'' ''reinject'' [(''error'', LvErr)] e
                   | None \<Rightarrow> e\<lparr>en_driftFailures := 0\<rparr>)
             else e))"

section \<open>Relance\<close>

definition relanceJitterDeg :: real where "relanceJitterDeg = 2 / 1000000"

definition jittered :: "fpu \<Rightarrow> real \<Rightarrow> real \<Rightarrow> f64 \<Rightarrow> f64" where
  "jittered u amplitude r x = fadd u x (fmul u (fsub u (Fin r) (Fin (1 / 2))) (lit u amplitude))"

definition reinjectAnchor ::
  "'d world \<Rightarrow> location_stamp \<Rightarrow> f64 \<Rightarrow> f64 \<Rightarrow> 'd engine \<Rightarrow> engine_error option \<times> 'd engine" where
  "reinjectAnchor w anchor injLat injLon e =
    (let (err, e) = driverSetLocation w injLat injLon e in
     case err of
       Some x \<Rightarrow> (Some (FromDriver x),
         LogEvent w ''error'' ''engine'' ''location'' ''relance''
           [(''lat'', LvF injLat), (''lon'', LvF injLon), (''error'', LvErr)] e)
     | None \<Rightarrow>
         (let e = upd_st (\<lambda>st. st\<lparr>st_LastInjected := Some \<lparr>ls_lat = ls_lat anchor, ls_lon = ls_lon anchor,
                                    ls_name = ls_name anchor, ls_time = w_now w\<rparr>,
                                 st_State := Running\<rparr>) e;
              e = emitStatus e
          in (None, LogEvent w ''info'' ''engine'' ''location'' ''relance''
                [(''injLat'', LvF injLat), (''injLon'', LvF injLon), (''anchorLat'', LvF (ls_lat anchor)),
                 (''anchorLon'', LvF (ls_lon anchor)), (''name'', LvS (ls_name anchor))] e)))"

definition Relance :: "'d world \<Rightarrow> 'd engine \<Rightarrow> engine_error option \<times> 'd engine" where
  "Relance w e =
    (case st_LastInjected (en_st e) of
       None \<Rightarrow> (None, e)
     | Some loc \<Rightarrow>
         if \<not> st_Jitter (en_st e) then SetLocation w (ls_lat loc) (ls_lon loc) (ls_name loc) e
         else reinjectAnchor w loc (jittered (w_fpu w) relanceJitterDeg (w_rand w 0) (ls_lat loc))
                (jittered (w_fpu w) relanceJitterDeg (w_rand w 1) (ls_lon loc)) e)"

end
