(* ===== verification/Engine_Routes.thy ===== *)
theory Engine_Routes
  imports Engine_Location
begin

text \<open>
  Routes, sequences, GPX tracks and patrols (\<open>internal/engine/engine_routes.go\<close>) and the goroutines
  that play them (\<open>internal/engine/simulation.go\<close>).

  A goroutine is stepped by the runtime: \<open>sim_start\<close> is its prologue, \<open>sim_tick\<close> one pass of its
  loop on a tick, \<open>sim_exit\<close> the pass on a cancelled context. Where the context is cancelled and a
  tick is pending, Go's \<open>select\<close> may take either, so \<open>sim_tick\<close> is not guarded by the cancellation.
\<close>

section \<open>Stopping, pausing, resuming\<close>

definition stopActiveSimulation :: "'d engine \<Rightarrow> 'd engine" where
  "stopActiveSimulation e =
    (let e = (case en_cancelSim e of
           None \<Rightarrow> e
         | Some i \<Rightarrow> e\<lparr>en_cancelled := insert i (en_cancelled e), en_cancelSim := None\<rparr>)
     in e\<lparr>en_simPaused := False\<rparr>)"

definition StopRoute :: "'d world \<Rightarrow> 'd engine \<Rightarrow> 'd engine" where
  "StopRoute w e =
    (let e = stopActiveSimulation e;
         e = upd_st (\<lambda>st. st\<lparr>st_State := Ready, st_Navigation := \<lparr>nav_progress = None, nav_status = None\<rparr>,
                            st_Preview := []\<rparr>) e;
         e = emitStatus e
     in LogEvent w ''info'' ''simulation'' ''route'' ''stop'' [] e)"

definition set_nav_state :: "nav_state \<Rightarrow> navigation \<Rightarrow> navigation" where
  "set_nav_state s n = n\<lparr>nav_status := map_option (\<lambda>x. x\<lparr>ns_state := s\<rparr>) (nav_status n)\<rparr>"

definition PauseRoute :: "'d world \<Rightarrow> 'd engine \<Rightarrow> 'd engine" where
  "PauseRoute w e =
    (if en_cancelSim e = None then e
     else let e = e\<lparr>en_simPaused := True\<rparr>;
              e = upd_st (\<lambda>st. st\<lparr>st_State := Paused, st_Navigation := set_nav_state NavPaused (st_Navigation st)\<rparr>) e;
              e = emitStatus e
          in LogEvent w ''info'' ''simulation'' ''route'' ''pause'' [] e)"

definition ResumeRoute :: "'d world \<Rightarrow> 'd engine \<Rightarrow> 'd engine" where
  "ResumeRoute w e =
    (if en_cancelSim e = None then e
     else let e = e\<lparr>en_simPaused := False\<rparr>;
              e = upd_st (\<lambda>st. st\<lparr>st_State := Moving, st_Navigation := set_nav_state NavRunning (st_Navigation st)\<rparr>) e;
              e = emitStatus e
          in LogEvent w ''info'' ''simulation'' ''route'' ''resume'' [] e)"

definition isPaused :: "'d engine \<Rightarrow> bool" where
  "isPaused e = en_simPaused e"

definition simulationActive :: "'d engine \<Rightarrow> bool" where
  "simulationActive e \<longleftrightarrow> en_cancelSim e \<noteq> None"

section \<open>Playing\<close>

text \<open>\<open>context.WithCancel\<close>, the assignment of \<open>cancelSim\<close> and the \<open>go\<close> statement.\<close>

definition launch :: "sim_proc \<Rightarrow> 'd engine \<Rightarrow> 'd engine" where
  "launch p e = e\<lparr>en_cancelSim := Some (en_nextSim e), en_sims := (en_sims e)(en_nextSim e := p),
                  en_nextSim := en_nextSim e + 1\<rparr>"

definition paris :: "fpu \<Rightarrow> latlon" where
  "paris u = LatLon (lit u (488566 / 10000)) (lit u (23522 / 10000))"

definition start_point :: "'d world \<Rightarrow> 'd engine \<Rightarrow> latlon" where
  "start_point w e = (case st_LastInjected (en_st e) of Some t \<Rightarrow> stamp_point t | None \<Rightarrow> paris (w_fpu w))"

definition ask_route :: "'d world \<Rightarrow> 'd engine \<Rightarrow> latlon \<Rightarrow> latlon \<Rightarrow> string \<Rightarrow> route_error + route_result" where
  "ask_route w e a b profile =
     Registry_Route Provider_Info (Provider_Route (w_fpu w) (w_net w)) (en_registry e)
       \<lparr>rq_Start = a, rq_End = b, rq_Profile = profile\<rparr>"

text \<open>\<open>RoutePath.Plan\<close> never returns an error, so neither do these on that account.\<close>

definition PlayRoute :: "'d world \<Rightarrow> f64 \<Rightarrow> f64 \<Rightarrow> f64 \<Rightarrow> string \<Rightarrow> 'd engine \<Rightarrow> engine_error option \<times> 'd engine" where
  "PlayRoute w endLat lon speed profile e =
    (let e = stopActiveSimulation e;
         e = LogEvent w ''info'' ''simulation'' ''route'' ''play''
               [(''endLat'', LvF endLat), (''endLon'', LvF lon), (''speed'', LvF speed),
                (''profile'', LvS (NormalizeProfile profile))] e;
         start = start_point w e;
         stop = LatLon endLat lon;
         (points, e) = (case ask_route w e start stop profile of
             Inl _ \<Rightarrow> ([start, stop], LogEvent w ''warn'' ''simulation'' ''route'' ''fallback'' [(''error'', LvErr)] e)
           | Inr res \<Rightarrow> (rr_Points res, LogEvent w ''info'' ''routing'' ''provider'' ''selected''
                           [(''provider'', LvS (rr_ProviderID res))] e));
         p = RoutePath_Plan (w_fpu w) points speed False;
         e = LogEvent w ''info'' ''simulation'' ''route'' ''prepared''
               [(''points'', LvI (int (length (pl_points p))))] e
     in (None, launch (RouteInit p) e))"

text \<open>The loop over the legs, with the points it accumulates. Start and wait legs add nothing.\<close>

fun sequence_points :: "'d world \<Rightarrow> route_leg list \<Rightarrow> latlon list \<Rightarrow> 'd engine \<Rightarrow> latlon list \<times> 'd engine" where
  "sequence_points w [] acc e = (acc, e)"
| "sequence_points w (leg # legs) acc e =
    (if leg_type leg = LegDrive \<or> leg_type leg = LegWalk then
       (let profile = (if leg_type leg = LegWalk then ''walking'' else ''driving'');
            (points, e) = (case ask_route w e (leg_start leg) (leg_end leg) profile of
                Inl _ \<Rightarrow> ([leg_start leg, leg_end leg],
                          LogEvent w ''warn'' ''simulation'' ''sequence'' ''fallback'' [(''error'', LvErr)] e)
              | Inr res \<Rightarrow> (rr_Points res, LogEvent w ''info'' ''routing'' ''provider'' ''selected''
                              [(''provider'', LvS (rr_ProviderID res)), (''profile'', LvS profile)] e))
        in sequence_points w legs (acc @ pl_points (RoutePath_Plan (w_fpu w) points (leg_speed leg) False)) e)
     else if leg_type leg = LegFlight then
       sequence_points w legs
         (acc @ pl_points (RoutePath_Plan (w_fpu w) [leg_start leg, leg_end leg] (leg_speed leg) False)) e
     else sequence_points w legs acc e)"

definition PlaySequence :: "'d world \<Rightarrow> route_leg list \<Rightarrow> bool \<Rightarrow> 'd engine \<Rightarrow> engine_error option \<times> 'd engine" where
  "PlaySequence w legs looping e =
    (let e = stopActiveSimulation e;
         e = LogEvent w ''info'' ''simulation'' ''sequence'' ''play''
               [(''legs'', LvI (int (length legs))), (''looping'', LvB looping)] e;
         (allPoints, e) = sequence_points w legs [] e
     in if allPoints = [] then
          (Some NoPointsToPlay, LogEvent w ''error'' ''simulation'' ''sequence'' ''play'' [(''error'', LvErr)] e)
        else
          (let e = LogEvent w ''info'' ''simulation'' ''sequence'' ''prepared''
                     [(''points'', LvI (int (length allPoints)))] e
           in (None, launch (RouteInit \<lparr>pl_points = allPoints, pl_looping = looping, pl_speed = Fin 0\<rparr>) e)))"

definition PlayCustomGpx :: "'d world \<Rightarrow> string \<Rightarrow> f64 \<Rightarrow> 'd engine \<Rightarrow> engine_error option \<times> 'd engine" where
  "PlayCustomGpx w gpxContent speedKmh e =
    (let e = stopActiveSimulation e;
         e = LogEvent w ''info'' ''simulation'' ''gpx'' ''play'' [(''speed'', LvF speedKmh)] e;
         rawPoints = ParseGPXCoordinates (w_gpx w) gpxContent;
         p = GPX_Plan (w_fpu w) (w_gpx w) gpxContent speedKmh
     in if rawPoints = [] then
          (Some NoGpxPoints, LogEvent w ''error'' ''simulation'' ''gpx'' ''parse'' [(''error'', LvErr)] e)
        else
          (let e = LogEvent w ''info'' ''simulation'' ''gpx'' ''prepared''
                     [(''rawPoints'', LvI (int (length rawPoints))), (''points'', LvI (int (length (pl_points p))))] e
           in (None, launch (RouteInit p) e)))"

definition PatrolUpdate :: "'d world \<Rightarrow> patrol_zone \<Rightarrow> 'd engine \<Rightarrow> 'd engine" where
  "PatrolUpdate w zone e =
    (let e = stopActiveSimulation e;
         e = upd_st (\<lambda>st. st\<lparr>st_Patrol := Some zone\<rparr>) e;
         e = emitStatus e
     in if pz_active zone then
          launch (PatrolInit zone)
            (LogEvent w ''info'' ''simulation'' ''patrol'' ''start'' [(''type'', LvS (pz_type zone))] e)
        else LogEvent w ''info'' ''simulation'' ''patrol'' ''stop'' [] e)"

end
