(* ===== verification/Engine_Sim.thy ===== *)
theory Engine_Sim
  imports Engine_Routes
begin

text \<open>
  The simulation goroutines of \<open>internal/engine/simulation.go\<close>: \<open>startRouteSimulation\<close> and
  \<open>startPatrolSimulation\<close>, cut at their \<open>select\<close>.
\<close>

definition simJitter :: real where "simJitter = 1 / 100000"

definition set_sim :: "nat \<Rightarrow> sim_proc \<Rightarrow> 'd engine \<Rightarrow> 'd engine" where
  "set_sim i p e = e\<lparr>en_sims := (en_sims e)(i := p)\<rparr>"

definition inject_tick :: "'d world \<Rightarrow> latlon \<Rightarrow> string \<Rightarrow> 'd engine \<Rightarrow> 'd engine" where
  "inject_tick w p name e =
    (let (err, e) = simSetLocation w (ll_lat p) (ll_lon p) name e in
     case err of
       None \<Rightarrow> e
     | Some _ \<Rightarrow> LogEvent w ''error'' ''simulation'' ''location'' ''set''
                  [(''lat'', LvF (ll_lat p)), (''lon'', LvF (ll_lon p)), (''error'', LvErr)] e)"

definition jitter_point :: "'d world \<Rightarrow> nat \<Rightarrow> bool \<Rightarrow> latlon \<Rightarrow> latlon" where
  "jitter_point w k jitterEnabled p =
    (if jitterEnabled
     then LatLon (jittered (w_fpu w) simJitter (w_rand w k) (ll_lat p))
                 (jittered (w_fpu w) simJitter (w_rand w (k + 1)) (ll_lon p))
     else p)"

section \<open>Routes\<close>

definition route_start :: "nat \<Rightarrow> plan \<Rightarrow> 'd engine \<Rightarrow> 'd engine" where
  "route_start i pl e =
    (if pl_points pl = [] \<or> i \<in> en_cancelled e then set_sim i SimDone e
     else let e = upd_st (\<lambda>st. st\<lparr>
                st_Preview := map (\<lambda>p. \<lparr>sp_lat = ll_lat p, sp_lon = ll_lon p, sp_time = 0\<rparr>) (pl_points pl),
                st_State := Moving,
                st_Navigation := (st_Navigation st)\<lparr>nav_status := Some
                  \<lparr>ns_state = NavRunning, ns_index = 0, ns_total = length (pl_points pl), ns_destination = None\<rparr>\<rparr>\<rparr>) e
          in set_sim i (RouteLoop pl 0) (emitStatus e))"

definition route_finish :: "'d world \<Rightarrow> nat \<Rightarrow> plan \<Rightarrow> nat \<Rightarrow> 'd engine \<Rightarrow> 'd engine" where
  "route_finish w i pl index e =
    (let e = upd_st (\<lambda>st. st\<lparr>
           st_State := Ready,
           st_Navigation := \<lparr>nav_progress = None, nav_status = Some
             \<lparr>ns_state = NavStopped, ns_index = index, ns_total = length (pl_points pl), ns_destination = None\<rparr>\<rparr>,
           st_Preview := []\<rparr>) e;
         st = en_st e;
         e = emit (EvRouteFinished (w_now w)) e;
         e = emit (EvStatus st) e
     in set_sim i SimDone e)"

definition route_progress :: "plan \<Rightarrow> nat \<Rightarrow> latlon \<Rightarrow> 'd engine \<Rightarrow> 'd engine" where
  "route_progress pl index p e =
     emitStatus (upd_st (\<lambda>st. st\<lparr>st_Navigation :=
        \<lparr>nav_progress = Some \<lparr>np_index = index, np_total = length (pl_points pl), np_lat = ll_lat p, np_lon = ll_lon p,
                             np_speed = pl_speed pl\<rparr>,
         nav_status = map_option (\<lambda>s. s\<lparr>ns_index := index\<rparr>) (nav_status (st_Navigation st))\<rparr>\<rparr>) e)"

definition route_tick :: "'d world \<Rightarrow> nat \<Rightarrow> plan \<Rightarrow> nat \<Rightarrow> 'd engine \<Rightarrow> 'd engine" where
  "route_tick w i pl index e =
    (if isPaused e then e
     else if length (pl_points pl) \<le> index \<and> \<not> pl_looping pl then route_finish w i pl index e
     else let index = (if length (pl_points pl) \<le> index then 0 else index);
              p = jitter_point w 0 (st_Jitter (en_st e)) (pl_points pl ! index);
              e = inject_tick w p ''Route simulation'' e
          in set_sim i (RouteLoop pl (index + 1)) (route_progress pl index p e))"

section \<open>Patrols\<close>

definition fmin :: "f64 \<Rightarrow> f64 \<Rightarrow> f64" where
  "fmin a b = (if a = NaN \<or> b = NaN then NaN else if flt b a then b else a)"
definition fmax :: "f64 \<Rightarrow> f64 \<Rightarrow> f64" where
  "fmax a b = (if a = NaN \<or> b = NaN then NaN else if flt a b then b else a)"

definition circle_target :: "'d world \<Rightarrow> latlon \<Rightarrow> f64 \<Rightarrow> latlon" where
  "circle_target w c radius =
    (let u = w_fpu w;
         angle = fmul u (fmul u (Fin (w_rand w 0)) (Fin 2)) (lit u pi);
         radiusMeters = fmul u (fsqrt u (Fin (w_rand w 1))) radius;
         radiusMeters = (if fle radiusMeters (Fin 0) then Fin 100 else radiusMeters);
         latOffset = fdiv u (fmul u radiusMeters (fcos u angle)) (Fin 111000);
         lonOffset = fdiv u (fmul u radiusMeters (fsin u angle))
                       (fmul u (Fin 111000) (fcos u (deg2rad u (ll_lat c))))
     in LatLon (fadd u (ll_lat c) latOffset) (fadd u (ll_lon c) lonOffset))"

definition rectangle_target :: "'d world \<Rightarrow> patrol_bounds \<Rightarrow> latlon" where
  "rectangle_target w b =
    (let u = w_fpu w;
         minLat = fmin (ll_lat (pb_SW b)) (ll_lat (pb_NE b));
         maxLat = fmax (ll_lat (pb_SW b)) (ll_lat (pb_NE b));
         minLon = fmin (ll_lon (pb_SW b)) (ll_lon (pb_NE b));
         maxLon = fmax (ll_lon (pb_SW b)) (ll_lon (pb_NE b))
     in LatLon (fadd u minLat (fmul u (Fin (w_rand w 0)) (fsub u maxLat minLat)))
               (fadd u minLon (fmul u (Fin (w_rand w 1)) (fsub u maxLon minLon))))"

definition patrol_target :: "'d world \<Rightarrow> patrol_zone \<Rightarrow> latlon \<Rightarrow> latlon" where
  "patrol_target w zone pos =
    (case (pz_type zone = ''circle'', pz_center zone, pz_type zone = ''rectangle'', pz_bounds zone) of
       (True, Some c, _, _) \<Rightarrow> circle_target w c (pz_radius zone)
     | (_, _, True, Some b) \<Rightarrow> rectangle_target w b
     | _ \<Rightarrow> LatLon (jittered (w_fpu w) (5 / 1000) (w_rand w 0) (ll_lat pos))
                   (jittered (w_fpu w) (5 / 1000) (w_rand w 1) (ll_lon pos)))"

definition patrol_move :: "fpu \<Rightarrow> latlon \<Rightarrow> latlon \<Rightarrow> latlon \<times> latlon option" where
  "patrol_move u pos target =
    (let d = Distance u pos target;
         speedMs = lit u (25 / 18)
     in if fle d speedMs then (target, None)
        else (let fraction = fdiv u speedMs d in
          (LatLon (fadd u (ll_lat pos) (fmul u (fsub u (ll_lat target) (ll_lat pos)) fraction))
                  (fadd u (ll_lon pos) (fmul u (fsub u (ll_lon target) (ll_lon pos)) fraction)), Some target)))"

definition patrol_start :: "'d world \<Rightarrow> nat \<Rightarrow> patrol_zone \<Rightarrow> 'd engine \<Rightarrow> 'd engine" where
  "patrol_start w i zone e =
    (if i \<in> en_cancelled e then set_sim i SimDone e
     else let pos = start_point w e;
              e = upd_st (\<lambda>st. st\<lparr>st_State := Moving\<rparr>) e
          in set_sim i (PatrolLoop zone pos None) (emitStatus e))"

definition patrol_exit :: "nat \<Rightarrow> 'd engine \<Rightarrow> 'd engine" where
  "patrol_exit i e = set_sim i SimDone (emitStatus (upd_st (\<lambda>st. st\<lparr>st_State := Ready\<rparr>) e))"

definition patrol_tick :: "'d world \<Rightarrow> nat \<Rightarrow> patrol_zone \<Rightarrow> latlon \<Rightarrow> latlon option \<Rightarrow> 'd engine \<Rightarrow> 'd engine" where
  "patrol_tick w i zone pos target e =
    (if isPaused e then e
     else let goal = (case target of Some t \<Rightarrow> t | None \<Rightarrow> patrol_target w zone pos);
              (pos, target) = patrol_move (w_fpu w) pos goal;
              p = jitter_point w 2 (st_Jitter (en_st e)) pos
          in set_sim i (PatrolLoop zone pos target) (inject_tick w p ''Patrol Mode'' e))"

section \<open>The scheduler's steps\<close>

definition sim_start :: "'d world \<Rightarrow> nat \<Rightarrow> 'd engine \<Rightarrow> 'd engine" where
  "sim_start w i e =
    (case en_sims e i of
       RouteInit pl \<Rightarrow> route_start i pl e
     | PatrolInit zone \<Rightarrow> patrol_start w i zone e
     | _ \<Rightarrow> e)"

definition sim_tick :: "'d world \<Rightarrow> nat \<Rightarrow> 'd engine \<Rightarrow> 'd engine" where
  "sim_tick w i e =
    (case en_sims e i of
       RouteLoop pl index \<Rightarrow> route_tick w i pl index e
     | PatrolLoop zone pos target \<Rightarrow> patrol_tick w i zone pos target e
     | _ \<Rightarrow> e)"

definition sim_exit :: "nat \<Rightarrow> 'd engine \<Rightarrow> 'd engine" where
  "sim_exit i e =
    (if i \<notin> en_cancelled e then e
     else case en_sims e i of
       RouteLoop pl index \<Rightarrow> set_sim i SimDone e
     | PatrolLoop zone pos target \<Rightarrow> patrol_exit i e
     | _ \<Rightarrow> e)"

end
