(* ===== verification/Engine_Settings.thy ===== *)
theory Engine_Settings
  imports Engine_Sim
begin

text \<open>
  Construction and persistence of the engine (\<open>NewWithSecrets\<close> in \<open>engine.go\<close>,
  \<open>engine_persistence.go\<close>), favourites and history (\<open>engine_favorites.go\<close>), SAVE\_SETTINGS
  (\<open>engine_settings.go\<close>) and the routing helpers (\<open>engine_routing.go\<close>).
\<close>

section \<open>engine\_routing.go\<close>

fun firstNonEmpty :: "string list \<Rightarrow> string" where
  "firstNonEmpty [] = []"
| "firstNonEmpty (v # vs) = (if TrimSpace v \<noteq> [] then TrimSpace v else firstNonEmpty vs)"

text \<open>The two packages have the same structure for the routing information: the copy is the identity.\<close>

definition apiRoutingInfo :: "routing_info \<Rightarrow> routing_info" where
  "apiRoutingInfo info =
    \<lparr>ri_Mode = ri_Mode info, ri_Provider = ri_Provider info, ri_ActiveProvider = ri_ActiveProvider info,
     ri_Priority = ri_Priority info, ri_AvailableProviders = ri_AvailableProviders info,
     ri_Providers = map (\<lambda>p. \<lparr>rpi_ID = rpi_ID p, rpi_Name = rpi_Name p, rpi_Available = rpi_Available p,
        rpi_Configured = rpi_Configured p, rpi_Profiles = rpi_Profiles p\<rparr>) (ri_Providers info)\<rparr>"

definition defaultOsrmBaseURL :: "string \<Rightarrow> string" where
  "defaultOsrmBaseURL env =
     TrimSuffix (if env \<noteq> [] then env else ''http://router.project-osrm.org'') ''/''"

section \<open>NewWithSecrets\<close>

definition engine_registry :: "'d world \<Rightarrow> runtime_config \<Rightarrow> secrets \<Rightarrow> string \<Rightarrow> provider registry" where
  "engine_registry w rt sec osrm =
     NewRegistry buildProviders
       \<lparr>rc_OSRMBaseURL = osrm, rc_Mode = rt_RoutingMode rt, rc_Provider = rt_RoutingProvider rt,
        rc_Priority = rt_RoutingPriority rt,
        rc_GoogleKey = firstNonEmpty [sec_Google sec, w_googleEnv w, w_googleEnv2 w],
        rc_MapboxToken = firstNonEmpty [sec_Mapbox sec, w_mapboxEnv w]\<rparr>"

definition seed_tuning :: "runtime_config \<Rightarrow> tuning \<Rightarrow> tuning" where
  "seed_tuning rt t =
    (if 0 < rt_HeartbeatSec rt \<or> 0 < rt_MasterDeadSec rt \<or> 0 < rt_PeerTimeoutSec rt
     then SetTuning (seconds (rt_HeartbeatSec rt)) (seconds (rt_MasterDeadSec rt)) (seconds (rt_PeerTimeoutSec rt)) t
     else t)"

text \<open>\<open>int(d / time.Second)\<close> truncates towards zero.\<close>

definition whole_seconds :: "int \<Rightarrow> int" where
  "whole_seconds d = (if 0 \<le> d then d div 1000000000 else - (- d div 1000000000))"

definition initial_status :: "'d world \<Rightarrow> runtime_config \<Rightarrow> string \<Rightarrow> routing_info \<Rightarrow> tuning \<Rightarrow> status" where
  "initial_status w rt osrm info t = \<lparr>
     st_State = Idle, st_TunnelActive = False, st_RSDAddress = [], st_RSDPort = 0,
     st_ConnectionType = ConnUnknown, st_DeviceInfo = None, st_LastInjected = None, st_LastVerified = None,
     st_LastActive = None, st_LastReal = None, st_TunnelHealth = None, st_MaintainActive = False,
     st_LastHeartbeat = 0, st_UsbDriver = rt_UsbDriver rt, st_WifiDriver = rt_WifiDriver rt,
     st_Fallback = rt_FallbackEnabled rt, st_Notifications = rt_Notifications rt,
     st_DynamicIsland = rt_DynamicIsland rt, st_Jitter = rt_Jitter rt, st_Favorites = rt_Favorites rt,
     st_History = rt_History rt, st_Preview = [], st_Patrol = None,
     st_Navigation = \<lparr>nav_progress = None, nav_status = None\<rparr>, st_EnvInfo = w_env w, st_Cluster = None,
     st_OsrmBaseURL = osrm, st_Routing = info, st_HeartbeatSec = whole_seconds (tu_heartbeat t),
     st_MasterDeadSec = whole_seconds (tu_masterDead t), st_PeerTimeoutSec = whole_seconds (tu_peerTimeout t)\<rparr>"

definition zero_driver_config :: driver_config where
  "zero_driver_config = \<lparr>dc_Transport = TransportAuto, dc_BinaryPaths = Map.empty, dc_ManualAddress = [],
     dc_TargetUDID = [], dc_DaemonAPIPort = 0, dc_StartTimeout = 0\<rparr>"

definition NewWithSecrets :: "'d world \<Rightarrow> 'd \<Rightarrow> settings \<Rightarrow> secrets \<Rightarrow> tuning \<Rightarrow> sql_db \<Rightarrow> 'd engine" where
  "NewWithSecrets w drv cfg sec tun db =
    (let rt = RuntimeConfig cfg;
         tun = seed_tuning rt tun;
         osrm = (if rt_OsrmBaseURL rt = [] then defaultOsrmBaseURL (w_osrmEnv w) else rt_OsrmBaseURL rt);
         reg = engine_registry w rt sec osrm;
         info = apiRoutingInfo (Registry_Info Provider_Info reg)
     in \<lparr>en_drv = 0, en_drivers = (\<lambda>_. drv), en_nextDrv = 1, en_st = initial_status w rt osrm info tun,
         en_wired = False, en_out = [], en_cancelSim = None, en_simPaused = False, en_sims = (\<lambda>_. SimDone),
         en_cancelled = {}, en_nextSim = 0, en_activeStart = False, en_generation = 0, en_driftFailures = 0,
         en_lastReinjection = None, en_log = NewService maxLogEntries, en_driverCfg = zero_driver_config,
         en_cluster = None, en_clusterUpdates = [], en_tuning = tun, en_registry = reg,
         en_hasStore = False, en_hasSecretStore = False, en_db = db, en_healthReset = False,
         en_metrics = zero_metrics\<rparr>)"

definition New_engine :: "'d world \<Rightarrow> 'd \<Rightarrow> settings \<Rightarrow> tuning \<Rightarrow> sql_db \<Rightarrow> 'd engine" where
  "New_engine w drv cfg tun db = NewWithSecrets w drv cfg \<lparr>sec_Google = [], sec_Mapbox = []\<rparr> tun db"

section \<open>engine\_persistence.go\<close>

definition SetStore :: "'d engine \<Rightarrow> 'd engine" where
  "SetStore e = e\<lparr>en_hasStore := True\<rparr>"

definition SetSecretStore :: "'d engine \<Rightarrow> 'd engine" where
  "SetSecretStore e = e\<lparr>en_hasSecretStore := True\<rparr>"

definition node_address :: "cluster_peer_info \<Rightarrow> string" where
  "node_address p = cp_Address p @ '':'' @ Itoa (cp_Port p)"

definition manual_nodes :: "cluster_view \<Rightarrow> string list" where
  "manual_nodes v = map node_address (filter (\<lambda>p. \<not> cp_Discovered p) (cv_Peers v))"

definition exportSettings :: "'d engine \<Rightarrow> settings" where
  "exportSettings e =
    (let st = en_st e;
         rc = rg_cfg (en_registry e);
         cfg = Default_settings\<lparr>
           se_UsbDriver := st_UsbDriver st, se_WifiDriver := st_WifiDriver st,
           se_PreferredDriver := (if st_UsbDriver st \<noteq> [] then st_UsbDriver st
                                  else se_PreferredDriver Default_settings),
           se_FallbackEnabled := st_Fallback st, se_Notifications := st_Notifications st,
           se_DynamicIsland := st_DynamicIsland st, se_Jitter := st_Jitter st,
           se_Favorites := st_Favorites st, se_History := st_History st,
           se_OsrmBaseURL := rc_OSRMBaseURL rc, se_RoutingMode := rc_Mode rc,
           se_RoutingProvider := rc_Provider rc, se_RoutingPriority := rc_Priority rc,
           se_HeartbeatSec := st_HeartbeatSec st, se_MasterDeadSec := st_MasterDeadSec st,
           se_PeerTimeoutSec := st_PeerTimeoutSec st\<rparr>
     in case en_cluster e of
          None \<Rightarrow> cfg
        | Some v \<Rightarrow> cfg\<lparr>se_ClusterMode := cv_Mode v, se_ClusterSyncCerts := cv_SyncCerts v,
                        se_ClusterNodes := manual_nodes v\<rparr>)"

definition persist :: "'d world \<Rightarrow> 'd engine \<Rightarrow> 'd engine" where
  "persist w e =
    (if \<not> en_hasStore e then e
     else let (err, db) = Save_settings (w_storeFail w) (exportSettings e) (en_db e);
              e = e\<lparr>en_db := db\<rparr>
          in case err of
               None \<Rightarrow> e
             | Some _ \<Rightarrow> LogEvent w ''error'' ''settings'' ''settings'' ''persist'' [] e)"

definition persistSecrets :: "'d world \<Rightarrow> 'd engine \<Rightarrow> 'd engine" where
  "persistSecrets w e =
    (if \<not> en_hasSecretStore e then e
     else let rc = rg_cfg (en_registry e);
              (err, db) = SaveSecrets (w_secretFail w)
                 \<lparr>sec_Google = rc_GoogleKey rc, sec_Mapbox = rc_MapboxToken rc\<rparr> (en_db e);
              e = e\<lparr>en_db := db\<rparr>
          in case err of
               None \<Rightarrow> e
             | Some _ \<Rightarrow> LogEvent w ''error'' ''settings'' ''secrets'' ''persist'' [] e)"

section \<open>engine\_favorites.go\<close>

definition at_coord :: "f64 \<Rightarrow> f64 \<Rightarrow> favorite \<Rightarrow> bool" where
  "at_coord lat lon f \<longleftrightarrow> feq (fav_lat f) lat \<and> feq (fav_lon f) lon"

fun findFavoriteIndex :: "favorite list \<Rightarrow> f64 \<Rightarrow> f64 \<Rightarrow> nat option" where
  "findFavoriteIndex [] lat lon = None"
| "findFavoriteIndex (f # fs) lat lon =
    (if at_coord lat lon f then Some 0 else map_option Suc (findFavoriteIndex fs lat lon))"

definition fav_fields :: "f64 \<Rightarrow> f64 \<Rightarrow> log_fields" where
  "fav_fields lat lon = [(''lat'', LvF lat), (''lon'', LvF lon)]"

definition AddFavorite :: "'d world \<Rightarrow> f64 \<Rightarrow> f64 \<Rightarrow> string \<Rightarrow> 'd engine \<Rightarrow> 'd engine" where
  "AddFavorite w lat lon name e =
    (if findFavoriteIndex (st_Favorites (en_st e)) lat lon \<noteq> None then e
     else let e = upd_st (\<lambda>st. st\<lparr>st_Favorites := st_Favorites st @
                    [\<lparr>fav_lat = lat, fav_lon = lon, fav_name = name, fav_time = w_now w\<rparr>]\<rparr>) e;
              e = emitStatus e;
              e = persist w e
          in LogEvent w ''info'' ''admin'' ''favorites'' ''add'' (fav_fields lat lon @ [(''name'', LvS name)]) e)"

definition RemoveFavorite :: "'d world \<Rightarrow> f64 \<Rightarrow> f64 \<Rightarrow> 'd engine \<Rightarrow> 'd engine" where
  "RemoveFavorite w lat lon e =
    (let e = upd_st (\<lambda>st. st\<lparr>st_Favorites := filter (\<lambda>f. \<not> at_coord lat lon f) (st_Favorites st)\<rparr>) e;
         e = emitStatus e;
         e = persist w e
     in LogEvent w ''info'' ''admin'' ''favorites'' ''remove'' (fav_fields lat lon) e)"

definition RenameFavorite :: "'d world \<Rightarrow> f64 \<Rightarrow> f64 \<Rightarrow> string \<Rightarrow> 'd engine \<Rightarrow> 'd engine" where
  "RenameFavorite w lat lon newName e =
    (let e = (case findFavoriteIndex (st_Favorites (en_st e)) lat lon of
            Some idx \<Rightarrow> upd_st (\<lambda>st. st\<lparr>st_Favorites :=
              (st_Favorites st)[idx := (st_Favorites st ! idx)\<lparr>fav_name := newName\<rparr>]\<rparr>) e
          | None \<Rightarrow> e);
         e = emitStatus e;
         e = persist w e
     in LogEvent w ''info'' ''admin'' ''favorites'' ''rename'' (fav_fields lat lon @ [(''name'', LvS newName)]) e)"

definition ClearHistory :: "'d world \<Rightarrow> 'd engine \<Rightarrow> 'd engine" where
  "ClearHistory w e =
    (let e = upd_st (\<lambda>st. st\<lparr>st_History := []\<rparr>) e;
         e = emitStatus e;
         e = persist w e
     in LogEvent w ''info'' ''admin'' ''history'' ''clear'' [] e)"

section \<open>engine\_settings.go\<close>

record save_settings_payload =
  ss_CompanionPort :: "int option"
  ss_PreferredDriver :: "string option"
  ss_UsbDriver :: "string option"
  ss_WifiDriver :: "string option"
  ss_Fallback :: "bool option"
  ss_Notifications :: "bool option"
  ss_DynamicIsland :: "bool option"
  ss_Jitter :: "bool option"
  ss_OsrmBaseURL :: "string option"
  ss_RoutingMode :: "string option"
  ss_RoutingProvider :: "string option"
  ss_RoutingPriority :: "string list option"
  ss_GoogleKey :: "string option"
  ss_MapboxToken :: "string option"
  ss_HeartbeatSec :: "int option"
  ss_MasterDeadSec :: "int option"
  ss_PeerTimeoutSec :: "int option"
  ss_ClusterMode :: "string option"
  ss_ClusterNodes :: "string list option"
  ss_ClusterSyncCerts :: "bool option"

text \<open>\<open>if p != nil \<open>x = *p\<close>\<close>.\<close>

definition or_keep :: "'a option \<Rightarrow> 'a \<Rightarrow> 'a" where
  "or_keep p x = (case p of Some v \<Rightarrow> v | None \<Rightarrow> x)"

definition save_status :: "'d world \<Rightarrow> save_settings_payload \<Rightarrow> status \<Rightarrow> status" where
  "save_status w p st = st\<lparr>
     st_RSDPort := or_keep (ss_CompanionPort p) (st_RSDPort st),
     st_UsbDriver := or_keep (ss_UsbDriver p) (or_keep (ss_PreferredDriver p) (st_UsbDriver st)),
     st_WifiDriver := or_keep (ss_WifiDriver p) (or_keep (ss_PreferredDriver p) (st_WifiDriver st)),
     st_Fallback := or_keep (ss_Fallback p) (st_Fallback st),
     st_Notifications := or_keep (ss_Notifications p) (st_Notifications st),
     st_DynamicIsland := or_keep (ss_DynamicIsland p) (st_DynamicIsland st),
     st_Jitter := or_keep (ss_Jitter p) (st_Jitter st),
     st_OsrmBaseURL := (case ss_OsrmBaseURL p of
         None \<Rightarrow> st_OsrmBaseURL st
       | Some v \<Rightarrow> (let url = TrimSuffix (TrimSpace v) ''/''
                   in if url = [] then defaultOsrmBaseURL (w_osrmEnv w) else url))\<rparr>"

definition save_routing :: "save_settings_payload \<Rightarrow> string \<Rightarrow> routing_config \<Rightarrow> routing_config" where
  "save_routing p osrm rc = rc\<lparr>
     rc_OSRMBaseURL := osrm, rc_Mode := or_keep (ss_RoutingMode p) (rc_Mode rc),
     rc_Provider := or_keep (ss_RoutingProvider p) (rc_Provider rc),
     rc_Priority := or_keep (ss_RoutingPriority p) (rc_Priority rc),
     rc_GoogleKey := or_keep (ss_GoogleKey p) (rc_GoogleKey rc),
     rc_MapboxToken := or_keep (ss_MapboxToken p) (rc_MapboxToken rc)\<rparr>"

definition positive :: "int option \<Rightarrow> int" where
  "positive p = (case p of Some n \<Rightarrow> if 0 < n then n else 0 | None \<Rightarrow> 0)"

definition save_tuning :: "save_settings_payload \<Rightarrow> 'd engine \<Rightarrow> 'd engine" where
  "save_tuning p e =
    (let hb = positive (ss_HeartbeatSec p); dead = positive (ss_MasterDeadSec p); peer = positive (ss_PeerTimeoutSec p);
         e = upd_st (\<lambda>st. st\<lparr>
               st_HeartbeatSec := (if 0 < hb then hb else st_HeartbeatSec st),
               st_MasterDeadSec := (if 0 < dead then dead else st_MasterDeadSec st),
               st_PeerTimeoutSec := (if 0 < peer then peer else st_PeerTimeoutSec st)\<rparr>) e
     in if 0 < hb \<or> 0 < dead \<or> 0 < peer
        then e\<lparr>en_tuning := SetTuning (seconds hb) (seconds dead) (seconds peer) (en_tuning e)\<rparr>
        else e)"

definition save_cluster :: "save_settings_payload \<Rightarrow> 'd engine \<Rightarrow> 'd engine" where
  "save_cluster p e =
    (case en_cluster e of
       None \<Rightarrow> e
     | Some v \<Rightarrow>
         if ss_ClusterMode p = None \<and> ss_ClusterNodes p = None \<and> ss_ClusterSyncCerts p = None then e
         else e\<lparr>en_clusterUpdates := en_clusterUpdates e @
                [(or_keep (ss_ClusterMode p) (cv_Mode v), or_keep (ss_ClusterNodes p) (manual_nodes v),
                  or_keep (ss_ClusterSyncCerts p) (cv_SyncCerts v))]\<rparr>)"

definition save_registry :: "save_settings_payload \<Rightarrow> 'd engine \<Rightarrow> 'd engine" where
  "save_registry p e =
    (let rc = save_routing p (st_OsrmBaseURL (en_st e)) (rg_cfg (en_registry e));
         reg = UpdateConfig buildProviders (en_registry e) rc
     in upd_st (\<lambda>st. st\<lparr>st_OsrmBaseURL := rc_OSRMBaseURL (rg_cfg reg),
                       st_Routing := apiRoutingInfo (Registry_Info Provider_Info reg)\<rparr>)
          (e\<lparr>en_registry := reg\<rparr>))"

definition SaveSettings :: "'d world \<Rightarrow> save_settings_payload \<Rightarrow> 'd engine \<Rightarrow> 'd engine" where
  "SaveSettings w p e =
    (let e = upd_st (save_status w p) e;
         e = save_registry p e;
         e = save_tuning p e;
         e = save_cluster p e;
         e = emitStatus e;
         e = persist w e;
         e = (if ss_GoogleKey p \<noteq> None \<or> ss_MapboxToken p \<noteq> None then persistSecrets w e else e)
     in LogEvent w ''info'' ''admin'' ''settings'' ''save'' [] e)"

end
