(* ===== verification/Engine_Tunnel.thy ===== *)
theory Engine_Tunnel
  imports Engine_Settings
begin

text \<open>
  The tunnel (\<open>internal/engine/engine_tunnel.go\<close>): starting it, losing it, switching driver, and the
  maintenance actions of \<open>engine_maintenance.go\<close>. \<open>StartTunnel\<close> holds \<open>tunnelMu\<close> across a call of
  the driver that may take a minute, during which \<open>SwitchDriver\<close> may run its first critical
  section: both are cut at that point (\<open>start_begin\<close> / \<open>start_finish\<close>, \<open>switch_begin\<close> /
  \<open>switch_finish\<close>), and the sequential operations are their composition. The remediation hints
  appended to a failure's message only read the devices and are not modelled.
\<close>

section \<open>Losing the tunnel\<close>

definition markTunnelLost :: "'d engine \<Rightarrow> 'd engine" where
  "markTunnelLost e =
    (if \<not> st_TunnelActive (en_st e) then e
     else emitStatus (upd_st (\<lambda>st. st\<lparr>st_TunnelActive := False, st_RSDAddress := [], st_RSDPort := 0,
            st_TunnelHealth := None,
            st_State := (if st_State st = Ready \<or> st_State st = Running then Idle else st_State st)\<rparr>) e))"

definition clearActiveStart :: "64 word \<Rightarrow> 'd engine \<Rightarrow> 'd engine" where
  "clearActiveStart generation e =
    (if en_generation e = generation then e\<lparr>en_activeStart := False\<rparr> else e)"

definition isCurrentDriverGeneration :: "64 word \<Rightarrow> nat \<Rightarrow> 'd engine \<Rightarrow> bool" where
  "isCurrentDriverGeneration generation drv e \<longleftrightarrow> en_generation e = generation \<and> en_drv e = drv"

definition isPermissionError :: "string option \<Rightarrow> bool" where
  "isPermissionError err =
    (case err of
       None \<Rightarrow> False
     | Some s \<Rightarrow> (let msg = ToLower s in
         Contains msg ''permission denied'' \<or> Contains msg ''operation not permitted'' \<or>
         Contains msg ''access denied''))"

section \<open>StartTunnel\<close>

text \<open>Up to the driver's call; \<open>None\<close> where a tunnel is already active. The result is the driver and
  generation the call was made for.\<close>

definition start_begin :: "'d world \<Rightarrow> 'd engine \<Rightarrow> ((nat \<times> 64 word) option) \<times> 'd engine" where
  "start_begin w e =
    (if st_TunnelActive (en_st e) then (None, e)
     else let drv = en_drv e;
              generation = en_generation e;
              e = e\<lparr>en_activeStart := True\<rparr>;
              e = (if st_State (en_st e) = Idle then emitStatus (upd_st (\<lambda>st. st\<lparr>st_State := Starting\<rparr>) e) else e);
              e = LogEvent w ''info'' ''tunnel'' ''tunnel'' ''start''
                    [(''driver'', LvS (op_ID (w_ops w) (en_drivers e drv)))] e
          in (Some (drv, generation), e))"

definition start_failed :: "'d world \<Rightarrow> nat \<Rightarrow> 64 word \<Rightarrow> driver_error \<Rightarrow> 'd engine \<Rightarrow> engine_error option \<times> 'd engine" where
  "start_failed w drv generation err e =
    (let e = upd_metrics (\<lambda>m. m\<lparr>em_tunnelStartFailures := em_tunnelStartFailures m + 1\<rparr>) e in
     if \<not> isCurrentDriverGeneration generation drv e then (None, e)
     else let e = LogEvent w ''error'' ''tunnel'' ''tunnel'' ''start''
                    [(''driver'', LvS (op_ID (w_ops w) (en_drivers e drv))), (''error'', LvErr)] e;
              e = (if isCurrentDriverGeneration generation drv e \<and> st_State (en_st e) = Starting
                   then emitStatus (upd_st (\<lambda>st. st\<lparr>st_State := Idle\<rparr>) e) else e)
          in (Some (FromDriver err), e))"

definition publish_tunnel :: "'d world \<Rightarrow> driver_id \<Rightarrow> tunnel_info \<Rightarrow> 'd engine \<Rightarrow> 'd engine" where
  "publish_tunnel w drvID ti e =
    (let e = upd_st (\<lambda>st. st\<lparr>st_TunnelActive := True, st_RSDAddress := ti_Address ti, st_RSDPort := ti_Port ti,
           st_ConnectionType := ti_Type ti,
           st_DeviceInfo := Some \<lparr>di_udid = [], di_name = ''iPhone'', di_driver = drvID\<rparr>,
           st_State := (if st_State st = Idle \<or> st_State st = Starting then Ready else st_State st)\<rparr>) e;
         e = updateTunnelHealth (\<lambda>th. th\<lparr>th_establishedAt := w_now w, th_failures := 0, th_searching := False\<rparr>) e
     in emitStatus e)"

definition start_succeeded :: "'d world \<Rightarrow> nat \<Rightarrow> 64 word \<Rightarrow> tunnel_info \<Rightarrow> int \<Rightarrow> 'd engine \<Rightarrow> engine_error option \<times> 'd engine" where
  "start_succeeded w drv generation ti took e =
    (if \<not> isCurrentDriverGeneration generation drv e then
       (None, set_driver drv (snd (op_StopTunnel (w_ops w) (en_drivers e drv))) e)
     else let drvID = op_ID (w_ops w) (en_drivers e drv);
              e = upd_metrics (\<lambda>m. m\<lparr>em_tunnelStarts := em_tunnelStarts m + 1, em_lastStartNanos := took\<rparr>) e;
              e = LogEvent w ''info'' ''tunnel'' ''tunnel'' ''start''
                    [(''driver'', LvS drvID), (''address'', LvS (ti_Address ti)), (''port'', LvI (ti_Port ti))] e
          in (None, publish_tunnel w drvID ti e))"

text \<open>From the driver's result on, with the deferred \<open>clearActiveStart\<close>.\<close>

definition start_finish ::
  "'d world \<Rightarrow> nat \<Rightarrow> 64 word \<Rightarrow> driver_error + tunnel_info \<Rightarrow> int \<Rightarrow> 'd engine \<Rightarrow> engine_error option \<times> 'd engine" where
  "start_finish w drv generation result took e =
    (let (err, e) = (case result of
           Inl x \<Rightarrow> start_failed w drv generation x e
         | Inr ti \<Rightarrow> start_succeeded w drv generation ti took e)
     in (err, clearActiveStart generation e))"

definition driver_start :: "'d world \<Rightarrow> nat \<Rightarrow> 'd engine \<Rightarrow> (driver_error + tunnel_info) \<times> 'd engine" where
  "driver_start w drv e =
    (let (r, d) = op_StartTunnel (w_ops w) (w_now w) (en_drivers e drv) in (r, set_driver drv d e))"

definition StartTunnel :: "'d world \<Rightarrow> 'd engine \<Rightarrow> engine_error option \<times> 'd engine" where
  "StartTunnel w e =
    (let (running, e) = start_begin w e in
     case running of
       None \<Rightarrow> (None, e)
     | Some (drv, generation) \<Rightarrow>
         (let (r, e) = driver_start w drv e in start_finish w drv generation r 0 e))"

section \<open>SwitchDriver\<close>

definition switch_config :: "driver_config \<Rightarrow> string \<Rightarrow> string \<Rightarrow> string \<Rightarrow> driver_config" where
  "switch_config base transport wifiAddress targetUDID =
    (let wifiAddress = TrimSpace wifiAddress;
         targetUDID = TrimSpace targetUDID;
         cfg = base\<lparr>dc_ManualAddress := [], dc_TargetUDID := []\<rparr>
     in if transport = ''usb'' then cfg\<lparr>dc_Transport := TransportUSB\<rparr>
        else if transport = ''wifi'' then
          cfg\<lparr>dc_Transport := TransportWiFi,
              dc_ManualAddress := (if wifiAddress \<noteq> [] then wifiAddress else dc_ManualAddress base)\<rparr>
        else cfg\<lparr>dc_Transport := TransportAuto, dc_TargetUDID := targetUDID\<rparr>)"

definition switch_begin :: "'d engine \<Rightarrow> (driver_config \<times> nat) \<times> 'd engine" where
  "switch_begin e =
    (let e = stopActiveSimulation e
     in ((en_driverCfg e, en_drv e), e\<lparr>en_generation := en_generation e + 1\<rparr>))"

definition switch_failed :: "'d world \<Rightarrow> string \<Rightarrow> 'd engine \<Rightarrow> 'd engine" where
  "switch_failed w driverID e =
    (let e = e\<lparr>en_activeStart := False\<rparr>;
         e = (if st_State (en_st e) = Starting then emitStatus (upd_st (\<lambda>st. st\<lparr>st_State := Idle\<rparr>) e) else e)
     in LogEvent w ''error'' ''admin'' ''driver'' ''switch'' [(''driver'', LvS driverID), (''error'', LvErr)] e)"

definition install_driver :: "'d world \<Rightarrow> 'd \<Rightarrow> string \<Rightarrow> string \<Rightarrow> 'd engine \<Rightarrow> 'd engine" where
  "install_driver w d driverID transport e =
    (let e = e\<lparr>en_drv := en_nextDrv e, en_drivers := (en_drivers e)(en_nextDrv e := d), en_nextDrv := en_nextDrv e + 1\<rparr>;
         e = upd_st (\<lambda>st. st\<lparr>st_TunnelActive := False, st_RSDAddress := [], st_RSDPort := 0, st_State := Idle,
               st_DeviceInfo := None,
               st_UsbDriver := (if transport = ''wifi'' then st_UsbDriver st else driverID),
               st_WifiDriver := (if transport = ''usb'' then st_WifiDriver st else driverID)\<rparr>) e;
         e = emitStatus e
     in persist w e)"

definition switch_fields :: "string \<Rightarrow> string \<Rightarrow> driver_config \<Rightarrow> log_fields" where
  "switch_fields driverID transport cfg =
    [(''driver'', LvS driverID), (''transport'', LvS transport)] @
    (if dc_TargetUDID cfg \<noteq> [] then [(''udid'', LvS (dc_TargetUDID cfg))] else []) @
    (if transport = ''wifi'' \<and> dc_ManualAddress cfg \<noteq> [] then [(''rsd'', LvS (dc_ManualAddress cfg))] else [])"

definition switch_finish ::
  "'d world \<Rightarrow> string \<Rightarrow> string \<Rightarrow> string \<Rightarrow> string \<Rightarrow> driver_config \<times> nat \<Rightarrow> 'd engine \<Rightarrow> engine_error option \<times> 'd engine" where
  "switch_finish w driverID transport wifiAddress targetUDID captured e =
    (let (base, oldDrv) = captured;
         e = set_driver oldDrv (snd (op_StopTunnel (w_ops w) (en_drivers e oldDrv))) e;
         cfg = switch_config base transport wifiAddress targetUDID
     in case New_driver (w_drivers w) driverID cfg of
          Inl err \<Rightarrow> (Some (FromDriver err), switch_failed w driverID e)
        | Inr d \<Rightarrow>
            (let e = install_driver w d driverID transport e;
                 fs = switch_fields driverID transport cfg;
                 e = (if transport = ''wifi'' \<and> dc_ManualAddress cfg = []
                      then LogEvent w ''warn'' ''admin'' ''driver'' ''switch'' fs e else e);
                 e = LogEvent w ''info'' ''admin'' ''driver'' ''switch'' fs e;
                 (err, e) = StartTunnel w e
             in case err of
                  None \<Rightarrow> (None, e)
                | Some x \<Rightarrow> (Some x, LogEvent w ''error'' ''tunnel'' ''tunnel'' ''start'' [(''error'', LvErr)] e)))"

definition SwitchDriver ::
  "'d world \<Rightarrow> string \<Rightarrow> string \<Rightarrow> string \<Rightarrow> string \<Rightarrow> 'd engine \<Rightarrow> engine_error option \<times> 'd engine" where
  "SwitchDriver w driverID transport wifiAddress targetUDID e =
    (let (captured, e) = switch_begin e
     in switch_finish w driverID transport wifiAddress targetUDID captured e)"

section \<open>Maintenance\<close>

record maintenance_step =
  ms_Name :: string
  ms_Error :: "engine_error option"

definition add_step :: "'d world \<Rightarrow> string \<Rightarrow> engine_error option \<Rightarrow> maintenance_step list \<times> 'd engine \<Rightarrow> maintenance_step list \<times> 'd engine" where
  "add_step w name err r =
    (fst r @ [\<lparr>ms_Name = name, ms_Error = err\<rparr>],
     LogEvent w (if err = None then ''info'' else ''warn'') ''admin'' ''maintenance'' ''restart-services''
       ((''step'', LvS name) # (if err = None then [] else [(''error'', LvErr)])) (snd r))"

definition RestartServices :: "'d world \<Rightarrow> 'd engine \<Rightarrow> (maintenance_step list \<times> engine_error option) \<times> 'd engine" where
  "RestartServices w e =
    (let e = stopActiveSimulation e;
         e = markTunnelLost e;
         (err, d) = op_StopTunnel (w_ops w) (driver e);
         e = set_driver (en_drv e) d e;
         r = add_step w ''stop-tunnel'' (map_option FromDriver err) ([], e);
         r = add_step w ''kill-pymobiledevice3'' (map_option FromDriver (w_killPmd3 w)) r;
         r = add_step w ''restart-mdns'' (map_option FromDriver (w_restartMdns w)) r;
         (err, e) = StartTunnel w (snd r);
         r = add_step w ''restart-tunnel'' err (fst r, e)
     in ((fst r, err), snd r))"

definition RestartTunnel :: "'d world \<Rightarrow> 'd engine \<Rightarrow> engine_error option \<times> 'd engine" where
  "RestartTunnel w e =
    (let e = stopActiveSimulation e;
         e = markTunnelLost e;
         e = ResetHealthBackoff e;
         e = set_driver (en_drv e) (snd (op_StopTunnel (w_ops w) (driver e))) e;
         e = LogEvent w ''info'' ''admin'' ''maintenance'' ''restart-tunnel'' [] e;
         (err, e) = StartTunnel w e
     in (err, if err = None then LogEvent w ''info'' ''admin'' ''maintenance'' ''restart-tunnel'' [] e
              else LogEvent w ''error'' ''admin'' ''maintenance'' ''restart-tunnel'' [(''error'', LvErr)] e))"

definition RestartMdns :: "'d world \<Rightarrow> 'd engine \<Rightarrow> driver_error option \<times> 'd engine" where
  "RestartMdns w e =
    (let e = LogEvent w ''info'' ''admin'' ''maintenance'' ''restart-mdns'' [] e;
         err = w_restartMdns w;
         e = (if err = None then LogEvent w ''info'' ''admin'' ''maintenance'' ''restart-mdns'' [] e
              else LogEvent w ''warn'' ''admin'' ''maintenance'' ''restart-mdns'' [(''error'', LvErr)] e)
     in (err, ResetHealthBackoff e))"

end
