(* ===== verification/Engine_Health.thy ===== *)
theory Engine_Health
  imports Engine_Tunnel
begin

text \<open>
  The background monitors of \<open>internal/engine/engine_health.go\<close>: the tunnel watchdog, whose local
  variables are the record \<open>watchdog\<close> and whose loop body is \<open>health_tick\<close>, and the keepalive of a
  position held at rest. Durations are milliseconds; the zero time is \<open>None\<close>.
\<close>

definition tunnelRetryInterval :: int where "tunnelRetryInterval = 30 * 1000"
definition tunnelRetryMax :: int where "tunnelRetryMax = 5 * 60 * 1000"
definition injectFailureThreshold :: int where "injectFailureThreshold = 3"
definition healthCheckInterval :: int where "healthCheckInterval = 5 * 1000"
definition idleKeepaliveInterval :: int where "idleKeepaliveInterval = 45 * 1000"

record watchdog =
  wd_warnedSearching :: bool
  wd_warnedInjection :: bool
  wd_lastRetry :: "int option"
  wd_retryInterval :: int

definition watchdog_start :: "int \<Rightarrow> watchdog" where
  "watchdog_start now = \<lparr>wd_warnedSearching = False, wd_warnedInjection = False, wd_lastRetry = Some now,
     wd_retryInterval = tunnelRetryInterval\<rparr>"

definition injectionStalled :: "'d engine \<Rightarrow> bool" where
  "injectionStalled e =
    (case st_TunnelHealth (en_st e) of Some th \<Rightarrow> injectFailureThreshold \<le> th_failures th | None \<Rightarrow> False)"

definition recordHealthRTT :: "int \<Rightarrow> 'd engine \<Rightarrow> 'd engine" where
  "recordHealthRTT rtt e = updateTunnelHealth (\<lambda>th. th\<lparr>th_lastCheckRTTms := rtt, th_searching := False\<rparr>) e"

definition setTunnelSearching :: "bool \<Rightarrow> 'd engine \<Rightarrow> 'd engine" where
  "setTunnelSearching searching e =
    (if (case st_TunnelHealth (en_st e) of Some th \<Rightarrow> th_searching th = searching | None \<Rightarrow> False) then e
     else emitStatus (updateTunnelHealth (\<lambda>th. th\<lparr>th_searching := searching\<rparr>) e))"

definition applyTunnelUpdate :: "'d world \<Rightarrow> tunnel_info \<Rightarrow> 'd engine \<Rightarrow> 'd engine" where
  "applyTunnelUpdate w info e =
    (let changed = (st_RSDAddress (en_st e) \<noteq> ti_Address info \<or> st_RSDPort (en_st e) \<noteq> ti_Port info \<or>
                    st_ConnectionType (en_st e) \<noteq> ti_Type info);
         e = upd_st (\<lambda>st. st\<lparr>st_TunnelActive := True, st_RSDAddress := ti_Address info, st_RSDPort := ti_Port info,
               st_ConnectionType := ti_Type info\<rparr>) e;
         e = updateTunnelHealth (\<lambda>th. if changed then th\<lparr>th_searching := False, th_lastReresolveAt := w_now w\<rparr>
               else th\<lparr>th_searching := False\<rparr>) e;
         e = (if changed then upd_metrics (\<lambda>m. m\<lparr>em_tunnelReresolves := em_tunnelReresolves m + 1\<rparr>) e else e);
         e = emitStatus e
     in if changed then LogEvent w ''info'' ''tunnel'' ''tunnel'' ''reconnect''
          [(''address'', LvS (ti_Address info)), (''port'', LvI (ti_Port info))] e else e)"

section \<open>The watchdog\<close>

text \<open>The tunnel is down: retry when the backoff has elapsed.\<close>

definition health_retry :: "'d world \<Rightarrow> watchdog \<Rightarrow> 'd engine \<Rightarrow> watchdog \<times> 'd engine" where
  "health_retry w wd e =
    (let wd = wd\<lparr>wd_warnedSearching := False\<rparr> in
     if (case wd_lastRetry wd of None \<Rightarrow> True | Some t \<Rightarrow> wd_retryInterval wd \<le> w_now w - t) then
       (let (err, e) = StartTunnel w e in
        (wd\<lparr>wd_lastRetry := Some (w_now w),
            wd_retryInterval := (if err = None then tunnelRetryInterval else min (wd_retryInterval wd * 2) tunnelRetryMax)\<rparr>,
         e))
     else (wd, e))"

text \<open>The daemon is gone: flip the status down first, then restart.\<close>

definition health_restart :: "'d world \<Rightarrow> nat \<Rightarrow> 'd engine \<Rightarrow> 'd engine" where
  "health_restart w drv e =
    (let e = LogEvent w ''warn'' ''tunnel'' ''tunnel'' ''reconnect'' [] e;
         e = upd_metrics (\<lambda>m. m\<lparr>em_tunnelRestarts := em_tunnelRestarts m + 1\<rparr>) e;
         e = markTunnelLost e;
         e = set_driver drv (snd (op_StopTunnel (w_ops w) (en_drivers e drv))) e;
         (err, e) = StartTunnel w e
     in if err = None then e
        else LogEvent w ''error'' ''tunnel'' ''tunnel'' ''reconnect'' [(''error'', LvErr)] e)"

text \<open>The tunnel is unreachable or injection-stalled.\<close>

definition health_recover :: "'d world \<Rightarrow> watchdog \<Rightarrow> 'd engine \<Rightarrow> watchdog \<times> 'd engine" where
  "health_recover w wd e =
    (case op_Reresolve (w_ops w) (driver e) of
       None \<Rightarrow> (wd, e)
     | Some ((info, found, daemonAlive), d) \<Rightarrow>
         (let drv = en_drv e; e = set_driver drv d e in
          if found then (wd\<lparr>wd_warnedSearching := False, wd_warnedInjection := False\<rparr>, applyTunnelUpdate w info e)
          else if \<not> daemonAlive then (wd\<lparr>wd_warnedSearching := False\<rparr>, health_restart w drv e)
          else (let e = setTunnelSearching True e in
            if wd_warnedSearching wd then (wd, e)
            else (wd\<lparr>wd_warnedSearching := True\<rparr>, LogEvent w ''warn'' ''tunnel'' ''tunnel'' ''reconnect'' [] e))))"

definition health_probe :: "'d world \<Rightarrow> int \<Rightarrow> watchdog \<Rightarrow> 'd engine \<Rightarrow> watchdog \<times> 'd engine" where
  "health_probe w rtt wd e =
    (let (reachable, d) = op_CheckHealth (w_ops w) (driver e);
         e = set_driver (en_drv e) d e;
         stalled = injectionStalled e
     in if reachable \<and> \<not> stalled then
          (wd\<lparr>wd_warnedSearching := False, wd_warnedInjection := False\<rparr>, recordHealthRTT rtt e)
        else
          (let (wd, e) = (if reachable \<and> stalled \<and> \<not> wd_warnedInjection wd
                 then (wd\<lparr>wd_warnedInjection := True\<rparr>, LogEvent w ''warn'' ''tunnel'' ''tunnel'' ''health'' [] e)
                 else (wd, e))
           in health_recover w wd e))"

text \<open>One pass of the loop: a pending reset is taken from its channel, or the ticker fired.\<close>

definition health_tick :: "'d world \<Rightarrow> int \<Rightarrow> watchdog \<Rightarrow> 'd engine \<Rightarrow> watchdog \<times> 'd engine" where
  "health_tick w rtt wd e =
    (let (wd, e) = (if en_healthReset e
           then (wd\<lparr>wd_lastRetry := None, wd_retryInterval := tunnelRetryInterval\<rparr>, e\<lparr>en_healthReset := False\<rparr>)
           else (wd, e))
     in if \<not> st_TunnelActive (en_st e) then health_retry w wd e
        else health_probe w rtt (wd\<lparr>wd_retryInterval := tunnelRetryInterval\<rparr>) e)"

section \<open>The keepalive\<close>

definition keepalive_tick :: "'d world \<Rightarrow> 'd engine \<Rightarrow> 'd engine" where
  "keepalive_tick w e =
    (if simulationActive e then e
     else if st_TunnelActive (en_st e) \<and> st_LastInjected (en_st e) \<noteq> None \<and> st_State (en_st e) = Running
     then snd (Relance w e) else e)"

section \<open>Metrics\<close>

record metrics_snapshot =
  mt_InjectionsOK :: "64 word"
  mt_InjectionsFailed :: "64 word"
  mt_TunnelStarts :: "64 word"
  mt_TunnelStartFailures :: "64 word"
  mt_TunnelReresolves :: "64 word"
  mt_TunnelRestarts :: "64 word"
  mt_LastStartSeconds :: real

definition Metrics :: "'d engine \<Rightarrow> metrics_snapshot" where
  "Metrics e =
    (let m = en_metrics e in
     \<lparr>mt_InjectionsOK = em_injectionsOK m, mt_InjectionsFailed = em_injectionsFailed m,
      mt_TunnelStarts = em_tunnelStarts m, mt_TunnelStartFailures = em_tunnelStartFailures m,
      mt_TunnelReresolves = em_tunnelReresolves m, mt_TunnelRestarts = em_tunnelRestarts m,
      mt_LastStartSeconds = real_of_int (em_lastStartNanos m) / 1000000000\<rparr>)"

end
