(* ===== verification/Engine_System.thy ===== *)
theory Engine_System
  imports Engine_Health
begin

text \<open>
  The engine as a transition system. \<open>perform\<close> executes one request, one scheduler step of a
  goroutine, or one half of an operation that is cut at a blocking call; a run is any sequence of
  them, each under its own \<open>world\<close>. The frame lemmas say which part of the state each building block
  can touch, the invariants follow from them.
\<close>

section \<open>Frame lemmas of the building blocks\<close>

lemma en_simps [simp]:
  "en_st (emit ev e) = en_st e" "en_wired (emit ev e) = en_wired e" "en_sims (emit ev e) = en_sims e"
  "en_cancelled (emit ev e) = en_cancelled e" "en_cancelSim (emit ev e) = en_cancelSim e"
  "en_nextSim (emit ev e) = en_nextSim e" "en_drv (emit ev e) = en_drv e" "en_drivers (emit ev e) = en_drivers e"
  "en_generation (emit ev e) = en_generation e" "en_log (emit ev e) = en_log e"
  "en_simPaused (emit ev e) = en_simPaused e" "en_registry (emit ev e) = en_registry e"
  "en_driftFailures (emit ev e) = en_driftFailures e" "en_lastReinjection (emit ev e) = en_lastReinjection e"
  "en_tuning (emit ev e) = en_tuning e" "en_metrics (emit ev e) = en_metrics e" "en_cluster (emit ev e) = en_cluster e"
  "en_db (emit ev e) = en_db e" "en_hasStore (emit ev e) = en_hasStore e" "en_nextDrv (emit ev e) = en_nextDrv e"
  "en_healthReset (emit ev e) = en_healthReset e"
  by (simp_all add: emit_def)

lemma en_out_emit [simp]: "en_out (emit ev e) = (if en_wired e then en_out e @ [ev] else en_out e)"
  by (simp add: emit_def)

lemma emitStatus_simps [simp]:
  "en_st (emitStatus e) = en_st e" "en_wired (emitStatus e) = en_wired e" "en_sims (emitStatus e) = en_sims e"
  "en_cancelled (emitStatus e) = en_cancelled e" "en_cancelSim (emitStatus e) = en_cancelSim e"
  "en_nextSim (emitStatus e) = en_nextSim e" "en_drv (emitStatus e) = en_drv e" "en_drivers (emitStatus e) = en_drivers e"
  "en_generation (emitStatus e) = en_generation e" "en_log (emitStatus e) = en_log e"
  "en_simPaused (emitStatus e) = en_simPaused e" "en_registry (emitStatus e) = en_registry e"
  "en_driftFailures (emitStatus e) = en_driftFailures e" "en_lastReinjection (emitStatus e) = en_lastReinjection e"
  "en_tuning (emitStatus e) = en_tuning e" "en_metrics (emitStatus e) = en_metrics e" "en_cluster (emitStatus e) = en_cluster e"
  "en_db (emitStatus e) = en_db e" "en_hasStore (emitStatus e) = en_hasStore e" "en_nextDrv (emitStatus e) = en_nextDrv e"
  "en_healthReset (emitStatus e) = en_healthReset e"
  "en_out (emitStatus e) = (if en_wired e then en_out e @ [EvStatus (en_st e)] else en_out e)"
  by (simp_all add: emitStatus_def)

lemma LogEvent_simps [simp]:
  fixes w l s c a fs
  defines "L \<equiv> LogEvent w l s c a fs"
  shows "en_st (L e) = en_st e" "en_wired (L e) = en_wired e" "en_sims (L e) = en_sims e"
  "en_cancelled (L e) = en_cancelled e" "en_cancelSim (L e) = en_cancelSim e"
  "en_nextSim (L e) = en_nextSim e" "en_drv (L e) = en_drv e" "en_drivers (L e) = en_drivers e"
  "en_generation (L e) = en_generation e"
  "en_simPaused (L e) = en_simPaused e" "en_registry (L e) = en_registry e"
  "en_driftFailures (L e) = en_driftFailures e" "en_lastReinjection (L e) = en_lastReinjection e"
  "en_tuning (L e) = en_tuning e" "en_metrics (L e) = en_metrics e" "en_cluster (L e) = en_cluster e"
  "en_db (L e) = en_db e" "en_hasStore (L e) = en_hasStore e" "en_nextDrv (L e) = en_nextDrv e"
  "en_healthReset (L e) = en_healthReset e"
  "en_out (L e) = (if en_wired e then en_out e @ [EvLog (mk_entry (w_now w) l s c a fs)] else en_out e)"
  by (simp_all add: L_def LogEvent_def Let_def)

lemma upd_st_simps [simp]:
  "en_st (upd_st f e) = f (en_st e)" "en_wired (upd_st f e) = en_wired e" "en_sims (upd_st f e) = en_sims e"
  "en_cancelled (upd_st f e) = en_cancelled e" "en_cancelSim (upd_st f e) = en_cancelSim e"
  "en_nextSim (upd_st f e) = en_nextSim e" "en_drv (upd_st f e) = en_drv e" "en_drivers (upd_st f e) = en_drivers e"
  "en_generation (upd_st f e) = en_generation e" "en_log (upd_st f e) = en_log e" "en_out (upd_st f e) = en_out e"
  "en_simPaused (upd_st f e) = en_simPaused e" "en_registry (upd_st f e) = en_registry e"
  "en_driftFailures (upd_st f e) = en_driftFailures e" "en_lastReinjection (upd_st f e) = en_lastReinjection e"
  "en_tuning (upd_st f e) = en_tuning e" "en_metrics (upd_st f e) = en_metrics e" "en_cluster (upd_st f e) = en_cluster e"
  "en_db (upd_st f e) = en_db e" "en_hasStore (upd_st f e) = en_hasStore e" "en_nextDrv (upd_st f e) = en_nextDrv e"
  "en_healthReset (upd_st f e) = en_healthReset e"
  by (simp_all add: upd_st_def)

lemma upd_metrics_simps [simp]:
  "en_st (upd_metrics g e) = en_st e" "en_wired (upd_metrics g e) = en_wired e" "en_sims (upd_metrics g e) = en_sims e"
  "en_cancelled (upd_metrics g e) = en_cancelled e" "en_cancelSim (upd_metrics g e) = en_cancelSim e"
  "en_nextSim (upd_metrics g e) = en_nextSim e" "en_drv (upd_metrics g e) = en_drv e"
  "en_drivers (upd_metrics g e) = en_drivers e" "en_generation (upd_metrics g e) = en_generation e"
  "en_log (upd_metrics g e) = en_log e" "en_out (upd_metrics g e) = en_out e" "en_registry (upd_metrics g e) = en_registry e"
  "en_simPaused (upd_metrics g e) = en_simPaused e" "en_metrics (upd_metrics g e) = g (en_metrics e)"
  "en_driftFailures (upd_metrics g e) = en_driftFailures e" "en_lastReinjection (upd_metrics g e) = en_lastReinjection e"
  "en_healthReset (upd_metrics g e) = en_healthReset e" "en_nextDrv (upd_metrics g e) = en_nextDrv e"
  by (simp_all add: upd_metrics_def)

lemma set_driver_simps [simp]:
  "en_st (set_driver p d e) = en_st e" "en_wired (set_driver p d e) = en_wired e" "en_sims (set_driver p d e) = en_sims e"
  "en_cancelled (set_driver p d e) = en_cancelled e" "en_cancelSim (set_driver p d e) = en_cancelSim e"
  "en_nextSim (set_driver p d e) = en_nextSim e" "en_drv (set_driver p d e) = en_drv e"
  "en_drivers (set_driver p d e) = (en_drivers e)(p := d)" "en_generation (set_driver p d e) = en_generation e"
  "en_log (set_driver p d e) = en_log e" "en_out (set_driver p d e) = en_out e" "en_registry (set_driver p d e) = en_registry e"
  "en_simPaused (set_driver p d e) = en_simPaused e" "en_metrics (set_driver p d e) = en_metrics e"
  "en_driftFailures (set_driver p d e) = en_driftFailures e" "en_lastReinjection (set_driver p d e) = en_lastReinjection e"
  "en_healthReset (set_driver p d e) = en_healthReset e" "en_nextDrv (set_driver p d e) = en_nextDrv e"
  by (simp_all add: set_driver_def)

lemma updateTunnelHealth_simps [simp]:
  "en_wired (updateTunnelHealth f e) = en_wired e" "en_sims (updateTunnelHealth f e) = en_sims e"
  "en_cancelled (updateTunnelHealth f e) = en_cancelled e" "en_cancelSim (updateTunnelHealth f e) = en_cancelSim e"
  "en_nextSim (updateTunnelHealth f e) = en_nextSim e" "en_drv (updateTunnelHealth f e) = en_drv e"
  "en_drivers (updateTunnelHealth f e) = en_drivers e" "en_generation (updateTunnelHealth f e) = en_generation e"
  "en_log (updateTunnelHealth f e) = en_log e" "en_out (updateTunnelHealth f e) = en_out e"
  "en_simPaused (updateTunnelHealth f e) = en_simPaused e" "en_metrics (updateTunnelHealth f e) = en_metrics e"
  "en_registry (updateTunnelHealth f e) = en_registry e"
  "en_driftFailures (updateTunnelHealth f e) = en_driftFailures e"
  "en_lastReinjection (updateTunnelHealth f e) = en_lastReinjection e" "en_nextDrv (updateTunnelHealth f e) = en_nextDrv e"
  "en_st (updateTunnelHealth f e) = (en_st e)\<lparr>st_TunnelHealth :=
     Some (f (case st_TunnelHealth (en_st e) of Some th \<Rightarrow> th | None \<Rightarrow> zero_health))\<rparr>"
  by (simp_all add: updateTunnelHealth_def Let_def)

lemma set_sim_simps [simp]:
  "en_st (set_sim i p e) = en_st e" "en_wired (set_sim i p e) = en_wired e" "en_sims (set_sim i p e) = (en_sims e)(i := p)"
  "en_cancelled (set_sim i p e) = en_cancelled e" "en_cancelSim (set_sim i p e) = en_cancelSim e"
  "en_nextSim (set_sim i p e) = en_nextSim e" "en_out (set_sim i p e) = en_out e" "en_log (set_sim i p e) = en_log e"
  "en_drv (set_sim i p e) = en_drv e" "en_drivers (set_sim i p e) = en_drivers e" "en_simPaused (set_sim i p e) = en_simPaused e"
  by (simp_all add: set_sim_def)

lemma launch_simps [simp]:
  "en_st (launch p e) = en_st e" "en_wired (launch p e) = en_wired e" "en_out (launch p e) = en_out e"
  "en_log (launch p e) = en_log e" "en_cancelled (launch p e) = en_cancelled e"
  "en_sims (launch p e) = (en_sims e)(en_nextSim e := p)" "en_cancelSim (launch p e) = Some (en_nextSim e)"
  "en_nextSim (launch p e) = en_nextSim e + 1"
  by (simp_all add: launch_def)

lemma stop_simps [simp]:
  "en_st (stopActiveSimulation e) = en_st e" "en_wired (stopActiveSimulation e) = en_wired e"
  "en_out (stopActiveSimulation e) = en_out e" "en_log (stopActiveSimulation e) = en_log e"
  "en_sims (stopActiveSimulation e) = en_sims e" "en_cancelSim (stopActiveSimulation e) = None"
  "en_nextSim (stopActiveSimulation e) = en_nextSim e" "en_simPaused (stopActiveSimulation e) = False"
  "en_cancelled (stopActiveSimulation e) = en_cancelled e \<union> set_option (en_cancelSim e)"
  "en_drv (stopActiveSimulation e) = en_drv e" "en_drivers (stopActiveSimulation e) = en_drivers e"
  "en_generation (stopActiveSimulation e) = en_generation e" "en_registry (stopActiveSimulation e) = en_registry e"
  "en_nextDrv (stopActiveSimulation e) = en_nextDrv e"
  by (auto simp: stopActiveSimulation_def Let_def split: option.splits)

lemma clearActiveStart_simps [simp]:
  "en_st (clearActiveStart g e) = en_st e" "en_wired (clearActiveStart g e) = en_wired e"
  "en_out (clearActiveStart g e) = en_out e" "en_log (clearActiveStart g e) = en_log e"
  "en_sims (clearActiveStart g e) = en_sims e" "en_cancelSim (clearActiveStart g e) = en_cancelSim e"
  "en_nextSim (clearActiveStart g e) = en_nextSim e" "en_cancelled (clearActiveStart g e) = en_cancelled e"
  "en_drivers (clearActiveStart g e) = en_drivers e" "en_drv (clearActiveStart g e) = en_drv e"
  by (simp_all add: clearActiveStart_def)

lemma persist_simps [simp]:
  "en_st (persist w e) = en_st e" "en_wired (persist w e) = en_wired e" "en_sims (persist w e) = en_sims e"
  "en_cancelled (persist w e) = en_cancelled e" "en_cancelSim (persist w e) = en_cancelSim e"
  "en_nextSim (persist w e) = en_nextSim e" "en_drv (persist w e) = en_drv e" "en_drivers (persist w e) = en_drivers e"
  "en_generation (persist w e) = en_generation e" "en_registry (persist w e) = en_registry e"
  "en_tuning (persist w e) = en_tuning e" "en_nextDrv (persist w e) = en_nextDrv e"
  by (simp_all add: persist_def Let_def split: option.splits prod.splits)

lemma persistSecrets_simps [simp]:
  "en_st (persistSecrets w e) = en_st e" "en_wired (persistSecrets w e) = en_wired e"
  "en_sims (persistSecrets w e) = en_sims e" "en_cancelled (persistSecrets w e) = en_cancelled e"
  "en_cancelSim (persistSecrets w e) = en_cancelSim e" "en_nextSim (persistSecrets w e) = en_nextSim e"
  "en_registry (persistSecrets w e) = en_registry e" "en_tuning (persistSecrets w e) = en_tuning e"
  by (simp_all add: persistSecrets_def Let_def split: option.splits prod.splits)

section \<open>What a client sees\<close>

text \<open>
  A client takes the status when it connects and replaces it at each STATUS event. The fields left
  out of \<open>pub\<close> are those the code changes without a broadcast (the latency and failure samples of
  the tunnel, the companion's heartbeat) and the cluster block, which \<open>Status\<close> adds and a broadcast
  does not carry.
\<close>

definition pub :: "status \<Rightarrow> status" where
  "pub st = st\<lparr>st_TunnelHealth := None, st_MaintainActive := False, st_LastHeartbeat := 0, st_Cluster := None\<rparr>"

fun view :: "status \<Rightarrow> event list \<Rightarrow> status" where
  "view s [] = s"
| "view s (EvStatus s' # evs) = view s' evs"
| "view s (_ # evs) = view s evs"

lemma view_append [simp]: "view s (xs @ ys) = view (view s xs) ys"
  by (induction s xs rule: view.induct) auto

lemma pub_view_cong: "pub s = pub s' \<Longrightarrow> pub (view s evs) = pub (view s' evs)"
proof (induction evs arbitrary: s s')
  case (Cons ev evs)
  show ?case using Cons.IH [OF Cons.prems] by (cases ev) simp_all
qed simp

definition grows :: "'d engine \<Rightarrow> 'd engine \<Rightarrow> bool" where
  "grows e e' \<longleftrightarrow> en_wired e' = en_wired e \<and> (en_wired e \<longrightarrow> (\<exists>evs. en_out e' = en_out e @ evs))"

definition follows :: "'d engine \<Rightarrow> 'd engine \<Rightarrow> bool" where
  "follows e e' \<longleftrightarrow> en_wired e' = en_wired e \<and>
     (en_wired e \<longrightarrow> (\<exists>evs. en_out e' = en_out e @ evs \<and> pub (view (en_st e) evs) = pub (en_st e')))"

lemma follows_refl [simp]: "follows e e"
  by (simp add: follows_def)

lemma grows_refl [simp]: "grows e e"
  by (simp add: grows_def)

lemma follows_trans:
  assumes "follows e e1" "follows e1 e2"
  shows "follows e e2"
proof (cases "en_wired e")
  case True
  with assms obtain xs ys where
    x: "en_out e1 = en_out e @ xs" "pub (view (en_st e) xs) = pub (en_st e1)" and
    y: "en_out e2 = en_out e1 @ ys" "pub (view (en_st e1) ys) = pub (en_st e2)"
    by (auto simp: follows_def)
  have "pub (view (view (en_st e) xs) ys) = pub (en_st e2)"
    using pub_view_cong [OF x(2), of ys] y(2) by (rule trans)
  with x y assms show ?thesis unfolding follows_def by (intro conjI impI exI [of _ "xs @ ys"]) simp_all
qed (use assms in \<open>simp add: follows_def\<close>)

lemma follows_grows: "follows e e1 \<Longrightarrow> grows e e1"
  by (auto simp: follows_def grows_def)

lemma grows_trans: "grows e e1 \<Longrightarrow> grows e1 e2 \<Longrightarrow> grows e e2"
  by (auto simp: grows_def)

lemma follows_quietI:
  "follows e x \<Longrightarrow> en_wired x' = en_wired x \<Longrightarrow> en_out x' = en_out x \<Longrightarrow> pub (en_st x') = pub (en_st x) \<Longrightarrow> follows e x'"
  by (simp add: follows_def)

lemma grows_quietI: "grows e x \<Longrightarrow> en_wired x' = en_wired x \<Longrightarrow> en_out x' = en_out x \<Longrightarrow> grows e x'"
  by (simp add: grows_def)

lemma follows_emit: "follows e x \<Longrightarrow> (\<And>s. ev \<noteq> EvStatus s) \<Longrightarrow> follows e (emit ev x)"
  by (cases ev) (auto simp: follows_def)

lemma grows_emit: "grows e x \<Longrightarrow> grows e (emit ev x)"
  by (auto simp: grows_def)

lemma follows_emit_status: "grows e x \<Longrightarrow> s = en_st x \<Longrightarrow> follows e (emit (EvStatus s) x)"
  by (auto simp: follows_def grows_def)

lemma follows_emitStatus: "grows e x \<Longrightarrow> follows e (emitStatus x)"
  unfolding emitStatus_def by (rule follows_emit_status) simp_all

lemma follows_LogEvent: "follows e x \<Longrightarrow> follows e (LogEvent w l s c a fs x)"
  by (auto simp: follows_def)

lemma grows_LogEvent: "grows e x \<Longrightarrow> grows e (LogEvent w l s c a fs x)"
  by (auto simp: grows_def)

lemma follows_persist: "follows e x \<Longrightarrow> follows e (persist w x)"
  unfolding persist_def Let_def
  by (auto split: prod.splits option.splits intro!: follows_LogEvent elim: follows_quietI)

lemma follows_persistSecrets: "follows e x \<Longrightarrow> follows e (persistSecrets w x)"
  unfolding persistSecrets_def Let_def
  by (auto split: prod.splits option.splits intro!: follows_LogEvent elim: follows_quietI)

lemma follows_frame:
  assumes "follows e x"
  shows "follows e (set_driver p d x)" "follows e (set_sim i pr x)" "follows e (launch pr x)"
    "follows e (upd_metrics g x)" "follows e (stopActiveSimulation x)" "follows e (clearActiveStart gen x)"
    "follows e (updateTunnelHealth f x)" "follows e (x\<lparr>en_simPaused := b\<rparr>)" "follows e (x\<lparr>en_driftFailures := n\<rparr>)"
    "follows e (x\<lparr>en_lastReinjection := t\<rparr>)" "follows e (x\<lparr>en_activeStart := b\<rparr>)"
    "follows e (x\<lparr>en_generation := g'\<rparr>)" "follows e (x\<lparr>en_healthReset := b\<rparr>)" "follows e (x\<lparr>en_registry := reg\<rparr>)"
    "follows e (x\<lparr>en_tuning := tu\<rparr>)" "follows e (x\<lparr>en_clusterUpdates := cu\<rparr>)"
    "follows e (x\<lparr>en_hasStore := b\<rparr>)" "follows e (x\<lparr>en_hasSecretStore := b\<rparr>)" "follows e (x\<lparr>en_driverCfg := dc\<rparr>)"
    "follows e (x\<lparr>en_cluster := cl\<rparr>)" "follows e (ResetHealthBackoff x)"
  by (rule follows_quietI [OF assms]; simp add: pub_def ResetHealthBackoff_def)+

lemma grows_frame:
  assumes "grows e x"
  shows "grows e (set_driver p d x)" "grows e (set_sim i pr x)" "grows e (launch pr x)"
    "grows e (upd_metrics g x)" "grows e (stopActiveSimulation x)" "grows e (clearActiveStart gen x)"
    "grows e (updateTunnelHealth f x)" "grows e (upd_st h x)" "grows e (x\<lparr>en_simPaused := b\<rparr>)" "grows e (x\<lparr>en_driftFailures := n\<rparr>)"
    "grows e (x\<lparr>en_lastReinjection := t\<rparr>)" "grows e (x\<lparr>en_activeStart := b\<rparr>)"
    "grows e (x\<lparr>en_generation := g'\<rparr>)" "grows e (x\<lparr>en_healthReset := b\<rparr>)" "grows e (x\<lparr>en_registry := reg\<rparr>)"
    "grows e (x\<lparr>en_tuning := tu\<rparr>)" "grows e (x\<lparr>en_clusterUpdates := cu\<rparr>)" "grows e (ResetHealthBackoff x)"
    "grows e (x\<lparr>en_drv := q, en_drivers := ds, en_nextDrv := nx\<rparr>)"
  by (rule grows_quietI [OF assms]; simp add: ResetHealthBackoff_def)+

lemmas follows_intros = follows_LogEvent follows_emitStatus follows_emit_status follows_persist follows_persistSecrets
  follows_frame grows_frame grows_LogEvent grows_emit follows_refl grows_refl

lemma follows_driverSetLocation: "follows e x \<Longrightarrow> follows e (snd (driverSetLocation w lat lon x))"
  unfolding driverSetLocation_def Let_def
  by (auto split: prod.splits intro!: follows_intros)

lemma follows_injectLocation: "follows e x \<Longrightarrow> follows e (snd (injectLocation w lat lon nm rec x))"
proof -
  assume f: "follows e x"
  have g: "grows e (snd (driverSetLocation w lat lon x))"
    by (rule follows_grows) (rule follows_driverSetLocation [OF f])
  show ?thesis
    using follows_driverSetLocation [OF f, of w lat lon] g f
    unfolding injectLocation_def Let_def pushHistory_def
    by (auto split: prod.splits option.splits intro!: follows_intros)
qed

lemmas follows_ops = follows_intros follows_driverSetLocation follows_injectLocation

lemma follows_SetLocation: "follows e x \<Longrightarrow> follows e (snd (SetLocation w lat lon nm x))"
  unfolding SetLocation_def by (rule follows_injectLocation)

lemma follows_ClearLocation: "follows e x \<Longrightarrow> follows e (snd (ClearLocation w x))"
  unfolding ClearLocation_def Let_def case_prod_unfold
  by (auto split: option.splits intro!: follows_ops dest: follows_grows)

lemma follows_Heartbeat: "follows e x \<Longrightarrow> follows e (snd (Heartbeat w p x))"
  unfolding Heartbeat_def by (auto simp: pub_def elim: follows_quietI)

lemma follows_ReportRealLocation: "follows e x \<Longrightarrow> follows e (ReportRealLocation w lat lon x)"
proof -
  assume f: "follows e x"
  have "grows e (snd (snd (drift_report w lat lon t x)))" for t
    unfolding drift_report_def Let_def
    using follows_grows [OF f] by (auto intro!: follows_ops grows_frame)
  with f show ?thesis
    unfolding ReportRealLocation_def Let_def case_prod_unfold
    by (auto split: option.splits intro!: follows_ops follows_SetLocation)
qed

lemma follows_reinjectAnchor: "follows e x \<Longrightarrow> follows e (snd (reinjectAnchor w a la lo x))"
  unfolding reinjectAnchor_def Let_def case_prod_unfold
  by (auto split: option.splits intro!: follows_ops dest: follows_grows follows_driverSetLocation)

lemma follows_Relance: "follows e x \<Longrightarrow> follows e (snd (Relance w x))"
  unfolding Relance_def
  by (auto split: option.splits intro!: follows_SetLocation follows_reinjectAnchor)

lemma follows_StopRoute: "follows e x \<Longrightarrow> follows e (StopRoute w x)"
  unfolding StopRoute_def Let_def by (auto intro!: follows_ops dest: follows_grows)

lemma follows_PauseRoute: "follows e x \<Longrightarrow> follows e (PauseRoute w x)"
  unfolding PauseRoute_def Let_def by (auto intro!: follows_ops dest: follows_grows)

lemma follows_ResumeRoute: "follows e x \<Longrightarrow> follows e (ResumeRoute w x)"
  unfolding ResumeRoute_def Let_def by (auto intro!: follows_ops dest: follows_grows)

lemma follows_PlayRoute: "follows e x \<Longrightarrow> follows e (snd (PlayRoute w la lo sp pr x))"
  unfolding PlayRoute_def Let_def case_prod_unfold
  by (auto split: sum.splits intro!: follows_ops)

lemma follows_sequence_points: "follows e x \<Longrightarrow> follows e (snd (sequence_points w legs acc x))"
proof (induction legs arbitrary: acc x)
  case (Cons leg legs)
  show ?case using Cons.prems
    by (auto simp: Let_def split: sum.splits intro!: follows_ops Cons.IH)
qed simp

lemma follows_PlaySequence: "follows e x \<Longrightarrow> follows e (snd (PlaySequence w legs l x))"
  unfolding PlaySequence_def Let_def case_prod_unfold
  by (auto intro!: follows_ops follows_sequence_points)

lemma follows_PlayCustomGpx: "follows e x \<Longrightarrow> follows e (snd (PlayCustomGpx w c sp x))"
  unfolding PlayCustomGpx_def Let_def by (auto intro!: follows_ops)

lemma follows_PatrolUpdate: "follows e x \<Longrightarrow> follows e (PatrolUpdate w z x)"
  unfolding PatrolUpdate_def Let_def by (auto intro!: follows_ops dest: follows_grows)

lemma follows_inject_tick: "follows e x \<Longrightarrow> follows e (inject_tick w p nm x)"
  unfolding inject_tick_def simSetLocation_def Let_def case_prod_unfold
  by (auto split: option.splits intro!: follows_ops)

lemma follows_sim_start: "follows e x \<Longrightarrow> follows e (sim_start w i x)"
  unfolding sim_start_def route_start_def patrol_start_def Let_def
  by (auto split: sim_proc.splits intro!: follows_ops dest: follows_grows)

lemma follows_route_tick: "follows e x \<Longrightarrow> follows e (route_tick w i pl k x)"
proof -
  assume f: "follows e x"
  have "follows e (route_finish w i pl k x)"
    using follows_grows [OF f] unfolding route_finish_def Let_def by (auto intro!: follows_ops)
  moreover have "follows e (set_sim i q (route_progress pl n p (inject_tick w p nm x)))" for q n p nm
    using follows_grows [OF follows_inject_tick [OF f]] unfolding route_progress_def
    by (auto intro!: follows_ops)
  ultimately show ?thesis using f unfolding route_tick_def Let_def by auto
qed

lemma follows_patrol_tick: "follows e x \<Longrightarrow> follows e (patrol_tick w i z pos t x)"
  unfolding patrol_tick_def Let_def case_prod_unfold
  by (auto intro!: follows_ops follows_inject_tick)

lemma follows_sim_tick: "follows e x \<Longrightarrow> follows e (sim_tick w i x)"
  unfolding sim_tick_def by (auto split: sim_proc.splits intro!: follows_route_tick follows_patrol_tick)

lemma follows_sim_exit: "follows e x \<Longrightarrow> follows e (sim_exit i x)"
  unfolding sim_exit_def patrol_exit_def
  by (auto split: sim_proc.splits intro!: follows_ops dest: follows_grows)

lemma follows_favorites:
  assumes "follows e x"
  shows "follows e (AddFavorite w la lo nm x)" "follows e (RemoveFavorite w la lo x)"
    "follows e (RenameFavorite w la lo nm x)" "follows e (ClearHistory w x)"
  using assms follows_grows [OF assms]
  unfolding AddFavorite_def RemoveFavorite_def RenameFavorite_def ClearHistory_def Let_def
  by (auto split: option.splits intro!: follows_ops)

lemma grows_save_registry: "grows e x \<Longrightarrow> grows e (save_registry p x)"
  unfolding save_registry_def Let_def by (intro grows_frame)

lemma grows_save_tuning: "grows e x \<Longrightarrow> grows e (save_tuning p x)"
  unfolding save_tuning_def Let_def by (auto intro!: grows_frame)

lemma grows_save_cluster: "grows e x \<Longrightarrow> grows e (save_cluster p x)"
  unfolding save_cluster_def by (auto split: option.splits intro!: grows_frame)

lemma follows_SaveSettings: "follows e x \<Longrightarrow> follows e (SaveSettings w p x)"
  unfolding SaveSettings_def Let_def
  by (auto intro!: follows_ops grows_save_registry grows_save_tuning grows_save_cluster dest: follows_grows)

lemma follows_markTunnelLost: "follows e x \<Longrightarrow> follows e (markTunnelLost x)"
  unfolding markTunnelLost_def by (auto intro!: follows_ops dest: follows_grows)

lemma follows_start_begin: "follows e x \<Longrightarrow> follows e (snd (start_begin w x))"
  unfolding start_begin_def Let_def by (auto intro!: follows_ops dest: follows_grows)

lemma follows_driver_start: "follows e x \<Longrightarrow> follows e (snd (driver_start w p x))"
  unfolding driver_start_def Let_def case_prod_unfold by (auto intro!: follows_ops)

lemma follows_start_finish: "follows e x \<Longrightarrow> follows e (snd (start_finish w p g r tk x))"
  unfolding start_finish_def start_failed_def start_succeeded_def publish_tunnel_def Let_def case_prod_unfold
  by (auto split: sum.splits intro!: follows_ops dest: follows_grows)

lemma follows_StartTunnel: "follows e x \<Longrightarrow> follows e (snd (StartTunnel w x))"
  unfolding StartTunnel_def Let_def case_prod_unfold
  by (auto split: option.splits intro!: follows_start_begin follows_start_finish follows_driver_start)

lemma follows_switch_begin: "follows e x \<Longrightarrow> follows e (snd (switch_begin x))"
  unfolding switch_begin_def Let_def by (auto intro!: follows_ops)

lemma follows_install_driver: "follows e x \<Longrightarrow> follows e (install_driver w d i t x)"
  unfolding install_driver_def Let_def by (auto intro!: follows_ops dest: follows_grows)

lemma follows_switch_failed: "follows e x \<Longrightarrow> follows e (switch_failed w i x)"
  unfolding switch_failed_def Let_def by (auto intro!: follows_ops dest: follows_grows)

lemma follows_switch_finish: "follows e x \<Longrightarrow> follows e (snd (switch_finish w i t wa u cap x))"
  unfolding switch_finish_def Let_def case_prod_unfold
  by (auto split: sum.splits option.splits
      intro!: follows_ops follows_StartTunnel follows_install_driver follows_switch_failed)

lemma follows_SwitchDriver: "follows e x \<Longrightarrow> follows e (snd (SwitchDriver w i t wa u x))"
  unfolding SwitchDriver_def Let_def case_prod_unfold
  by (intro follows_switch_finish follows_switch_begin)

lemma follows_add_step: "follows e (snd r) \<Longrightarrow> follows e (snd (add_step w nm err r))"
  unfolding add_step_def by (auto intro!: follows_ops)

lemma follows_RestartServices: "follows e x \<Longrightarrow> follows e (snd (RestartServices w x))"
  unfolding RestartServices_def Let_def case_prod_unfold
  by (auto intro!: follows_add_step follows_StartTunnel follows_ops follows_markTunnelLost)

lemma follows_RestartTunnel: "follows e x \<Longrightarrow> follows e (snd (RestartTunnel w x))"
  unfolding RestartTunnel_def Let_def case_prod_unfold
  by (auto intro!: follows_ops follows_StartTunnel follows_markTunnelLost)

lemma follows_RestartMdns: "follows e x \<Longrightarrow> follows e (snd (RestartMdns w x))"
  unfolding RestartMdns_def Let_def by (auto intro!: follows_ops)

lemma follows_health_retry: "follows e x \<Longrightarrow> follows e (snd (health_retry w wd x))"
  unfolding health_retry_def Let_def case_prod_unfold by (auto intro!: follows_StartTunnel)

lemma follows_health_restart: "follows e x \<Longrightarrow> follows e (health_restart w p x)"
  unfolding health_restart_def Let_def case_prod_unfold
  by (auto intro!: follows_ops follows_StartTunnel follows_markTunnelLost)

lemma follows_applyTunnelUpdate: "follows e x \<Longrightarrow> follows e (applyTunnelUpdate w i x)"
  unfolding applyTunnelUpdate_def Let_def by (auto intro!: follows_ops dest: follows_grows)

lemma follows_setTunnelSearching: "follows e x \<Longrightarrow> follows e (setTunnelSearching b x)"
  unfolding setTunnelSearching_def by (auto split: option.splits intro!: follows_ops dest: follows_grows)

lemma follows_health_recover: "follows e x \<Longrightarrow> follows e (snd (health_recover w wd x))"
  unfolding health_recover_def Let_def case_prod_unfold
  by (auto split: option.splits intro!: follows_ops follows_applyTunnelUpdate follows_health_restart follows_setTunnelSearching)

lemma follows_health_probe: "follows e x \<Longrightarrow> follows e (snd (health_probe w rtt wd x))"
  unfolding health_probe_def recordHealthRTT_def Let_def case_prod_unfold
  by (auto intro!: follows_ops follows_health_recover)

lemma follows_health_tick: "follows e x \<Longrightarrow> follows e (snd (health_tick w rtt wd x))"
  unfolding health_tick_def Let_def case_prod_unfold
  by (auto intro!: follows_ops follows_health_retry follows_health_probe)

lemma follows_keepalive: "follows e x \<Longrightarrow> follows e (keepalive_tick w x)"
  unfolding keepalive_tick_def by (auto intro!: follows_Relance)

lemma follows_queries:
  assumes "follows e x"
  shows "follows e (snd (GetDeviceInfo w x))" "follows e (snd (PairDevice w x))" "follows e (snd (ListNetworkDevices w x))"
  using assms unfolding GetDeviceInfo_def PairDevice_def ListNetworkDevices_def Let_def
  by (auto split: option.splits intro!: follows_ops)

section \<open>Actions and runs\<close>

datatype action =
    ASetLocation f64 f64 string | AClearLocation | AHeartbeat heartbeat_payload | AReportReal f64 f64 | ARelance
  | AStopRoute | APauseRoute | AResumeRoute | APlayRoute f64 f64 f64 string | APlaySequence "route_leg list" bool
  | APlayGpx string f64 | APatrol patrol_zone | ASimStart nat | ASimTick nat | ASimExit nat
  | AAddFavorite f64 f64 string | ARemoveFavorite f64 f64 | ARenameFavorite f64 f64 string | AClearHistory
  | ASaveSettings save_settings_payload
  | AStartTunnel | AStartBegin | ADriverStart nat | AStartFinish nat "64 word" "driver_error + tunnel_info" int
  | ASwitchDriver string string string string | ASwitchBegin
  | ASwitchFinish string string string string driver_config nat
  | ARestartServices | ARestartTunnel | ARestartMdns | AHealth int watchdog | AKeepalive
  | APair | ADeviceInfo | AListNetwork | ALog string string string string log_fields
  | ASetStore | ASetSecretStore | ASetDriverConfig driver_config | ASetCluster "cluster_view option" | AResetBackoff

fun perform :: "'d world \<Rightarrow> action \<Rightarrow> 'd engine \<Rightarrow> 'd engine" where
  "perform w (ASetLocation lat lon nm) e = snd (SetLocation w lat lon nm e)"
| "perform w AClearLocation e = snd (ClearLocation w e)"
| "perform w (AHeartbeat p) e = snd (Heartbeat w p e)"
| "perform w (AReportReal lat lon) e = ReportRealLocation w lat lon e"
| "perform w ARelance e = snd (Relance w e)"
| "perform w AStopRoute e = StopRoute w e"
| "perform w APauseRoute e = PauseRoute w e"
| "perform w AResumeRoute e = ResumeRoute w e"
| "perform w (APlayRoute la lo sp pr) e = snd (PlayRoute w la lo sp pr e)"
| "perform w (APlaySequence legs l) e = snd (PlaySequence w legs l e)"
| "perform w (APlayGpx c sp) e = snd (PlayCustomGpx w c sp e)"
| "perform w (APatrol z) e = PatrolUpdate w z e"
| "perform w (ASimStart i) e = sim_start w i e"
| "perform w (ASimTick i) e = sim_tick w i e"
| "perform w (ASimExit i) e = sim_exit i e"
| "perform w (AAddFavorite la lo nm) e = AddFavorite w la lo nm e"
| "perform w (ARemoveFavorite la lo) e = RemoveFavorite w la lo e"
| "perform w (ARenameFavorite la lo nm) e = RenameFavorite w la lo nm e"
| "perform w AClearHistory e = ClearHistory w e"
| "perform w (ASaveSettings p) e = SaveSettings w p e"
| "perform w AStartTunnel e = snd (StartTunnel w e)"
| "perform w AStartBegin e = snd (start_begin w e)"
| "perform w (ADriverStart p) e = snd (driver_start w p e)"
| "perform w (AStartFinish p g r tk) e = snd (start_finish w p g r tk e)"
| "perform w (ASwitchDriver i t wa u) e = snd (SwitchDriver w i t wa u e)"
| "perform w ASwitchBegin e = snd (switch_begin e)"
| "perform w (ASwitchFinish i t wa u base old) e = snd (switch_finish w i t wa u (base, old) e)"
| "perform w ARestartServices e = snd (RestartServices w e)"
| "perform w ARestartTunnel e = snd (RestartTunnel w e)"
| "perform w ARestartMdns e = snd (RestartMdns w e)"
| "perform w (AHealth rtt wd) e = snd (health_tick w rtt wd e)"
| "perform w AKeepalive e = keepalive_tick w e"
| "perform w APair e = snd (PairDevice w e)"
| "perform w ADeviceInfo e = snd (GetDeviceInfo w e)"
| "perform w AListNetwork e = snd (ListNetworkDevices w e)"
| "perform w (ALog l s c a fs) e = LogEvent w l s c a fs e"
| "perform w ASetStore e = SetStore e"
| "perform w ASetSecretStore e = SetSecretStore e"
| "perform w (ASetDriverConfig cfg) e = SetDriverConfigBase cfg e"
| "perform w (ASetCluster v) e = SetClusterManager v e"
| "perform w AResetBackoff e = ResetHealthBackoff e"

inductive run :: "'d engine \<Rightarrow> 'd engine \<Rightarrow> bool" where
  run_refl: "run e e"
| run_step: "run e x \<Longrightarrow> run e (perform w a x)"

lemma follows_perform: "follows e x \<Longrightarrow> follows e (perform w a x)"
  by (cases a)
    (auto simp: SetStore_def SetSecretStore_def SetDriverConfigBase_def SetClusterManager_def
      intro!: follows_ops follows_SetLocation follows_ClearLocation follows_Heartbeat follows_ReportRealLocation
        follows_Relance follows_StopRoute follows_PauseRoute follows_ResumeRoute follows_PlayRoute
        follows_PlaySequence follows_PlayCustomGpx follows_PatrolUpdate follows_sim_start follows_sim_tick
        follows_sim_exit follows_favorites follows_SaveSettings follows_StartTunnel follows_start_begin
        follows_driver_start follows_start_finish follows_SwitchDriver follows_switch_begin follows_switch_finish
        follows_RestartServices follows_RestartTunnel follows_RestartMdns follows_health_tick follows_keepalive
        follows_queries)

lemma run_follows: "run e x \<Longrightarrow> follows e x"
  by (induction rule: run.induct) (auto intro: follows_perform)

lemma run_trans: "run x y \<Longrightarrow> run e x \<Longrightarrow> run e y"
  by (induction rule: run.induct) (auto intro: run_step)

lemma pub_Status: "pub (Status e) = pub (en_st e)"
  by (simp add: Status_def pub_def split: option.splits)


section \<open>The lists of the status\<close>

text \<open>
  An invariant of the saved lists of the status (and of the cluster block) that the operations on
  them keep is an invariant of every run, and of every broadcast status. The client lemmas are
  proved once; each invariant is an interpretation.
\<close>

locale list_invariant =
  fixes Q :: "history_entry list \<Rightarrow> favorite list \<Rightarrow> cluster_info option \<Rightarrow> bool"
  assumes Q_push: "Q hs fs c \<Longrightarrow> Q (push lat lon nm now hs) fs c"
    and Q_clear: "Q hs fs c \<Longrightarrow> Q [] fs c"
    and Q_add: "Q hs fs c \<Longrightarrow> findFavoriteIndex fs lat lon = None \<Longrightarrow>
       Q hs (fs @ [\<lparr>fav_lat = lat, fav_lon = lon, fav_name = nm, fav_time = now\<rparr>]) c"
    and Q_remove: "Q hs fs c \<Longrightarrow> Q hs (filter (\<lambda>f. \<not> at_coord lat lon f) fs) c"
    and Q_rename: "Q hs fs c \<Longrightarrow> findFavoriteIndex fs lat lon = Some i \<Longrightarrow>
       Q hs (fs[i := (fs ! i)\<lparr>fav_name := nm\<rparr>]) c"
begin

definition Qs :: "status \<Rightarrow> bool" where
  "Qs st \<longleftrightarrow> Q (st_History st) (st_Favorites st) (st_Cluster st)"

definition inv :: "'d engine \<Rightarrow> bool" where
  "inv e \<longleftrightarrow> Qs (en_st e) \<and> (\<forall>s. EvStatus s \<in> set (en_out e) \<longrightarrow> Qs s)"

lemma inv_quietI: "inv x \<Longrightarrow> en_st x' = en_st x \<Longrightarrow> en_out x' = en_out x \<Longrightarrow> inv x'"
  by (simp add: inv_def)

lemma inv_st: "inv x \<Longrightarrow> Qs (en_st x)"
  by (simp add: inv_def)

lemma inv_upd: "inv x \<Longrightarrow> (Qs (en_st x) \<Longrightarrow> Qs (f (en_st x))) \<Longrightarrow> inv (upd_st f x)"
  by (simp add: inv_def)

lemma inv_emit: "inv x \<Longrightarrow> (\<And>s. ev = EvStatus s \<Longrightarrow> Qs s) \<Longrightarrow> inv (emit ev x)"
  by (auto simp: inv_def)

lemma inv_emitStatus: "inv x \<Longrightarrow> inv (emitStatus x)"
  unfolding emitStatus_def by (rule inv_emit) (auto simp: inv_def)

lemma inv_LogEvent: "inv x \<Longrightarrow> inv (LogEvent w l s c a fs x)"
  by (auto simp: inv_def)

lemma inv_persist: "inv x \<Longrightarrow> inv (persist w x)" "inv x \<Longrightarrow> inv (persistSecrets w x)"
  unfolding persist_def persistSecrets_def Let_def
  by (auto split: prod.splits option.splits intro!: inv_LogEvent elim: inv_quietI)

lemma Qs_fields [simp]:
  "Qs (st\<lparr>st_TunnelHealth := th\<rparr>) = Qs st" "Qs (st\<lparr>st_State := x\<rparr>) = Qs st"
  "Qs (st\<lparr>st_LastInjected := li\<rparr>) = Qs st" "Qs (st\<lparr>st_MaintainActive := b\<rparr>) = Qs st"
  "Qs (st\<lparr>st_LastHeartbeat := i\<rparr>) = Qs st" "Qs (st\<lparr>st_LastReal := r\<rparr>) = Qs st"
  "Qs (st\<lparr>st_LastVerified := v\<rparr>) = Qs st" "Qs (st\<lparr>st_Navigation := n\<rparr>) = Qs st"
  "Qs (st\<lparr>st_Preview := pr\<rparr>) = Qs st" "Qs (st\<lparr>st_Patrol := z\<rparr>) = Qs st"
  "Qs (st\<lparr>st_TunnelActive := b\<rparr>) = Qs st" "Qs (st\<lparr>st_RSDAddress := s\<rparr>) = Qs st"
  "Qs (st\<lparr>st_RSDPort := i\<rparr>) = Qs st" "Qs (st\<lparr>st_ConnectionType := ct\<rparr>) = Qs st"
  "Qs (st\<lparr>st_DeviceInfo := di\<rparr>) = Qs st" "Qs (st\<lparr>st_UsbDriver := s\<rparr>) = Qs st"
  "Qs (st\<lparr>st_WifiDriver := s\<rparr>) = Qs st" "Qs (st\<lparr>st_Fallback := b\<rparr>) = Qs st"
  "Qs (st\<lparr>st_Notifications := b\<rparr>) = Qs st" "Qs (st\<lparr>st_DynamicIsland := b\<rparr>) = Qs st"
  "Qs (st\<lparr>st_Jitter := b\<rparr>) = Qs st" "Qs (st\<lparr>st_OsrmBaseURL := s\<rparr>) = Qs st"
  "Qs (st\<lparr>st_Routing := ri\<rparr>) = Qs st" "Qs (st\<lparr>st_HeartbeatSec := i\<rparr>) = Qs st"
  "Qs (st\<lparr>st_MasterDeadSec := i\<rparr>) = Qs st" "Qs (st\<lparr>st_PeerTimeoutSec := i\<rparr>) = Qs st"
  by (simp_all add: Qs_def)

lemma inv_frame:
  assumes "inv x"
  shows "inv (set_driver p d x)" "inv (set_sim i pr x)" "inv (launch pr x)" "inv (upd_metrics g x)"
    "inv (stopActiveSimulation x)" "inv (clearActiveStart gen x)" "inv (updateTunnelHealth f x)"
    "inv (x\<lparr>en_simPaused := b\<rparr>)" "inv (x\<lparr>en_driftFailures := n\<rparr>)" "inv (x\<lparr>en_lastReinjection := t\<rparr>)"
    "inv (x\<lparr>en_activeStart := b\<rparr>)" "inv (x\<lparr>en_generation := g'\<rparr>)" "inv (x\<lparr>en_healthReset := b\<rparr>)"
    "inv (x\<lparr>en_registry := reg\<rparr>)" "inv (x\<lparr>en_tuning := tu\<rparr>)" "inv (x\<lparr>en_clusterUpdates := cu\<rparr>)"
    "inv (x\<lparr>en_hasStore := b\<rparr>)" "inv (x\<lparr>en_hasSecretStore := b\<rparr>)" "inv (x\<lparr>en_driverCfg := dc\<rparr>)"
    "inv (x\<lparr>en_cluster := cl\<rparr>)" "inv (ResetHealthBackoff x)"
    "inv (x\<lparr>en_drv := q, en_drivers := ds, en_nextDrv := nx\<rparr>)"
  using assms by (simp_all add: inv_def ResetHealthBackoff_def)

lemmas inv_intros = inv_LogEvent inv_emitStatus inv_emit inv_persist inv_frame inv_upd

lemma inv_driverSetLocation: "inv x \<Longrightarrow> inv (snd (driverSetLocation w lat lon x))"
  unfolding driverSetLocation_def Let_def case_prod_unfold by (auto intro!: inv_intros)

lemma inv_injectLocation: "inv x \<Longrightarrow> inv (snd (injectLocation w lat lon nm rec x))"
proof -
  assume "inv x"
  then have i: "inv (snd (driverSetLocation w lat lon x))" by (rule inv_driverSetLocation)
  have h: "Qs st \<Longrightarrow> Qs (st\<lparr>st_LastInjected := li, st_State := s, st_History := push lat lon nm now (st_History st)\<rparr>)"
    for st li s now by (simp add: Qs_def Q_push)
  show ?thesis using i \<open>inv x\<close> inv_st [OF i]
    unfolding injectLocation_def Let_def case_prod_unfold pushHistory_def
    by (auto split: option.splits intro!: inv_intros h)
qed

lemmas inv_ops = inv_intros inv_driverSetLocation inv_injectLocation

lemma inv_SetLocation: "inv x \<Longrightarrow> inv (snd (SetLocation w lat lon nm x))"
  unfolding SetLocation_def by (rule inv_injectLocation)

lemma inv_ClearLocation: "inv x \<Longrightarrow> inv (snd (ClearLocation w x))"
  unfolding ClearLocation_def Let_def case_prod_unfold
  by (auto split: option.splits intro!: inv_ops dest: inv_st)

lemma inv_Heartbeat: "inv x \<Longrightarrow> inv (snd (Heartbeat w p x))"
  unfolding Heartbeat_def by (auto intro!: inv_ops)

lemma inv_drift_report: "inv x \<Longrightarrow> inv (snd (snd (drift_report w lat lon t x)))"
  unfolding drift_report_def Let_def by (auto intro!: inv_ops)

lemma inv_ReportRealLocation: "inv x \<Longrightarrow> inv (ReportRealLocation w lat lon x)"
  unfolding ReportRealLocation_def Let_def case_prod_unfold
  by (auto split: option.splits intro!: inv_ops inv_SetLocation inv_drift_report)

lemma inv_Relance: "inv x \<Longrightarrow> inv (snd (Relance w x))"
  unfolding Relance_def reinjectAnchor_def Let_def case_prod_unfold
  by (auto split: option.splits intro!: inv_ops inv_SetLocation)

lemma inv_routes:
  assumes "inv x"
  shows "inv (StopRoute w x)" "inv (PauseRoute w x)" "inv (ResumeRoute w x)" "inv (snd (PlayRoute w la lo sp pr x))"
    "inv (snd (PlayCustomGpx w c sp x))" "inv (PatrolUpdate w z x)"
  using assms
  unfolding StopRoute_def PauseRoute_def ResumeRoute_def PlayRoute_def PlayCustomGpx_def PatrolUpdate_def
    Let_def case_prod_unfold
  by (auto split: sum.splits intro!: inv_ops)

lemma inv_sequence_points: "inv x \<Longrightarrow> inv (snd (sequence_points w legs acc x))"
proof (induction legs arbitrary: acc x)
  case (Cons leg legs)
  show ?case using Cons.prems
    by (auto simp: Let_def split: sum.splits intro!: inv_ops Cons.IH)
qed simp

lemma inv_PlaySequence: "inv x \<Longrightarrow> inv (snd (PlaySequence w legs l x))"
  unfolding PlaySequence_def Let_def case_prod_unfold by (auto intro!: inv_ops inv_sequence_points)

lemma inv_inject_tick: "inv x \<Longrightarrow> inv (inject_tick w p nm x)"
  unfolding inject_tick_def simSetLocation_def Let_def case_prod_unfold
  by (auto split: option.splits intro!: inv_ops)

lemma inv_sims:
  assumes "inv x"
  shows "inv (sim_start w i x)" "inv (sim_tick w i x)" "inv (sim_exit i x)"
  using assms
  unfolding sim_start_def route_start_def patrol_start_def sim_tick_def route_tick_def route_finish_def
    route_progress_def patrol_tick_def sim_exit_def patrol_exit_def Let_def case_prod_unfold
  by (auto split: sim_proc.splits intro!: inv_ops inv_inject_tick dest: inv_st)

lemma inv_favorites:
  assumes "inv x"
  shows "inv (AddFavorite w la lo nm x)" "inv (RemoveFavorite w la lo x)" "inv (RenameFavorite w la lo nm x)"
    "inv (ClearHistory w x)"
  using assms
  unfolding AddFavorite_def RemoveFavorite_def RenameFavorite_def ClearHistory_def Let_def
  by (auto split: option.splits intro!: inv_ops simp: Qs_def Q_add Q_remove Q_rename intro: Q_clear)

lemma Qs_save_status [simp]: "Qs (save_status w p st) = Qs st"
  by (simp add: save_status_def Qs_def)

lemma inv_save_parts:
  assumes "inv x"
  shows "inv (save_registry p x)" "inv (save_tuning p x)" "inv (save_cluster p x)"
  using assms unfolding save_registry_def save_tuning_def save_cluster_def Let_def
  by (auto split: option.splits intro!: inv_ops)

lemma inv_SaveSettings: "inv x \<Longrightarrow> inv (SaveSettings w p x)"
  unfolding SaveSettings_def Let_def by (auto intro!: inv_ops inv_save_parts)

lemma inv_StartTunnel_parts:
  assumes "inv x"
  shows "inv (markTunnelLost x)" "inv (snd (start_begin w x))" "inv (snd (driver_start w p x))"
    "inv (snd (start_finish w p g r tk x))"
  using assms
  unfolding markTunnelLost_def start_begin_def driver_start_def start_finish_def start_failed_def
    start_succeeded_def publish_tunnel_def Let_def case_prod_unfold
  by (auto split: sum.splits intro!: inv_ops)

lemma inv_StartTunnel: "inv x \<Longrightarrow> inv (snd (StartTunnel w x))"
  unfolding StartTunnel_def Let_def case_prod_unfold
  by (auto split: option.splits intro!: inv_StartTunnel_parts)

lemma inv_switch_begin: "inv x \<Longrightarrow> inv (snd (switch_begin x))"
  unfolding switch_begin_def Let_def by (auto intro!: inv_ops)

lemma inv_switch_finish: "inv x \<Longrightarrow> inv (snd (switch_finish w i t wa u cap x))"
  unfolding switch_finish_def install_driver_def switch_failed_def Let_def case_prod_unfold
  by (auto split: sum.splits option.splits intro!: inv_ops inv_StartTunnel)

lemma inv_SwitchDriver: "inv x \<Longrightarrow> inv (snd (SwitchDriver w i t wa u x))"
  unfolding SwitchDriver_def Let_def case_prod_unfold by (intro inv_switch_finish inv_switch_begin)

lemma inv_add_step: "inv (snd r) \<Longrightarrow> inv (snd (add_step w nm err r))"
  unfolding add_step_def by (auto intro!: inv_ops)

lemma inv_maintenance:
  assumes "inv x"
  shows "inv (snd (RestartServices w x))" "inv (snd (RestartTunnel w x))" "inv (snd (RestartMdns w x))"
  using assms unfolding RestartServices_def RestartTunnel_def RestartMdns_def Let_def case_prod_unfold
  by (auto intro!: inv_add_step inv_StartTunnel inv_StartTunnel_parts inv_ops)

lemma inv_health_restart: "inv x \<Longrightarrow> inv (health_restart w p x)"
  unfolding health_restart_def Let_def case_prod_unfold
  by (auto intro!: inv_ops inv_StartTunnel inv_StartTunnel_parts)

lemma inv_health_recover: "inv x \<Longrightarrow> inv (snd (health_recover w wd x))"
  unfolding health_recover_def applyTunnelUpdate_def setTunnelSearching_def Let_def case_prod_unfold
  by (auto split: option.splits intro!: inv_ops inv_health_restart)

lemma inv_health_tick: "inv x \<Longrightarrow> inv (snd (health_tick w rtt wd x))"
  unfolding health_tick_def health_probe_def health_retry_def recordHealthRTT_def Let_def case_prod_unfold
  by (auto intro!: inv_ops inv_health_recover inv_StartTunnel)

lemma inv_keepalive: "inv x \<Longrightarrow> inv (keepalive_tick w x)"
  unfolding keepalive_tick_def by (auto intro!: inv_Relance)

lemma inv_queries:
  assumes "inv x"
  shows "inv (snd (GetDeviceInfo w x))" "inv (snd (PairDevice w x))" "inv (snd (ListNetworkDevices w x))"
  using assms unfolding GetDeviceInfo_def PairDevice_def ListNetworkDevices_def Let_def
  by (auto split: option.splits intro!: inv_ops)

lemma inv_perform: "inv x \<Longrightarrow> inv (perform w a x)"
  by (cases a)
    (auto simp: SetStore_def SetSecretStore_def SetDriverConfigBase_def SetClusterManager_def
      intro!: inv_ops inv_SetLocation inv_ClearLocation inv_Heartbeat inv_ReportRealLocation inv_Relance inv_routes
        inv_PlaySequence inv_sims inv_favorites inv_SaveSettings inv_StartTunnel inv_StartTunnel_parts
        inv_SwitchDriver inv_switch_begin inv_switch_finish inv_maintenance inv_health_tick inv_keepalive inv_queries)

lemma inv_run: "run e x \<Longrightarrow> inv e \<Longrightarrow> inv x"
  by (induction rule: run.induct) (auto intro: inv_perform)

end

section \<open>A concrete engine\<close>

text \<open>A driver that records the positions it is given, a network without an answer, default settings.\<close>

definition demo_ops :: "latlon list driver_ops" where
  "demo_ops = \<lparr>op_ID = (\<lambda>_. DriverGoIos),
     op_StartTunnel = (\<lambda>now d. (Inr \<lparr>ti_Address = ''fd00::1'', ti_Port = 1234, ti_Type = ConnWiFi, ti_Since = now,
                                 ti_UserspacePort = 0\<rparr>, d)),
     op_StopTunnel = (\<lambda>d. (None, d)), op_SetLocation = (\<lambda>lat lon d. (None, d @ [LatLon lat lon])),
     op_ClearLocation = (\<lambda>d. (None, d)), op_CheckHealth = (\<lambda>d. (True, d)), op_Reresolve = (\<lambda>d. None),
     op_DeviceDetails = (\<lambda>d. None), op_Pair = (\<lambda>d. None), op_ListNetwork = (\<lambda>d. None)\<rparr>"

definition demo_world :: "latlon list world" where
  "demo_world = \<lparr>w_now = 1000, w_fpu = exact_fpu, w_net = offline_net, w_ops = demo_ops,
     w_drivers = \<lparr>dr_factories = [(DriverGoIos, \<lambda>_. Inr [])], dr_infos = []\<rparr>, w_storeFail = None, w_secretFail = None,
     w_gpx = (\<lambda>_. None), w_rand = (\<lambda>_. 1 / 2), w_osrmEnv = [], w_googleEnv = [], w_googleEnv2 = [], w_mapboxEnv = [],
     w_env = \<lparr>env_OS = ''linux'', env_IsDocker = False, env_Mode = ''Headless'', env_Version = ''dev''\<rparr>,
     w_killPmd3 = None, w_restartMdns = None\<rparr>"

definition demo_engine :: "latlon list engine" where
  "demo_engine = OnEvent (New_engine demo_world [] (Default_settings\<lparr>se_Jitter := False\<rparr>)
     \<lparr>tu_heartbeat = 10000000000, tu_masterDead = 30000000000, tu_peerTimeout = 3000000000\<rparr>
     \<lparr>db_settings = None, db_secrets = Map.empty\<rparr>)"

lemma demo_engine_simps [simp]:
  "en_wired demo_engine" "en_out demo_engine = []" "st_Favorites (en_st demo_engine) = []"
  "st_History (en_st demo_engine) = []" "st_Cluster (en_st demo_engine) = None" "en_cancelSim demo_engine = None"
  "en_sims demo_engine = (\<lambda>_. SimDone)" "en_cancelled demo_engine = {}" "en_nextSim demo_engine = 0"
  "st_State (en_st demo_engine) = Idle" "st_TunnelActive (en_st demo_engine) = False" "en_drv demo_engine = 0"
  "en_generation demo_engine = 0" "st_LastInjected (en_st demo_engine) = None" "st_Jitter (en_st demo_engine) = False"
  "st_LastVerified (en_st demo_engine) = None" "en_simPaused demo_engine = False" "en_drivers demo_engine = (\<lambda>_. [])"
  "st_TunnelHealth (en_st demo_engine) = None"
  by (simp_all add: demo_engine_def OnEvent_def New_engine_def NewWithSecrets_def Let_def initial_status_def
      RuntimeConfig_def Default_settings_def)

lemma demo_world_simps [simp]:
  "w_now demo_world = 1000" "w_fpu demo_world = exact_fpu" "w_ops demo_world = demo_ops" "w_net demo_world = offline_net"
  by (simp_all add: demo_world_def)

lemma demo_ops_simps [simp]:
  "op_SetLocation demo_ops lat lon d = (None, d @ [LatLon lat lon])" "op_ID demo_ops d = DriverGoIos"
  "op_StartTunnel demo_ops now d = (Inr \<lparr>ti_Address = ''fd00::1'', ti_Port = 1234, ti_Type = ConnWiFi, ti_Since = now,
     ti_UserspacePort = 0\<rparr>, d)" "op_StopTunnel demo_ops d = (None, d)" "op_CheckHealth demo_ops d = (True, d)"
  by (simp_all add: demo_ops_def)

definition demo_action :: action where
  "demo_action = AAddFavorite (Fin 48) (Fin 2) ''Paris''"

lemma demo_run: "run demo_engine (perform demo_world demo_action demo_engine)"
  by (intro run.intros)


section \<open>History and favourites\<close>

definition same_place :: "favorite \<Rightarrow> favorite \<Rightarrow> bool" where
  "same_place f g \<longleftrightarrow> feq (fav_lat f) (fav_lat g) \<and> feq (fav_lon f) (fav_lon g)"

fun no_repeat :: "history_entry list \<Rightarrow> bool" where
  "no_repeat (a # b # hs) = (\<not> same_place b a \<and> no_repeat (b # hs))"
| "no_repeat _ = True"

definition lists_ok :: "history_entry list \<Rightarrow> favorite list \<Rightarrow> bool" where
  "lists_ok hs fs \<longleftrightarrow> length hs \<le> 20 \<and> no_repeat hs \<and> sorted_wrt (\<lambda>f g. \<not> same_place f g) fs"

lemma no_repeat_take: "no_repeat hs \<Longrightarrow> no_repeat (take n hs)"
proof (induction hs arbitrary: n rule: no_repeat.induct)
  case (1 a b hs)
  then show ?case
  proof (cases n)
    case (Suc m)
    then show ?thesis using 1 by (cases m) (auto dest: "1.IH" [of m])
  qed simp
qed (auto simp: take_Cons split: nat.splits)

lemma no_repeat_push: "no_repeat hs \<Longrightarrow> no_repeat (push lat lon nm now hs)"
proof -
  assume "no_repeat hs"
  then have "hs \<noteq> [] \<Longrightarrow> \<not> (feq (fav_lat (hd hs)) lat \<and> feq (fav_lon (hd hs)) lon) \<Longrightarrow>
      no_repeat (\<lparr>fav_lat = lat, fav_lon = lon, fav_name = nm, fav_time = now\<rparr> # hs)"
    by (cases hs) (simp_all add: same_place_def)
  with \<open>no_repeat hs\<close> show ?thesis
    unfolding push_def by (cases "hs = []") (auto simp: maxHistoryEntries_def simp del: take_Suc_Cons take_Cons_numeral
        intro!: no_repeat_take)
qed

lemma findFavoriteIndex_None: "findFavoriteIndex fs lat lon = None \<longleftrightarrow> (\<forall>f \<in> set fs. \<not> at_coord lat lon f)"
  by (induction fs) auto

lemma findFavoriteIndex_Some:
  "findFavoriteIndex fs lat lon = Some i \<Longrightarrow> i < length fs \<and> at_coord lat lon (fs ! i) \<and> (\<forall>j < i. \<not> at_coord lat lon (fs ! j))"
proof (induction fs arbitrary: i)
  case (Cons f fs)
  then show ?case by (auto simp: nth_Cons split: if_splits nat.splits)
qed simp

lemma sorted_wrt_rename:
  assumes "sorted_wrt (\<lambda>f g. \<not> same_place f g) fs"
  shows "sorted_wrt (\<lambda>f g. \<not> same_place f g) (fs[i := (fs ! i)\<lparr>fav_name := nm\<rparr>])"
proof -
  have "same_place (f\<lparr>fav_name := nm\<rparr>) g = same_place f g" "same_place f (g\<lparr>fav_name := nm\<rparr>) = same_place f g" for f g
    by (simp_all add: same_place_def)
  then have "same_place (fs[i := (fs ! i)\<lparr>fav_name := nm\<rparr>] ! a) (fs[i := (fs ! i)\<lparr>fav_name := nm\<rparr>] ! b) =
      same_place (fs ! a) (fs ! b)" if "a < length fs" "b < length fs" for a b
    using that by (cases "i < length fs") (auto simp: nth_list_update list_update_beyond)
  with assms show ?thesis
    unfolding sorted_wrt_iff_nth_less length_list_update using less_trans by blast
qed

interpretation hf: list_invariant "\<lambda>hs fs c. lists_ok hs fs"
proof
  fix hs fs lat lon nm now assume "lists_ok hs fs"
  then show "lists_ok (push lat lon nm now hs) fs"
    by (auto simp: lists_ok_def no_repeat_push) (simp add: push_def maxHistoryEntries_def)
next
  fix hs :: "history_entry list" and fs lat lon nm now
  assume "lists_ok hs fs" "findFavoriteIndex fs lat lon = None"
  then show "lists_ok hs (fs @ [\<lparr>fav_lat = lat, fav_lon = lon, fav_name = nm, fav_time = now\<rparr>])"
    by (auto simp: lists_ok_def sorted_wrt_append same_place_def findFavoriteIndex_None at_coord_def)
qed (auto simp: lists_ok_def sorted_wrt_filter sorted_wrt_rename)

interpretation nc: list_invariant "\<lambda>hs fs c. c = None"
  by unfold_locales auto

text \<open>
  C30: In every status an engine ever broadcasts, and in the one it holds, the recent history has at
  most 20 entries with no place twice in a row, and no two favourites are at the same place,
  whatever requests, ticks and restarts were interleaved.
\<close>
theorem history_and_favorites:
  assumes "run e e'" "lists_ok (st_History (en_st e)) (st_Favorites (en_st e))" "en_out e = []"
  shows "lists_ok (st_History (en_st e')) (st_Favorites (en_st e')) \<and>
    (\<forall>s. EvStatus s \<in> set (en_out e') \<longrightarrow> lists_ok (st_History s) (st_Favorites s))"
  using hf.inv_run [OF assms(1)] assms(2,3) by (simp add: hf.inv_def hf.Qs_def)

text \<open>
  A broadcast status never carries the cluster block that \<open>Status\<close> adds: a client that had it
  from its connection loses it at the first STATUS event.
\<close>
theorem broadcasts_omit_cluster:
  assumes "run e e'" "st_Cluster (en_st e) = None" "en_out e = []"
  shows "(\<forall>s. EvStatus s \<in> set (en_out e') \<longrightarrow> st_Cluster s = None) \<and>
    (st_Cluster (Status e') = None \<longleftrightarrow> en_cluster e' = None)"
  using nc.inv_run [OF assms(1)] assms(2,3)
  by (auto simp: nc.inv_def nc.Qs_def Status_def split: option.splits)

theorem history_and_favorites_witness:
  "lists_ok (st_History (en_st (perform demo_world demo_action demo_engine)))
     (st_Favorites (en_st (perform demo_world demo_action demo_engine)))"
  using history_and_favorites [OF demo_run] by (simp add: lists_ok_def)

theorem broadcasts_omit_cluster_witness:
  "st_Cluster (Status (perform demo_world (ASetCluster (Some \<lparr>cv_Role = ''master'', cv_Mode = ''auto'', cv_Peers = [],
     cv_SyncCerts = False\<rparr>)) demo_engine)) \<noteq> None"
  using broadcasts_omit_cluster [OF run_step [OF run_refl], of demo_engine demo_world
      "ASetCluster (Some \<lparr>cv_Role = ''master'', cv_Mode = ''auto'', cv_Peers = [], cv_SyncCerts = False\<rparr>)"]
  by (simp add: SetClusterManager_def)

end
