(* ===== verification/Sim_Concurrency.thy ===== *)
theory Sim_Concurrency
  imports Engine_System
begin

text \<open>
  How many simulations run. With every PLAY request executed as a whole, at most one goroutine is
  alive and not cancelled, and it is the one that STOP\_ROUTE cancels. The code does not execute it
  as a whole: \<open>stopActiveSimulation\<close> and the assignment of \<open>cancelSim\<close> are two critical sections of
  \<open>simMu\<close>, and two requests that interleave there lose a cancel function.
\<close>

section \<open>Serialised requests\<close>

definition sims_ok :: "'d engine \<Rightarrow> bool" where
  "sims_ok e \<longleftrightarrow>
     (\<forall>i \<ge> en_nextSim e. en_sims e i = SimDone \<and> i \<notin> en_cancelled e) \<and>
     (\<forall>i. en_sims e i = SimDone \<or> i \<in> en_cancelled e \<or> en_cancelSim e = Some i) \<and>
     (\<forall>i. en_cancelSim e = Some i \<longrightarrow> i < en_nextSim e)"

lemma sims_ok_quietI:
  "sims_ok x \<Longrightarrow> en_sims x' = en_sims x \<Longrightarrow> en_cancelled x' = en_cancelled x \<Longrightarrow>
   en_cancelSim x' = en_cancelSim x \<Longrightarrow> en_nextSim x' = en_nextSim x \<Longrightarrow> sims_ok x'"
  by (simp add: sims_ok_def)

lemma sims_ok_stop: "sims_ok x \<Longrightarrow> sims_ok (stopActiveSimulation x)"
  by (auto simp: sims_ok_def)

lemma sims_ok_launch: "sims_ok x \<Longrightarrow> en_cancelSim x = None \<Longrightarrow> sims_ok (launch p x)"
  by (auto simp: sims_ok_def)

lemma sims_ok_set: "sims_ok x \<Longrightarrow> en_sims x i \<noteq> SimDone \<Longrightarrow> sims_ok (set_sim i p x)"
  by (auto simp: sims_ok_def)

lemma sims_ok_done: "sims_ok x \<Longrightarrow> sims_ok (set_sim i SimDone x)"
  by (auto simp: sims_ok_def)

lemma sims_ok_frame:
  assumes "sims_ok x"
  shows "sims_ok (emit ev x)" "sims_ok (emitStatus x)" "sims_ok (LogEvent w l s c a fs x)" "sims_ok (upd_st f x)"
    "sims_ok (upd_metrics g x)" "sims_ok (set_driver p d x)" "sims_ok (updateTunnelHealth h x)"
    "sims_ok (clearActiveStart gen x)" "sims_ok (persist w x)" "sims_ok (persistSecrets w x)"
    "sims_ok (x\<lparr>en_simPaused := b\<rparr>)" "sims_ok (x\<lparr>en_driftFailures := n\<rparr>)" "sims_ok (x\<lparr>en_lastReinjection := t\<rparr>)"
    "sims_ok (x\<lparr>en_activeStart := b\<rparr>)" "sims_ok (x\<lparr>en_generation := g'\<rparr>)" "sims_ok (x\<lparr>en_healthReset := b\<rparr>)"
    "sims_ok (x\<lparr>en_registry := reg\<rparr>)" "sims_ok (x\<lparr>en_tuning := tu\<rparr>)" "sims_ok (x\<lparr>en_clusterUpdates := cu\<rparr>)"
    "sims_ok (x\<lparr>en_hasStore := b\<rparr>)" "sims_ok (x\<lparr>en_hasSecretStore := b\<rparr>)" "sims_ok (x\<lparr>en_driverCfg := dc\<rparr>)"
    "sims_ok (x\<lparr>en_cluster := cl\<rparr>)" "sims_ok (ResetHealthBackoff x)"
    "sims_ok (x\<lparr>en_drv := q, en_drivers := ds, en_nextDrv := nx\<rparr>)"
  by (rule sims_ok_quietI [OF assms]; simp add: ResetHealthBackoff_def)+

lemmas sims_ok_intros = sims_ok_frame sims_ok_stop sims_ok_launch sims_ok_done

text \<open>Injecting a position leaves the simulations alone.\<close>

lemma inject_sims [simp]:
  "en_sims (snd (injectLocation w la lo nm r x)) = en_sims x"
  "en_cancelled (snd (injectLocation w la lo nm r x)) = en_cancelled x"
  "en_cancelSim (snd (injectLocation w la lo nm r x)) = en_cancelSim x"
  "en_nextSim (snd (injectLocation w la lo nm r x)) = en_nextSim x"
  by (auto simp: injectLocation_def driverSetLocation_def pushHistory_def Let_def case_prod_unfold split: option.splits)

lemma inject_tick_sims [simp]:
  "en_sims (inject_tick w p nm x) = en_sims x" "en_cancelled (inject_tick w p nm x) = en_cancelled x"
  "en_cancelSim (inject_tick w p nm x) = en_cancelSim x" "en_nextSim (inject_tick w p nm x) = en_nextSim x"
  by (auto simp: inject_tick_def simSetLocation_def Let_def case_prod_unfold split: option.splits)

lemma sims_ok_inject: "sims_ok x \<Longrightarrow> sims_ok (snd (injectLocation w la lo nm r x))"
  by (erule sims_ok_quietI) simp_all

lemma sims_ok_driverSetLocation: "sims_ok x \<Longrightarrow> sims_ok (snd (driverSetLocation w la lo x))"
  unfolding driverSetLocation_def Let_def case_prod_unfold by (auto intro!: sims_ok_intros)

lemma sims_ok_location:
  assumes "sims_ok x"
  shows "sims_ok (snd (SetLocation w la lo nm x))" "sims_ok (snd (ClearLocation w x))" "sims_ok (snd (Heartbeat w hp x))"
  using assms unfolding SetLocation_def ClearLocation_def Heartbeat_def Let_def case_prod_unfold
  by (auto split: option.splits intro!: sims_ok_intros sims_ok_inject)

lemma sims_ok_drift_report: "sims_ok x \<Longrightarrow> sims_ok (snd (snd (drift_report w la lo t x)))"
  unfolding drift_report_def Let_def by (auto intro!: sims_ok_intros)

lemma sims_ok_report: "sims_ok x \<Longrightarrow> sims_ok (ReportRealLocation w la lo x)"
  unfolding ReportRealLocation_def Let_def case_prod_unfold
  by (auto split: option.splits intro!: sims_ok_intros sims_ok_location sims_ok_drift_report)

lemma sims_ok_Relance: "sims_ok x \<Longrightarrow> sims_ok (snd (Relance w x))"
  unfolding Relance_def reinjectAnchor_def Let_def case_prod_unfold
  by (auto split: option.splits intro!: sims_ok_intros sims_ok_location sims_ok_driverSetLocation)

lemma sequence_points_sims [simp]: "en_cancelSim (snd (sequence_points w legs acc x)) = en_cancelSim x"
  by (induction legs arbitrary: acc x) (auto simp: Let_def split: sum.splits)

lemma sims_ok_sequence: "sims_ok x \<Longrightarrow> sims_ok (snd (sequence_points w legs acc x))"
proof (induction legs arbitrary: acc x)
  case (Cons leg legs)
  show ?case using Cons.prems by (auto simp: Let_def split: sum.splits intro!: sims_ok_intros Cons.IH)
qed simp

lemma sims_ok_routes:
  assumes "sims_ok x"
  shows "sims_ok (StopRoute w x)" "sims_ok (PauseRoute w x)" "sims_ok (ResumeRoute w x)"
    "sims_ok (snd (PlayRoute w la lo sp pr x))" "sims_ok (snd (PlayCustomGpx w c sp x))"
    "sims_ok (PatrolUpdate w z x)" "sims_ok (snd (PlaySequence w legs l x))"
  using assms
  unfolding StopRoute_def PauseRoute_def ResumeRoute_def PlayRoute_def PlayCustomGpx_def PatrolUpdate_def
    PlaySequence_def Let_def case_prod_unfold
  by (auto split: sum.splits intro!: sims_ok_intros sims_ok_sequence)

lemma sims_ok_inject_tick: "sims_ok x \<Longrightarrow> sims_ok (inject_tick w p nm x)"
  by (erule sims_ok_quietI) simp_all

lemma sims_ok_sims:
  assumes "sims_ok x"
  shows "sims_ok (sim_start w i x)" "sims_ok (sim_tick w i x)" "sims_ok (sim_exit i x)"
  using assms
  unfolding sim_start_def route_start_def patrol_start_def sim_tick_def route_tick_def route_finish_def
    route_progress_def patrol_tick_def sim_exit_def patrol_exit_def Let_def case_prod_unfold
  by (auto split: sim_proc.splits intro!: sims_ok_intros sims_ok_set sims_ok_inject_tick)

lemma sims_ok_lists:
  assumes "sims_ok x"
  shows "sims_ok (AddFavorite w la lo nm x)" "sims_ok (RemoveFavorite w la lo x)"
    "sims_ok (RenameFavorite w la lo nm x)" "sims_ok (ClearHistory w x)"
  using assms unfolding AddFavorite_def RemoveFavorite_def RenameFavorite_def ClearHistory_def Let_def
  by (auto split: option.splits intro!: sims_ok_intros)

lemma sims_ok_save_parts:
  assumes "sims_ok x"
  shows "sims_ok (save_registry p x)" "sims_ok (save_tuning p x)" "sims_ok (save_cluster p x)"
  using assms unfolding save_registry_def save_tuning_def save_cluster_def Let_def
  by (auto split: option.splits intro!: sims_ok_intros)

lemma sims_ok_SaveSettings: "sims_ok x \<Longrightarrow> sims_ok (SaveSettings w p x)"
  unfolding SaveSettings_def Let_def by (auto intro!: sims_ok_intros sims_ok_save_parts)

lemma sims_ok_tunnel_parts:
  assumes "sims_ok x"
  shows "sims_ok (markTunnelLost x)" "sims_ok (snd (start_begin w x))" "sims_ok (snd (driver_start w p x))"
    "sims_ok (snd (start_finish w p g r tk x))" "sims_ok (snd (switch_begin x))"
  using assms
  unfolding markTunnelLost_def start_begin_def driver_start_def start_finish_def start_failed_def
    start_succeeded_def publish_tunnel_def switch_begin_def Let_def case_prod_unfold
  by (auto split: sum.splits intro!: sims_ok_intros)

lemma sims_ok_StartTunnel: "sims_ok x \<Longrightarrow> sims_ok (snd (StartTunnel w x))"
  unfolding StartTunnel_def Let_def case_prod_unfold
  by (auto split: option.splits intro!: sims_ok_tunnel_parts)

lemma sims_ok_switch_finish: "sims_ok x \<Longrightarrow> sims_ok (snd (switch_finish w i t wa u cap x))"
  unfolding switch_finish_def install_driver_def switch_failed_def Let_def case_prod_unfold
  by (auto split: sum.splits option.splits intro!: sims_ok_intros sims_ok_StartTunnel)

lemma sims_ok_SwitchDriver: "sims_ok x \<Longrightarrow> sims_ok (snd (SwitchDriver w i t wa u x))"
  unfolding SwitchDriver_def Let_def case_prod_unfold by (intro sims_ok_switch_finish sims_ok_tunnel_parts)

lemma sims_ok_add_step: "sims_ok (snd r) \<Longrightarrow> sims_ok (snd (add_step w nm err r))"
  unfolding add_step_def by (auto intro!: sims_ok_intros)

lemma sims_ok_maintenance:
  assumes "sims_ok x"
  shows "sims_ok (snd (RestartServices w x))" "sims_ok (snd (RestartTunnel w x))" "sims_ok (snd (RestartMdns w x))"
  using assms unfolding RestartServices_def RestartTunnel_def RestartMdns_def Let_def case_prod_unfold
  by (auto intro!: sims_ok_add_step sims_ok_StartTunnel sims_ok_tunnel_parts sims_ok_intros)

lemma sims_ok_health_restart: "sims_ok x \<Longrightarrow> sims_ok (health_restart w p x)"
  unfolding health_restart_def Let_def case_prod_unfold
  by (auto intro!: sims_ok_intros sims_ok_StartTunnel sims_ok_tunnel_parts)

lemma sims_ok_health_recover: "sims_ok x \<Longrightarrow> sims_ok (snd (health_recover w wd x))"
  unfolding health_recover_def applyTunnelUpdate_def setTunnelSearching_def Let_def case_prod_unfold
  by (auto split: option.splits intro!: sims_ok_intros sims_ok_health_restart)

lemma sims_ok_health_tick: "sims_ok x \<Longrightarrow> sims_ok (snd (health_tick w rtt wd x))"
  unfolding health_tick_def health_probe_def health_retry_def recordHealthRTT_def Let_def case_prod_unfold
  by (auto intro!: sims_ok_intros sims_ok_health_recover sims_ok_StartTunnel)

lemma sims_ok_keepalive: "sims_ok x \<Longrightarrow> sims_ok (keepalive_tick w x)"
  unfolding keepalive_tick_def by (auto intro!: sims_ok_Relance)

lemma sims_ok_queries:
  assumes "sims_ok x"
  shows "sims_ok (snd (GetDeviceInfo w x))" "sims_ok (snd (PairDevice w x))" "sims_ok (snd (ListNetworkDevices w x))"
  using assms unfolding GetDeviceInfo_def PairDevice_def ListNetworkDevices_def Let_def
  by (auto split: option.splits intro!: sims_ok_intros)

lemma sims_ok_perform: "sims_ok x \<Longrightarrow> sims_ok (perform w a x)"
  by (cases a)
    (auto simp: SetStore_def SetSecretStore_def SetDriverConfigBase_def SetClusterManager_def
      intro!: sims_ok_intros sims_ok_location sims_ok_report sims_ok_Relance sims_ok_routes sims_ok_sims sims_ok_lists
        sims_ok_SaveSettings sims_ok_StartTunnel sims_ok_tunnel_parts sims_ok_SwitchDriver sims_ok_switch_finish
        sims_ok_maintenance sims_ok_health_tick sims_ok_keepalive sims_ok_queries)

lemma sims_ok_run: "run e x \<Longrightarrow> sims_ok e \<Longrightarrow> sims_ok x"
  by (induction rule: run.induct) (auto intro: sims_ok_perform)

lemma sims_ok_new: "sims_ok (NewWithSecrets w d cfg sec tun db)"
  by (simp add: NewWithSecrets_def sims_ok_def Let_def)

lemma sims_ok_wired [simp]: "sims_ok (OnEvent e) = sims_ok e"
  by (simp add: sims_ok_def OnEvent_def)

text \<open>
  C5: With serialised requests there is never more than one simulation: from a new engine, after
  any run, every goroutine that is not finished has either been cancelled or is the one whose
  cancel function the engine holds, so STOP\_ROUTE leaves none running.
\<close>
theorem one_live_simulation:
  assumes "run (OnEvent (NewWithSecrets w d cfg sec tun db)) e"
  shows "(en_sims e i = SimDone \<or> i \<in> en_cancelled e \<or> en_cancelSim e = Some i) \<and>
    (en_sims (StopRoute w' e) i = SimDone \<or> i \<in> en_cancelled (StopRoute w' e))"
proof -
  have e: "sims_ok e" using sims_ok_run [OF assms] by (simp add: sims_ok_new)
  have "sims_ok (StopRoute w' e)" by (rule sims_ok_routes [OF e])
  moreover have "en_cancelSim (StopRoute w' e) = None" by (simp add: StopRoute_def Let_def)
  ultimately show ?thesis using e by (auto simp: sims_ok_def)
qed

theorem one_live_simulation_witness:
  "en_sims (StopRoute demo_world (perform demo_world (APlayRoute (Fin 49) (Fin 3) (Fin 50) ''driving'') demo_engine)) 0 = SimDone \<or>
   0 \<in> en_cancelled (StopRoute demo_world (perform demo_world (APlayRoute (Fin 49) (Fin 3) (Fin 50) ''driving'') demo_engine))"
proof -
  have "run demo_engine (perform demo_world (APlayRoute (Fin 49) (Fin 3) (Fin 50) ''driving'') demo_engine)"
    by (intro run.intros)
  from one_live_simulation [OF this [unfolded demo_engine_def New_engine_def], of 0 demo_world]
  show ?thesis unfolding demo_engine_def New_engine_def by blast
qed

section \<open>Interleaved requests\<close>

text \<open>
  A PLAY request with its two critical sections apart: \<open>play_stop\<close> runs first, \<open>play_install\<close> once
  the plan is ready (after the routing provider's answer). Status and log are left out.
\<close>

definition play_stop :: "'d engine \<Rightarrow> 'd engine" where
  "play_stop e = stopActiveSimulation e"

definition play_install :: "plan \<Rightarrow> 'd engine \<Rightarrow> 'd engine" where
  "play_install p e = launch (RouteInit p) e"

text \<open>
  C31: Two PLAY requests that interleave leave a simulation nobody can stop: both stop the old
  simulation before either installs its own, so the second assignment overwrites the first cancel
  function. The first goroutine is alive, not cancelled, and survives any later stop.
\<close>
theorem interleaved_plays_orphan_a_simulation:
  assumes "sims_ok e" "pl_points p \<noteq> []"
  shows "\<exists>i. en_sims (StopRoute w (play_install q (play_install p (play_stop (play_stop e))))) i = RouteInit p \<and>
      i \<notin> en_cancelled (StopRoute w (play_install q (play_install p (play_stop (play_stop e))))) \<and>
      (\<exists>k. en_sims (sim_start w i (StopRoute w (play_install q (play_install p (play_stop (play_stop e)))))) i = RouteLoop p k)"
proof -
  let ?i = "en_nextSim e"
  have "en_sims (StopRoute w (play_install q (play_install p (play_stop (play_stop e))))) ?i = RouteInit p"
    "?i \<notin> en_cancelled (StopRoute w (play_install q (play_install p (play_stop (play_stop e)))))"
    using assms by (auto simp: StopRoute_def play_install_def play_stop_def Let_def sims_ok_def)
  then show ?thesis
    using assms(2) by (intro exI [of _ ?i]) (auto simp: sim_start_def route_start_def Let_def)
qed

theorem interleaved_plays_orphan_a_simulation_witness:
  "\<exists>i. en_sims (StopRoute demo_world (play_install (RoutePath_Plan exact_fpu [paris exact_fpu] (Fin 5) False)
     (play_install (RoutePath_Plan exact_fpu [paris exact_fpu] (Fin 5) True) (play_stop (play_stop demo_engine))))) i =
     RouteInit (RoutePath_Plan exact_fpu [paris exact_fpu] (Fin 5) True)"
proof -
  have "sims_ok demo_engine" by (simp add: demo_engine_def New_engine_def sims_ok_new)
  moreover have "pl_points (RoutePath_Plan exact_fpu [paris exact_fpu] (Fin 5) True) \<noteq> []"
    by (simp add: RoutePath_Plan_def Interpolate_def)
  ultimately show ?thesis
    using interleaved_plays_orphan_a_simulation by blast
qed

end
