(* ===== verification/Engine_Props.thy ===== *)
theory Engine_Props
  imports Sim_Concurrency
begin

text \<open>
  What the engine's operations promise: injection and its health counters, the tunnel's start, loss
  and retry, the anti-drift shield, routes from request to last point, and the persistence of the
  settings across a restart.
\<close>

section \<open>Injection\<close>

definition not_starting :: "'d engine \<Rightarrow> bool" where
  "not_starting e \<longleftrightarrow> \<not> (st_State (en_st e) = Starting \<and> \<not> st_TunnelActive (en_st e))"

definition failures :: "'d engine \<Rightarrow> int" where
  "failures e = (case st_TunnelHealth (en_st e) of Some th \<Rightarrow> th_failures th | None \<Rightarrow> 0)"

lemma inject_effect:
  assumes "not_starting e"
  shows "en_drivers (snd (injectLocation w la lo nm r e)) =
      (en_drivers e)(en_drv e := snd (op_SetLocation (w_ops w) la lo (driver e)))"
    and "en_drv (snd (injectLocation w la lo nm r e)) = en_drv e"
    and "not_starting (snd (injectLocation w la lo nm r e))"
    and "fst (injectLocation w la lo nm r e) = map_option FromDriver (fst (op_SetLocation (w_ops w) la lo (driver e)))"
    and "failures (snd (injectLocation w la lo nm r e)) =
      (if fst (injectLocation w la lo nm r e) = None then 0 else failures e + 1)"
    and "st_LastInjected (en_st (snd (injectLocation w la lo nm r e))) =
      (if fst (injectLocation w la lo nm r e) = None
       then Some \<lparr>ls_lat = la, ls_lon = lo, ls_name = nm, ls_time = w_now w\<rparr> else st_LastInjected (en_st e))"
    and "st_Jitter (en_st (snd (injectLocation w la lo nm r e))) = st_Jitter (en_st e)"
    and "en_simPaused (snd (injectLocation w la lo nm r e)) = en_simPaused e"
    and "st_Navigation (en_st (snd (injectLocation w la lo nm r e))) = st_Navigation (en_st e)"
  using assms
  by (auto simp: injectLocation_def driverSetLocation_def Let_def case_prod_unfold not_starting_def failures_def
      pushHistory_def zero_health_def driver_def split: option.splits)

text \<open>A series of injections, with the outcome of each.\<close>

fun injections :: "'d world \<Rightarrow> latlon list \<Rightarrow> 'd engine \<Rightarrow> bool list \<times> 'd engine" where
  "injections w [] e = ([], e)"
| "injections w (p # ps) e =
    (let (err, e) = SetLocation w (ll_lat p) (ll_lon p) [] e; (oks, e) = injections w ps e
     in ((err = None) # oks, e))"

lemma takeWhile_snoc_all:
  "length (takeWhile Not (xs @ [x])) = (if \<exists>y \<in> set xs. y then length (takeWhile Not xs) else length xs + (if x then 0 else 1))"
  by (induction xs) auto

lemma failures_after:
  "not_starting e \<Longrightarrow> failures (snd (injections w ps e)) =
     int (length (takeWhile Not (rev (fst (injections w ps e))))) +
     (if True \<in> set (fst (injections w ps e)) then 0 else failures e)"
proof (induction ps arbitrary: e)
  case (Cons p ps)
  let ?e = "snd (SetLocation w (ll_lat p) (ll_lon p) [] e)"
  have n: "not_starting ?e" using inject_effect(3) [OF Cons.prems] by (simp add: SetLocation_def)
  have f: "failures ?e = (if fst (SetLocation w (ll_lat p) (ll_lon p) [] e) = None then 0 else failures e + 1)"
    using inject_effect(5) [OF Cons.prems] by (simp add: SetLocation_def)
  have len: "length (takeWhile Not xs) = length xs" if "True \<notin> set xs" for xs
    using that by (induction xs) auto
  show ?case using Cons.IH [OF n] f
    by (auto simp: Let_def case_prod_unfold takeWhile_snoc_all len)
qed simp

text \<open>
  The watchdog's stall detector reads the truth: after any series of injections on a started
  engine, the consecutive-failure counter is the length of the trailing run of failed ones (plus the
  earlier failures if none succeeded), so three failures in a row, and nothing less since the last
  success, mark the tunnel as stalled.
\<close>
theorem injection_failures_are_consecutive:
  assumes "not_starting e"
  shows "let (oks, e') = injections w ps e in
     failures e' = int (length (takeWhile Not (rev oks))) + (if True \<in> set oks then 0 else failures e) \<and>
     injectionStalled e' = (3 \<le> int (length (takeWhile Not (rev oks))) + (if True \<in> set oks then 0 else failures e))"
proof -
  have "injectionStalled x = (3 \<le> failures x)" for x :: "'a engine"
    by (simp add: injectionStalled_def failures_def injectFailureThreshold_def split: option.splits)
  then show ?thesis using failures_after [OF assms, of w ps] by (simp add: Let_def case_prod_unfold)
qed

lemma demo_inject: "not_starting e \<Longrightarrow> fst (injectLocation demo_world la lo nm r e) = None"
  by (simp add: inject_effect)

theorem injection_failures_are_consecutive_witness:
  "failures (snd (injections demo_world [LatLon (Fin 48) (Fin 2), LatLon (Fin 49) (Fin 2)] demo_engine)) = 0"
proof -
  have "not_starting demo_engine" by (simp add: not_starting_def)
  moreover from this have "fst (injections demo_world [LatLon (Fin 48) (Fin 2), LatLon (Fin 49) (Fin 2)] demo_engine) = [True, True]"
    by (simp add: Let_def case_prod_unfold SetLocation_def demo_inject inject_effect(3))
  ultimately show ?thesis
    using injection_failures_are_consecutive [of demo_engine demo_world "[LatLon (Fin 48) (Fin 2), LatLon (Fin 49) (Fin 2)]"]
    by (simp only: Let_def case_prod_unfold) simp
qed

section \<open>The tunnel\<close>


lemma StartTunnel_down:
  assumes "\<not> st_TunnelActive (en_st e)"
  shows "en_drivers (snd (StartTunnel w e)) =
      (en_drivers e)(en_drv e := snd (op_StartTunnel (w_ops w) (w_now w) (en_drivers e (en_drv e))))"
    and "st_TunnelActive (en_st (snd (StartTunnel w e))) =
      (case fst (op_StartTunnel (w_ops w) (w_now w) (en_drivers e (en_drv e))) of Inl _ \<Rightarrow> False | Inr _ \<Rightarrow> True)"
    and "fst (StartTunnel w e) = (case fst (op_StartTunnel (w_ops w) (w_now w) (en_drivers e (en_drv e))) of
      Inl x \<Rightarrow> Some (FromDriver x) | Inr _ \<Rightarrow> None)"
  using assms
  by (auto simp: StartTunnel_def start_begin_def driver_start_def start_finish_def start_failed_def start_succeeded_def
      publish_tunnel_def isCurrentDriverGeneration_def Let_def case_prod_unfold split: sum.splits)

lemma markTunnelLost_simps [simp]:
  "en_drivers (markTunnelLost e) = en_drivers e" "en_drv (markTunnelLost e) = en_drv e"
  "en_metrics (markTunnelLost e) = en_metrics e" "st_TunnelActive (en_st (markTunnelLost e)) = False"
  by (simp_all add: markTunnelLost_def)

lemma StartTunnel_drv: "en_drv (snd (StartTunnel w e)) = en_drv e"
  by (auto simp: StartTunnel_def start_begin_def driver_start_def start_finish_def start_failed_def start_succeeded_def
      publish_tunnel_def Let_def case_prod_unfold split: sum.splits)

lemma StartTunnel_restarts: "em_tunnelRestarts (en_metrics (snd (StartTunnel w e))) = em_tunnelRestarts (en_metrics e)"
  by (auto simp: StartTunnel_def start_begin_def driver_start_def start_finish_def start_failed_def start_succeeded_def
      publish_tunnel_def clearActiveStart_def Let_def case_prod_unfold split: sum.splits)

lemma health_restart_effect:
  fixes w e
  defines "e' \<equiv> health_restart w (en_drv e) e"
    and "d \<equiv> snd (op_StopTunnel (w_ops w) (driver e))"
  shows "driver e' = snd (op_StartTunnel (w_ops w) (w_now w) d)" "en_drv e' = en_drv e"
    "st_TunnelActive (en_st e') = (case fst (op_StartTunnel (w_ops w) (w_now w) d) of Inl _ \<Rightarrow> False | Inr _ \<Rightarrow> True)"
    "em_tunnelRestarts (en_metrics e') = em_tunnelRestarts (en_metrics e) + 1"
  by (simp_all add: e'_def d_def health_restart_def Let_def case_prod_unfold StartTunnel_down StartTunnel_drv
      StartTunnel_restarts driver_def)

text \<open>
  C7: When the daemon has died, one pass of the watchdog really restarts the tunnel: it is not
  swallowed by the stale \<open>TunnelActive\<close> flag. The driver is stopped and then started, and the status
  says active exactly if that start succeeded.
\<close>
theorem daemon_death_restarts:
  assumes "st_TunnelActive (en_st e)" "op_CheckHealth (w_ops w) (driver e) = (False, d1)"
    and "op_Reresolve (w_ops w) d1 = Some ((info, False, False), d2)"
    and "op_StopTunnel (w_ops w) d2 = (err, d3)" "op_StartTunnel (w_ops w) (w_now w) d3 = (r, d4)"
  shows "let e' = snd (health_tick w rtt wd e) in
     driver e' = d4 \<and> en_drv e' = en_drv e \<and>
     st_TunnelActive (en_st e') = (case r of Inl _ \<Rightarrow> False | Inr _ \<Rightarrow> True) \<and>
     em_tunnelRestarts (en_metrics e') = em_tunnelRestarts (en_metrics e) + 1"
proof -
  let ?x = "if en_healthReset e then e\<lparr>en_healthReset := False\<rparr> else e"
  let ?y = "set_driver (en_drv e) d2 (set_driver (en_drv e) d1 ?x)"
  have x: "en_drv ?x = en_drv e" "driver ?x = driver e" "en_metrics ?x = en_metrics e" "st_TunnelActive (en_st ?x)"
    using assms(1) by (simp_all add: driver_def)
  have "snd (health_probe w rtt wd' ?x) = health_restart w (en_drv e) ?y" for wd'
    using assms(2,3) x by (simp add: health_probe_def health_recover_def Let_def driver_def)
  then have "snd (health_tick w rtt wd e) = health_restart w (en_drv e) ?y"
    using assms(1) by (cases "en_healthReset e") (simp_all add: health_tick_def Let_def)
  then show ?thesis
    using health_restart_effect [of w ?y] assms(4,5) x by (simp add: Let_def driver_def)
qed

definition dead_driver :: "bool driver_ops" where
  "dead_driver = \<lparr>op_ID = (\<lambda>_. DriverGoIos),
     op_StartTunnel = (\<lambda>now d. (Inr \<lparr>ti_Address = ''fd00::2'', ti_Port = 4321, ti_Type = ConnWiFi, ti_Since = now,
                                 ti_UserspacePort = 0\<rparr>, True)),
     op_StopTunnel = (\<lambda>d. (None, False)), op_SetLocation = (\<lambda>lat lon d. (None, d)),
     op_ClearLocation = (\<lambda>d. (None, d)), op_CheckHealth = (\<lambda>d. (False, d)),
     op_Reresolve = (\<lambda>d. Some ((\<lparr>ti_Address = [], ti_Port = 0, ti_Type = ConnUnknown, ti_Since = 0, ti_UserspacePort = 0\<rparr>,
        False, False), d)),
     op_DeviceDetails = (\<lambda>d. None), op_Pair = (\<lambda>d. None), op_ListNetwork = (\<lambda>d. None)\<rparr>"

definition dead_world :: "bool world" where
  "dead_world = \<lparr>w_now = 5000, w_fpu = exact_fpu, w_net = offline_net, w_ops = dead_driver,
     w_drivers = \<lparr>dr_factories = [], dr_infos = []\<rparr>, w_storeFail = None, w_secretFail = None,
     w_gpx = (\<lambda>_. None), w_rand = (\<lambda>_. 1 / 2), w_osrmEnv = [], w_googleEnv = [], w_googleEnv2 = [], w_mapboxEnv = [],
     w_env = \<lparr>env_OS = ''linux'', env_IsDocker = False, env_Mode = ''Headless'', env_Version = ''dev''\<rparr>,
     w_killPmd3 = None, w_restartMdns = None\<rparr>"

definition dead_engine :: "bool engine" where
  "dead_engine = upd_st (\<lambda>st. st\<lparr>st_TunnelActive := True\<rparr>)
     (New_engine dead_world False Default_settings \<lparr>tu_heartbeat = 1, tu_masterDead = 1, tu_peerTimeout = 1\<rparr>
        \<lparr>db_settings = None, db_secrets = Map.empty\<rparr>)"

lemma dead_simps [simp]:
  "w_ops dead_world = dead_driver" "w_now dead_world = 5000" "st_TunnelActive (en_st dead_engine)"
  "driver dead_engine = False" "op_CheckHealth dead_driver d = (False, d)" "op_StopTunnel dead_driver d = (None, False)"
  "op_Reresolve dead_driver d = Some ((\<lparr>ti_Address = [], ti_Port = 0, ti_Type = ConnUnknown, ti_Since = 0, ti_UserspacePort = 0\<rparr>,
     False, False), d)"
  "op_StartTunnel dead_driver now d = (Inr \<lparr>ti_Address = ''fd00::2'', ti_Port = 4321, ti_Type = ConnWiFi, ti_Since = now,
     ti_UserspacePort = 0\<rparr>, True)"
  by (simp_all add: dead_world_def dead_driver_def dead_engine_def driver_def New_engine_def NewWithSecrets_def Let_def)

theorem daemon_death_restarts_witness:
  "driver (snd (health_tick dead_world 7 (watchdog_start 0) dead_engine)) = True \<and>
   st_TunnelActive (en_st (snd (health_tick dead_world 7 (watchdog_start 0) dead_engine)))"
  using daemon_death_restarts [of dead_engine dead_world False
      "\<lparr>ti_Address = [], ti_Port = 0, ti_Type = ConnUnknown, ti_Since = 0, ti_UserspacePort = 0\<rparr>" False None False
      "Inr \<lparr>ti_Address = ''fd00::2'', ti_Port = 4321, ti_Type = ConnWiFi, ti_Since = 5000, ti_UserspacePort = 0\<rparr>" True
      7 "watchdog_start 0"]
  by (simp add: Let_def)

section \<open>The backoff\<close>

text \<open>The loop of the watchdog: between two passes anything may happen to the engine.\<close>

fun health_loop :: "('d world \<times> int \<times> 'd engine) list \<Rightarrow> watchdog \<Rightarrow> watchdog" where
  "health_loop [] wd = wd"
| "health_loop ((w, rtt, e) # ticks) wd = health_loop ticks (fst (health_tick w rtt wd e))"

definition backoff_ok :: "watchdog \<Rightarrow> bool" where
  "backoff_ok wd \<longleftrightarrow> tunnelRetryInterval \<le> wd_retryInterval wd \<and> wd_retryInterval wd \<le> tunnelRetryMax"

lemma health_recover_backoff: "wd_retryInterval (fst (health_recover w wd e)) = wd_retryInterval wd"
  by (auto simp: health_recover_def Let_def case_prod_unfold split: option.splits)

lemma health_probe_backoff: "wd_retryInterval (fst (health_probe w rtt wd e)) = wd_retryInterval wd"
  by (auto simp: health_probe_def Let_def case_prod_unfold health_recover_backoff)

lemma health_retry_backoff: "backoff_ok wd \<Longrightarrow> backoff_ok (fst (health_retry w wd e))"
  by (auto simp: health_retry_def Let_def case_prod_unfold backoff_ok_def tunnelRetryInterval_def tunnelRetryMax_def)

lemma health_tick_backoff: "backoff_ok wd \<Longrightarrow> backoff_ok (fst (health_tick w rtt wd e))"
proof -
  assume b: "backoff_ok wd"
  have base: "backoff_ok (x\<lparr>wd_retryInterval := tunnelRetryInterval\<rparr>)" for x
    by (simp add: backoff_ok_def tunnelRetryInterval_def tunnelRetryMax_def)
  have "backoff_ok (wd\<lparr>wd_lastRetry := None, wd_retryInterval := tunnelRetryInterval\<rparr>)"
    by (simp add: backoff_ok_def tunnelRetryInterval_def tunnelRetryMax_def)
  with b base show ?thesis
    by (simp add: health_tick_def Let_def health_retry_backoff)
      (simp add: backoff_ok_def health_probe_backoff)
qed

text \<open>
  The retry delay of the watchdog always lies between 30 seconds and 5 minutes, however long the
  device is away; a failed retry doubles it up to that maximum, a successful one resets it, and no
  retry is made before the delay has elapsed since the last.
\<close>
theorem backoff_bounds:
  "30000 \<le> wd_retryInterval (health_loop ticks (watchdog_start now)) \<and>
   wd_retryInterval (health_loop ticks (watchdog_start now)) \<le> 300000 \<and>
   wd_retryInterval (fst (health_retry w wd e)) =
     (if wd_lastRetry wd = None \<or> wd_retryInterval wd \<le> w_now w - the (wd_lastRetry wd)
      then (if fst (StartTunnel w e) = None then 30000 else min (2 * wd_retryInterval wd) 300000)
      else wd_retryInterval wd) \<and>
   (wd_lastRetry wd = None \<or> wd_retryInterval wd \<le> w_now w - the (wd_lastRetry wd) \<or> snd (health_retry w wd e) = e)"
proof -
  have "backoff_ok wd \<Longrightarrow> backoff_ok (health_loop ticks wd)" for wd
    by (induction ticks wd rule: health_loop.induct) (auto intro: health_tick_backoff)
  moreover have "backoff_ok (watchdog_start now)"
    by (simp add: backoff_ok_def watchdog_start_def tunnelRetryInterval_def tunnelRetryMax_def)
  ultimately have "backoff_ok (health_loop ticks (watchdog_start now))" by simp
  then show ?thesis
    by (auto simp: backoff_ok_def health_retry_def Let_def case_prod_unfold tunnelRetryInterval_def tunnelRetryMax_def
        split: option.splits)
qed

section \<open>The anti-drift shield\<close>

text \<open>
  A series of REAL\_LOCATION reports. Only they touch the two fields of the shield, so anything may
  happen to the rest of the engine between two of them. Each report that has a target yields its
  time, whether it drifts and whether the position is re-injected.
\<close>

record shield_entry =
  sh_time :: int
  sh_drifting :: bool
  sh_attempt :: bool

definition drifts :: "'d world \<Rightarrow> f64 \<Rightarrow> f64 \<Rightarrow> location_stamp \<Rightarrow> bool" where
  "drifts w lat lon t \<longleftrightarrow> flt (Fin driftThresholdMeters) (Distance (w_fpu w) (LatLon lat lon) (stamp_point t))"

fun shield_run :: "('d world \<times> f64 \<times> f64 \<times> 'd engine) list \<Rightarrow> nat \<Rightarrow> int option \<Rightarrow> shield_entry list" where
  "shield_run [] n prev = []"
| "shield_run ((w, lat, lon, e) # rs) n prev =
    (let e = e\<lparr>en_driftFailures := n, en_lastReinjection := prev\<rparr>;
         e' = ReportRealLocation w lat lon e;
         entries = shield_run rs (en_driftFailures e') (en_lastReinjection e')
     in case drift_target (en_st e) of
          None \<Rightarrow> entries
        | Some t \<Rightarrow> \<lparr>sh_time = w_now w, sh_drifting = drifts w lat lon t,
                     sh_attempt = fst (drift_report w lat lon t e)\<rparr> # entries)"

lemma inject_shield [simp]:
  "en_driftFailures (snd (injectLocation w la lo nm r x)) = en_driftFailures x"
  "en_lastReinjection (snd (injectLocation w la lo nm r x)) = en_lastReinjection x"
  by (auto simp: injectLocation_def driverSetLocation_def pushHistory_def updateTunnelHealth_def upd_st_def upd_metrics_def
      set_driver_def LogEvent_def emit_def Let_def case_prod_unfold split: option.splits)

lemma report_no_target: "drift_target (en_st e) = None \<Longrightarrow> ReportRealLocation w la lo e = e"
  by (simp add: ReportRealLocation_def)

lemma drift_report_shield:
  "fst (drift_report w la lo t e) =
     (drifts w la lo t \<and> 1 \<le> en_driftFailures e \<and> cooled_down (w_now w) e)"
  "en_lastReinjection (snd (snd (drift_report w la lo t e))) =
     (if fst (drift_report w la lo t e) then Some (w_now w) else en_lastReinjection e)"
  "en_driftFailures (snd (snd (drift_report w la lo t e))) = (if drifts w la lo t then en_driftFailures e + 1 else 0)"
  by (auto simp: drift_report_def drifts_def Let_def driftConfirmFailures_def upd_st_def cooled_down_def)

lemma report_shield:
  assumes "drift_target (en_st e) = Some t"
  shows "en_lastReinjection (ReportRealLocation w la lo e) =
     (if fst (drift_report w la lo t e) then Some (w_now w) else en_lastReinjection e)"
    and "\<not> fst (drift_report w la lo t e) \<Longrightarrow>
       en_driftFailures (ReportRealLocation w la lo e) = (if drifts w la lo t then en_driftFailures e + 1 else 0)"
    and "\<not> drifts w la lo t \<Longrightarrow> en_driftFailures (ReportRealLocation w la lo e) = 0"
  using assms
  by (auto simp: ReportRealLocation_def drift_report_shield SetLocation_def emitStatus_def emit_def LogEvent_def Let_def
      case_prod_unfold split: option.splits)

definition cool :: "int option \<Rightarrow> int \<Rightarrow> bool" where
  "cool prev now \<longleftrightarrow> (\<forall>t. prev = Some t \<longrightarrow> 15000 < now - t)"

lemma cooled_down_cool: "cooled_down now e = cool (en_lastReinjection e) now"
  by (simp add: cooled_down_def cool_def driftReinjectionCooldown_def split: option.splits)

text \<open>What a series of entries satisfies, given the failures and the last attempt before it.\<close>

fun shield_ok :: "nat \<Rightarrow> int option \<Rightarrow> shield_entry list \<Rightarrow> bool" where
  "shield_ok n prev [] = True"
| "shield_ok n prev (x # xs) =
    (sh_attempt x = (sh_drifting x \<and> 1 \<le> n \<and> cool prev (sh_time x)) \<and>
     (\<exists>m. (\<not> sh_drifting x \<longrightarrow> m = 0) \<and> (sh_drifting x \<and> \<not> sh_attempt x \<longrightarrow> m = n + 1) \<and>
        shield_ok m (if sh_attempt x then Some (sh_time x) else prev) xs))"

lemma shield_run_ok: "shield_ok n prev (shield_run rs n prev)"
proof (induction rs n prev rule: shield_run.induct)
  case (2 w lat lon e rs n prev)
  let ?e = "e\<lparr>en_driftFailures := n, en_lastReinjection := prev\<rparr>"
  show ?case
  proof (cases "drift_target (en_st e)")
    case None
    then have "ReportRealLocation w lat lon ?e = ?e" by (simp add: report_no_target)
    with None "2.IH" [of ?e "ReportRealLocation w lat lon ?e"] show ?thesis by (simp add: Let_def)
  next
    case (Some t)
    have IH: "shield_ok (en_driftFailures (ReportRealLocation w lat lon ?e)) (en_lastReinjection (ReportRealLocation w lat lon ?e))
        (shield_run rs (en_driftFailures (ReportRealLocation w lat lon ?e)) (en_lastReinjection (ReportRealLocation w lat lon ?e)))"
      by (rule "2.IH") simp_all
    have t: "drift_target (en_st ?e) = Some t" using Some by simp
    have a: "fst (drift_report w lat lon t ?e) =
        (drifts w lat lon t \<and> 1 \<le> n \<and> cool prev (w_now w))"
      by (simp add: drift_report_shield cooled_down_cool)
    show ?thesis
      using IH a report_shield [OF t, of w lat lon] Some by (auto simp: Let_def)
  qed
qed simp

lemma shield_ok_nth:
  "shield_ok n prev xs \<Longrightarrow> i < length xs \<Longrightarrow> sh_attempt (xs ! i) \<Longrightarrow>
     sh_drifting (xs ! i) \<and> (if i = 0 then 1 \<le> n else sh_drifting (xs ! (i - 1))) \<and>
     cool prev (sh_time (xs ! i)) \<and>
     (\<forall>j < i. sh_attempt (xs ! j) \<longrightarrow> 15000 < sh_time (xs ! i) - sh_time (xs ! j))"
proof (induction n prev xs arbitrary: i rule: shield_ok.induct)
  case (2 n prev x xs)
  obtain m where m: "\<not> sh_drifting x \<longrightarrow> m = 0" "shield_ok m (if sh_attempt x then Some (sh_time x) else prev) xs"
    using "2.prems"(1) unfolding shield_ok.simps by blast
  show ?case
  proof (cases i)
    case 0
    then show ?thesis using "2.prems" by (auto simp: cool_def)
  next
    case (Suc k)
    have K: "sh_drifting (xs ! k) \<and> (if k = 0 then 1 \<le> m else sh_drifting (xs ! (k - 1))) \<and>
       cool (if sh_attempt x then Some (sh_time x) else prev) (sh_time (xs ! k)) \<and>
       (\<forall>j < k. sh_attempt (xs ! j) \<longrightarrow> 15000 < sh_time (xs ! k) - sh_time (xs ! j))"
      by (rule "2.IH" [OF m(2)]) (use "2.prems"(2,3) Suc in simp_all)
    have p: "sh_drifting ((x # xs) ! k)"
      using K m(1) by (cases k) (auto split: if_splits)
    have l: "cool prev (sh_time (xs ! k))"
      using K "2.prems"(1) by (auto simp: cool_def split: if_splits)
    have j: "15000 < sh_time (xs ! k) - sh_time ((x # xs) ! j)" if "j < Suc k" "sh_attempt ((x # xs) ! j)" for j
      using K that by (cases j) (auto simp: cool_def)
    show ?thesis using K p l j Suc by simp
  qed
qed simp

lemma shield_ok_attempts:
  "shield_ok n prev xs \<Longrightarrow> i < length xs \<Longrightarrow> sh_drifting (xs ! i) \<Longrightarrow>
     (if i = 0 then 1 \<le> n else sh_drifting (xs ! (i - 1)) \<and> \<not> sh_attempt (xs ! (i - 1))) \<Longrightarrow>
     cool prev (sh_time (xs ! i)) \<Longrightarrow>
     (\<forall>j < i. sh_attempt (xs ! j) \<longrightarrow> 15000 < sh_time (xs ! i) - sh_time (xs ! j)) \<Longrightarrow> sh_attempt (xs ! i)"
proof (induction n prev xs arbitrary: i rule: shield_ok.induct)
  case (2 n prev x xs)
  obtain m where m: "sh_drifting x \<and> \<not> sh_attempt x \<longrightarrow> m = n + 1" "shield_ok m (if sh_attempt x then Some (sh_time x) else prev) xs"
    using "2.prems"(1) unfolding shield_ok.simps by blast
  show ?case
  proof (cases i)
    case 0
    then show ?thesis using "2.prems" by (auto simp: cool_def)
  next
    case (Suc k)
    have "15000 < sh_time (xs ! k) - sh_time (xs ! j)" if "j < k" "sh_attempt (xs ! j)" for j
      using "2.prems"(6) [rule_format, of "Suc j"] that Suc by simp
    moreover have "15000 < sh_time (xs ! k) - sh_time x" if "sh_attempt x"
      using "2.prems"(6) [rule_format, of 0] that Suc by simp
    moreover have "if k = 0 then 1 \<le> m else sh_drifting (xs ! (k - 1)) \<and> \<not> sh_attempt (xs ! (k - 1))"
      using "2.prems"(4) m(1) Suc by (cases k) auto
    ultimately have "sh_attempt (xs ! k)"
      using "2.prems"(2,3,5) Suc by (intro "2.IH" [OF m(2)]) (auto simp: cool_def split: if_splits)
    then show ?thesis using Suc by simp
  qed
qed simp

text \<open>
  The shield neither storms nor sleeps. From a new engine, whatever happens between the reports:
  a re-injection follows two reports in a row that are more than 100 m off, any two re-injections
  are more than 15 s apart, and a second drifting report in a row is always answered when no
  re-injection was made on the first or in the last 15 s.
\<close>
theorem drift_shield:
  fixes rs
  defines "xs \<equiv> shield_run rs 0 None"
  shows "\<forall>i < length xs.
     (sh_attempt (xs ! i) \<longrightarrow> i > 0 \<and> sh_drifting (xs ! i) \<and> sh_drifting (xs ! (i - 1)) \<and>
        (\<forall>j < i. sh_attempt (xs ! j) \<longrightarrow> 15000 < sh_time (xs ! i) - sh_time (xs ! j))) \<and>
     (i > 0 \<and> sh_drifting (xs ! i) \<and> sh_drifting (xs ! (i - 1)) \<and> \<not> sh_attempt (xs ! (i - 1)) \<and>
        (\<forall>j < i. sh_attempt (xs ! j) \<longrightarrow> 15000 < sh_time (xs ! i) - sh_time (xs ! j)) \<longrightarrow> sh_attempt (xs ! i))"
proof (intro allI impI)
  fix i assume i: "i < length xs"
  have ok: "shield_ok 0 None xs" unfolding xs_def by (rule shield_run_ok)
  show "(sh_attempt (xs ! i) \<longrightarrow> i > 0 \<and> sh_drifting (xs ! i) \<and> sh_drifting (xs ! (i - 1)) \<and>
        (\<forall>j < i. sh_attempt (xs ! j) \<longrightarrow> 15000 < sh_time (xs ! i) - sh_time (xs ! j))) \<and>
     (i > 0 \<and> sh_drifting (xs ! i) \<and> sh_drifting (xs ! (i - 1)) \<and> \<not> sh_attempt (xs ! (i - 1)) \<and>
        (\<forall>j < i. sh_attempt (xs ! j) \<longrightarrow> 15000 < sh_time (xs ! i) - sh_time (xs ! j)) \<longrightarrow> sh_attempt (xs ! i))"
    using shield_ok_nth [OF ok i] shield_ok_attempts [OF ok i] by (auto simp: cool_def split: if_splits)
qed

lemma far_apart: "flt (Fin 100) (Distance exact_fpu (LatLon (Fin 0) (Fin 180)) (LatLon (Fin 0) (Fin 0)))"
proof -
  have "sin (pi * (180 / 180) / 2) = 1" by simp
  moreover have "100 < 6371000 * pi" using pi_ge_two by simp
  ultimately show ?thesis
    by (simp add: Distance_def Let_def deg2rad_def lit_def fsub_def exact_fpu_def atan2r_def)
qed

definition held_engine :: "latlon list engine" where
  "held_engine = upd_st (\<lambda>st. st\<lparr>st_LastInjected := Some \<lparr>ls_lat = Fin 0, ls_lon = Fin 0, ls_name = [], ls_time = 0\<rparr>\<rparr>) demo_engine"

theorem drift_shield_witness:
  "sh_attempt (shield_run [(demo_world, Fin 0, Fin 180, held_engine), (demo_world, Fin 0, Fin 180, held_engine)] 0 None ! 1)"
proof -
  let ?rs = "[(demo_world, Fin 0, Fin 180, held_engine), (demo_world, Fin 0, Fin 180, held_engine)]"
  have t: "drift_target (en_st held_engine) = Some \<lparr>ls_lat = Fin 0, ls_lon = Fin 0, ls_name = [], ls_time = 0\<rparr>"
    by (simp add: held_engine_def drift_target_def)
  have d: "drifts demo_world (Fin 0) (Fin 180) \<lparr>ls_lat = Fin 0, ls_lon = Fin 0, ls_name = [], ls_time = 0\<rparr>"
    using far_apart by (simp add: drifts_def driftThresholdMeters_def stamp_point_def)
  have len: "length (shield_run ?rs 0 None) = 2" "sh_drifting (shield_run ?rs 0 None ! 0)"
    "sh_drifting (shield_run ?rs 0 None ! 1)"
    using t d by (simp_all add: Let_def)
  define xs where "xs = shield_run ?rs 0 None"
  note l = len [folded xs_def]
  note D = drift_shield [of ?rs, folded xs_def, rule_format]
  have "\<not> sh_attempt (xs ! 0)" using D [of 0] l by auto
  then have "sh_attempt (xs ! 1)" using D [of 1] l by simp
  then show ?thesis by (simp only: xs_def)
qed

section \<open>Restarting\<close>

lemma exportSettings_cong:
  "en_st x = en_st y \<Longrightarrow> en_registry x = en_registry y \<Longrightarrow> en_cluster x = en_cluster y \<Longrightarrow>
   exportSettings x = exportSettings y"
  by (simp add: exportSettings_def)

lemma export_persist_simps [simp]:
  "en_st (persist w x) = en_st x" "en_registry (persist w x) = en_registry x" "en_cluster (persist w x) = en_cluster x"
  "en_tuning (persist w x) = en_tuning x" "en_hasStore (persist w x) = en_hasStore x"
  "en_st (persistSecrets w x) = en_st x" "en_registry (persistSecrets w x) = en_registry x"
  "en_cluster (persistSecrets w x) = en_cluster x" "en_tuning (persistSecrets w x) = en_tuning x"
  "db_settings (en_db (persistSecrets w x)) = db_settings (en_db x)"
  by (auto simp: persist_def persistSecrets_def LogEvent_def emit_def Save_settings_def SaveSecrets_def Let_def)

lemma persist_db:
  "en_hasStore x \<Longrightarrow> w_storeFail w = None \<Longrightarrow>
   db_settings (en_db (persist w x)) = Some (Some (marshal_settings (exportSettings x)))"
  by (simp add: persist_def Save_settings_def Let_def)

lemma LogEvent_db [simp]: "en_db (LogEvent w l s c a fs x) = en_db x" "en_registry (LogEvent w l s c a fs x) = en_registry x"
  "en_cluster (LogEvent w l s c a fs x) = en_cluster x" "en_st (LogEvent w l s c a fs x) = en_st x"
  by (simp_all add: LogEvent_def emit_def Let_def)

lemma save_parts_store [simp]:
  "en_hasStore (save_registry p x) = en_hasStore x" "en_hasStore (save_tuning p x) = en_hasStore x"
  "en_hasStore (save_cluster p x) = en_hasStore x" "en_hasStore (emitStatus x) = en_hasStore x"
  "en_hasStore (upd_st f x) = en_hasStore x"
  by (simp_all add: save_registry_def save_tuning_def save_cluster_def emitStatus_def emit_def upd_st_def Let_def
      split: option.splits)

lemma SaveSettings_db:
  assumes "en_hasStore e" "w_storeFail w = None"
  shows "Load_settings None (en_db (SaveSettings w p e)) = (restored (exportSettings (SaveSettings w p e)), None)"
proof -
  define x where "x = emitStatus (save_cluster p (save_tuning p (save_registry p (upd_st (save_status w p) e))))"
  have "en_hasStore x" using assms(1) by (simp add: x_def)
  then have db: "db_settings (en_db (persist w x)) = Some (Some (marshal_settings (exportSettings x)))"
    using assms(2) by (rule persist_db)
  have s: "SaveSettings w p e = LogEvent w ''info'' ''admin'' ''settings'' ''save'' []
      (if ss_GoogleKey p \<noteq> None \<or> ss_MapboxToken p \<noteq> None then persistSecrets w (persist w x) else persist w x)"
    by (simp add: SaveSettings_def Let_def x_def)
  have "exportSettings (SaveSettings w p e) = exportSettings x"
    by (rule exportSettings_cong) (simp_all add: s)
  moreover have "db_settings (en_db (SaveSettings w p e)) = Some (Some (marshal_settings (exportSettings x)))"
    using db by (simp add: s)
  ultimately show ?thesis by (simp add: Load_settings_def unmarshal_marshal)
qed

lemma save_registry_normal: "normal_config (rg_cfg (en_registry (SaveSettings w p e)))"
proof -
  have [simp]: "en_registry (save_tuning p x) = en_registry x" "en_registry (save_cluster p x) = en_registry x"
    "en_registry (emitStatus x) = en_registry x" "en_registry (upd_st f x) = en_registry x" for f and x :: "'a engine"
    by (simp_all add: save_tuning_def save_cluster_def emitStatus_def emit_def upd_st_def Let_def split: option.splits)
  show ?thesis
    by (simp add: SaveSettings_def save_registry_def UpdateConfig_def Let_def normal_NormalizeConfig)
qed

lemma NormalizeConfig_normal:
  assumes "normal_config c"
  shows "NormalizeMode (rc_Mode c) = rc_Mode c" "NormalizeProviderID (rc_Provider c) = rc_Provider c"
    "rc_Mode c \<noteq> []" "rc_Provider c \<noteq> []" "rc_Priority c \<noteq> []"
proof -
  have m: "NormalizeMode ModeManual = ModeManual" "NormalizeMode ModeAuto = ModeAuto" "ModeManual \<noteq> []" "ModeAuto \<noteq> []"
    by code_simp+
  have p: "\<forall>i \<in> set DefaultPriority. NormalizeProviderID i = i \<and> i \<noteq> []" by code_simp
  have "rc_Mode c = ModeManual \<or> rc_Mode c = ModeAuto" "rc_Provider c \<in> set DefaultPriority"
    "set (rc_Priority c) = set DefaultPriority"
    using assms by (simp_all add: normal_config_def)
  with m p show "NormalizeMode (rc_Mode c) = rc_Mode c" "NormalizeProviderID (rc_Provider c) = rc_Provider c"
    "rc_Mode c \<noteq> []" "rc_Provider c \<noteq> []" "rc_Priority c \<noteq> []"
    by (metis, metis, metis, metis) (use \<open>set (rc_Priority c) = set DefaultPriority\<close> in \<open>auto simp: DefaultPriority_def\<close>)
qed

lemma seconds_id: "0 < n \<Longrightarrow> n \<le> 9223372036 \<Longrightarrow> seconds n = n * 1000000000"
  by (simp add: seconds_def wrap64_def)

lemma restart_tuning:
  fixes s
  defines "rt \<equiv> RuntimeConfig s"
  assumes "0 < se_HeartbeatSec s" "se_HeartbeatSec s \<le> 9223372036" "0 < se_MasterDeadSec s"
    "se_MasterDeadSec s \<le> 9223372036" "0 < se_PeerTimeoutSec s" "se_PeerTimeoutSec s \<le> 9223372036"
  shows "seed_tuning rt tun = \<lparr>tu_heartbeat = se_HeartbeatSec s * 1000000000,
     tu_masterDead = se_MasterDeadSec s * 1000000000, tu_peerTimeout = se_PeerTimeoutSec s * 1000000000\<rparr>"
proof -
  have "rt_HeartbeatSec rt = se_HeartbeatSec s" "rt_MasterDeadSec rt = se_MasterDeadSec s"
    "rt_PeerTimeoutSec rt = se_PeerTimeoutSec s"
    by (simp_all add: rt_def RuntimeConfig_def)
  then show ?thesis using assms(2-) by (simp only: seed_tuning_def SetTuning_def seconds_id) simp
qed

lemma initial_status_simps:
  "st_UsbDriver (initial_status w rt osrm info t) = rt_UsbDriver rt"
  "st_WifiDriver (initial_status w rt osrm info t) = rt_WifiDriver rt"
  "st_Fallback (initial_status w rt osrm info t) = rt_FallbackEnabled rt"
  "st_Notifications (initial_status w rt osrm info t) = rt_Notifications rt"
  "st_DynamicIsland (initial_status w rt osrm info t) = rt_DynamicIsland rt"
  "st_Jitter (initial_status w rt osrm info t) = rt_Jitter rt"
  "st_Favorites (initial_status w rt osrm info t) = rt_Favorites rt"
  "st_History (initial_status w rt osrm info t) = rt_History rt"
  "st_HeartbeatSec (initial_status w rt osrm info t) = whole_seconds (tu_heartbeat t)"
  "st_MasterDeadSec (initial_status w rt osrm info t) = whole_seconds (tu_masterDead t)"
  "st_PeerTimeoutSec (initial_status w rt osrm info t) = whole_seconds (tu_peerTimeout t)"
  "st_OsrmBaseURL (initial_status w rt osrm info t) = osrm"
  by (simp_all add: initial_status_def)

lemma restart_fields:
  "\<exists>osrm info. en_st (NewWithSecrets w drv s sec tun db) =
     initial_status w (RuntimeConfig s) osrm info (seed_tuning (RuntimeConfig s) tun)"
  "en_tuning (NewWithSecrets w drv s sec tun db) = seed_tuning (RuntimeConfig s) tun"
  "se_OsrmBaseURL s \<noteq> [] \<Longrightarrow> en_registry (NewWithSecrets w drv s sec tun db) =
     engine_registry w (RuntimeConfig s) sec (se_OsrmBaseURL s)"
  by (auto simp: NewWithSecrets_def Let_def RuntimeConfig_def)

lemma whole_seconds_seconds: "0 < n \<Longrightarrow> whole_seconds (n * 1000000000) = n"
  by (simp add: whole_seconds_def)

text \<open>The preferences of the operator, as the settings page shows them.\<close>

definition preferences :: "'d engine \<Rightarrow> (string \<times> string) \<times> (bool \<times> bool \<times> bool \<times> bool) \<times>
    favorite list \<times> history_entry list \<times> (int \<times> int \<times> int) \<times> (string \<times> string \<times> string list \<times> string)" where
  "preferences e =
    (let st = en_st e; rc = rg_cfg (en_registry e) in
     ((st_UsbDriver st, st_WifiDriver st),
      (st_Fallback st, st_Notifications st, st_DynamicIsland st, st_Jitter st),
      st_Favorites st, st_History st, (st_HeartbeatSec st, st_MasterDeadSec st, st_PeerTimeoutSec st),
      (rc_Mode rc, rc_Provider rc, rc_Priority rc, rc_OSRMBaseURL rc)))"

definition tuning_in_range :: "status \<Rightarrow> bool" where
  "tuning_in_range st \<longleftrightarrow> (\<forall>n \<in> {st_HeartbeatSec st, st_MasterDeadSec st, st_PeerTimeoutSec st}. 0 < n \<and> n \<le> 9223372036)"

lemma restored_export:
  assumes "normal_config (rg_cfg (en_registry e))" "tuning_in_range (en_st e)"
  shows "restored (exportSettings e) = exportSettings e"
proof -
  have "se_HeartbeatSec (exportSettings e) \<noteq> 0" "se_MasterDeadSec (exportSettings e) \<noteq> 0"
    "se_PeerTimeoutSec (exportSettings e) \<noteq> 0" "se_RoutingMode (exportSettings e) \<noteq> []"
    "se_RoutingProvider (exportSettings e) \<noteq> []" "se_RoutingPriority (exportSettings e) \<noteq> []"
    using assms NormalizeConfig_normal [OF assms(1)]
    by (auto simp: exportSettings_def Let_def tuning_in_range_def split: option.splits)
  then show ?thesis by (simp add: restored_def)
qed

lemma exportSettings_fields:
  "se_UsbDriver (exportSettings e) = st_UsbDriver (en_st e)" "se_WifiDriver (exportSettings e) = st_WifiDriver (en_st e)"
  "se_FallbackEnabled (exportSettings e) = st_Fallback (en_st e)"
  "se_Notifications (exportSettings e) = st_Notifications (en_st e)"
  "se_DynamicIsland (exportSettings e) = st_DynamicIsland (en_st e)" "se_Jitter (exportSettings e) = st_Jitter (en_st e)"
  "se_Favorites (exportSettings e) = st_Favorites (en_st e)" "se_History (exportSettings e) = st_History (en_st e)"
  "se_HeartbeatSec (exportSettings e) = st_HeartbeatSec (en_st e)"
  "se_MasterDeadSec (exportSettings e) = st_MasterDeadSec (en_st e)"
  "se_PeerTimeoutSec (exportSettings e) = st_PeerTimeoutSec (en_st e)"
  "se_RoutingMode (exportSettings e) = rc_Mode (rg_cfg (en_registry e))"
  "se_RoutingProvider (exportSettings e) = rc_Provider (rg_cfg (en_registry e))"
  "se_RoutingPriority (exportSettings e) = rc_Priority (rg_cfg (en_registry e))"
  "se_OsrmBaseURL (exportSettings e) = rc_OSRMBaseURL (rg_cfg (en_registry e))"
  by (simp_all add: exportSettings_def Let_def split: option.splits)

lemma RuntimeConfig_fields:
  "rt_UsbDriver (RuntimeConfig s) = se_UsbDriver s" "rt_WifiDriver (RuntimeConfig s) = se_WifiDriver s"
  "rt_FallbackEnabled (RuntimeConfig s) = se_FallbackEnabled s" "rt_Notifications (RuntimeConfig s) = se_Notifications s"
  "rt_DynamicIsland (RuntimeConfig s) = se_DynamicIsland s" "rt_Jitter (RuntimeConfig s) = se_Jitter s"
  "rt_Favorites (RuntimeConfig s) = se_Favorites s" "rt_History (RuntimeConfig s) = se_History s"
  "rt_RoutingMode (RuntimeConfig s) = se_RoutingMode s" "rt_RoutingProvider (RuntimeConfig s) = se_RoutingProvider s"
  "rt_RoutingPriority (RuntimeConfig s) = se_RoutingPriority s"
  by (simp_all add: RuntimeConfig_def)

lemma preferences_restart:
  assumes "normal_config (rg_cfg (en_registry e))" "tuning_in_range (en_st e)"
    and "u = rc_OSRMBaseURL (rg_cfg (en_registry e))" "u \<noteq> []" "TrimSuffix (TrimSpace u) ''/'' = u"
  shows "preferences (NewWithSecrets w d (exportSettings e) sec tun db) = preferences e"
proof -
  let ?s = "exportSettings e" and ?n = "NewWithSecrets w d (exportSettings e) sec tun db"
  let ?rc = "rg_cfg (en_registry e)"
  have t: "seed_tuning (RuntimeConfig ?s) tun = \<lparr>tu_heartbeat = st_HeartbeatSec (en_st e) * 1000000000,
      tu_masterDead = st_MasterDeadSec (en_st e) * 1000000000, tu_peerTimeout = st_PeerTimeoutSec (en_st e) * 1000000000\<rparr>"
    using assms(2) by (subst restart_tuning) (auto simp: tuning_in_range_def exportSettings_fields)
  have secs: "0 < st_HeartbeatSec (en_st e)" "0 < st_MasterDeadSec (en_st e)" "0 < st_PeerTimeoutSec (en_st e)"
    using assms(2) by (simp_all add: tuning_in_range_def)
  obtain osrm info where st: "en_st ?n = initial_status w (RuntimeConfig ?s) osrm info (seed_tuning (RuntimeConfig ?s) tun)"
    using restart_fields(1) [of w d ?s sec tun db] by blast
  have "se_OsrmBaseURL ?s \<noteq> []" using assms(3,4) by (simp add: exportSettings_fields)
  then have reg: "en_registry ?n = engine_registry w (RuntimeConfig ?s) sec (se_OsrmBaseURL ?s)" by (rule restart_fields(3))
  have "rc_Mode (rg_cfg (en_registry ?n)) = rc_Mode ?rc" "rc_Provider (rg_cfg (en_registry ?n)) = rc_Provider ?rc"
    "rc_Priority (rg_cfg (en_registry ?n)) = rc_Priority ?rc" "rc_OSRMBaseURL (rg_cfg (en_registry ?n)) = rc_OSRMBaseURL ?rc"
    using NormalizeConfig_normal [OF assms(1)] normal_config_priority [OF assms(1)] assms(3,5)
    unfolding reg engine_registry_def NewRegistry_def Let_def
    by (simp_all add: NormalizeConfig_def RuntimeConfig_fields exportSettings_fields)
  then show ?thesis
    by (simp add: preferences_def Let_def st initial_status_simps t whole_seconds_seconds secs RuntimeConfig_fields
        exportSettings_fields)
qed


definition url_payload :: save_settings_payload where
  "url_payload = \<lparr>ss_CompanionPort = None, ss_PreferredDriver = None, ss_UsbDriver = Some DriverGoIos,
     ss_WifiDriver = None, ss_Fallback = Some False, ss_Notifications = None, ss_DynamicIsland = None, ss_Jitter = None,
     ss_OsrmBaseURL = Some ''http://osrm.local/'', ss_RoutingMode = Some '' Manual '', ss_RoutingProvider = None,
     ss_RoutingPriority = None, ss_GoogleKey = None, ss_MapboxToken = None, ss_HeartbeatSec = Some 20,
     ss_MasterDeadSec = None, ss_PeerTimeoutSec = None, ss_ClusterMode = None, ss_ClusterNodes = None,
     ss_ClusterSyncCerts = None\<rparr>"

lemma demo_tuning [simp]:
  "st_HeartbeatSec (en_st demo_engine) = 10" "st_MasterDeadSec (en_st demo_engine) = 30"
  "st_PeerTimeoutSec (en_st demo_engine) = 3" "en_cluster demo_engine = None"
  by (simp_all add: demo_engine_def OnEvent_def New_engine_def NewWithSecrets_def Let_def initial_status_simps
      RuntimeConfig_def Default_settings_def seed_tuning_def SetTuning_def seconds_id whole_seconds_def)

lemma saved_url:
  "tuning_in_range (en_st (SaveSettings demo_world url_payload (SetStore demo_engine)))"
  "rc_OSRMBaseURL (rg_cfg (en_registry (SaveSettings demo_world url_payload (SetStore demo_engine)))) = ''http://osrm.local''"
proof -
  have u: "TrimSuffix (TrimSpace ''http://osrm.local/'') ''/'' = ''http://osrm.local''"
    "TrimSuffix (TrimSpace ''http://osrm.local'') ''/'' = ''http://osrm.local''" by code_simp+
  show "tuning_in_range (en_st (SaveSettings demo_world url_payload (SetStore demo_engine)))"
    "rc_OSRMBaseURL (rg_cfg (en_registry (SaveSettings demo_world url_payload (SetStore demo_engine)))) = ''http://osrm.local''"
    by (simp_all add: SaveSettings_def save_registry_def save_tuning_def save_cluster_def save_status_def save_routing_def
        UpdateConfig_def NormalizeConfig_def url_payload_def or_keep_def positive_def SetStore_def emitStatus_def emit_def
        upd_st_def Let_def u tuning_in_range_def)
qed


section \<open>Tuning seconds\<close>

text \<open>
  The heartbeat period the status shows is the one that runs exactly when it fits a
  \<open>time.Duration\<close>: beyond 9223372036 seconds the multiplication wraps around.
\<close>
theorem shown_tuning_is_applied_iff:
  assumes "0 < n" "n < 2 ^ 63" "ss_HeartbeatSec p = Some n"
  shows "st_HeartbeatSec (en_st (save_tuning p e)) = n \<and>
    (tu_heartbeat (en_tuning (save_tuning p e)) = n * 1000000000 \<longleftrightarrow>
       n \<le> 9223372036 \<or> seconds n \<le> 0 \<and> tu_heartbeat (en_tuning e) = n * 1000000000)"
proof -
  have "seconds n = n * 1000000000 \<longleftrightarrow> n \<le> 9223372036"
  proof
    assume s: "seconds n = n * 1000000000"
    have "seconds n < 2 ^ 63" by (simp add: seconds_def wrap64_def)
    with s show "n \<le> 9223372036" by simp
  qed (use assms(1) in \<open>simp add: seconds_id\<close>)
  moreover have "n \<le> 9223372036 \<Longrightarrow> 0 < seconds n" using assms(1) by (simp add: seconds_id)
  ultimately show ?thesis
    using assms by (auto simp: save_tuning_def positive_def SetTuning_def upd_st_def Let_def)
qed

theorem shown_tuning_is_applied_iff_witness:
  "st_HeartbeatSec (en_st (save_tuning (url_payload\<lparr>ss_HeartbeatSec := Some 18446744074\<rparr>) demo_engine)) = 18446744074 \<and>
   tu_heartbeat (en_tuning (save_tuning (url_payload\<lparr>ss_HeartbeatSec := Some 18446744074\<rparr>) demo_engine)) \<noteq> 18446744074000000000"
proof -
  have "\<not> (seconds 18446744074 \<le> 0)" by (simp add: seconds_def wrap64_def)
  then show ?thesis
    using shown_tuning_is_applied_iff [of 18446744074 "url_payload\<lparr>ss_HeartbeatSec := Some 18446744074\<rparr>" demo_engine]
    by simp
qed

section \<open>Routes\<close>

definition send_to :: "'d world \<Rightarrow> latlon \<Rightarrow> 'd \<Rightarrow> 'd" where
  "send_to w p d = snd (op_SetLocation (w_ops w) (ll_lat p) (ll_lon p) d)"

text \<open>A route that plays undisturbed, at point \<open>k\<close>.\<close>

definition playing :: "nat \<Rightarrow> plan \<Rightarrow> nat \<Rightarrow> 'd engine \<Rightarrow> bool" where
  "playing i pl k e \<longleftrightarrow> en_sims e i = RouteLoop pl k \<and> \<not> en_simPaused e \<and> \<not> st_Jitter (en_st e) \<and> not_starting e"

lemma inject_tick_effect:
  assumes "not_starting e"
  shows "driver (inject_tick w p nm e) = send_to w p (driver e)" "not_starting (inject_tick w p nm e)"
    "st_Jitter (en_st (inject_tick w p nm e)) = st_Jitter (en_st e)"
    "en_simPaused (inject_tick w p nm e) = en_simPaused e"
proof -
  have [simp]: "driver (LogEvent w l s c a fs x) = driver x" "not_starting (LogEvent w l s c a fs x) = not_starting x"
    "en_simPaused (LogEvent w l s c a fs x) = en_simPaused x" for l s c a fs and x :: "'a engine"
    by (simp_all add: driver_def LogEvent_def emit_def not_starting_def Let_def)
  show "driver (inject_tick w p nm e) = send_to w p (driver e)" "not_starting (inject_tick w p nm e)"
    "st_Jitter (en_st (inject_tick w p nm e)) = st_Jitter (en_st e)"
    "en_simPaused (inject_tick w p nm e) = en_simPaused e"
    using inject_effect [OF assms, of w "ll_lat p" "ll_lon p" nm False]
    by (auto simp: inject_tick_def simSetLocation_def case_prod_unfold Let_def send_to_def driver_def split: option.splits)
qed

lemma playing_tick:
  assumes "playing i pl k e" "k < length (pl_points pl)"
  shows "playing i pl (k + 1) (sim_tick w i e)"
    "driver (sim_tick w i e) = send_to w (pl_points pl ! k) (driver e)"
proof -
  let ?x = "inject_tick w (pl_points pl ! k) ''Route simulation'' e"
  have n: "not_starting e" using assms(1) by (simp add: playing_def)
  have t: "sim_tick w i e = set_sim i (RouteLoop pl (k + 1)) (route_progress pl k (pl_points pl ! k) ?x)"
    using assms by (simp add: playing_def sim_tick_def route_tick_def isPaused_def jitter_point_def Let_def)
  show "playing i pl (k + 1) (sim_tick w i e)" "driver (sim_tick w i e) = send_to w (pl_points pl ! k) (driver e)"
    using inject_tick_effect [OF n, of w "pl_points pl ! k" "''Route simulation''"] assms(1) unfolding t
    by (simp_all add: playing_def set_sim_def route_progress_def emitStatus_def emit_def upd_st_def driver_def not_starting_def)
qed

lemma playing_ticks:
  "playing i pl 0 e \<Longrightarrow> n \<le> length (pl_points pl) \<Longrightarrow>
   playing i pl n ((sim_tick w i ^^ n) e) \<and>
   driver ((sim_tick w i ^^ n) e) = fold (send_to w) (take n (pl_points pl)) (driver e)"
proof (induction n)
  case (Suc n)
  then have "playing i pl n ((sim_tick w i ^^ n) e)" "n < length (pl_points pl)" by simp_all
  from playing_tick [OF this, of w] Suc show ?case by (simp add: take_Suc_conv_app_nth)
qed simp

lemma playing_end:
  assumes "playing i pl (length (pl_points pl)) e" "\<not> pl_looping pl"
  shows "en_sims (sim_tick w i e) i = SimDone" "st_State (en_st (sim_tick w i e)) = Ready"
    "driver (sim_tick w i e) = driver e" "en_cancelSim (sim_tick w i e) = en_cancelSim e"
  using assms
  by (simp_all add: playing_def sim_tick_def route_tick_def isPaused_def route_finish_def set_sim_def emit_def upd_st_def
      driver_def Let_def)

lemma try_providers_points: "try_providers info route ps req ids errs = Inr res \<Longrightarrow> rr_Points res \<noteq> []"
  by (induction ids arbitrary: errs) (auto split: option.splits sum.splits if_splits)

text \<open>The waypoints PLAY\_ROUTE plans over: the provider's, or the straight line.\<close>

definition waypoints :: "'d world \<Rightarrow> 'd engine \<Rightarrow> latlon \<Rightarrow> string \<Rightarrow> latlon list" where
  "waypoints w e stop profile =
    (case ask_route w e (start_point w e) stop profile of
       Inl _ \<Rightarrow> [start_point w e, stop] | Inr res \<Rightarrow> rr_Points res)"

lemma waypoints_nonempty: "waypoints w e stop profile \<noteq> []"
  by (auto simp: waypoints_def ask_route_def Registry_Route_def dest: try_providers_points split: sum.splits)

lemma log_route [simp]:
  "en_registry (LogEvent w l s c a fs x) = en_registry x" "en_nextSim (LogEvent w l s c a fs x) = en_nextSim x"
  "en_cancelled (LogEvent w l s c a fs x) = en_cancelled x" "en_simPaused (LogEvent w l s c a fs x) = en_simPaused x"
  "driver (LogEvent w l s c a fs x) = driver x"
  by (simp_all add: LogEvent_def emit_def driver_def Let_def)

lemma stop_route [simp]:
  "en_registry (stopActiveSimulation x) = en_registry x" "en_nextSim (stopActiveSimulation x) = en_nextSim x"
  "en_st (stopActiveSimulation x) = en_st x" "\<not> en_simPaused (stopActiveSimulation x)"
  "driver (stopActiveSimulation x) = driver x"
  "en_cancelled (stopActiveSimulation x) = (case en_cancelSim x of None \<Rightarrow> en_cancelled x | Some i \<Rightarrow> insert i (en_cancelled x))"
  by (auto simp: stopActiveSimulation_def driver_def Let_def split: option.splits)

lemma route_requests_cong:
  "en_st x = en_st y \<Longrightarrow> start_point w x = start_point w y"
  "en_registry x = en_registry y \<Longrightarrow> ask_route w x a b pr = ask_route w y a b pr"
  by (simp_all add: start_point_def ask_route_def)

lemma PlayRoute_launches:
  obtains x where "snd (PlayRoute w la lo sp pr e) =
      launch (RouteInit (RoutePath_Plan (w_fpu w) (waypoints w e (LatLon la lo) pr) sp False)) x"
    "en_nextSim x = en_nextSim e" "en_st x = en_st e" "\<not> en_simPaused x" "driver x = driver e"
    "en_cancelled x = en_cancelled (stopActiveSimulation e)"
proof -
  let ?a = "LogEvent w ''info'' ''simulation'' ''route'' ''play''
     [(''endLat'', LvF la), (''endLon'', LvF lo), (''speed'', LvF sp), (''profile'', LvS (NormalizeProfile pr))]
     (stopActiveSimulation e)"
  have a: "start_point w ?a = start_point w e" "ask_route w ?a p q pr = ask_route w e p q pr" for p q
    by (rule route_requests_cong; simp)+
  show ?thesis
  proof (rule that)
    show "snd (PlayRoute w la lo sp pr e) =
      launch (RouteInit (RoutePath_Plan (w_fpu w) (waypoints w e (LatLon la lo) pr) sp False))
       (LogEvent w ''info'' ''simulation'' ''route'' ''prepared''
          [(''points'', LvI (int (length (pl_points (RoutePath_Plan (w_fpu w) (waypoints w e (LatLon la lo) pr) sp False)))))]
          (case ask_route w e (start_point w e) (LatLon la lo) pr of
             Inl _ \<Rightarrow> LogEvent w ''warn'' ''simulation'' ''route'' ''fallback'' [(''error'', LvErr)] ?a
           | Inr res \<Rightarrow> LogEvent w ''info'' ''routing'' ''provider'' ''selected'' [(''provider'', LvS (rr_ProviderID res))] ?a))"
      unfolding PlayRoute_def Let_def a waypoints_def by (simp split: sum.splits)
  qed (simp_all split: sum.splits)
qed


lemma demo_sims_ok: "sims_ok demo_engine"
  by (simp add: demo_engine_def New_engine_def sims_ok_new)


lemma sim_tick_cancel [simp]: "en_cancelSim (sim_tick w i e) = en_cancelSim e"
  by (auto simp: sim_tick_def route_tick_def route_finish_def route_progress_def patrol_tick_def set_sim_def emitStatus_def
      emit_def upd_st_def Let_def case_prod_unfold split: sim_proc.splits)

lemma sim_ticks_cancel: "en_cancelSim ((sim_tick w i ^^ n) e) = en_cancelSim e"
  by (induction n) simp_all

text \<open>
  A route that has ended still counts as active: the cancel function is never cleared, so the
  position set afterwards is not kept alive at rest, and PAUSE\_ROUTE reports a pause although
  nothing runs.
\<close>
theorem ended_route_still_counts:
  fixes w e la lo sp pr
  defines "ps \<equiv> pl_points (RoutePath_Plan (w_fpu w) (waypoints w e (LatLon la lo) pr) sp False)"
    and "e1 \<equiv> sim_start w (en_nextSim e) (snd (PlayRoute w la lo sp pr e))"
  defines "e2 \<equiv> (sim_tick w (en_nextSim e) ^^ (length ps + 1)) e1"
  shows "keepalive_tick w' (snd (SetLocation w' la' lo' nm e2)) = snd (SetLocation w' la' lo' nm e2) \<and>
    st_State (en_st (PauseRoute w' e2)) = Paused"
proof -
  have "en_cancelSim (snd (PlayRoute w la lo sp pr e)) = Some (en_nextSim e)"
    by (rule PlayRoute_launches [of w la lo sp pr e]) (simp add: launch_def)
  then have "en_cancelSim e1 = Some (en_nextSim e)"
    by (auto simp: e1_def sim_start_def route_start_def patrol_start_def set_sim_def emitStatus_def emit_def upd_st_def Let_def
        split: sim_proc.splits)
  then have "en_cancelSim e2 = Some (en_nextSim e)" by (simp add: e2_def sim_ticks_cancel)
  then show ?thesis
    by (simp add: keepalive_tick_def simulationActive_def SetLocation_def PauseRoute_def LogEvent_def emitStatus_def
        emit_def upd_st_def Let_def)
qed

end
