(* ===== verification/Driver_Mount.thy ===== *)
theory Driver_Mount
  imports Driver_Base
begin

text \<open>
  The tunnel daemon's owner, \<open>internal/driver/tunnel_mount.go\<close>, and the re-resolution helper of
  \<open>internal/driver/endpoint.go\<close>. A daemon process is a number, the mount a record with the fields of
  \<open>TunnelMount\<close> (the channel \<open>exited\<close> is the number of the process whose reaper closes it). \<open>Start\<close> is
  given what the system answers: how the daemon starts, and for each pass of the polling loop the
  resolver's result, the output read so far and the case that \<open>select\<close> takes.

  The second half lets the calls, the reaper goroutines and the processes interleave.
\<close>

section \<open>The mount\<close>

record tunnel_mount =
  tm_info :: tunnel_info
  tm_on :: bool
  tm_cmd :: "nat option"
  tm_udid :: string
  tm_daemonExited :: bool
  tm_exited :: "nat option"

definition zero_info :: tunnel_info where
  "zero_info = \<lparr>ti_Address = [], ti_Port = 0, ti_Type = ConnUnknown, ti_Since = 0, ti_UserspacePort = 0\<rparr>"

definition zero_mount :: tunnel_mount where
  "zero_mount = \<lparr>tm_info = zero_info, tm_on = False, tm_cmd = None, tm_udid = [], tm_daemonExited = False, tm_exited = None\<rparr>"

definition Mount_Current :: "tunnel_mount \<Rightarrow> tunnel_info option" where
  "Mount_Current m = (if tm_on m then Some (tm_info m) else None)"

definition mount_set :: "tunnel_info \<Rightarrow> nat option \<Rightarrow> string \<Rightarrow> tunnel_mount \<Rightarrow> tunnel_mount" where
  "mount_set info cmd udid m =
     m\<lparr>tm_info := info, tm_on := True, tm_cmd := cmd, tm_udid := TrimSpace udid, tm_daemonExited := False\<rparr>"

definition SetActive :: "tunnel_info \<Rightarrow> string \<Rightarrow> tunnel_mount \<Rightarrow> tunnel_mount" where
  "SetActive info udid m = mount_set info None udid m"

definition onDaemonExit :: "nat \<Rightarrow> tunnel_mount \<Rightarrow> tunnel_mount" where
  "onDaemonExit cmd m = (if tm_cmd m = Some cmd then m\<lparr>tm_daemonExited := True\<rparr> else m)"

definition DaemonRunning :: "tunnel_mount \<Rightarrow> bool" where
  "DaemonRunning m \<longleftrightarrow> tm_on m \<and> tm_cmd m \<noteq> None \<and> \<not> tm_daemonExited m"

definition IsManual :: "tunnel_mount \<Rightarrow> bool" where
  "IsManual m \<longleftrightarrow> tm_on m \<and> tm_cmd m = None"

definition UpdateInfo :: "tunnel_info \<Rightarrow> tunnel_mount \<Rightarrow> tunnel_mount" where
  "UpdateInfo info m = (if tm_on m then m\<lparr>tm_info := info\<rparr> else m)"

text \<open>\<open>Stop\<close>: the cleared mount, and the process it kills and waits for.\<close>

definition Mount_Stop :: "tunnel_mount \<Rightarrow> nat option \<times> tunnel_mount" where
  "Mount_Stop m =
    (if tm_on m then tm_cmd m else None,
     m\<lparr>tm_info := zero_info, tm_on := False, tm_cmd := None, tm_udid := [], tm_daemonExited := False\<rparr>)"

definition healthDialTarget :: "tunnel_info \<Rightarrow> string" where
  "healthDialTarget ti =
    (if 0 < ti_UserspacePort ti then JoinHostPort ''127.0.0.1'' (Itoa (ti_UserspacePort ti))
     else JoinHostPort (ti_Address ti) (Itoa (ti_Port ti)))"

definition Mount_CheckHealth :: "(string \<Rightarrow> bool) \<Rightarrow> tunnel_mount \<Rightarrow> bool" where
  "Mount_CheckHealth dial m \<longleftrightarrow> tm_on m \<and> \<not> tm_daemonExited m \<and> dial (healthDialTarget (tm_info m))"

section \<open>Start\<close>

text \<open>How the daemon comes up: the outcomes of \<open>StartDaemon\<close> and of \<open>cmd.Start\<close>.\<close>

datatype daemon_start = NoStarter | StarterFails driver_error | NilCommand | ExecFails driver_error | Launched

datatype select_case = SelExited | SelDeadline | SelDone | SelTick

record poll =
  po_resolve :: "tunnel_endpoint option"
  po_output :: "string list"
  po_select :: select_case

record mount_config =
  mc_ManualAddress :: string
  mc_BeforeStart :: "driver_error option"
  mc_StartDaemon :: daemon_start
  mc_HasResolve :: bool
  mc_Filter :: "string \<Rightarrow> bool"

definition tunnelTailLines :: nat where "tunnelTailLines = 20"

definition appendTail :: "(string \<Rightarrow> bool) \<Rightarrow> string \<Rightarrow> string list \<Rightarrow> string list" where
  "appendTail keep line out =
    (if \<not> keep line then out
     else let out = out @ [line] in if tunnelTailLines < length out then drop (length out - tunnelTailLines) out else out)"

text \<open>The polling loop: its result if it returns, the process it kills, the mount.\<close>

fun start_loop :: "(string \<Rightarrow> bool) \<Rightarrow> nat \<Rightarrow> string list \<Rightarrow> poll list \<Rightarrow> tunnel_mount \<Rightarrow>
    (driver_error + tunnel_info) option \<times> nat option \<times> tunnel_mount" where
  "start_loop keep pid out [] m = (None, None, m)"
| "start_loop keep pid out (q # qs) m =
    (let out = fold (appendTail keep) (po_output q) out in
     case po_resolve q of
       Some endpoint \<Rightarrow> (Some (Inr (te_Info endpoint)), None, mount_set (te_Info endpoint) (Some pid) (te_UDID endpoint) m)
     | None \<Rightarrow>
         (case po_select q of
            SelExited \<Rightarrow> (Some (Inl (DaemonExited out)), None, m)
          | SelDeadline \<Rightarrow> (Some (Inl (StartTimedOut out)), Some pid, m)
          | SelDone \<Rightarrow> (Some (Inl Cancelled), Some pid, m)
          | SelTick \<Rightarrow> start_loop keep pid out qs m))"

definition Mount_Start :: "int \<Rightarrow> mount_config \<Rightarrow> nat \<Rightarrow> poll list \<Rightarrow> tunnel_mount \<Rightarrow>
    (driver_error + tunnel_info) option \<times> nat option \<times> tunnel_mount" where
  "Mount_Start now cfg pid polls m =
    (case Mount_Current m of
       Some ti \<Rightarrow> (Some (Inr ti), None, m)
     | None \<Rightarrow>
         if mc_ManualAddress cfg \<noteq> [] then
           (case ParseManual now (mc_ManualAddress cfg) of
              Inl err \<Rightarrow> (Some (Inl err), None, m)
            | Inr ti \<Rightarrow> (Some (Inr ti), None, SetActive ti [] m))
         else case mc_BeforeStart cfg of
           Some err \<Rightarrow> (Some (Inl err), None, m)
         | None \<Rightarrow>
             if mc_StartDaemon cfg = NoStarter then (Some (Inl MissingStarter), None, m)
             else if \<not> mc_HasResolve cfg then (Some (Inl MissingResolver), None, m)
             else case mc_StartDaemon cfg of
               StarterFails err \<Rightarrow> (Some (Inl err), None, m)
             | NilCommand \<Rightarrow> (Some (Inl (DriverError ''starter returned nil command'')), None, m)
             | ExecFails err \<Rightarrow> (Some (Inl err), None, m)
             | _ \<Rightarrow> start_loop (mc_Filter cfg) pid [] polls (m\<lparr>tm_exited := Some pid\<rparr>))"

section \<open>endpoint.go\<close>

definition device_endpoint :: "int \<Rightarrow> network_device \<Rightarrow> tunnel_info" where
  "device_endpoint now d =
    \<lparr>ti_Address = nd_Address d, ti_Port = nd_Port d, ti_Type = Classify (nd_Address d), ti_Since = now,
     ti_UserspacePort = nd_UserspacePort d\<rparr>"

definition ReresolveActiveTunnel ::
  "int \<Rightarrow> driver_error + network_device list \<Rightarrow> tunnel_mount \<Rightarrow> (tunnel_info \<times> bool \<times> bool) \<times> tunnel_mount" where
  "ReresolveActiveTunnel now listed m =
    (if IsManual m then ((zero_info, False, True), m)
     else let alive = DaemonRunning m in
       case listed of
         Inl _ \<Rightarrow> ((zero_info, False, alive), m)
       | Inr devices \<Rightarrow>
           (let want = tm_udid m in
            case find (\<lambda>d. want = [] \<or> nd_UDID d = want) devices of
              None \<Rightarrow> ((zero_info, False, alive), m)
            | Some d \<Rightarrow> (let info = device_endpoint now d in ((info, True, True), UpdateInfo info m))))"

section \<open>The last lines of output\<close>

text \<open>The error of a failed start carries the tail of the daemon's filtered output: a bounded buffer.\<close>

definition append_line :: "string \<Rightarrow> string list \<Rightarrow> string list" where
  "append_line line out = appendTail (\<lambda>_. True) line out"

interpretation daemon_tail: tail_buffer append_line "\<lambda>out. out" tunnelTailLines
  by unfold_locales (simp add: append_line_def appendTail_def keep_last_def Let_def)

lemma appendTail_filter: "fold (appendTail keep) xs out = fold append_line (filter keep xs) out"
  by (induction xs arbitrary: out) (simp_all add: append_line_def appendTail_def)

lemma daemon_tail_fold:
  "length out \<le> tunnelTailLines \<Longrightarrow> fold (appendTail keep) xs out = keep_last tunnelTailLines (out @ filter keep xs)"
  using daemon_tail.items_fold [of "filter keep xs" out]
  by (auto simp: appendTail_filter keep_last_def)

definition read_so_far :: "poll list \<Rightarrow> string list" where
  "read_so_far qs = concat (map po_output qs)"

lemma keep_last_absorb: "keep_last n (keep_last n xs @ ys) = keep_last n (xs @ ys)"
  using keep_last_append_absorb [of n xs ys] by simp

text \<open>How a pass of the loop that does not go round ends it.\<close>

definition final_result :: "string list \<Rightarrow> poll \<Rightarrow> driver_error + tunnel_info" where
  "final_result out q = (case po_resolve q of
       Some endpoint \<Rightarrow> Inr (te_Info endpoint)
     | None \<Rightarrow> (case po_select q of SelExited \<Rightarrow> Inl (DaemonExited out) | SelDeadline \<Rightarrow> Inl (StartTimedOut out) | _ \<Rightarrow> Inl Cancelled))"

definition final_kill :: "nat \<Rightarrow> poll \<Rightarrow> nat option" where
  "final_kill pid q = (if po_resolve q = None \<and> po_select q \<in> {SelDeadline, SelDone} then Some pid else None)"

definition final_mount :: "nat \<Rightarrow> poll \<Rightarrow> tunnel_mount \<Rightarrow> tunnel_mount" where
  "final_mount pid q m = (case po_resolve q of
       Some endpoint \<Rightarrow> mount_set (te_Info endpoint) (Some pid) (te_UDID endpoint) m | None \<Rightarrow> m)"

definition goes_round :: "poll \<Rightarrow> bool" where
  "goes_round q \<longleftrightarrow> po_resolve q = None \<and> po_select q = SelTick"

lemma start_loop_runs:
  "length out \<le> tunnelTailLines \<Longrightarrow> list_all goes_round pre \<Longrightarrow> \<not> goes_round q \<Longrightarrow>
   start_loop keep pid out (pre @ q # post) m =
     (Some (final_result (keep_last tunnelTailLines (out @ filter keep (read_so_far (pre @ [q])))) q),
      final_kill pid q, final_mount pid q m)"
proof (induction pre arbitrary: out)
  case Nil
  then show ?case
    by (auto simp: Let_def goes_round_def final_result_def final_kill_def final_mount_def daemon_tail_fold read_so_far_def
        split: option.splits select_case.splits)
next
  case (Cons p pre)
  have p: "po_resolve p = None" "po_select p = SelTick" using Cons.prems(2) by (simp_all add: goes_round_def)
  have len: "length (fold (appendTail keep) (po_output p) out) \<le> tunnelTailLines"
    using Cons.prems(1) by (simp add: daemon_tail_fold)
  show ?case
    using Cons.IH [OF len] Cons.prems p
    by (simp add: Let_def daemon_tail_fold [OF Cons.prems(1)] keep_last_absorb read_so_far_def)
qed

lemma start_loop_waits: "list_all goes_round qs \<Longrightarrow> start_loop keep pid out qs m = (None, None, m)"
  by (induction qs arbitrary: out) (simp_all add: Let_def goes_round_def)

text \<open>
  C33: Starting a daemon-backed tunnel polls until the resolver answers, the daemon dies, the deadline
  passes or the caller gives up, and does nothing else: the first such pass decides. Success
  publishes that endpoint with the new process; the two timeouts kill the process; every failure
  leaves the mount without a tunnel, and its error carries the last 20 lines the filter let through.
\<close>
theorem Start_polls_to_the_first_outcome:
  assumes "\<not> tm_on m" "mc_ManualAddress cfg = []" "mc_BeforeStart cfg = None" "mc_StartDaemon cfg = Launched"
    "mc_HasResolve cfg" "list_all goes_round pre" "\<not> goes_round q"
  shows "Mount_Start now cfg pid (pre @ q # post) m =
    (Some (final_result (keep_last 20 (filter (mc_Filter cfg) (read_so_far (pre @ [q])))) q), final_kill pid q,
     final_mount pid q (m\<lparr>tm_exited := Some pid\<rparr>))"
  using start_loop_runs [OF _ assms(6,7), of "[]" "mc_Filter cfg" pid post "m\<lparr>tm_exited := Some pid\<rparr>"] assms(1-5)
  by (simp add: Mount_Start_def Mount_Current_def tunnelTailLines_def)

theorem Start_polls_to_the_first_outcome_witness:
  "Mount_Start 0 \<lparr>mc_ManualAddress = [], mc_BeforeStart = None, mc_StartDaemon = Launched, mc_HasResolve = True,
      mc_Filter = (\<lambda>l. l \<noteq> [])\<rparr> 7
     [\<lparr>po_resolve = None, po_output = [''up'', []], po_select = SelTick\<rparr>,
      \<lparr>po_resolve = None, po_output = [''no device''], po_select = SelDeadline\<rparr>] zero_mount =
   (Some (Inl (StartTimedOut [''up'', ''no device''])), Some 7, zero_mount\<lparr>tm_exited := Some 7\<rparr>)"
  using Start_polls_to_the_first_outcome [of zero_mount "\<lparr>mc_ManualAddress = [], mc_BeforeStart = None,
      mc_StartDaemon = Launched, mc_HasResolve = True, mc_Filter = (\<lambda>l. l \<noteq> [])\<rparr>"
      "[\<lparr>po_resolve = None, po_output = [''up'', []], po_select = SelTick\<rparr>]"
      "\<lparr>po_resolve = None, po_output = [''no device''], po_select = SelDeadline\<rparr>" 0 7 "[]"]
  by (simp add: zero_mount_def goes_round_def final_result_def final_kill_def final_mount_def read_so_far_def keep_last_def)

section \<open>Calls, reapers and processes interleaved\<close>

text \<open>
  The mount with the processes it started: those the system still runs, and the one a \<open>Start\<close> is
  polling for (the engine lets one \<open>Start\<close> run at a time). The flag of \<open>AGiveUp\<close> and \<open>AStop\<close> says
  whether the killed daemon was reaped within the five seconds they wait.
\<close>

record mount_sys =
  sy_mount :: tunnel_mount
  sy_alive :: "nat set"
  sy_polling :: "nat option"
  sy_next :: nat

datatype mount_action =
    ALaunch
  | AResolve tunnel_endpoint
  | ASawExit
  | AGiveUp bool
  | ADaemonExit nat
  | AManual tunnel_info
  | AStop bool
  | AUpdate tunnel_info

definition sys_init :: mount_sys where
  "sys_init = \<lparr>sy_mount = zero_mount, sy_alive = {}, sy_polling = None, sy_next = 0\<rparr>"

fun can_happen :: "mount_action \<Rightarrow> mount_sys \<Rightarrow> bool" where
  "can_happen ALaunch s = (\<not> tm_on (sy_mount s) \<and> sy_polling s = None)"
| "can_happen (AResolve ep) s = (sy_polling s \<noteq> None)"
| "can_happen ASawExit s = (\<exists>p. sy_polling s = Some p \<and> p \<notin> sy_alive s)"
| "can_happen (AGiveUp reaped) s = (sy_polling s \<noteq> None)"
| "can_happen (ADaemonExit p) s = (p \<in> sy_alive s)"
| "can_happen (AManual ti) s = (\<not> tm_on (sy_mount s) \<and> sy_polling s = None)"
| "can_happen (AStop reaped) s = True"
| "can_happen (AUpdate ti) s = True"

definition reap :: "nat \<Rightarrow> mount_sys \<Rightarrow> mount_sys" where
  "reap p s = s\<lparr>sy_alive := sy_alive s - {p}, sy_mount := onDaemonExit p (sy_mount s)\<rparr>"

fun mount_step :: "mount_action \<Rightarrow> mount_sys \<Rightarrow> mount_sys" where
  "mount_step ALaunch s = s\<lparr>sy_mount := (sy_mount s)\<lparr>tm_exited := Some (sy_next s)\<rparr>,
     sy_alive := insert (sy_next s) (sy_alive s), sy_polling := Some (sy_next s), sy_next := sy_next s + 1\<rparr>"
| "mount_step (AResolve ep) s =
     s\<lparr>sy_mount := mount_set (te_Info ep) (sy_polling s) (te_UDID ep) (sy_mount s), sy_polling := None\<rparr>"
| "mount_step ASawExit s = s\<lparr>sy_polling := None\<rparr>"
| "mount_step (AGiveUp reaped) s =
     (let s' = s\<lparr>sy_polling := None\<rparr> in if reaped then reap (the (sy_polling s)) s' else s')"
| "mount_step (ADaemonExit p) s = reap p s"
| "mount_step (AManual ti) s = s\<lparr>sy_mount := SetActive ti [] (sy_mount s)\<rparr>"
| "mount_step (AStop reaped) s =
     (let (killed, m) = Mount_Stop (sy_mount s); s' = s\<lparr>sy_mount := m\<rparr>
      in case killed of Some p \<Rightarrow> if reaped then reap p s' else s' | None \<Rightarrow> s')"
| "mount_step (AUpdate ti) s = s\<lparr>sy_mount := UpdateInfo ti (sy_mount s)\<rparr>"

text \<open>The runs whose steps all satisfy \<open>P\<close>.\<close>

inductive mount_run :: "(mount_action \<Rightarrow> mount_sys \<Rightarrow> bool) \<Rightarrow> mount_sys \<Rightarrow> bool" for P where
  mount_run_init: "mount_run P sys_init"
| mount_run_step: "mount_run P s \<Longrightarrow> can_happen a s \<Longrightarrow> P a s \<Longrightarrow> mount_run P (mount_step a s)"

definition sys_ok :: "mount_sys \<Rightarrow> bool" where
  "sys_ok s \<longleftrightarrow>
     (let m = sy_mount s in
      (\<not> tm_on m \<longrightarrow> tm_cmd m = None \<and> \<not> tm_daemonExited m) \<and>
      (\<forall>p. sy_polling s = Some p \<longrightarrow> \<not> tm_on m \<and> p < sy_next s) \<and>
      (\<forall>p. tm_cmd m = Some p \<longrightarrow> p < sy_next s \<and> (tm_daemonExited m \<longrightarrow> p \<notin> sy_alive s)) \<and>
      (\<forall>p \<in> sy_alive s. p < sy_next s))"

lemmas mount_defs = mount_set_def SetActive_def onDaemonExit_def Mount_Stop_def UpdateInfo_def reap_def zero_mount_def

lemma sys_ok_step: "sys_ok s \<Longrightarrow> can_happen a s \<Longrightarrow> sys_ok (mount_step a s)"
  by (cases a) (auto simp: sys_ok_def Let_def mount_defs split: option.splits if_splits)

lemma sys_ok_run: "mount_run P s \<Longrightarrow> sys_ok s"
  by (induction rule: mount_run.induct)
    (auto simp: sys_ok_step, simp add: sys_ok_def sys_init_def zero_mount_def Let_def)

text \<open>Every kill is obeyed in time.\<close>

fun obeyed :: "mount_action \<Rightarrow> mount_sys \<Rightarrow> bool" where
  "obeyed (AGiveUp reaped) s = reaped"
| "obeyed (AStop reaped) s = reaped"
| "obeyed _ s = True"

lemma no_orphan_step:
  assumes "sys_ok s" "sy_alive s \<subseteq> set_option (sy_polling s) \<union> set_option (tm_cmd (sy_mount s))" "can_happen a s" "obeyed a s"
  shows "sy_alive (mount_step a s) \<subseteq> set_option (sy_polling (mount_step a s)) \<union> set_option (tm_cmd (sy_mount (mount_step a s)))"
  using assms
  by (cases a) (auto simp: sys_ok_def Let_def mount_defs split: option.splits if_splits)

lemma no_orphan_run:
  "mount_run obeyed s \<Longrightarrow> sy_alive s \<subseteq> set_option (sy_polling s) \<union> set_option (tm_cmd (sy_mount s))"
proof (induction rule: mount_run.induct)
  case (mount_run_step s a)
  then show ?case using no_orphan_step sys_ok_run by blast
qed (simp add: sys_init_def)

text \<open>
  C8: As long as killed daemons die within the five seconds the code waits for them, no daemon is ever
  orphaned or doubled: at most one process runs, it is the one being started or the one the mount
  owns, and when \<open>Stop\<close> returns with no start in progress none is left.
\<close>
theorem no_orphan_daemon:
  assumes "mount_run obeyed s"
  shows "sy_alive s \<subseteq> set_option (sy_polling s) \<union> set_option (tm_cmd (sy_mount s)) \<and> card (sy_alive s) \<le> 1 \<and>
    (sy_polling s = None \<longrightarrow> sy_alive (mount_step (AStop True) s) = {})"
proof -
  have sub: "sy_alive s \<subseteq> set_option (sy_polling s) \<union> set_option (tm_cmd (sy_mount s))"
    by (rule no_orphan_run [OF assms])
  have one: "sy_polling s = None \<or> tm_cmd (sy_mount s) = None"
    using sys_ok_run [OF assms] by (auto simp: sys_ok_def Let_def)
  obtain p where "set_option (sy_polling s) \<union> set_option (tm_cmd (sy_mount s)) \<subseteq> {p}"
    using one by (cases "sy_polling s"; cases "tm_cmd (sy_mount s)") auto
  with sub have "sy_alive s \<subseteq> {p}" by blast
  then have "card (sy_alive s) \<le> 1" using card_mono [of "{p}" "sy_alive s"] by simp
  moreover have "sy_alive (mount_step (AStop True) s) = {}" if "sy_polling s = None"
    using no_orphan_run [OF mount_run_step [OF assms, of "AStop True"]] that
    by (auto simp: Mount_Stop_def reap_def onDaemonExit_def Let_def split: option.splits if_splits)
  ultimately show ?thesis using sub by blast
qed

text \<open>Where the daemon is alive at the moment its tunnel is published, the flag is exact.\<close>

fun published_alive :: "mount_action \<Rightarrow> mount_sys \<Rightarrow> bool" where
  "published_alive (AResolve ep) s = (\<exists>p. sy_polling s = Some p \<and> p \<in> sy_alive s)"
| "published_alive _ s = True"

lemma running_exact_run:
  "mount_run published_alive s \<Longrightarrow> DaemonRunning (sy_mount s) \<Longrightarrow> \<exists>p \<in> sy_alive s. tm_cmd (sy_mount s) = Some p"
proof (induction rule: mount_run.induct)
  case (mount_run_step s a)
  then show ?case using sys_ok_run [OF mount_run_step(1)]
    by (cases a) (auto simp: sys_ok_def Let_def mount_defs DaemonRunning_def split: option.splits if_splits)
qed (simp add: sys_init_def zero_mount_def DaemonRunning_def)

lemma demo_mount_run:
  assumes "\<And>s. P ALaunch s" "\<And>s. sy_alive s = {0} \<Longrightarrow> sy_polling s = Some 0 \<Longrightarrow> P (AResolve ep) s"
  shows "mount_run P (mount_step (AResolve ep) (mount_step ALaunch sys_init))"
  using assms by (intro mount_run.intros) (simp_all add: sys_init_def zero_mount_def)

definition demo_endpoint :: tunnel_endpoint where
  "demo_endpoint = \<lparr>te_Info = \<lparr>ti_Address = ''fd00::1'', ti_Port = 58783, ti_Type = ConnWiFi, ti_Since = 0,
     ti_UserspacePort = 0\<rparr>, te_UDID = ''0000-1''\<rparr>"

theorem no_orphan_daemon_witness:
  "card (sy_alive (mount_step (AResolve demo_endpoint) (mount_step ALaunch sys_init))) \<le> 1 \<and>
   sy_alive (mount_step (AStop True) (mount_step (AResolve demo_endpoint) (mount_step ALaunch sys_init))) = {}"
  using no_orphan_daemon [OF demo_mount_run [of obeyed demo_endpoint]] by (simp add: sys_init_def)



text \<open>
  Without that condition a daemon's death can be lost: if it exits between the resolver's answer
  and the moment \<open>Start\<close> publishes the tunnel, nothing runs any more, yet the mount reports a
  running daemon, and re-resolution keeps telling the watchdog not to restart it.
\<close>
theorem daemon_exit_lost:
  "\<exists>s. mount_run (\<lambda>_ _. True) s \<and> sy_alive s = {} \<and> DaemonRunning (sy_mount s) \<and>
     fst (ReresolveActiveTunnel now (Inr []) (sy_mount s)) = (zero_info, False, True) \<and>
     fst (ReresolveActiveTunnel now (Inl err) (sy_mount s)) = (zero_info, False, True)"
proof -
  let ?s = "mount_step (AResolve demo_endpoint) (mount_step (ADaemonExit 0) (mount_step ALaunch sys_init))"
  have "mount_run (\<lambda>_ _. True) ?s"
    by (intro mount_run.intros) (simp_all add: sys_init_def zero_mount_def reap_def)
  moreover have "sy_alive ?s = {}" "DaemonRunning (sy_mount ?s)" "\<not> IsManual (sy_mount ?s)"
    by (simp_all add: sys_init_def mount_defs DaemonRunning_def IsManual_def)
  ultimately show ?thesis
    by (intro exI [of _ ?s]) (simp add: ReresolveActiveTunnel_def del: mount_step.simps)
qed

section \<open>Re-resolution\<close>

text \<open>The listed devices that may be the mount's.\<close>

definition candidates :: "driver_error + network_device list \<Rightarrow> tunnel_mount \<Rightarrow> network_device list" where
  "candidates listed m =
    (case listed of Inl _ \<Rightarrow> [] | Inr ds \<Rightarrow> filter (\<lambda>d. tm_udid m = [] \<or> nd_UDID d = tm_udid m) ds)"

lemma find_filter: "find P xs = (if filter P xs = [] then None else Some (hd (filter P xs)))"
  by (induction xs) auto

text \<open>
  Re-resolution follows the device and never touches the daemon: it reports the first listed
  endpoint of the mount's own device and caches it; when it finds none it changes nothing and reports
  whether the daemon still runs; a manual endpoint is never declared dead.
\<close>
theorem Reresolve_follows_the_device:
  "case ReresolveActiveTunnel now listed m of ((info, found, alive), m') \<Rightarrow>
     tm_on m' = tm_on m \<and> tm_cmd m' = tm_cmd m \<and> tm_udid m' = tm_udid m \<and> DaemonRunning m' = DaemonRunning m \<and>
     found = (\<not> IsManual m \<and> candidates listed m \<noteq> []) \<and>
     alive = (found \<or> IsManual m \<or> DaemonRunning m) \<and>
     (if found then info = device_endpoint now (hd (candidates listed m)) \<and>
                    Mount_Current m' = (if tm_on m then Some info else None)
      else m' = m)"
proof (cases "IsManual m")
  case False
  show ?thesis
  proof (cases listed)
    case (Inr ds)
    let ?P = "\<lambda>d. tm_udid m = [] \<or> nd_UDID d = tm_udid m"
    have c: "candidates listed m = filter ?P ds" by (simp add: candidates_def Inr)
    show ?thesis
    proof (cases "filter ?P ds = []")
      case True
      then have "find ?P ds = None" using find_filter [of ?P ds] by simp
      with False Inr True c show ?thesis by (simp add: ReresolveActiveTunnel_def Let_def)
    next
      case ne: False
      then have "find ?P ds = Some (hd (filter ?P ds))" using find_filter [of ?P ds] by simp
      with False Inr ne c show ?thesis
        by (simp add: ReresolveActiveTunnel_def Let_def UpdateInfo_def Mount_Current_def DaemonRunning_def)
    qed
  qed (use False in \<open>simp add: ReresolveActiveTunnel_def candidates_def Let_def\<close>)
qed (simp add: ReresolveActiveTunnel_def)

end
