(* ===== verification/Cluster_Node.thy ===== *)
theory Cluster_Node
  imports Engine_State
begin

text \<open>
  One node of the high-availability cluster: \<open>internal/cluster/cluster.go\<close>, the peer protocol of
  \<open>cluster_http.go\<close> and the bookkeeping of \<open>cluster_discovery.go\<close>.

  A \<open>Manager\<close> is the record \<open>manager\<close>; its map of peers is an association list, and a round over it
  takes the visiting order as an argument, since Go fixes none. Times and durations are nanoseconds,
  the zero time is \<open>None\<close>; an epoch is a 64-bit integer. What a peer answers to a ping is an argument.
\<close>

section \<open>Addresses\<close>

definition host_char :: "char \<Rightarrow> bool" where
  "host_char c \<longleftrightarrow>
     (let n = (of_char c :: nat) in
      97 \<le> n \<and> n \<le> 122 \<or> 65 \<le> n \<and> n \<le> 90 \<or> 48 \<le> n \<and> n \<le> 57) \<or> c \<in> {CHR ''.'', CHR '':'', CHR ''_'', CHR ''%'', CHR ''-''}"

definition validPeerHostPort :: "string \<Rightarrow> int \<Rightarrow> bool" where
  "validPeerHostPort host port \<longleftrightarrow> host \<noteq> [] \<and> list_all host_char host \<and> 0 < port \<and> port \<le> 65535"

definition peerURL :: "string \<Rightarrow> int \<Rightarrow> string \<Rightarrow> string option" where
  "peerURL host port path =
    (if \<not> validPeerHostPort host port then None else Some (''http://'' @ host @ '':'' @ Itoa port @ path))"

record peer =
  pe_Address :: string
  pe_Port :: int
  pe_Online :: bool
  pe_Role :: string
  pe_Name :: string
  pe_Discovered :: bool
  pe_Epoch :: int
  pe_LatencyMs :: f64
  pe_lastSeen :: "int option"

definition new_peer :: "string \<Rightarrow> int \<Rightarrow> peer" where
  "new_peer address port = \<lparr>pe_Address = address, pe_Port = port, pe_Online = False, pe_Role = [], pe_Name = [],
     pe_Discovered = False, pe_Epoch = 0, pe_LatencyMs = Fin 0, pe_lastSeen = None\<rparr>"

definition peer_key :: "peer \<Rightarrow> string" where
  "peer_key p = pe_Address p @ '':'' @ Itoa (pe_Port p)"

definition parsePeerAddr :: "string \<Rightarrow> peer option" where
  "parsePeerAddr addr =
    (case SplitHostPort addr of
       None \<Rightarrow> None
     | Some (host, portStr) \<Rightarrow>
         (case Atoi portStr of
            None \<Rightarrow> None
          | Some port \<Rightarrow> if validPeerHostPort host port then Some (new_peer host port) else None))"

section \<open>The manager\<close>

text \<open>
  A context is a number; \<open>mg_parent\<close> gives the one it was derived from. \<open>mg_loops\<close> and \<open>mg_browsers\<close> are
  the contexts the heartbeat and the discovery goroutines were started with.
\<close>

record manager =
  mg_mode :: string
  mg_role :: string
  mg_serverName :: string
  mg_selfPort :: int
  mg_epoch :: int
  mg_peers :: "(string \<times> peer) list"
  mg_currentMaster :: string
  mg_lastMasterSeen :: "int option"
  mg_selfAddrs :: "string list"
  mg_syncCerts :: bool
  mg_certMtimes :: "string \<rightharpoonup> int"
  mg_initialSynced :: bool
  mg_cancel :: "nat option"
  mg_nextCtx :: nat
  mg_parent :: "nat \<Rightarrow> nat"
  mg_cancelled :: "nat set"
  mg_loops :: "nat set"
  mg_browsers :: "nat set"

definition add_nodes :: "string list \<Rightarrow> (string \<times> peer) list" where
  "add_nodes nodes = fold (\<lambda>n ps. case parsePeerAddr n of Some p \<Rightarrow> put (peer_key p) p ps | None \<Rightarrow> ps) nodes []"

definition New_manager ::
  "string \<Rightarrow> string list \<Rightarrow> string \<Rightarrow> string option \<Rightarrow> int \<Rightarrow> string list \<Rightarrow> bool \<Rightarrow> manager" where
  "New_manager mode nodes serverName hostname selfPort addrs syncCerts =
     \<lparr>mg_mode = mode, mg_role = (if mode = ''manual'' \<or> mode = ''auto'' then ''slave'' else ''standalone''),
      mg_serverName = (if serverName = [] then (case hostname of Some h \<Rightarrow> h | None \<Rightarrow> []) else serverName),
      mg_selfPort = selfPort, mg_epoch = 0, mg_peers = add_nodes nodes, mg_currentMaster = [],
      mg_lastMasterSeen = None, mg_selfAddrs = addrs, mg_syncCerts = syncCerts, mg_certMtimes = Map.empty,
      mg_initialSynced = False, mg_cancel = None, mg_nextCtx = 0, mg_parent = (\<lambda>_. 0), mg_cancelled = {},
      mg_loops = {}, mg_browsers = {}\<rparr>"

section \<open>Start, Stop, UpdateConfig\<close>

text \<open>The parent contexts of the callers are numbered apart from the manager's own.\<close>

definition Manager_Start :: "nat \<Rightarrow> manager \<Rightarrow> manager" where
  "Manager_Start ctx m =
    (let c = mg_nextCtx m;
         m = m\<lparr>mg_cancel := Some c, mg_nextCtx := c + 1, mg_parent := (mg_parent m)(c := ctx)\<rparr>
     in if mg_mode m = ''off'' then m
        else m\<lparr>mg_loops := insert c (mg_loops m),
               mg_browsers := (if mg_mode m = ''auto'' then insert c (mg_browsers m) else mg_browsers m)\<rparr>)"

definition Manager_Stop :: "manager \<Rightarrow> manager" where
  "Manager_Stop m = (case mg_cancel m of None \<Rightarrow> m | Some c \<Rightarrow> m\<lparr>mg_cancelled := insert c (mg_cancelled m)\<rparr>)"

definition apply_config :: "string \<Rightarrow> string list \<Rightarrow> bool \<Rightarrow> manager \<Rightarrow> manager" where
  "apply_config mode nodes syncCerts m =
    (let m = m\<lparr>mg_mode := mode, mg_syncCerts := syncCerts, mg_initialSynced := False\<rparr>;
         m = (if mode = ''off'' then m\<lparr>mg_role := ''standalone'', mg_currentMaster := []\<rparr>
              else if mg_role m = [] \<or> mg_role m = ''standalone'' then m\<lparr>mg_role := ''slave''\<rparr> else m)
     in m\<lparr>mg_peers := add_nodes nodes\<rparr>)"

definition Manager_UpdateConfig :: "nat \<Rightarrow> string \<Rightarrow> string list \<Rightarrow> bool \<Rightarrow> manager \<Rightarrow> manager" where
  "Manager_UpdateConfig ctx mode nodes syncCerts m =
     Manager_Start ctx (apply_config mode nodes syncCerts (Manager_Stop m))"

text \<open>The heartbeat goroutines that still run, given the callers' contexts that have ended.\<close>

definition live_loops :: "nat set \<Rightarrow> manager \<Rightarrow> nat set" where
  "live_loops ended m = {c \<in> mg_loops m. c \<notin> mg_cancelled m \<and> mg_parent m c \<notin> ended}"

section \<open>Heartbeats\<close>

record ping_response =
  pr_Role :: string
  pr_Mode :: string
  pr_ServerName :: string
  pr_TunnelActive :: bool
  pr_Epoch :: int

text \<open>A failed request, or the round-trip time in microseconds and the decoded body.\<close>

datatype ping_outcome = NoAnswer | Answer int ping_response

definition upd_peer :: "string \<Rightarrow> (peer \<Rightarrow> peer) \<Rightarrow> manager \<Rightarrow> manager" where
  "upd_peer k f m = m\<lparr>mg_peers := map (\<lambda>(k', p). (k', if k' = k then f p else p)) (mg_peers m)\<rparr>"

definition latency_ms :: "fpu \<Rightarrow> int \<Rightarrow> f64" where
  "latency_ms u micros = fdiv u (lit u (of_int micros)) (Fin 1000)"

definition note_answer :: "fpu \<Rightarrow> int \<Rightarrow> int \<Rightarrow> ping_response \<Rightarrow> peer \<Rightarrow> peer" where
  "note_answer u now rtt body p =
     p\<lparr>pe_Online := True, pe_Role := pr_Role body, pe_Epoch := pr_Epoch body, pe_LatencyMs := latency_ms u rtt,
       pe_Name := (if pr_ServerName body \<noteq> [] then pr_ServerName body else pe_Name p), pe_lastSeen := Some now\<rparr>"

text \<open>One pass of the loop of \<open>checkPeers\<close>, with its local variables \<open>masterFound\<close> and \<open>masterEpoch\<close>.\<close>

definition visit_peer ::
  "fpu \<Rightarrow> int \<Rightarrow> (peer \<Rightarrow> ping_outcome) \<Rightarrow> peer \<Rightarrow> (string \<times> int) \<times> manager \<Rightarrow> (string \<times> int) \<times> manager" where
  "visit_peer u now net p acc =
    (let ((found, epoch), m) = acc in
     if \<not> validPeerHostPort (pe_Address p) (pe_Port p) then
       ((found, epoch), upd_peer (peer_key p) (\<lambda>p. p\<lparr>pe_Online := False\<rparr>) m)
     else (case net p of
         NoAnswer \<Rightarrow> ((found, epoch), upd_peer (peer_key p) (\<lambda>p. p\<lparr>pe_Online := False\<rparr>) m)
       | Answer rtt body \<Rightarrow>
           (if pr_Role body = ''master'' \<and> epoch \<le> pr_Epoch body then (peer_key p, pr_Epoch body) else (found, epoch),
            upd_peer (peer_key p) (note_answer u now rtt body) m)))"

definition check_finish :: "int \<Rightarrow> (string \<times> int) \<Rightarrow> manager \<Rightarrow> manager" where
  "check_finish now acc m =
    (let (found, epoch) = acc in
     if found \<noteq> [] then m\<lparr>mg_currentMaster := found, mg_lastMasterSeen := Some now,
                           mg_epoch := (if mg_epoch m < epoch then epoch else mg_epoch m)\<rparr>
     else if mg_currentMaster m \<noteq> [] \<and> mg_currentMaster m \<noteq> ''me'' then m\<lparr>mg_currentMaster := []\<rparr>
     else m)"

definition checkPeers :: "fpu \<Rightarrow> int \<Rightarrow> (peer \<Rightarrow> ping_outcome) \<Rightarrow> peer list \<Rightarrow> manager \<Rightarrow> manager" where
  "checkPeers u now net order m =
    (let (acc, m) = fold (visit_peer u now net) order (([], 0), m) in check_finish now acc m)"

section \<open>Election\<close>

definition hasQuorum :: "manager \<Rightarrow> bool" where
  "hasQuorum m \<longleftrightarrow>
    (let total = length (mg_peers m) + 1; online = 1 + length (filter (\<lambda>(k, p). pe_Online p) (mg_peers m))
     in total < 3 \<or> total < online * 2)"

text \<open>\<open>Takeover\<close>, with the claims it sends: the peer and the new epoch.\<close>

definition Takeover :: "int \<Rightarrow> manager \<Rightarrow> (string \<times> int) list \<times> manager" where
  "Takeover now m =
    (if \<not> hasQuorum m then ([], m)
     else let epoch = wrap64 (mg_epoch m + 1);
              m = m\<lparr>mg_epoch := epoch, mg_role := ''master'', mg_currentMaster := ''me'', mg_lastMasterSeen := Some now\<rparr>
          in (map (\<lambda>(k, p). (peer_key p, epoch)) (filter (\<lambda>(k, p). validPeerHostPort (pe_Address p) (pe_Port p)) (mg_peers m)), m))"

definition checkMasterHealth :: "int \<Rightarrow> int \<Rightarrow> manager \<Rightarrow> (string \<times> int) list \<times> manager" where
  "checkMasterHealth now deadAfter m =
    (if mg_mode m = ''auto'' \<and> mg_role m = ''slave'' \<and> mg_currentMaster m \<noteq> [] \<and>
        (case mg_lastMasterSeen m of None \<Rightarrow> True | Some t \<Rightarrow> deadAfter < now - t)
     then Takeover now m else ([], m))"

text \<open>One beat of \<open>heartbeatLoop\<close>, up to the certificates.\<close>

definition heartbeat ::
  "fpu \<Rightarrow> int \<Rightarrow> int \<Rightarrow> (peer \<Rightarrow> ping_outcome) \<Rightarrow> peer list \<Rightarrow> tuning \<Rightarrow> manager \<Rightarrow> (string \<times> int) list \<times> manager" where
  "heartbeat u now later net order t m = checkMasterHealth later (tu_masterDead t) (checkPeers u now net order m)"

definition Release :: "manager \<Rightarrow> manager" where
  "Release m = (if mg_role m = ''master'' then m\<lparr>mg_role := ''slave''\<rparr> else m)"

definition AverageLatencyMs :: "fpu \<Rightarrow> manager \<Rightarrow> f64" where
  "AverageLatencyMs u m =
    (let ls = map (\<lambda>(k, p). pe_LatencyMs p)
                (filter (\<lambda>(k, p). pe_Online p \<and> flt (Fin 0) (pe_LatencyMs p)) (mg_peers m))
     in if ls = [] then Fin 0 else fdiv u (foldl (fadd u) (Fin 0) ls) (lit u (of_nat (length ls))))"

record cluster_status =
  cs_Role :: string
  cs_Mode :: string
  cs_Epoch :: int
  cs_Peers :: "peer list"

definition Manager_Status :: "manager \<Rightarrow> cluster_status" where
  "Manager_Status m = \<lparr>cs_Role = mg_role m, cs_Mode = mg_mode m, cs_Epoch = mg_epoch m, cs_Peers = map snd (mg_peers m)\<rparr>"

section \<open>The peer protocol\<close>

definition isAuthorizedPeerAddr :: "string \<Rightarrow> manager \<Rightarrow> bool" where
  "isAuthorizedPeerAddr remoteAddr m \<longleftrightarrow>
    (let host = (case SplitHostPort remoteAddr of Some (h, _) \<Rightarrow> h | None \<Rightarrow> remoteAddr)
     in (case ParseIP host of Some a \<Rightarrow> IsLoopback a | None \<Rightarrow> False) \<or>
        (\<exists>(k, p) \<in> set (mg_peers m). pe_Address p = host))"

definition handlePing :: "bool \<Rightarrow> manager \<Rightarrow> ping_response" where
  "handlePing tunnelActive m =
    \<lparr>pr_Role = mg_role m, pr_Mode = mg_mode m, pr_ServerName = mg_serverName m, pr_TunnelActive = tunnelActive,
     pr_Epoch = mg_epoch m\<rparr>"

text \<open>The claim \<open>{newMaster, epoch}\<close>, accepted or not.\<close>

definition handleTakeover :: "int \<Rightarrow> string \<Rightarrow> int \<Rightarrow> manager \<Rightarrow> bool \<times> manager" where
  "handleTakeover now newMaster epoch m =
    (if epoch \<le> mg_epoch m then (False, m)
     else (True, m\<lparr>mg_epoch := epoch, mg_role := ''slave'', mg_currentMaster := newMaster,
                   mg_lastMasterSeen := Some now, mg_initialSynced := False\<rparr>))"

text \<open>\<open>requirePeer\<close>: \<open>None\<close> is the answer 403.\<close>

definition requirePeer :: "string \<Rightarrow> (manager \<Rightarrow> 'r \<times> manager) \<Rightarrow> manager \<Rightarrow> 'r option \<times> manager" where
  "requirePeer remoteAddr handler m =
    (if isAuthorizedPeerAddr remoteAddr m then (let (r, m) = handler m in (Some r, m)) else (None, m))"

section \<open>Discovery\<close>

record service_entry =
  sv_Port :: int
  sv_AddrIPv4 :: "string list"
  sv_AddrIPv6 :: "string list"
  sv_Instance :: string

definition ServiceType :: string where "ServiceType = ''_gpsmock._tcp''"

definition isSelfHost :: "service_entry \<Rightarrow> manager \<Rightarrow> bool" where
  "isSelfHost e m \<longleftrightarrow>
     list_ex (\<lambda>a. a \<in> set (mg_selfAddrs m)) (sv_AddrIPv4 e) \<or> list_ex (\<lambda>a. a \<in> set (mg_selfAddrs m)) (sv_AddrIPv6 e)"

definition handleDiscovered :: "service_entry \<Rightarrow> manager \<Rightarrow> manager" where
  "handleDiscovered e m =
    (if sv_Port e = mg_selfPort m \<and> isSelfHost e m then m
     else case sv_AddrIPv4 e @ sv_AddrIPv6 e of
       [] \<Rightarrow> m
     | addr # _ \<Rightarrow>
         (let key = addr @ '':'' @ Itoa (sv_Port e);
              name = TrimSuffix (sv_Instance e) (''.'' @ ServiceType)
          in if map_of (mg_peers m) key \<noteq> None
             then upd_peer key (\<lambda>p. if name \<noteq> [] then p\<lparr>pe_Name := name\<rparr> else p) m
             else m\<lparr>mg_peers := put key ((new_peer addr (sv_Port e))\<lparr>pe_Name := name, pe_Discovered := True\<rparr>) (mg_peers m)\<rparr>))"

section \<open>What a round changes\<close>

lemma upd_peer_simps [simp]:
  "mg_role (upd_peer k f m) = mg_role m" "mg_mode (upd_peer k f m) = mg_mode m" "mg_epoch (upd_peer k f m) = mg_epoch m"
  "mg_currentMaster (upd_peer k f m) = mg_currentMaster m" "mg_lastMasterSeen (upd_peer k f m) = mg_lastMasterSeen m"
  "map fst (mg_peers (upd_peer k f m)) = map fst (mg_peers m)" "length (mg_peers (upd_peer k f m)) = length (mg_peers m)"
  by (simp_all add: upd_peer_def case_prod_unfold comp_def)

lemma visit_peer_keeps [simp]:
  "mg_role (snd (visit_peer u now net p acc)) = mg_role (snd acc)"
  "mg_mode (snd (visit_peer u now net p acc)) = mg_mode (snd acc)"
  "mg_epoch (snd (visit_peer u now net p acc)) = mg_epoch (snd acc)"
  "mg_currentMaster (snd (visit_peer u now net p acc)) = mg_currentMaster (snd acc)"
  "mg_lastMasterSeen (snd (visit_peer u now net p acc)) = mg_lastMasterSeen (snd acc)"
  "length (mg_peers (snd (visit_peer u now net p acc))) = length (mg_peers (snd acc))"
  by (auto simp: visit_peer_def Let_def case_prod_unfold split: ping_outcome.splits)

lemma visits_keep [simp]:
  "mg_role (snd (fold (visit_peer u now net) ps acc)) = mg_role (snd acc)"
  "mg_mode (snd (fold (visit_peer u now net) ps acc)) = mg_mode (snd acc)"
  "mg_epoch (snd (fold (visit_peer u now net) ps acc)) = mg_epoch (snd acc)"
  "mg_currentMaster (snd (fold (visit_peer u now net) ps acc)) = mg_currentMaster (snd acc)"
  "mg_lastMasterSeen (snd (fold (visit_peer u now net) ps acc)) = mg_lastMasterSeen (snd acc)"
  by (induction ps arbitrary: acc) simp_all

text \<open>The peers that answer as master in a round.\<close>

definition claims_master :: "(peer \<Rightarrow> ping_outcome) \<Rightarrow> peer \<Rightarrow> bool" where
  "claims_master net p \<longleftrightarrow> validPeerHostPort (pe_Address p) (pe_Port p) \<and>
     (\<exists>rtt body. net p = Answer rtt body \<and> pr_Role body = ''master'' \<and> 0 \<le> pr_Epoch body)"

lemma peer_key_nonempty [simp]: "peer_key p \<noteq> []"
  by (simp add: peer_key_def)

lemma visit_found:
  "0 \<le> snd (fst acc) \<Longrightarrow>
   0 \<le> snd (fst (visit_peer u now net p acc)) \<and>
   (fst (fst (visit_peer u now net p acc)) = [] \<longleftrightarrow>
      fst (fst acc) = [] \<and> \<not> (claims_master net p \<and>
        (\<forall>rtt body. net p = Answer rtt body \<longrightarrow> snd (fst acc) \<le> pr_Epoch body)))"
  by (auto simp: visit_peer_def claims_master_def Let_def case_prod_unfold split: ping_outcome.splits)

lemma visits_found:
  "0 \<le> snd (fst acc) \<Longrightarrow> (snd (fst acc) = 0 \<or> fst (fst acc) \<noteq> []) \<Longrightarrow>
   0 \<le> snd (fst (fold (visit_peer u now net) ps acc)) \<and>
   (fst (fst (fold (visit_peer u now net) ps acc)) = [] \<longleftrightarrow> fst (fst acc) = [] \<and> \<not> list_ex (claims_master net) ps)"
proof (induction ps arbitrary: acc)
  case (Cons p ps)
  let ?a = "visit_peer u now net p acc"
  have "snd (fst ?a) = 0 \<or> fst (fst ?a) \<noteq> []"
    using Cons.prems(2) by (auto simp: visit_peer_def Let_def case_prod_unfold split: ping_outcome.splits)
  moreover have "0 \<le> snd (fst ?a)" using visit_found [OF Cons.prems(1)] by blast
  ultimately have IH: "0 \<le> snd (fst (fold (visit_peer u now net) ps ?a)) \<and>
      (fst (fst (fold (visit_peer u now net) ps ?a)) = [] \<longleftrightarrow> fst (fst ?a) = [] \<and> \<not> list_ex (claims_master net) ps)"
    using Cons.IH by blast
  have "fst (fst ?a) = [] \<longleftrightarrow> fst (fst acc) = [] \<and> \<not> claims_master net p"
    using visit_found [OF Cons.prems(1), of u now net p] Cons.prems(2)
    by (auto simp: claims_master_def)
  with IH show ?case by simp
qed simp

lemma checkPeers_effect:
  fixes u now net ps m
  defines "m' \<equiv> checkPeers u now net ps m"
  shows "mg_role m' = mg_role m" "mg_mode m' = mg_mode m" "mg_epoch m \<le> mg_epoch m'"
    "mg_lastMasterSeen m' = (if list_ex (claims_master net) ps then Some now else mg_lastMasterSeen m)"
    "mg_currentMaster m' = ''me'' \<longrightarrow> mg_currentMaster m = ''me'' \<or> list_ex (claims_master net) ps"
    "\<not> list_ex (claims_master net) ps \<Longrightarrow> mg_currentMaster m' = (if mg_currentMaster m = ''me'' then ''me'' else [])"
    "list_ex (claims_master net) ps \<Longrightarrow> mg_currentMaster m' \<noteq> []"
proof -
  let ?r = "fold (visit_peer u now net) ps (([], 0), m)"
  have f: "fst (fst ?r) = [] \<longleftrightarrow> \<not> list_ex (claims_master net) ps"
    using visits_found [of "(([], 0), m)" u now net ps] by simp
  have k: "mg_role (snd ?r) = mg_role m" "mg_mode (snd ?r) = mg_mode m" "mg_epoch (snd ?r) = mg_epoch m"
    "mg_currentMaster (snd ?r) = mg_currentMaster m" "mg_lastMasterSeen (snd ?r) = mg_lastMasterSeen m"
    by simp_all
  have m': "m' = check_finish now (fst ?r) (snd ?r)" by (simp add: m'_def checkPeers_def case_prod_unfold Let_def)
  show "mg_role m' = mg_role m" "mg_mode m' = mg_mode m" "mg_epoch m \<le> mg_epoch m'"
    "mg_lastMasterSeen m' = (if list_ex (claims_master net) ps then Some now else mg_lastMasterSeen m)"
    "mg_currentMaster m' = ''me'' \<longrightarrow> mg_currentMaster m = ''me'' \<or> list_ex (claims_master net) ps"
    "\<not> list_ex (claims_master net) ps \<Longrightarrow> mg_currentMaster m' = (if mg_currentMaster m = ''me'' then ''me'' else [])"
    "list_ex (claims_master net) ps \<Longrightarrow> mg_currentMaster m' \<noteq> []"
    using f k by (auto simp: m' check_finish_def Let_def case_prod_unfold)
qed

lemma Takeover_role: "mg_role (snd (Takeover now m)) = (if hasQuorum m then ''master'' else mg_role m)"
  by (simp add: Takeover_def Let_def)

lemma checkMasterHealth_role:
  "mg_role (snd (checkMasterHealth now dead m)) =
     (if mg_mode m = ''auto'' \<and> mg_role m = ''slave'' \<and> mg_currentMaster m \<noteq> [] \<and>
         (case mg_lastMasterSeen m of None \<Rightarrow> True | Some t \<Rightarrow> dead < now - t) \<and> hasQuorum m
      then ''master'' else mg_role m)"
  by (simp add: checkMasterHealth_def Takeover_role)


definition demo_node :: "int \<Rightarrow> manager" where
  "demo_node port = New_manager ''auto'' [''10.0.0.1:8080'', ''10.0.0.2:8080''] ''n'' None port [] False"


section \<open>Epochs\<close>

datatype node_action =
    NBeat fpu int int "peer \<Rightarrow> ping_outcome" "peer list" tuning
  | NClaim int string int
  | NTakeover int
  | NConfig nat string "string list" bool
  | NDiscovered service_entry
  | NStart nat
  | NStop
  | NRelease

fun node_step :: "node_action \<Rightarrow> manager \<Rightarrow> manager" where
  "node_step (NBeat u now later net ps t) m = snd (heartbeat u now later net ps t m)"
| "node_step (NClaim now newMaster epoch) m = snd (handleTakeover now newMaster epoch m)"
| "node_step (NTakeover now) m = snd (Takeover now m)"
| "node_step (NConfig ctx mode nodes sync) m = Manager_UpdateConfig ctx mode nodes sync m"
| "node_step (NDiscovered e) m = handleDiscovered e m"
| "node_step (NStart ctx) m = Manager_Start ctx m"
| "node_step NStop m = Manager_Stop m"
| "node_step NRelease m = Release m"

text \<open>The takeover claims a node accepts in the course of a run, and the condition that it never
  increments the largest 64-bit integer.\<close>

fun accepted_claims :: "node_action list \<Rightarrow> manager \<Rightarrow> int list" where
  "accepted_claims [] m = []"
| "accepted_claims (a # as) m =
    (case a of
       NClaim now newMaster epoch \<Rightarrow> (if fst (handleTakeover now newMaster epoch m) then [epoch] else [])
     | _ \<Rightarrow> []) @ accepted_claims as (node_step a m)"

fun no_wrap :: "node_action list \<Rightarrow> manager \<Rightarrow> bool" where
  "no_wrap [] m = True"
| "no_wrap (a # as) m =
    (- (2 ^ 63) \<le> mg_epoch m \<and>
     (case a of NTakeover now \<Rightarrow> mg_epoch m < 2 ^ 63 - 1
      | NBeat u now later net ps t \<Rightarrow> mg_epoch (checkPeers u now net ps m) < 2 ^ 63 - 1 | _ \<Rightarrow> True) \<and>
     no_wrap as (node_step a m))"

lemma config_epoch [simp]:
  "mg_epoch (Manager_Start ctx m) = mg_epoch m" "mg_epoch (Manager_Stop m) = mg_epoch m"
  "mg_epoch (Manager_UpdateConfig ctx mode nodes sync m) = mg_epoch m" "mg_epoch (Release m) = mg_epoch m"
  "mg_epoch (handleDiscovered e m) = mg_epoch m"
  by (auto simp: Manager_Start_def Manager_Stop_def Manager_UpdateConfig_def apply_config_def Release_def
      handleDiscovered_def Let_def split: option.splits list.splits)

lemma Takeover_epoch:
  assumes "- (2 ^ 63) \<le> mg_epoch m" "mg_epoch m < 2 ^ 63 - 1"
  shows "mg_epoch m \<le> mg_epoch (snd (Takeover now m))"
proof -
  have "wrap64 (mg_epoch m + 1) = mg_epoch m + 1" by (rule wrap64_id) (use assms in simp_all)
  then show ?thesis by (simp add: Takeover_def Let_def)
qed

lemma node_step_epoch:
  assumes "no_wrap [a] m"
  shows "mg_epoch m \<le> mg_epoch (node_step a m)"
proof (cases a)
  case (NBeat u now later net ps t)
  let ?m = "checkPeers u now net ps m"
  have "mg_epoch m \<le> mg_epoch ?m" by (rule checkPeers_effect(3))
  moreover have "mg_epoch ?m \<le> mg_epoch (snd (checkMasterHealth later (tu_masterDead t) ?m))"
    using assms \<open>mg_epoch m \<le> mg_epoch ?m\<close> Takeover_epoch [of ?m later] by (simp add: NBeat checkMasterHealth_def)
  ultimately show ?thesis by (simp add: NBeat heartbeat_def)
next
  case (NTakeover now)
  then show ?thesis using assms Takeover_epoch [of m now] by simp
qed (simp_all add: handleTakeover_def)

lemma accepted_claims_newer:
  "no_wrap as m \<Longrightarrow> sorted_wrt (<) (accepted_claims as m) \<and> (\<forall>e \<in> set (accepted_claims as m). mg_epoch m < e)"
proof (induction as arbitrary: m)
  case (Cons a as)
  have le: "mg_epoch m \<le> mg_epoch (node_step a m)" using Cons.prems by (intro node_step_epoch) auto
  have IH: "sorted_wrt (<) (accepted_claims as (node_step a m))"
    "\<forall>e \<in> set (accepted_claims as (node_step a m)). mg_epoch (node_step a m) < e"
    using Cons.IH [of "node_step a m"] Cons.prems by auto
  have tail: "\<forall>e \<in> set (accepted_claims as (node_step a m)). mg_epoch m < e" using IH(2) le by auto
  show ?case
  proof (cases "\<exists>now nm ep. a = NClaim now nm ep \<and> fst (handleTakeover now nm ep m)")
    case True
    then obtain now nm ep where a: "a = NClaim now nm ep" "fst (handleTakeover now nm ep m)" by blast
    then have "mg_epoch m < ep" "mg_epoch (node_step a m) = ep" by (auto simp: handleTakeover_def split: if_splits)
    then show ?thesis using IH tail a by auto
  next
    case False
    then have "accepted_claims (a # as) m = accepted_claims as (node_step a m)"
      by (cases a) auto
    then show ?thesis using IH(1) tail by simp
  qed
qed simp



section \<open>Quorum\<close>

text \<open>The nodes a member of a cluster sees: itself and the peers it last found online.\<close>

definition visible :: "string \<Rightarrow> manager \<Rightarrow> string set" where
  "visible self m = insert self (fst ` set (filter (\<lambda>(k, p). pe_Online p) (mg_peers m)))"

definition member_of :: "string set \<Rightarrow> string \<Rightarrow> manager \<Rightarrow> bool" where
  "member_of N self m \<longleftrightarrow> distinct (map fst (mg_peers m)) \<and> self \<notin> fst ` set (mg_peers m) \<and>
     insert self (fst ` set (mg_peers m)) = N"

lemma member_card:
  assumes "member_of N self m"
  shows "length (mg_peers m) + 1 = card N" "card (visible self m) = 1 + length (filter (\<lambda>(k, p). pe_Online p) (mg_peers m))"
    "visible self m \<subseteq> N"
proof -
  have d: "distinct (map fst (mg_peers m))" "self \<notin> fst ` set (mg_peers m)" "N = insert self (set (map fst (mg_peers m)))"
    using assms by (auto simp: member_of_def)
  show "length (mg_peers m) + 1 = card N" using d distinct_card [OF d(1)] by simp
  have "distinct (map fst (filter (\<lambda>(k, p). pe_Online p) (mg_peers m)))" by (rule distinct_map_filter [OF d(1)])
  from distinct_card [OF this] d(2)
  show "card (visible self m) = 1 + length (filter (\<lambda>(k, p). pe_Online p) (mg_peers m))"
    unfolding visible_def by (subst card_insert_disjoint) auto
  show "visible self m \<subseteq> N" using d(3) by (auto simp: visible_def)
qed

text \<open>
  The quorum rule keeps the two halves of a partition from both electing a master: in a cluster of
  at least three nodes, two members that see no node in common cannot both have a quorum.
\<close>
theorem quorums_intersect:
  assumes "member_of N a m" "member_of N b n" "finite N" "3 \<le> card N" "hasQuorum m" "hasQuorum n"
  shows "visible a m \<inter> visible b n \<noteq> {}"
proof
  assume "visible a m \<inter> visible b n = {}"
  then have "card (visible a m) + card (visible b n) = card (visible a m \<union> visible b n)"
    using member_card(3) [OF assms(1)] member_card(3) [OF assms(2)] assms(3)
    by (metis card_Un_disjoint finite_subset)
  also have "\<dots> \<le> card N"
    using member_card(3) [OF assms(1)] member_card(3) [OF assms(2)] assms(3) by (intro card_mono) auto
  finally have "card (visible a m) + card (visible b n) \<le> card N" .
  moreover have "card N < card (visible a m) * 2" "card N < card (visible b n) * 2"
    using assms(4-6) member_card(1,2) [OF assms(1)] member_card(1,2) [OF assms(2)]
    by (simp_all add: hasQuorum_def Let_def)
  ultimately show False by simp
qed

theorem quorums_intersect_witness:
  "visible ''a'' ((demo_node 80)\<lparr>mg_peers := [(''b'', (new_peer ''b'' 1)\<lparr>pe_Online := True\<rparr>), (''c'', new_peer ''c'' 1)]\<rparr>) \<inter>
   visible ''c'' ((demo_node 80)\<lparr>mg_peers := [(''b'', (new_peer ''b'' 1)\<lparr>pe_Online := True\<rparr>), (''a'', new_peer ''a'' 1)]\<rparr>) \<noteq> {}"
  by (rule quorums_intersect [of "{''a'', ''b'', ''c''}"])
    (auto simp: member_of_def hasQuorum_def new_peer_def)

section \<open>The contexts of the loops\<close>

text \<open>Serialised calls: at most the loop whose cancel function is stored has not been cancelled.\<close>

inductive ctx_run :: "manager \<Rightarrow> bool" where
  ctx_new: "ctx_run (New_manager mode nodes name host port addrs sync)"
| ctx_start: "ctx_run m \<Longrightarrow> ctx_run (Manager_Start ctx (Manager_Stop m))"
| ctx_stop: "ctx_run m \<Longrightarrow> ctx_run (Manager_Stop m)"
| ctx_config: "ctx_run m \<Longrightarrow> ctx_run (Manager_UpdateConfig ctx mode nodes sync m)"

definition ctx_ok :: "manager \<Rightarrow> bool" where
  "ctx_ok m \<longleftrightarrow>
     (\<forall>c \<in> mg_loops m. c < mg_nextCtx m \<and> (c \<in> mg_cancelled m \<or> mg_cancel m = Some c)) \<and>
     (\<forall>c \<in> mg_cancelled m. c < mg_nextCtx m) \<and> (\<forall>c. mg_cancel m = Some c \<longrightarrow> c < mg_nextCtx m)"

lemma ctx_ok_stop: "ctx_ok m \<Longrightarrow> ctx_ok (Manager_Stop m) \<and> mg_loops (Manager_Stop m) \<subseteq> mg_cancelled (Manager_Stop m)"
  by (auto simp: ctx_ok_def Manager_Stop_def split: option.splits)

lemma ctx_ok_start: "ctx_ok m \<Longrightarrow> mg_loops m \<subseteq> mg_cancelled m \<Longrightarrow> ctx_ok (Manager_Start ctx m)"
  by (fastforce simp: ctx_ok_def Manager_Start_def Let_def)

lemma apply_config_ctx [simp]:
  "mg_loops (apply_config mode nodes sync m) = mg_loops m" "mg_cancelled (apply_config mode nodes sync m) = mg_cancelled m"
  "mg_cancel (apply_config mode nodes sync m) = mg_cancel m" "mg_nextCtx (apply_config mode nodes sync m) = mg_nextCtx m"
  "mg_mode (apply_config mode nodes sync m) = mode"
  by (simp_all add: apply_config_def Let_def)

lemma ctx_ok_config: "ctx_ok m \<Longrightarrow> ctx_ok (apply_config mode nodes sync m)"
  by (simp add: ctx_ok_def)

lemma ctx_ok_run: "ctx_run m \<Longrightarrow> ctx_ok m"
proof (induction rule: ctx_run.induct)
  case ctx_new
  show ?case by (simp add: ctx_ok_def New_manager_def)
next
  case (ctx_config m ctx mode nodes sync)
  then show ?case
    using ctx_ok_stop [of m] by (simp add: Manager_UpdateConfig_def ctx_ok_start ctx_ok_config)
qed (simp_all add: ctx_ok_stop ctx_ok_start)

text \<open>
  Saving cluster settings silences the cluster: the new heartbeat loop is derived from the context
  of the request that saved them, and once that request has ended (as \<open>dispatch\<close> ends every request's
  context on return) no heartbeat loop runs any more, whatever the mode.
\<close>
theorem saved_settings_stop_heartbeats:
  assumes "ctx_run m" "mode \<noteq> ''off''"
  shows "live_loops {} (Manager_UpdateConfig ctx mode nodes sync m) = {mg_nextCtx m} \<and>
    live_loops {ctx} (Manager_UpdateConfig ctx mode nodes sync m) = {}"
proof -
  have stop: "ctx_ok (Manager_Stop m)" "mg_loops (Manager_Stop m) \<subseteq> mg_cancelled (Manager_Stop m)"
    using ctx_ok_stop [OF ctx_ok_run [OF assms(1)]] by simp_all
  have n: "mg_nextCtx (Manager_Stop m) = mg_nextCtx m" by (simp add: Manager_Stop_def split: option.splits)
  have fresh: "mg_nextCtx m \<notin> mg_cancelled (Manager_Stop m)" using stop(1) n by (auto simp: ctx_ok_def)
  show ?thesis
    using stop(2) assms(2) fresh by (auto simp: live_loops_def Manager_UpdateConfig_def Manager_Start_def n Let_def)
qed

theorem saved_settings_stop_heartbeats_witness:
  "live_loops {7} (Manager_UpdateConfig 7 ''auto'' [] False (Manager_Start 0 (Manager_Stop (demo_node 80)))) = {}"
  using saved_settings_stop_heartbeats [OF ctx_start [OF ctx_new], of "''auto''"] unfolding demo_node_def by auto

section \<open>Keys and addresses\<close>

lemma host_chars: "validPeerHostPort host port \<Longrightarrow> CHR ''['' \<notin> set host \<and> CHR '']'' \<notin> set host"
  by (auto simp: validPeerHostPort_def list_all_iff host_char_def Let_def)

text \<open>
  A peer's key leads back to the peer, as the certificate sync needs, exactly when the peer is not
  an IPv6 address: \<open>parsePeerAddr\<close> accepts such a peer, but its key (and its request URL) are written
  without the brackets.
\<close>
theorem peer_key_splits_iff:
  assumes "validPeerHostPort (pe_Address p) (pe_Port p)"
  shows "SplitHostPort (peer_key p) = (if CHR '':'' \<in> set (pe_Address p) then None else Some (pe_Address p, Itoa (pe_Port p))) \<and>
    parsePeerAddr (JoinHostPort (pe_Address p) (Itoa (pe_Port p))) = Some (new_peer (pe_Address p) (pe_Port p))"
proof -
  have b: "CHR ''['' \<notin> set (pe_Address p)" "CHR '']'' \<notin> set (pe_Address p)" using host_chars [OF assms] by simp_all
  have i: "CHR '':'' \<notin> set (Itoa (pe_Port p))" "CHR ''['' \<notin> set (Itoa (pe_Port p))" "CHR '']'' \<notin> set (Itoa (pe_Port p))"
    using Itoa_no_colon Itoa_no_bracket by simp_all
  have c: "cut_last (CHR '':'') (peer_key p) = Some (pe_Address p, Itoa (pe_Port p))"
    using i by (simp add: cut_last_Some peer_key_def)
  have h: "hd (peer_key p) \<noteq> CHR ''[''"
    using b assms by (cases "pe_Address p") (auto simp: peer_key_def validPeerHostPort_def)
  have "SplitHostPort (JoinHostPort (pe_Address p) (Itoa (pe_Port p))) = Some (pe_Address p, Itoa (pe_Port p))"
    using b i by (rule Split_Join)
  moreover have "Atoi (Itoa (pe_Port p)) = Some (pe_Port p)"
    using assms by (intro Atoi_Itoa) (auto simp: validPeerHostPort_def)
  ultimately have "parsePeerAddr (JoinHostPort (pe_Address p) (Itoa (pe_Port p))) = Some (new_peer (pe_Address p) (pe_Port p))"
    using assms by (simp add: parsePeerAddr_def)
  moreover have "SplitHostPort (peer_key p) =
      (if CHR '':'' \<in> set (pe_Address p) then None else Some (pe_Address p, Itoa (pe_Port p)))"
    using c h b i unfolding SplitHostPort_def by (simp add: peer_key_def)
  ultimately show ?thesis by blast
qed

theorem peer_key_splits_iff_witness:
  "SplitHostPort (peer_key (new_peer ''fe80::1'' 8080)) = None"
proof -
  have "validPeerHostPort ''fe80::1'' 8080" by (simp add: validPeerHostPort_def host_char_def)
  then show ?thesis using peer_key_splits_iff [of "new_peer ''fe80::1'' 8080"] by (simp add: new_peer_def)
qed

end
