(* ===== verification/Cluster_System.thy ===== *)
theory Cluster_System
  imports Cluster_Node
begin

text \<open>
  Several nodes running the code of \<open>Cluster_Node\<close>: the pings of a heartbeat are answered by the
  nodes' own \<open>handlePing\<close> (or not at all), and the claims a takeover sends are delivered to
  \<open>handleTakeover\<close> in any order, any number of times, or lost. \<open>Takeover\<close> is called from the heartbeat
  only, as in the sources.
\<close>

record cluster =
  cl_nodes :: "nat \<Rightarrow> manager"
  cl_claims :: "(string \<times> int) set"

text \<open>The network answers with what some node answers, if at all; a body that does not decode is one
  without a role.\<close>

definition honest_net :: "cluster \<Rightarrow> (peer \<Rightarrow> ping_outcome) \<Rightarrow> bool" where
  "honest_net c net \<longleftrightarrow>
     (\<forall>p rtt body. net p = Answer rtt body \<longrightarrow> pr_Role body = [] \<or> (\<exists>j tunnel. body = handlePing tunnel (cl_nodes c j)))"

datatype cluster_action =
    CBeat nat fpu int int "peer \<Rightarrow> ping_outcome" "peer list" tuning
  | CDeliver nat int string int
  | CLocal nat node_action

fun cluster_enabled :: "cluster_action \<Rightarrow> cluster \<Rightarrow> bool" where
  "cluster_enabled (CBeat i u now later net ps t) c = (honest_net c net \<and> now \<le> later \<and> later - now \<le> tu_masterDead t)"
| "cluster_enabled (CDeliver i now k epoch) c = ((k, epoch) \<in> cl_claims c)"
| "cluster_enabled (CLocal i a) c =
     (case a of NConfig ctx mode nodes sync \<Rightarrow> True | NDiscovered e \<Rightarrow> True | NStart ctx \<Rightarrow> True | NStop \<Rightarrow> True
      | NRelease \<Rightarrow> True | _ \<Rightarrow> False)"

definition set_node :: "nat \<Rightarrow> manager \<Rightarrow> cluster \<Rightarrow> cluster" where
  "set_node i m c = c\<lparr>cl_nodes := (cl_nodes c)(i := m)\<rparr>"

fun cluster_step :: "cluster_action \<Rightarrow> cluster \<Rightarrow> cluster" where
  "cluster_step (CBeat i u now later net ps t) c =
     (let (claims, m) = heartbeat u now later net ps t (cl_nodes c i)
      in (set_node i m c)\<lparr>cl_claims := cl_claims c \<union> set claims\<rparr>)"
| "cluster_step (CDeliver i now k epoch) c = set_node i (snd (handleTakeover now ''me'' epoch (cl_nodes c i))) c"
| "cluster_step (CLocal i a) c = set_node i (node_step a (cl_nodes c i)) c"

definition fresh_node :: "manager \<Rightarrow> bool" where
  "fresh_node m \<longleftrightarrow> (\<exists>mode nodes name host port addrs sync. m = New_manager mode nodes name host port addrs sync)"

inductive cluster_run :: "cluster \<Rightarrow> bool" where
  cluster_new: "(\<And>i. fresh_node (cl_nodes c i)) \<Longrightarrow>
     cl_claims c = {} \<Longrightarrow> cluster_run c"
| cluster_do: "cluster_run c \<Longrightarrow> cluster_enabled a c \<Longrightarrow> cluster_run (cluster_step a c)"

definition leaderless :: "manager \<Rightarrow> bool" where
  "leaderless m \<longleftrightarrow> mg_role m \<noteq> ''master'' \<and> mg_currentMaster m = []"

lemma leaderless_fresh: "fresh_node m \<Longrightarrow> leaderless m"
proof -
  assume "fresh_node m"
  then obtain mode nodes name host port addrs sync where m: "m = New_manager mode nodes name host port addrs sync"
    unfolding fresh_node_def by blast
  have "mg_role m \<in> {''slave'', ''standalone''}" "mg_currentMaster m = []" by (simp_all add: m New_manager_def)
  then show ?thesis by (auto simp: leaderless_def)
qed

lemma leaderless_local:
  "leaderless m \<Longrightarrow> cluster_enabled (CLocal i a) c \<Longrightarrow> leaderless (node_step a m)"
  by (cases a)
    (auto simp: leaderless_def Manager_UpdateConfig_def Manager_Start_def Manager_Stop_def apply_config_def Release_def
      handleDiscovered_def Let_def split: option.splits list.splits)

lemma no_master_answers:
  assumes "\<And>j. leaderless (cl_nodes c j)" "honest_net c net"
  shows "\<not> list_ex (claims_master net) ps"
proof -
  have "\<not> claims_master net p" for p
  proof
    assume "claims_master net p"
    then obtain rtt body where b: "net p = Answer rtt body" "pr_Role body = ''master''" by (auto simp: claims_master_def)
    then obtain j tunnel where "body = handlePing tunnel (cl_nodes c j)" using assms(2) by (fastforce simp: honest_net_def)
    with b assms(1) [of j] show False by (simp add: handlePing_def leaderless_def)
  qed
  then show ?thesis by (simp add: list_ex_iff)
qed

lemma leaderless_beat:
  assumes "\<And>j. leaderless (cl_nodes c j)" "cluster_enabled (CBeat i u now later net ps t) c"
  shows "fst (heartbeat u now later net ps t (cl_nodes c i)) = []" "leaderless (snd (heartbeat u now later net ps t (cl_nodes c i)))"
proof -
  let ?m = "checkPeers u now net ps (cl_nodes c i)"
  have "\<not> list_ex (claims_master net) ps" using no_master_answers [OF assms(1)] assms(2) by simp
  from checkPeers_effect(6) [where u = u and now = now and m = "cl_nodes c i", OF this]
  have "mg_currentMaster ?m = []" using assms(1) [of i] by (simp add: leaderless_def)
  moreover have "mg_role ?m = mg_role (cl_nodes c i)" by (rule checkPeers_effect(1))
  ultimately
  show "fst (heartbeat u now later net ps t (cl_nodes c i)) = []" "leaderless (snd (heartbeat u now later net ps t (cl_nodes c i)))"
    using assms(1) [of i] by (simp_all add: heartbeat_def checkMasterHealth_def leaderless_def)
qed

lemma cluster_leaderless: "cluster_run c \<Longrightarrow> (\<forall>i. leaderless (cl_nodes c i)) \<and> cl_claims c = {}"
proof (induction rule: cluster_run.induct)
  case (cluster_new c)
  then show ?case using leaderless_fresh by simp
next
  case (cluster_do c a)
  then have all: "\<And>j. leaderless (cl_nodes c j)" and none: "cl_claims c = {}" by simp_all
  show ?case
  proof (cases a)
    case (CBeat i u now later net ps t)
    show ?thesis
      using leaderless_beat [OF all, of i u now later net ps t] cluster_do(2) all none
      by (simp add: CBeat set_node_def case_prod_unfold)
  next
    case (CDeliver i now k epoch)
    then show ?thesis using cluster_do(2) none by simp
  next
    case (CLocal i b)
    then show ?thesis using leaderless_local [of "cl_nodes c i" i b c] cluster_do(2) all none
      by (simp add: set_node_def)
  qed
qed

text \<open>
  C9: No node of a cluster of these engines ever becomes master: from freshly created managers,
  whatever the modes, peers, timings, losses, settings changes and restarts, every node stays a slave
  or standalone, no takeover claim is ever sent, and no node ever knows a master. Failover waits for a
  known master to die, and nothing makes the first one.
\<close>
theorem cluster_never_elects:
  assumes "cluster_run c"
  shows "mg_role (cl_nodes c i) \<noteq> ''master'' \<and> cl_claims c = {} \<and> mg_currentMaster (cl_nodes c i) = []"
  using cluster_leaderless [OF assms] by (simp add: leaderless_def)

definition demo_cluster :: cluster where
  "demo_cluster = \<lparr>cl_nodes = (\<lambda>i. demo_node (8080 + int i)), cl_claims = {}\<rparr>"

theorem cluster_never_elects_witness:
  "mg_role (cl_nodes (cluster_step (CBeat 0 exact_fpu 100 100 (\<lambda>_. NoAnswer) [new_peer ''10.0.0.1'' 8080]
     \<lparr>tu_heartbeat = 1, tu_masterDead = 30, tu_peerTimeout = 1\<rparr>) demo_cluster) 0) \<noteq> ''master''"
proof -
  have "cluster_run demo_cluster"
  proof (rule cluster_new)
    show "fresh_node (cl_nodes demo_cluster i)" for i
      unfolding fresh_node_def demo_cluster_def demo_node_def cluster.simps by (intro exI) (rule refl)
  qed (simp add: demo_cluster_def)
  moreover have "cluster_enabled (CBeat 0 exact_fpu 100 100 (\<lambda>_. NoAnswer) [new_peer ''10.0.0.1'' 8080]
     \<lparr>tu_heartbeat = 1, tu_masterDead = 30, tu_peerTimeout = 1\<rparr>) demo_cluster"
    by (simp add: honest_net_def)
  ultimately show ?thesis using cluster_never_elects [OF cluster_do] by blast
qed

end
