(* ===== verification/Go_Encoding.thy ===== *)
theory Go_Encoding
  imports Go_Base
begin

text \<open>
  The codecs of Go's \<open>encoding/base32\<close> (unpadded) and \<open>encoding/base64\<close> (padded) as the sources use
  them: bytes are characters, an alphabet is the list of its symbols, and both directions go through
  the bits, most significant first. Newlines in the input are skipped, as the decoders do.
\<close>

section \<open>Bits\<close>

fun bits_of :: "nat \<Rightarrow> nat \<Rightarrow> bool list" where
  "bits_of 0 n = []"
| "bits_of (Suc w) n = bits_of w (n div 2) @ [odd n]"

definition nat_of :: "bool list \<Rightarrow> nat" where
  "nat_of bs = foldl (\<lambda>a b. 2 * a + of_bool b) 0 bs"

lemma length_bits_of [simp]: "length (bits_of w n) = w"
  by (induction w arbitrary: n) simp_all

lemma nat_of_bits_of: "n < 2 ^ w \<Longrightarrow> nat_of (bits_of w n) = n"
proof (induction w arbitrary: n)
  case (Suc w)
  then have "nat_of (bits_of w (n div 2)) = n div 2" by simp
  then show ?case by (simp add: nat_of_def)
qed (simp add: nat_of_def)

lemma bits_of_nat_of: "bits_of (length bs) (nat_of bs) = bs"
  by (induction bs rule: rev_induct) (simp_all add: nat_of_def)

lemma nat_of_less: "nat_of bs < 2 ^ length bs"
  by (induction bs rule: rev_induct) (auto simp: nat_of_def)

section \<open>Chunks\<close>

function chunks :: "nat \<Rightarrow> 'a list \<Rightarrow> 'a list list" where
  "chunks w xs = (if w = 0 \<or> length xs < w then [] else take w xs # chunks w (drop w xs))"
  by auto
termination by (relation "measure (\<lambda>(w, xs). length xs)") auto

declare chunks.simps [simp del]

lemma chunks_short [simp]: "length xs < w \<Longrightarrow> chunks w xs = []"
  by (simp add: chunks.simps)

lemma chunks_append [simp]: "0 < w \<Longrightarrow> length c = w \<Longrightarrow> chunks w (c @ xs) = c # chunks w xs"
  by (subst chunks.simps) simp

lemma chunks_concat: "0 < w \<Longrightarrow> \<forall>c \<in> set cs. length c = w \<Longrightarrow> length r < w \<Longrightarrow> chunks w (concat cs @ r) = cs"
  by (induction cs) simp_all

lemma chunks_length: "c \<in> set (chunks w xs) \<Longrightarrow> length c = w"
proof (induction w xs rule: chunks.induct)
  case (1 w xs)
  show ?case
  proof (cases "w = 0 \<or> length xs < w")
    case True
    then have "chunks w xs = []" by (subst chunks.simps) simp
    with 1(2) show ?thesis by simp
  next
    case False
    then have "chunks w xs = take w xs # chunks w (drop w xs)" by (subst chunks.simps) simp
    with 1(2) have "c = take w xs \<or> c \<in> set (chunks w (drop w xs))" by simp
    with False 1(1) show ?thesis by auto
  qed
qed

lemma concat_chunks: "0 < w \<Longrightarrow> \<exists>r. xs = concat (chunks w xs) @ r \<and> length r < w"
proof (induction w xs rule: chunks.induct)
  case (1 w xs)
  show ?case
  proof (cases "length xs < w")
    case False
    with 1(2) have nf: "\<not> (w = 0 \<or> length xs < w)" by simp
    obtain r where r: "drop w xs = concat (chunks w (drop w xs)) @ r" "length r < w"
      using 1(1) [OF nf 1(2)] by (elim exE conjE)
    have "chunks w xs = take w xs # chunks w (drop w xs)" using nf by (subst chunks.simps) simp
    moreover have "xs = take w xs @ concat (chunks w (drop w xs)) @ r"
      using r(1) append_take_drop_id [of w xs] by simp
    ultimately show ?thesis using r(2) by (intro exI [of _ r]) simp
  qed simp
qed

definition pad :: "nat \<Rightarrow> bool list \<Rightarrow> bool list" where
  "pad w bs = bs @ replicate ((w - length bs mod w) mod w) False"

lemma pad_dvd: "0 < w \<Longrightarrow> w dvd n + (w - n mod w) mod w" for n w :: nat
proof (cases "n mod w = 0")
  case False
  assume w: "0 < w"
  with False have "w - n mod w < w" by simp
  then have "(w - n mod w) mod w = w - n mod w" by simp
  moreover have "(n + (w - n mod w)) mod w = 0"
    using w by (metis add_diff_inverse_nat mod_add_left_eq mod_less_divisor mod_self nat_less_le not_less)
  ultimately show ?thesis by (simp add: dvd_eq_mod_eq_0)
qed (simp add: dvd_eq_mod_eq_0)

lemma pad_chunks: "0 < w \<Longrightarrow> concat (chunks w (pad w bs)) = pad w bs"
proof -
  assume w: "0 < w"
  have "w dvd length (pad w bs)" using pad_dvd [OF w] by (simp add: pad_def)
  obtain r where r: "pad w bs = concat (chunks w (pad w bs)) @ r" "length r < w" using concat_chunks [OF w] by blast
  have "w dvd length (concat (chunks w (pad w bs)))"
  proof -
    have "w dvd sum_list (map length cs)" if "\<forall>c \<in> set cs. length c = w" for cs :: "bool list list"
      using that by (induction cs) simp_all
    then show ?thesis using chunks_length by (simp add: length_concat) blast
  qed
  with \<open>w dvd length (pad w bs)\<close> r have "w dvd length r"
    by (metis dvd_add_right_iff length_append)
  with r(2) have "r = []" by (meson length_0_conv nat_dvd_not_less neq0_conv)
  with r(1) show ?thesis by simp
qed

section \<open>Symbols\<close>

fun index_of :: "'a \<Rightarrow> 'a list \<Rightarrow> nat option" where
  "index_of c [] = None"
| "index_of c (x # xs) = (if x = c then Some 0 else map_option Suc (index_of c xs))"

lemma index_of_nth: "distinct xs \<Longrightarrow> i < length xs \<Longrightarrow> index_of (xs ! i) xs = Some i"
proof (induction xs arbitrary: i)
  case (Cons x xs)
  then show ?case by (cases i) auto
qed simp

fun symbols :: "'a list \<Rightarrow> 'a list \<Rightarrow> nat list option" where
  "symbols alphabet [] = Some []"
| "symbols alphabet (c # cs) =
    (case index_of c alphabet of None \<Rightarrow> None | Some i \<Rightarrow> map_option ((#) i) (symbols alphabet cs))"

lemma symbols_map: "distinct alphabet \<Longrightarrow> \<forall>i \<in> set is. i < length alphabet \<Longrightarrow>
    symbols alphabet (map ((!) alphabet) is) = Some is"
  by (induction "is") (simp_all add: index_of_nth)

definition byte_bits :: "string \<Rightarrow> bool list" where
  "byte_bits s = concat (map (\<lambda>c. bits_of 8 (of_char c)) s)"

definition bytes_of :: "bool list \<Rightarrow> string" where
  "bytes_of bs = map (\<lambda>c. char_of (nat_of c)) (chunks 8 bs)"

definition encode :: "nat \<Rightarrow> string \<Rightarrow> string \<Rightarrow> string" where
  "encode w alphabet s = map (\<lambda>c. alphabet ! nat_of c) (chunks w (pad w (byte_bits s)))"

definition decode :: "nat \<Rightarrow> string \<Rightarrow> string \<Rightarrow> string option" where
  "decode w alphabet s = map_option (\<lambda>is. bytes_of (concat (map (bits_of w) is))) (symbols alphabet s)"

lemma bytes_of_byte_bits: "length r < 8 \<Longrightarrow> bytes_of (byte_bits s @ r) = s"
proof -
  assume "length r < 8"
  then have "chunks 8 (byte_bits s @ r) = map (\<lambda>c. bits_of 8 (of_char c)) s"
    unfolding byte_bits_def by (intro chunks_concat) auto
  then show ?thesis
    by (simp add: bytes_of_def comp_def nat_of_bits_of)
qed

lemma decode_encode:
  assumes "distinct alphabet" "length alphabet = 2 ^ w" "0 < w" "w < 9"
  shows "decode w alphabet (encode w alphabet s) = Some s"
proof -
  let ?cs = "chunks w (pad w (byte_bits s))"
  have len: "length c = w" if "c \<in> set ?cs" for c using chunks_length [OF that] .
  have enc: "encode w alphabet s = map ((!) alphabet) (map nat_of ?cs)" by (simp add: encode_def)
  have "\<forall>i \<in> set (map nat_of ?cs). i < length alphabet"
    using nat_of_less len assms(2) by (metis (no_types, lifting) image_iff list.set_map)
  then have "symbols alphabet (encode w alphabet s) = Some (map nat_of ?cs)"
    unfolding enc by (rule symbols_map [OF assms(1)])
  moreover have "map (bits_of w) (map nat_of ?cs) = ?cs"
    unfolding map_map by (rule map_idI) (metis bits_of_nat_of comp_apply len)
  moreover have "concat ?cs = pad w (byte_bits s)" by (rule pad_chunks [OF assms(3)])
  moreover have "bytes_of (pad w (byte_bits s)) = s"
  proof -
    have "(w - length (byte_bits s) mod w) mod w < 8" using mod_less_divisor [OF assms(3), of "w - length (byte_bits s) mod w"] assms(4)
      by linarith
    then show ?thesis unfolding pad_def by (intro bytes_of_byte_bits) simp
  qed
  ultimately show ?thesis by (simp add: decode_def)
qed

lemma length_pad: "0 < w \<Longrightarrow> length (pad w bs) = length bs + (w - length bs mod w) mod w"
  by (simp add: pad_def)

lemma length_byte_bits: "length (byte_bits s) = 8 * length s"
  by (induction s) (simp_all add: byte_bits_def)

lemma length_chunks: "0 < w \<Longrightarrow> w dvd length bs \<Longrightarrow> length (chunks w bs) = length bs div w"
proof (induction w bs rule: chunks.induct)
  case (1 w bs)
  show ?case
  proof (cases "length bs < w")
    case True
    then show ?thesis by simp
  next
    case False
    with 1(2) have nf: "\<not> (w = 0 \<or> length bs < w)" by simp
    then have "chunks w bs = take w bs # chunks w (drop w bs)" by (subst chunks.simps) simp
    moreover have "length (chunks w (drop w bs)) = length (drop w bs) div w"
      using nf 1(2,3) by (intro 1(1)) (simp_all add: dvd_diff_nat)
    ultimately show ?thesis using nf by (simp add: le_div_geq)
  qed
qed

lemma length_encode: "0 < w \<Longrightarrow> length (encode w alphabet s) = (8 * length s + (w - 8 * length s mod w) mod w) div w"
proof -
  assume w: "0 < w"
  have "w dvd length (pad w (byte_bits s))" using pad_dvd [OF w] w by (simp add: length_pad)
  then show ?thesis using w by (simp add: encode_def length_chunks length_pad length_byte_bits)
qed

lemma encode_alphabet: "length alphabet = 2 ^ w \<Longrightarrow> set (encode w alphabet s) \<subseteq> set alphabet"
  using nat_of_less chunks_length by (fastforce simp: encode_def intro: nth_mem)

lemma quantum: "0 < w \<Longrightarrow>
    (w * k + c + (w - (w * k + c) mod w) mod w) div w = k + (c + (w - c mod w) mod w) div w" for w k c :: nat
  by (simp add: add.assoc)

section \<open>base64\<close>

definition newline :: "char \<Rightarrow> bool" where
  "newline c \<longleftrightarrow> c = CHR 0x0A \<or> c = CHR 0x0D"

definition base64_alphabet :: string where
  "base64_alphabet = ''ABCDEFGHIJKLMNOPQRSTUVWXYZabcdefghijklmnopqrstuvwxyz0123456789+/''"

text \<open>\<open>base64.StdEncoding\<close>. The decoder wants whole quanta of four, the last with at most two \<open>=\<close>.\<close>

definition EncodeBase64 :: "string \<Rightarrow> string" where
  "EncodeBase64 s =
    (let t = encode 6 base64_alphabet s in t @ replicate ((4 - length t mod 4) mod 4) (CHR ''=''))"

definition DecodeBase64 :: "string \<Rightarrow> string option" where
  "DecodeBase64 s =
    (let s = filter (\<lambda>c. \<not> newline c) s;
         padding = min 2 (length (takeWhile (\<lambda>c. c = CHR ''='') (rev s)))
     in if length s mod 4 \<noteq> 0 then None else decode 6 base64_alphabet (take (length s - padding) s))"

lemma base64_alphabet_ok:
  "distinct base64_alphabet" "length base64_alphabet = 2 ^ 6" "CHR ''='' \<notin> set base64_alphabet"
  "\<forall>c \<in> set base64_alphabet. \<not> newline c"
  by (simp_all add: base64_alphabet_def newline_def)

lemma base64_length: "length (encode 6 a s) mod 4 \<noteq> 1"
proof -
  have "length s = 3 * (length s div 3) + length s mod 3" by simp
  moreover have "length s mod 3 = 0 \<or> length s mod 3 = 1 \<or> length s mod 3 = 2" by linarith
  ultimately obtain q where q: "length s = 3 * q \<or> length s = 3 * q + 1 \<or> length s = 3 * q + 2"
    by (metis add.right_neutral)
  have "length (encode 6 a s) = 4 * q + (c + (6 - c mod 6) mod 6) div 6" if "8 * length s = 6 * (4 * q) + c" for c
    unfolding length_encode [OF zero_less_numeral] that by (rule quantum) simp
  from this [of 0] this [of 8] this [of 16] q show ?thesis by (elim disjE) (simp_all, presburger)
qed

lemma DecodeBase64_Encode: "DecodeBase64 (EncodeBase64 s) = Some s"
proof -
  let ?t = "encode 6 base64_alphabet s"
  let ?k = "(4 - length ?t mod 4) mod 4"
  have t: "set ?t \<subseteq> set base64_alphabet" by (rule encode_alphabet) (simp add: base64_alphabet_ok)
  then have "\<forall>c \<in> set ?t. \<not> newline c" using base64_alphabet_ok(4) by blast
  then have "filter (\<lambda>c. \<not> newline c) ?t = ?t" by (simp only: filter_id_conv)
  moreover have "\<not> newline (CHR ''='')" by (simp add: newline_def)
  ultimately have keep: "filter (\<lambda>c. \<not> newline c) (EncodeBase64 s) = EncodeBase64 s"
    by (simp only: EncodeBase64_def Let_def filter_append filter_replicate not_False_eq_True if_True)
  have four: "(4 - m mod 4) mod 4 \<le> 2" if "m mod 4 \<noteq> 1" for m :: nat
  proof -
    have "m mod 4 < 4" by simp
    with that have "m mod 4 = 0 \<or> m mod 4 = 2 \<or> m mod 4 = 3" by linarith
    then show ?thesis by (elim disjE) simp_all
  qed
  have k: "?k \<le> 2" by (rule four [OF base64_length])
  have "CHR ''='' \<notin> set (rev ?t)" using t base64_alphabet_ok(3) by auto
  then have "takeWhile (\<lambda>c. c = CHR ''='') (rev ?t) = []" by (cases "rev ?t") auto
  then have p: "takeWhile (\<lambda>c. c = CHR ''='') (rev (EncodeBase64 s)) = replicate ?k (CHR ''='')"
    by (simp add: EncodeBase64_def Let_def takeWhile_append)
  have "4 dvd length ?t + ?k" by (rule pad_dvd) simp
  then have l: "length (EncodeBase64 s) mod 4 = 0" by (simp add: EncodeBase64_def Let_def)
  have "decode 6 base64_alphabet ?t = Some s" by (rule decode_encode) (simp_all add: base64_alphabet_ok)
  then show ?thesis unfolding DecodeBase64_def Let_def keep p length_replicate using l k
    by (simp add: EncodeBase64_def Let_def min_absorb2 del: One_nat_def)
qed

section \<open>base32\<close>

definition base32_alphabet :: string where
  "base32_alphabet = ''ABCDEFGHIJKLMNOPQRSTUVWXYZ234567''"

text \<open>
  \<open>base32.StdEncoding.WithPadding(base32.NoPadding)\<close>. A last quantum of 1, 3 or 6 symbols encodes no
  whole number of bytes; the decoder drops it.
\<close>

definition EncodeBase32 :: "string \<Rightarrow> string" where
  "EncodeBase32 s = encode 5 base32_alphabet s"

definition DecodeBase32 :: "string \<Rightarrow> string option" where
  "DecodeBase32 s =
    (let s = filter (\<lambda>c. \<not> newline c) s; k = length s mod 8;
         s' = (if k \<in> {1, 3, 6} then take (length s - k) s else s)
     in if symbols base32_alphabet s = None then None else decode 5 base32_alphabet s')"

lemma base32_alphabet_ok:
  "distinct base32_alphabet" "length base32_alphabet = 2 ^ 5" "\<forall>c \<in> set base32_alphabet. \<not> newline c"
  by (simp_all add: base32_alphabet_def newline_def)

lemma DecodeBase32_Encode: "DecodeBase32 (EncodeBase32 s) = Some s"
proof -
  let ?t = "encode 5 base32_alphabet s"
  have "set ?t \<subseteq> set base32_alphabet" by (rule encode_alphabet) (simp add: base32_alphabet_ok)
  then have "\<forall>c \<in> set ?t. \<not> newline c" using base32_alphabet_ok(3) by blast
  then have keep: "filter (\<lambda>c. \<not> newline c) ?t = ?t" by simp
  have "length s = 5 * (length s div 5) + length s mod 5" by simp
  moreover have "length s mod 5 = 0 \<or> length s mod 5 = 1 \<or> length s mod 5 = 2 \<or> length s mod 5 = 3 \<or> length s mod 5 = 4"
    by linarith
  ultimately obtain q where q: "length s = 5 * q \<or> length s = 5 * q + 1 \<or> length s = 5 * q + 2 \<or>
      length s = 5 * q + 3 \<or> length s = 5 * q + 4"
    by (metis add.right_neutral)
  have "length ?t = 8 * q + (c + (5 - c mod 5) mod 5) div 5" if "8 * length s = 5 * (8 * q) + c" for c
    unfolding length_encode [OF zero_less_numeral] that by (rule quantum) simp
  from this [of 0] this [of 8] this [of 16] this [of 24] this [of 32] q
  have k: "length ?t mod 8 \<notin> {1, 3, 6}" by (elim disjE) (simp_all, presburger)
  have d: "decode 5 base32_alphabet ?t = Some s" by (rule decode_encode) (simp_all add: base32_alphabet_ok)
  then have "symbols base32_alphabet ?t \<noteq> None" by (auto simp: decode_def)
  with d k show ?thesis unfolding DecodeBase32_def EncodeBase32_def Let_def keep by simp
qed

end
