(* ===== verification/Go_Path.thy ===== *)
theory Go_Path
  imports Go_Base
begin

text \<open>
  What the sources use of Go's \<open>path/filepath\<close> on Unix: \<open>Clean\<close>, \<open>Join\<close>, \<open>Rel\<close>, \<open>IsLocal\<close> and
  \<open>IsAbs\<close>. A path is cleaned element by element, with a stack of the elements kept.
\<close>

abbreviation slash :: char where "slash \<equiv> CHR ''/''"

fun join :: "string list \<Rightarrow> string" where
  "join [] = []"
| "join [x] = x"
| "join (x # y # ys) = x @ slash # join (y # ys)"

definition IsAbs :: "string \<Rightarrow> bool" where
  "IsAbs p \<longleftrightarrow> p \<noteq> [] \<and> hd p = slash"

text \<open>The kept elements, last first: \<open>..\<close> drops one, except at the root or above the start.\<close>

fun clean_push :: "bool \<Rightarrow> string \<Rightarrow> string list \<Rightarrow> string list" where
  "clean_push rooted c acc =
    (if c = [] \<or> c = ''.'' then acc
     else if c = ''..'' then
       (case acc of
          [] \<Rightarrow> if rooted then [] else [''..'']
        | a # as \<Rightarrow> if a = ''..'' then c # acc else as)
     else c # acc)"

declare clean_push.simps [simp del]

definition elements :: "string \<Rightarrow> string list" where
  "elements p = rev (fold (clean_push (IsAbs p)) (split_on slash p) [])"

definition path_of :: "bool \<Rightarrow> string list \<Rightarrow> string" where
  "path_of rooted es = (if rooted then slash # join es else if es = [] then ''.'' else join es)"

definition Clean :: "string \<Rightarrow> string" where
  "Clean p = path_of (IsAbs p) (elements p)"

definition Join :: "string \<Rightarrow> string \<Rightarrow> string" where
  "Join a b = (if a \<noteq> [] then Clean (a @ slash # b) else if b \<noteq> [] then Clean b else [])"

definition IsLocal :: "string \<Rightarrow> bool" where
  "IsLocal p \<longleftrightarrow>
    \<not> IsAbs p \<and> p \<noteq> [] \<and>
    (let q = (if list_ex (\<lambda>e. e = ''.'' \<or> e = ''..'') (split_on slash p) then Clean p else p)
     in q \<noteq> ''..'' \<and> \<not> HasPrefix q ''../'')"

fun strip_common :: "string list \<Rightarrow> string list \<Rightarrow> string list \<times> string list" where
  "strip_common (b # bs) (t # ts) = (if b = t then strip_common bs ts else (b # bs, t # ts))"
| "strip_common bs ts = (bs, ts)"

text \<open>The elements of a cleaned path, the empty one before the root included.\<close>

definition raw_elements :: "string \<Rightarrow> string list" where
  "raw_elements p = (if p = [] then [] else if p = [slash] then [[]] else split_on slash p)"

definition Rel :: "string \<Rightarrow> string \<Rightarrow> string option" where
  "Rel basepath targpath =
    (let base = Clean basepath; targ = Clean targpath in
     if targ = base then Some ''.''
     else
       (let base = (if base = ''.'' then [] else base) in
        if IsAbs base \<noteq> IsAbs targ then None
        else
          (let (bs, ts) = strip_common (raw_elements base) (raw_elements targ) in
           if bs \<noteq> [] \<and> hd bs = ''..'' then None
           else Some (join (replicate (length bs) ''..'' @ ts)))))"

section \<open>Elements\<close>

lemma no_climb: "slash \<notin> set name \<Longrightarrow> \<not> HasPrefix name ''../''"
proof
  assume "slash \<notin> set name" "HasPrefix name ''../''"
  moreover have "set (''../'' :: string) \<subseteq> set name"
    using calculation(2) unfolding HasPrefix_def by (metis set_take_subset)
  ultimately show False by simp
qed

lemma split_on_append: "split_on c (a @ c # b) = split_on c a @ split_on c b"
proof (induction a)
  case (Cons x a)
  then show ?case by (cases "split_on c a") auto
qed simp

lemma split_on_plain: "c \<notin> set s \<Longrightarrow> split_on c s = [s]"
  by (induction s) auto

lemma split_on_join: "\<forall>e \<in> set es. slash \<notin> set e \<Longrightarrow> es \<noteq> [] \<Longrightarrow> split_on slash (join es) = es"
  by (induction es rule: join.induct) (simp_all add: split_on_plain split_on_append)

lemma split_on_no_sep: "e \<in> set (split_on c s) \<Longrightarrow> c \<notin> set e"
proof (induction s arbitrary: e)
  case (Cons x s)
  then show ?case by (cases "split_on c s") (auto split: if_splits)
qed simp

text \<open>A kept stack: no empty element, no \<open>.\<close>, no separator, \<open>..\<close> only at the bottom and never at the root.\<close>

definition plain :: "string \<Rightarrow> bool" where
  "plain e \<longleftrightarrow> e \<noteq> [] \<and> e \<noteq> ''.'' \<and> e \<noteq> ''..'' \<and> slash \<notin> set e"

fun kept :: "bool \<Rightarrow> string list \<Rightarrow> bool" where
  "kept r [] = True"
| "kept r (e # acc) =
    (kept r acc \<and> (plain e \<or> e = ''..'' \<and> \<not> r \<and> (\<forall>a \<in> set acc. a = ''..'')))"

lemma kept_push: "kept r acc \<Longrightarrow> slash \<notin> set c \<Longrightarrow> kept r (clean_push r c acc)"
  by (cases acc) (auto simp: clean_push.simps plain_def)

lemma kept_fold: "kept r acc \<Longrightarrow> \<forall>c \<in> set cs. slash \<notin> set c \<Longrightarrow> kept r (fold (clean_push r) cs acc)"
  by (induction cs arbitrary: acc) (simp_all add: kept_push)

lemma kept_elements: "kept (IsAbs p) (rev (elements p))"
  unfolding elements_def rev_rev_ident by (rule kept_fold) (auto dest: split_on_no_sep)

lemma kept_again: "kept r acc \<Longrightarrow> fold (clean_push r) (rev acc) [] = acc"
proof (induction acc)
  case (Cons e acc)
  then show ?case by (cases acc) (auto simp: clean_push.simps plain_def)
qed simp

lemma kept_no_slash: "kept r acc \<Longrightarrow> \<forall>e \<in> set acc. slash \<notin> set e \<and> e \<noteq> []"
  by (induction acc) (auto simp: plain_def)

lemma elements_plain: "\<forall>e \<in> set (elements p). slash \<notin> set e \<and> e \<noteq> []"
  using kept_no_slash [OF kept_elements [of p]] by simp

lemma join_nonempty: "\<forall>e \<in> set es. slash \<notin> set e \<and> e \<noteq> [] \<Longrightarrow> es \<noteq> [] \<Longrightarrow> join es \<noteq> [] \<and> hd (join es) \<noteq> slash"
  by (induction es rule: join.induct) (auto dest: hd_in_set)

lemma IsAbs_path_of: "\<forall>e \<in> set es. slash \<notin> set e \<and> e \<noteq> [] \<Longrightarrow> IsAbs (path_of r es) = r"
  using join_nonempty [of es] by (auto simp: path_of_def IsAbs_def)

lemma raw_elements_path_of:
  "\<forall>e \<in> set es. slash \<notin> set e \<and> e \<noteq> [] \<Longrightarrow> r \<or> es \<noteq> [] \<Longrightarrow>
     raw_elements (path_of r es) = (if r then [] # es else es)"
  using join_nonempty [of es] split_on_join [of es] by (auto simp: path_of_def raw_elements_def)

lemma clean_push_skip [simp]: "clean_push r [] acc = acc" "clean_push r ''.'' acc = acc"
  by (simp_all add: clean_push.simps)

lemma split_path_of:
  assumes "kept r (rev es)"
  shows "fold (clean_push r) (split_on slash (path_of r es)) [] = rev es"
proof -
  have es: "\<forall>e \<in> set es. slash \<notin> set e" using kept_no_slash [OF assms] by simp
  have again: "fold (clean_push r) es [] = rev es" using kept_again [OF assms] by simp
  show ?thesis
  proof (cases "es = []")
    case False
    then show ?thesis using es again by (cases r) (simp_all add: path_of_def split_on_join)
  qed (simp add: path_of_def)
qed

lemma elements_path_of:
  assumes "kept r (rev es)"
  shows "elements (path_of r es) = es"
proof -
  have "IsAbs (path_of r es) = r" using kept_no_slash [OF assms] by (intro IsAbs_path_of) simp
  then show ?thesis using split_path_of [OF assms] by (simp add: elements_def)
qed

lemma IsAbs_Clean [simp]: "IsAbs (Clean p) = IsAbs p"
  unfolding Clean_def by (rule IsAbs_path_of [OF elements_plain])

lemma elements_Clean [simp]: "elements (Clean p) = elements p"
  unfolding Clean_def by (rule elements_path_of [OF kept_elements])

lemma Clean_idem [simp]: "Clean (Clean p) = Clean p"
  by (simp add: Clean_def [of "Clean p"]) (simp add: Clean_def)

lemma Clean_nonempty [simp]: "Clean p \<noteq> []"
  using join_nonempty [OF elements_plain [of p]] by (auto simp: Clean_def path_of_def)

section \<open>A file directly inside a directory\<close>

definition file_in :: "string \<Rightarrow> string \<Rightarrow> string" where
  "file_in dir name = path_of (IsAbs dir) (elements dir @ [name])"

lemma kept_file_in: "plain name \<Longrightarrow> kept (IsAbs dir) (rev (elements dir @ [name]))"
  using kept_elements [of dir] by simp

lemma file_in_facts:
  assumes "plain name"
  shows "IsAbs (file_in dir name) = IsAbs dir" "elements (file_in dir name) = elements dir @ [name]"
    "Clean (file_in dir name) = file_in dir name"
proof -
  note k = kept_file_in [OF assms, of dir]
  have p: "\<forall>e \<in> set (elements dir @ [name]). slash \<notin> set e \<and> e \<noteq> []" using kept_no_slash [OF k] by simp
  show a: "IsAbs (file_in dir name) = IsAbs dir" unfolding file_in_def by (rule IsAbs_path_of [OF p])
  show e: "elements (file_in dir name) = elements dir @ [name]"
    unfolding file_in_def by (rule elements_path_of [OF k])
  show "Clean (file_in dir name) = file_in dir name" unfolding Clean_def a e by (simp add: file_in_def)
qed

lemma file_in_inj: "plain a \<Longrightarrow> plain b \<Longrightarrow> file_in dir a = file_in dir b \<Longrightarrow> a = b"
  by (metis file_in_facts(2) last_snoc)

lemma Join_Clean:
  assumes "plain name"
  shows "Join (Clean dir) name = file_in dir name"
proof -
  have abs: "IsAbs (Clean dir @ slash # name) = IsAbs dir"
    using IsAbs_Clean [of dir] by (simp add: IsAbs_def hd_append)
  have "fold (clean_push (IsAbs dir)) (split_on slash (Clean dir)) [] = rev (elements dir)"
    using split_path_of [OF kept_elements [of dir]] by (simp add: Clean_def)
  then have "elements (Clean dir @ slash # name) = elements dir @ [name]"
    using assms by (simp add: elements_def abs split_on_append split_on_plain plain_def clean_push.simps)
  then show ?thesis by (simp add: Join_def Clean_def [of "Clean dir @ slash # name"] abs file_in_def)
qed

lemma strip_prefix: "strip_common bs (bs @ ts) = ([], ts)"
  by (induction bs) (cases ts; simp)+

lemma Rel_file_in:
  assumes "plain name"
  shows "Rel (Clean dir) (file_in dir name) = Some name"
proof -
  let ?r = "IsAbs dir" let ?es = "elements dir"
  have differ: "file_in dir name \<noteq> Clean dir"
    using file_in_facts(2) [OF assms, of dir] elements_Clean [of dir] by (metis append_self_conv list.distinct(1))
  have p: "\<forall>e \<in> set (?es @ [name]). slash \<notin> set e \<and> e \<noteq> []" using kept_no_slash [OF kept_file_in [OF assms, of dir]] by simp
  define base where "base = (if Clean dir = ''.'' then [] else Clean dir)"
  have dot: "Clean dir = ''.'' \<longleftrightarrow> \<not> ?r \<and> ?es = []"
  proof
    assume d: "Clean dir = ''.''"
    have "\<not> IsAbs (Clean dir)" unfolding d by (simp add: IsAbs_def)
    moreover have "elements (Clean dir) = []" unfolding d by (simp add: elements_def)
    ultimately show "\<not> ?r \<and> ?es = []" by simp
  qed (simp add: Clean_def path_of_def)
  have "raw_elements base = (if ?r then [] # ?es else ?es)"
  proof (cases "Clean dir = ''.''")
    case True
    then show ?thesis using dot by (simp add: base_def raw_elements_def)
  next
    case False
    have "raw_elements (path_of ?r ?es) = (if ?r then [] # ?es else ?es)"
      using False dot by (intro raw_elements_path_of [OF elements_plain]) simp
    then show ?thesis unfolding Clean_def [symmetric] base_def if_not_P [OF False] .
  qed
  moreover have "raw_elements (file_in dir name) = (if ?r then [] # ?es @ [name] else ?es @ [name])"
    unfolding file_in_def by (rule raw_elements_path_of [OF p]) simp
  moreover have "IsAbs base = ?r" using dot by (auto simp: base_def IsAbs_def [of "[]"])
  ultimately show ?thesis
    using differ file_in_facts [OF assms, of dir] unfolding Rel_def Let_def base_def [symmetric] Clean_idem
    by (simp add: strip_prefix flip: base_def)
qed

end
