(* ===== verification/Cluster_Certs.thy ===== *)
theory Cluster_Certs
  imports Cluster_Node Go_Encoding Go_Path
begin

text \<open>
  The replication of the pairing records: the file names and paths of \<open>internal/cluster/cluster.go\<close>,
  \<open>cluster_certsync.go\<close> and the two handlers of \<open>cluster_http.go\<close> that serve and receive files.

  The file system is an association list from cleaned paths to nodes; times are nanoseconds. Which
  calls of the system succeed is a record of predicates. Paths are those of Unix.
\<close>

section \<open>Names and paths\<close>

definition sanitizeFileName :: "string \<Rightarrow> string option" where
  "sanitizeFileName name =
    (if name = [] \<or> name = ''.'' \<or> name = ''..'' \<or> \<not> IsLocal name \<or> slash \<in> set name \<or> CHR 0x5C \<in> set name
     then None else Some name)"

definition lockdownFilePath :: "string \<Rightarrow> string \<Rightarrow> string option" where
  "lockdownFilePath dir name =
    (case sanitizeFileName name of
       None \<Rightarrow> None
     | Some safeName \<Rightarrow>
         (let cleanDir = Clean dir; target = Clean (Join cleanDir safeName) in
          case Rel cleanDir target of
            None \<Rightarrow> None
          | Some rel \<Rightarrow>
              if rel = ''.'' \<or> rel = ''..'' \<or> HasPrefix rel ''../'' \<or> IsAbs rel then None else Some target))"

section \<open>Files\<close>

datatype node = Directory int | Regular string int

fun node_time :: "node \<Rightarrow> int" where
  "node_time (Directory t) = t"
| "node_time (Regular c t) = t"

fun is_dir :: "node \<Rightarrow> bool" where
  "is_dir (Directory t) = True"
| "is_dir (Regular c t) = False"

type_synonym files = "(string \<times> node) list"

record cert_world =
  cw_now :: int
  cw_readable :: "string \<Rightarrow> bool"
  cw_writable :: "string \<Rightarrow> bool"
  cw_chtimes :: "string \<Rightarrow> bool"

text \<open>\<open>os.ReadDir\<close>: the nodes whose path is the directory and one more element.\<close>

definition ReadDir :: "files \<Rightarrow> string \<Rightarrow> (string \<times> node) list option" where
  "ReadDir fs dir =
    (case map_of fs (Clean dir) of
       Some (Directory t) \<Rightarrow>
         Some (map (\<lambda>(p, n). (last (elements p), n))
           (filter (\<lambda>(p, n). elements p \<noteq> [] \<and> path_of (IsAbs p) (butlast (elements p)) = Clean dir) fs))
     | _ \<Rightarrow> None)"

definition content_of :: "cert_world \<Rightarrow> files \<Rightarrow> string \<Rightarrow> string option" where
  "content_of w fs path = (case map_of fs path of Some (Regular c t) \<Rightarrow> if cw_readable w path then Some c else None | _ \<Rightarrow> None)"

text \<open>\<open>Time.UnixMilli\<close> and \<open>time.UnixMilli\<close>.\<close>

definition to_milli :: "int \<Rightarrow> int" where "to_milli t = t div 1000000"
definition of_milli :: "int \<Rightarrow> int" where "of_milli ms = ms * 1000000"

record plist_file =
  pl_Name :: string
  pl_Content :: string
  pl_ModTime :: int

section \<open>Receiving\<close>

definition writeLocalPlist ::
  "cert_world \<Rightarrow> string \<Rightarrow> string \<Rightarrow> string \<Rightarrow> int \<Rightarrow> manager \<times> files \<Rightarrow> manager \<times> files" where
  "writeLocalPlist w dir name contentB64 modTimeMilli s =
    (if dir = [] then s
     else case lockdownFilePath dir name of
       None \<Rightarrow> s
     | Some path \<Rightarrow>
         (let (m, fs) = s in
          if (case map_of fs path of
                Some n \<Rightarrow> 0 < modTimeMilli \<and> \<not> node_time n < of_milli modTimeMilli
              | None \<Rightarrow> False) then s
          else case DecodeBase64 contentB64 of
            None \<Rightarrow> s
          | Some content \<Rightarrow>
              if \<not> cw_writable w path \<or> (case map_of fs path of Some n \<Rightarrow> is_dir n | None \<Rightarrow> False) then s
              else
                (let written = put path (Regular content (cw_now w)) fs in
                 if 0 < modTimeMilli then
                   (m\<lparr>mg_certMtimes := (mg_certMtimes m)(name \<mapsto> of_milli modTimeMilli)\<rparr>,
                    if cw_chtimes w path then put path (Regular content (of_milli modTimeMilli)) fs else written)
                 else (m, written))))"

definition receive :: "cert_world \<Rightarrow> string \<Rightarrow> plist_file \<Rightarrow> manager \<times> files \<Rightarrow> manager \<times> files" where
  "receive w dir f = writeLocalPlist w dir (pl_Name f) (pl_Content f) (pl_ModTime f)"

text \<open>\<open>handleSyncPlist\<close>: the body is \<open>None\<close> when it is not valid JSON; the result is the reply.\<close>

definition handleSyncPlist ::
  "cert_world \<Rightarrow> string \<Rightarrow> plist_file option \<Rightarrow> manager \<times> files \<Rightarrow> bool \<times> manager \<times> files" where
  "handleSyncPlist w dir body s =
    (if \<not> mg_syncCerts (fst s) then (False, s)
     else case body of None \<Rightarrow> (False, s) | Some f \<Rightarrow> (True, receive w dir f s))"

section \<open>Serving\<close>

definition plist_entry :: "cert_world \<Rightarrow> string \<Rightarrow> files \<Rightarrow> string \<times> node \<Rightarrow> plist_file option" where
  "plist_entry w dir fs e =
    (let (name, n) = e in
     if is_dir n then None
     else case lockdownFilePath dir name of
       None \<Rightarrow> None
     | Some path \<Rightarrow>
         map_option (\<lambda>c. \<lparr>pl_Name = name, pl_Content = EncodeBase64 c, pl_ModTime = to_milli (node_time n)\<rparr>)
           (content_of w fs path))"

definition handlePlists :: "cert_world \<Rightarrow> string \<Rightarrow> manager \<times> files \<Rightarrow> plist_file list" where
  "handlePlists w dir s =
    (if \<not> mg_syncCerts (fst s) \<or> dir = [] then []
     else case ReadDir (snd s) dir of None \<Rightarrow> [] | Some es \<Rightarrow> List.map_filter (plist_entry w dir (snd s)) es)"

section \<open>Pulling and pushing\<close>

text \<open>What a GET answers: \<open>None\<close> for a failed request or an undecodable body.\<close>

definition pullCertsFromMaster ::
  "cert_world \<Rightarrow> string \<Rightarrow> (string \<Rightarrow> plist_file list option) \<Rightarrow> string \<Rightarrow> manager \<times> files \<Rightarrow> manager \<times> files" where
  "pullCertsFromMaster w dir fetch masterKey s =
    (case SplitHostPort masterKey of
       None \<Rightarrow> s
     | Some (host, portStr) \<Rightarrow>
         (case Atoi portStr of
            None \<Rightarrow> s
          | Some port \<Rightarrow>
              (case peerURL host port ''/api/cluster/plists'' of
                 None \<Rightarrow> s
               | Some url \<Rightarrow>
                   (case fetch url of
                      None \<Rightarrow> s
                    | Some fetched \<Rightarrow>
                        (let (m, fs) = fold (receive w dir) fetched s in (m\<lparr>mg_initialSynced := True\<rparr>, fs))))))"

text \<open>One entry of the push: the file to send, if any. The time is noted before anything is sent.\<close>

definition push_entry ::
  "cert_world \<Rightarrow> string \<Rightarrow> files \<Rightarrow> string \<times> node \<Rightarrow> manager \<Rightarrow> plist_file option \<times> manager" where
  "push_entry w dir fs e m =
    (let (entry, n) = e in
     if is_dir n then (None, m)
     else case sanitizeFileName entry of
       None \<Rightarrow> (None, m)
     | Some name \<Rightarrow>
         if (case mg_certMtimes m name of Some t \<Rightarrow> \<not> t < node_time n | None \<Rightarrow> False) then (None, m)
         else case lockdownFilePath dir name of
           None \<Rightarrow> (None, m)
         | Some path \<Rightarrow>
             (case content_of w fs path of
                None \<Rightarrow> (None, m)
              | Some c \<Rightarrow>
                  (Some \<lparr>pl_Name = name, pl_Content = EncodeBase64 c, pl_ModTime = to_milli (node_time n)\<rparr>,
                   m\<lparr>mg_certMtimes := (mg_certMtimes m)(name \<mapsto> node_time n)\<rparr>)))"

fun push_entries ::
  "cert_world \<Rightarrow> string \<Rightarrow> files \<Rightarrow> (string \<times> node) list \<Rightarrow> manager \<Rightarrow> plist_file list \<times> manager" where
  "push_entries w dir fs [] m = ([], m)"
| "push_entries w dir fs (e # es) m =
    (let (f, m1) = push_entry w dir fs e m; (rest, m2) = push_entries w dir fs es m1
     in (case f of Some x \<Rightarrow> x # rest | None \<Rightarrow> rest, m2))"

text \<open>\<open>pushPlistTo\<close>: the request, if the address of the peer is valid.\<close>

definition pushPlistTo :: "peer \<Rightarrow> plist_file \<Rightarrow> (string \<times> plist_file) option" where
  "pushPlistTo p f = map_option (\<lambda>url. (url, f)) (peerURL (pe_Address p) (pe_Port p) ''/api/cluster/sync-plist'')"

definition pushChangedCerts :: "cert_world \<Rightarrow> string \<Rightarrow> manager \<times> files \<Rightarrow> (string \<times> plist_file) list \<times> manager" where
  "pushChangedCerts w dir s =
    (let (m, fs) = s in
     if dir = [] then ([], m)
     else case ReadDir fs dir of
       None \<Rightarrow> ([], m)
     | Some es \<Rightarrow>
         if mg_peers m = [] then ([], m)
         else (let (sent, m') = push_entries w dir fs es m
               in (concat (map (\<lambda>f. List.map_filter (\<lambda>(k, p). pushPlistTo p f) (mg_peers m)) sent), m')))"

definition runCertSync ::
  "cert_world \<Rightarrow> string \<Rightarrow> (string \<Rightarrow> plist_file list option) \<Rightarrow> manager \<times> files \<Rightarrow>
     (string \<times> plist_file) list \<times> manager \<times> files" where
  "runCertSync w dir fetch s =
    (let (m, fs) = s in
     if \<not> mg_syncCerts m then ([], s)
     else if mg_role m = ''slave'' \<and> mg_currentMaster m \<noteq> [] \<and> mg_currentMaster m \<noteq> ''me'' \<and> \<not> mg_initialSynced m
          then ([], pullCertsFromMaster w dir fetch (mg_currentMaster m) s)
     else if mg_role m = ''master'' then (let (out, m') = pushChangedCerts w dir s in (out, m', fs))
     else ([], s))"

section \<open>Paths stay inside the directory\<close>

definition safe_name :: "string \<Rightarrow> bool" where
  "safe_name name \<longleftrightarrow> plain name \<and> CHR 0x5C \<notin> set name"

lemma sanitizeFileName_iff: "sanitizeFileName name = (if safe_name name then Some name else None)"
  using no_climb [of name]
  by (auto simp: sanitizeFileName_def safe_name_def plain_def IsLocal_def split_on_plain IsAbs_def dest: hd_in_set)

text \<open>
  The path guard accepts a file name exactly when it is one real element without a separator of
  either platform, and then yields the file of that name directly inside the cleaned directory: the
  relative-path test behind it never refuses such a name, for any directory, rooted or not.
\<close>
theorem lockdownFilePath_exact:
  "lockdownFilePath dir name = (if safe_name name then Some (file_in dir name) else None)"
proof (cases "safe_name name")
  case True
  then have p: "plain name" by (simp add: safe_name_def)
  then have "name \<noteq> ''.''" "name \<noteq> ''..''" "\<not> HasPrefix name ''../''" "\<not> IsAbs name"
    using no_climb [of name] by (auto simp: plain_def IsAbs_def dest: hd_in_set)
  then show ?thesis
    using True by (simp add: lockdownFilePath_def sanitizeFileName_iff Join_Clean [OF p] file_in_facts [OF p] Rel_file_in [OF p])
qed (simp add: lockdownFilePath_def sanitizeFileName_iff)

section \<open>What a received file changes\<close>

text \<open>The file of a path after one record: an older or missing copy is replaced.\<close>

definition newer_copy :: "string \<Rightarrow> int \<Rightarrow> node option \<Rightarrow> node option" where
  "newer_copy content t old =
    (case old of
       Some n \<Rightarrow> if node_time n < t then Some (Regular content t) else old
     | None \<Rightarrow> Some (Regular content t))"

text \<open>The system lets the folder be written, the record is dated and its content is base64.\<close>

definition folder_ok :: "cert_world \<Rightarrow> string \<Rightarrow> files \<Rightarrow> bool" where
  "folder_ok w dir fs \<longleftrightarrow>
    dir \<noteq> [] \<and>
    (\<forall>name. cw_writable w (file_in dir name) \<and> cw_chtimes w (file_in dir name) \<and>
            (\<forall>t. map_of fs (file_in dir name) \<noteq> Some (Directory t)))"

definition record_ok :: "plist_file \<Rightarrow> bool" where
  "record_ok f \<longleftrightarrow> safe_name (pl_Name f) \<and> 0 < pl_ModTime f \<and> DecodeBase64 (pl_Content f) \<noteq> None"

lemma receive_file:
  assumes "folder_ok w dir fs" "record_ok f"
  shows "map_of (snd (receive w dir f (m, fs))) p =
    (if p = file_in dir (pl_Name f)
     then newer_copy (the (DecodeBase64 (pl_Content f))) (of_milli (pl_ModTime f)) (map_of fs p)
     else map_of fs p)"
proof -
  obtain c where c: "DecodeBase64 (pl_Content f) = Some c" using assms(2) by (auto simp: record_ok_def)
  have nd: "\<not> is_dir n" if "map_of fs (file_in dir (pl_Name f)) = Some n" for n
    using assms(1) that by (cases n) (auto simp: folder_ok_def)
  show ?thesis
    using assms c nd
    by (auto simp: receive_def writeLocalPlist_def lockdownFilePath_exact record_ok_def folder_ok_def newer_copy_def
        Let_def map_of_put split: option.splits)
qed

lemma receive_folder:
  assumes "folder_ok w dir fs" "record_ok f"
  shows "folder_ok w dir (snd (receive w dir f (m, fs)))"
  using assms(1) receive_file [OF assms]
  by (auto simp: folder_ok_def newer_copy_def split: option.splits if_splits)

definition copy_step :: "string \<Rightarrow> string \<Rightarrow> plist_file \<Rightarrow> node option \<Rightarrow> node option" where
  "copy_step dir p f old =
    (if p = file_in dir (pl_Name f)
     then newer_copy (the (DecodeBase64 (pl_Content f))) (of_milli (pl_ModTime f)) old else old)"

lemma receive_all:
  assumes "folder_ok w dir (snd s)" "\<forall>f \<in> set rs. record_ok f"
  shows "map_of (snd (fold (receive w dir) rs s)) p = fold (copy_step dir p) rs (map_of (snd s) p)"
  using assms
proof (induction rs arbitrary: s)
  case (Cons f rs)
  obtain m fs where s: "s = (m, fs)" by (cases s)
  have "folder_ok w dir (snd (receive w dir f s))"
    using Cons.prems by (simp add: s receive_folder)
  from Cons.IH [OF this] Cons.prems show ?case
    by (simp add: s receive_file copy_step_def)
qed simp

text \<open>
  C22: Replicas converge. Two nodes that start from the same folder and receive the same pairing
  records in any two orders hold the same files afterwards, provided records of one name and one
  modification time have one content.
\<close>
theorem replicas_converge:
  assumes "folder_ok w dir (snd s)" "folder_ok w' dir (snd s')" "map_of (snd s) = map_of (snd s')"
    and "\<forall>f \<in> set rs. record_ok f" "mset rs = mset rs'"
    and "\<forall>f \<in> set rs. \<forall>g \<in> set rs. pl_Name f = pl_Name g \<and> pl_ModTime f = pl_ModTime g \<longrightarrow> pl_Content f = pl_Content g"
  shows "map_of (snd (fold (receive w dir) rs s)) = map_of (snd (fold (receive w' dir) rs' s'))"
proof
  fix p
  have ok': "\<forall>f \<in> set rs'. record_ok f" using assms(4,5) by (metis set_mset_mset)
  have "fold (copy_step dir p) rs = fold (copy_step dir p) rs'"
  proof (rule fold_multiset_equiv [OF _ assms(5)])
    fix f g assume fg: "f \<in> set rs" "g \<in> set rs"
    show "copy_step dir p f \<circ> copy_step dir p g = copy_step dir p g \<circ> copy_step dir p f"
    proof
      fix old
      have "plain (pl_Name f)" "plain (pl_Name g)" using fg assms(4) by (auto simp: record_ok_def safe_name_def)
      then have "pl_Content f = pl_Content g"
        if "file_in dir (pl_Name f) = file_in dir (pl_Name g)" "pl_ModTime f = pl_ModTime g"
        using that fg assms(6) file_in_inj by blast
      then show "(copy_step dir p f \<circ> copy_step dir p g) old = (copy_step dir p g \<circ> copy_step dir p f) old"
        by (auto simp: copy_step_def newer_copy_def of_milli_def split: option.splits)
    qed
  qed
  then show "map_of (snd (fold (receive w dir) rs s)) p = map_of (snd (fold (receive w' dir) rs' s')) p"
    using receive_all [OF assms(1,4)] receive_all [OF assms(2) ok'] assms(3) by simp
qed

definition demo_cert_world :: cert_world where
  "demo_cert_world = \<lparr>cw_now = 0, cw_readable = (\<lambda>_. True), cw_writable = (\<lambda>_. True), cw_chtimes = (\<lambda>_. True)\<rparr>"

definition demo_record :: "string \<Rightarrow> int \<Rightarrow> plist_file" where
  "demo_record content ms = \<lparr>pl_Name = ''udid.plist'', pl_Content = EncodeBase64 content, pl_ModTime = ms\<rparr>"

lemma demo_record_ok: "0 < ms \<Longrightarrow> record_ok (demo_record c ms)"
  by (simp add: record_ok_def demo_record_def DecodeBase64_Encode safe_name_def plain_def)

lemma demo_folder_ok: "folder_ok demo_cert_world ''/d'' []"
  by (simp add: folder_ok_def demo_cert_world_def)

theorem replicas_converge_witness:
  "\<forall>m. map_of (snd (fold (receive demo_cert_world ''/d'') [demo_record ''a'' 5, demo_record ''b'' 7] (m, []))) =
   map_of (snd (fold (receive demo_cert_world ''/d'') [demo_record ''b'' 7, demo_record ''a'' 5] (m, [])))"
proof
  fix m :: manager
  let ?a = "demo_record ''a'' 5" and ?b = "demo_record ''b'' 7"
  have ok: "\<forall>f \<in> set [?a, ?b]. record_ok f" by (simp add: demo_record_ok)
  have agree: "\<forall>f \<in> set [?a, ?b]. \<forall>g \<in> set [?a, ?b].
      pl_Name f = pl_Name g \<and> pl_ModTime f = pl_ModTime g \<longrightarrow> pl_Content f = pl_Content g"
    by (simp add: demo_record_def)
  have same: "mset [?a, ?b] = mset [?b, ?a]" by (simp add: add_mset_commute)
  have ready: "folder_ok demo_cert_world ''/d'' (snd (m, []))" by (simp only: snd_conv demo_folder_ok)
  show "map_of (snd (fold (receive demo_cert_world ''/d'') [?a, ?b] (m, []))) = map_of (snd (fold (receive demo_cert_world ''/d'') [?b, ?a] (m, [])))"
    by (rule replicas_converge [OF ready ready refl ok same agree])
qed

section \<open>What a master serves\<close>

text \<open>A file system: one node a path, every path clean.\<close>

definition wf_files :: "files \<Rightarrow> bool" where
  "wf_files fs \<longleftrightarrow> distinct (map fst fs) \<and> (\<forall>(p, n) \<in> set fs. Clean p = p)"

lemma clean_split:
  assumes "Clean p = p" "elements p \<noteq> []"
  shows "p = path_of (IsAbs p) (butlast (elements p) @ [last (elements p)])"
  using assms by (metis Clean_def append_butlast_last_id)

lemma ReadDir_entries:
  assumes "wf_files fs" "map_of fs (Clean dir) = Some (Directory t0)"
  obtains es where "ReadDir fs dir = Some es" "distinct (map fst es)"
    "\<And>name n. plain name \<Longrightarrow> map_of fs (file_in dir name) = Some n \<Longrightarrow> (name, n) \<in> set es"
    "\<And>name n. (name, n) \<in> set es \<Longrightarrow> map_of fs (file_in dir name) = Some n"
proof -
  let ?P = "\<lambda>(p, n). elements p \<noteq> [] \<and> path_of (IsAbs p) (butlast (elements p)) = Clean dir"
  define es where "es = map (\<lambda>(p, n). (last (elements p), n)) (filter ?P fs)"
  have inside: "p = file_in dir (last (elements p))" if "(p, n) \<in> set fs" "?P (p, n)" for p n
  proof -
    have c: "Clean p = p" using assms(1) that(1) by (auto simp: wf_files_def)
    have kept: "kept (IsAbs p) (rev (butlast (elements p)))"
      using kept_elements [of p] that(2) by (cases "elements p" rule: rev_cases) auto
    have pl: "\<forall>e \<in> set (butlast (elements p)). slash \<notin> set e \<and> e \<noteq> []"
      using kept_no_slash [OF kept] by simp
    have "butlast (elements p) = elements dir" "IsAbs p = IsAbs dir"
      using that(2) elements_path_of [OF kept] IsAbs_path_of [OF pl, of "IsAbs p"] by simp_all
    then show ?thesis using clean_split [OF c] that(2) by (simp add: file_in_def)
  qed
  have "ReadDir fs dir = Some es" by (simp add: ReadDir_def assms(2) es_def)
  moreover have "distinct (map fst es)"
  proof -
    have "distinct (filter ?P fs)" using assms(1) by (simp add: wf_files_def distinct_map)
    moreover have "inj_on (\<lambda>(p, n). last (elements p)) (set (filter ?P fs))"
    proof (rule inj_onI, clarsimp, intro conjI)
      fix p n p' n'
      assume a: "(p, n) \<in> set fs" "elements p \<noteq> []" "path_of (IsAbs p) (butlast (elements p)) = Clean dir"
        "(p', n') \<in> set fs" "elements p' \<noteq> []" "path_of (IsAbs p') (butlast (elements p')) = Clean dir"
        "last (elements p) = last (elements p')"
      show "p = p'" using inside [OF a(1)] inside [OF a(4)] a by simp
      then show "n = n'" using a(1,4) assms(1) by (metis wf_files_def eq_key_imp_eq_value)
    qed
    ultimately show ?thesis by (simp add: es_def distinct_map comp_def case_prod_unfold)
  qed
  moreover have "(name, n) \<in> set es" if "plain name" "map_of fs (file_in dir name) = Some n" for name n
  proof -
    have "(file_in dir name, n) \<in> set fs" using that(2) by (rule map_of_SomeD)
    then have "(last (elements (file_in dir name)), n) \<in> set es"
      unfolding es_def using file_in_facts [OF that(1), of dir] by (auto simp: Clean_def intro!: image_eqI)
    then show ?thesis by (simp add: file_in_facts [OF that(1)])
  qed
  moreover have "map_of fs (file_in dir name) = Some n" if "(name, n) \<in> set es" for name n
  proof -
    from that obtain p where p: "(p, n) \<in> set fs" "?P (p, n)" "name = last (elements p)" by (auto simp: es_def)
    then have "p = file_in dir name" using inside by simp
    then show ?thesis using p(1) assms(1) by (simp add: wf_files_def)
  qed
  ultimately show ?thesis by (rule that)
qed

lemma fold_copies:
  assumes "distinct (map pl_Name rs)" "\<forall>f \<in> set rs. plain (pl_Name f)" "plain name"
  shows "fold (copy_step dir (file_in dir name)) rs old =
    (case find (\<lambda>f. pl_Name f = name) rs of
       None \<Rightarrow> old
     | Some f \<Rightarrow> newer_copy (the (DecodeBase64 (pl_Content f))) (of_milli (pl_ModTime f)) old)"
  using assms
proof (induction rs arbitrary: old)
  case (Cons f rs)
  have "file_in dir name = file_in dir (pl_Name f) \<longleftrightarrow> pl_Name f = name"
    using Cons.prems file_in_inj by auto
  moreover have "find (\<lambda>f. pl_Name f = name) rs = None" if "pl_Name f = name"
    unfolding find_None_iff using Cons.prems(1) that by (metis distinct.simps(2) image_eqI list.set_map list.simps(9))
  ultimately show ?case using Cons.IH Cons.prems by (auto simp: copy_step_def)
qed simp

lemma served_entry:
  assumes "\<forall>p. cw_readable w p" "map_of fs (file_in dir name) = Some n"
  shows "plist_entry w dir fs (name, n) =
    (case n of
       Regular c t \<Rightarrow> if safe_name name then Some \<lparr>pl_Name = name, pl_Content = EncodeBase64 c, pl_ModTime = to_milli t\<rparr> else None
     | Directory t \<Rightarrow> None)"
  using assms by (auto simp: plist_entry_def lockdownFilePath_exact content_of_def split: node.split)

lemma set_map_filter: "y \<in> set (List.map_filter f xs) \<longleftrightarrow> (\<exists>x \<in> set xs. f x = Some y)"
  by (auto simp: map_filter_def image_iff)

lemma distinct_map_filter:
  "distinct (map g xs) \<Longrightarrow> (\<And>x y. x \<in> set xs \<Longrightarrow> f x = Some y \<Longrightarrow> h y = g x) \<Longrightarrow> distinct (map h (List.map_filter f xs))"
proof (induction xs)
  case (Cons x xs)
  then have "distinct (map h (List.map_filter f xs))" by simp
  moreover have "h y \<notin> h ` set (List.map_filter f xs)" if "f x = Some y" for y
    using Cons.prems that by (force simp: set_map_filter)
  ultimately show ?case by (cases "f x") (simp_all add: map_filter_simps)
qed (simp add: map_filter_simps)

text \<open>The records a master serves: all can be received, no two share a name, and what is served under a name.\<close>

lemma served_records:
  assumes "wf_files fsM" "map_of fsM (Clean dirM) = Some (Directory t0)" "dirM \<noteq> []" "mg_syncCerts mM"
    and "\<forall>p. cw_readable wM p" "\<forall>(p, n) \<in> set fsM. 1000000 \<le> node_time n"
  shows "\<forall>f \<in> set (handlePlists wM dirM (mM, fsM)). record_ok f" (is ?ok)
    and "distinct (map pl_Name (handlePlists wM dirM (mM, fsM)))" (is ?names)
    and "safe_name name \<Longrightarrow> find (\<lambda>f. pl_Name f = name) (handlePlists wM dirM (mM, fsM)) =
        (case map_of fsM (file_in dirM name) of
           Some (Regular c t) \<Rightarrow> Some \<lparr>pl_Name = name, pl_Content = EncodeBase64 c, pl_ModTime = to_milli t\<rparr>
         | _ \<Rightarrow> None)" (is "_ \<Longrightarrow> ?found")
proof -
  obtain es where es: "ReadDir fsM dirM = Some es" "distinct (map fst es)"
    "\<And>name n. plain name \<Longrightarrow> map_of fsM (file_in dirM name) = Some n \<Longrightarrow> (name, n) \<in> set es"
    "\<And>name n. (name, n) \<in> set es \<Longrightarrow> map_of fsM (file_in dirM name) = Some n"
    using ReadDir_entries [OF assms(1,2)] by blast
  define rs where "rs = handlePlists wM dirM (mM, fsM)"
  have rs: "rs = List.map_filter (plist_entry wM dirM fsM) es" using assms(3,4) es(1) by (simp add: rs_def handlePlists_def)
  note entry = served_entry [OF assms(5) es(4)]
  have member: "f \<in> set rs \<longleftrightarrow> (\<exists>c t. (pl_Name f, Regular c t) \<in> set es \<and> safe_name (pl_Name f) \<and>
      f = \<lparr>pl_Name = pl_Name f, pl_Content = EncodeBase64 c, pl_ModTime = to_milli t\<rparr>)" for f
  proof -
    have "f \<in> set rs \<longleftrightarrow> (\<exists>e \<in> set es. plist_entry wM dirM fsM e = Some f)" by (auto simp: rs set_map_filter)
    moreover have "plist_entry wM dirM fsM e = Some f \<longleftrightarrow> (\<exists>c t. e = (pl_Name f, Regular c t) \<and> safe_name (pl_Name f) \<and>
        f = \<lparr>pl_Name = pl_Name f, pl_Content = EncodeBase64 c, pl_ModTime = to_milli t\<rparr>)" if "e \<in> set es" for e
    proof (cases e)
      case (Pair name n)
      then show ?thesis using entry [of name n] that by (cases n) auto
    qed
    ultimately show ?thesis by metis
  qed
  show ?ok unfolding rs_def [symmetric]
  proof
    fix f assume "f \<in> set rs"
    then obtain c t where f: "(pl_Name f, Regular c t) \<in> set es" "safe_name (pl_Name f)"
      "f = \<lparr>pl_Name = pl_Name f, pl_Content = EncodeBase64 c, pl_ModTime = to_milli t\<rparr>"
      using member by blast
    then have "1000000 \<le> t" using es(4) assms(6) by (fastforce dest: map_of_SomeD)
    then have "0 < to_milli t" by (simp add: to_milli_def pos_imp_zdiv_pos_iff)
    then show "record_ok f" using f(2) by (subst f(3)) (simp add: record_ok_def DecodeBase64_Encode)
  qed
  show ?names unfolding rs_def [symmetric]
    unfolding rs by (rule distinct_map_filter [OF es(2)]) (auto simp: entry split: node.splits if_splits)
  show ?found if n: "safe_name name"
  proof (cases "find (\<lambda>f. pl_Name f = name) rs")
    case None
    have pl: "plain name" using n by (simp add: safe_name_def)
    from None have "\<lparr>pl_Name = name, pl_Content = EncodeBase64 c, pl_ModTime = to_milli t\<rparr> \<notin> set rs" for c t
      by (auto simp: find_None_iff)
    then have "(name, Regular c t) \<notin> set es" for c t
      using n member [of "\<lparr>pl_Name = name, pl_Content = EncodeBase64 c, pl_ModTime = to_milli t\<rparr>"] by simp blast
    then show ?thesis using None es(3) [OF pl] by (auto simp: rs_def [symmetric] split: option.split node.split)
  next
    case (Some f)
    then have "f \<in> set rs" "pl_Name f = name" by (auto simp: find_Some_iff)
    then obtain c t where "(name, Regular c t) \<in> set es"
      "f = \<lparr>pl_Name = name, pl_Content = EncodeBase64 c, pl_ModTime = to_milli t\<rparr>" using member by blast
    then show ?thesis using Some es(4) by (simp add: rs_def [symmetric])
  qed
qed

text \<open>
  C23: A pull mirrors the master. When a slave fetches the records its master serves, every regular
  file of the master's folder with a safe name is copied byte for byte, with its time to the
  millisecond, where the slave has none or an older one; every other file is left as it was.
\<close>
theorem pull_mirrors_master:
  fixes mS :: manager
  assumes "wf_files fsM" "map_of fsM (Clean dirM) = Some (Directory t0)" "dirM \<noteq> []" "mg_syncCerts mM"
    and "\<forall>p. cw_readable wM p" "\<forall>(p, n) \<in> set fsM. 1000000 \<le> node_time n"
    and "folder_ok wS dirS fsS" "SplitHostPort key = Some (host, Itoa port)" "validPeerHostPort host port"
  defines "s \<equiv> pullCertsFromMaster wS dirS (\<lambda>url. Some (handlePlists wM dirM (mM, fsM))) key (mS, fsS)"
  shows "mg_initialSynced (fst s) \<and>
    (\<forall>name. safe_name name \<longrightarrow>
       map_of (snd s) (file_in dirS name) =
       (case map_of fsM (file_in dirM name) of
          Some (Regular c t) \<Rightarrow> newer_copy c (of_milli (to_milli t)) (map_of fsS (file_in dirS name))
        | _ \<Rightarrow> map_of fsS (file_in dirS name)))"
proof -
  define rs where "rs = handlePlists wM dirM (mM, fsM)"
  note served = served_records [OF assms(1-6), folded rs_def]
  have files: "snd s = snd (fold (receive wS dirS) rs (mS, fsS))" "mg_initialSynced (fst s)"
    using assms(8,9) Atoi_Itoa [of port]
    by (simp_all add: s_def pullCertsFromMaster_def peerURL_def validPeerHostPort_def case_prod_unfold Let_def flip: rs_def)
  have "map_of (snd s) (file_in dirS name) =
       (case map_of fsM (file_in dirM name) of
          Some (Regular c t) \<Rightarrow> newer_copy c (of_milli (to_milli t)) (map_of fsS (file_in dirS name))
        | _ \<Rightarrow> map_of fsS (file_in dirS name))" if n: "safe_name name" for name
  proof -
    have pl: "plain name" "\<forall>f \<in> set rs. plain (pl_Name f)" using n served(1) by (auto simp: safe_name_def record_ok_def)
    have found: "fold (copy_step dirS (file_in dirS name)) rs old =
        (case map_of fsM (file_in dirM name) of
           Some (Regular c t) \<Rightarrow> newer_copy c (of_milli (to_milli t)) old
         | _ \<Rightarrow> old)" for old
      unfolding fold_copies [OF served(2) pl(2,1)] served(3) [OF n] by (simp add: DecodeBase64_Encode split: option.split node.split)
    have ready: "folder_ok wS dirS (snd (mS, fsS))" using assms(7) by simp
    show ?thesis unfolding files(1) receive_all [OF ready served(1)] found by (simp only: snd_conv)
  qed
  then show ?thesis using files(2) by blast
qed

definition demo_master_files :: files where
  "demo_master_files = [(''/m'', Directory 1000000), (''/m/a.plist'', Regular ''x'' 2000000)]"

lemma demo_master:
  "wf_files demo_master_files" "map_of demo_master_files (Clean ''/m'') = Some (Directory 1000000)"
  "\<forall>(p, n) \<in> set demo_master_files. 1000000 \<le> node_time n"
  "map_of demo_master_files (file_in ''/m'' ''a.plist'') = Some (Regular ''x'' 2000000)"
  by (simp_all add: demo_master_files_def wf_files_def Clean_def elements_def path_of_def IsAbs_def clean_push.simps file_in_def)

definition demo_manager :: manager where
  "demo_manager = New_manager ''auto'' [] ''n'' None 8080 [] True"

theorem pull_mirrors_master_witness:
  "map_of (snd (pullCertsFromMaster demo_cert_world ''/d''
      (\<lambda>url. Some (handlePlists demo_cert_world ''/m''
         (demo_manager, demo_master_files)))
      (''10.0.0.2:'' @ Itoa 8080) (demo_manager, []))) (file_in ''/d'' ''a.plist'') = Some (Regular ''x'' 2000000)"
proof -
  have ok: "folder_ok demo_cert_world ''/d'' []" by (rule demo_folder_ok)
  have rd: "\<forall>p. cw_readable demo_cert_world p" by (simp add: demo_cert_world_def)
  have sync: "mg_syncCerts demo_manager" by (simp add: demo_manager_def New_manager_def)
  have split: "SplitHostPort (''10.0.0.2:'' @ Itoa 8080) = Some (''10.0.0.2'', Itoa 8080)"
    using Split_Join [of "''10.0.0.2''" "Itoa 8080"] by (simp add: JoinHostPort_def Itoa_no_colon Itoa_no_bracket)
  have valid: "validPeerHostPort ''10.0.0.2'' 8080" by (simp add: validPeerHostPort_def host_char_def)
  have safe: "safe_name ''a.plist''" by (simp add: safe_name_def plain_def)
  note P = pull_mirrors_master [OF demo_master(1,2) _ sync rd demo_master(3) ok split valid, of demo_manager]
  show ?thesis using P safe by (simp add: demo_master(4) newer_copy_def of_milli_def to_milli_def)
qed

section \<open>Pushing\<close>

definition quiet :: "cert_world \<Rightarrow> string \<Rightarrow> files \<Rightarrow> manager \<Rightarrow> string \<times> node \<Rightarrow> bool" where
  "quiet w dir fs m e \<longleftrightarrow> push_entry w dir fs e m = (None, m)"

lemma sanitize_same: "sanitizeFileName n = Some k \<Longrightarrow> k = n"
  by (simp add: sanitizeFileName_iff split: if_splits)

lemma push_entry_quiet: "quiet w dir fs (snd (push_entry w dir fs e m)) e"
  by (auto simp: quiet_def push_entry_def Let_def split: prod.splits option.splits)

lemma push_entry_other:
  "fst e \<noteq> fst e' \<Longrightarrow> quiet w dir fs m e \<Longrightarrow> quiet w dir fs (snd (push_entry w dir fs e' m)) e"
  by (auto simp: quiet_def push_entry_def Let_def dest!: sanitize_same split: prod.splits option.splits if_splits)

lemma push_entries_quiet:
  "distinct (map fst es) \<Longrightarrow> \<forall>e \<in> set es. quiet w dir fs (snd (push_entries w dir fs es m)) e"
proof (induction es arbitrary: m)
  case (Cons e es)
  have keep: "quiet w dir fs m' e \<Longrightarrow> \<forall>e' \<in> set es'. fst e' \<noteq> fst e \<Longrightarrow> quiet w dir fs (snd (push_entries w dir fs es' m')) e"
    for es' m'
  proof (induction es' arbitrary: m')
    case (Cons a es')
    then have "quiet w dir fs (snd (push_entry w dir fs a m')) e" by (intro push_entry_other) auto
    then show ?case using Cons by (simp add: case_prod_unfold Let_def)
  qed simp
  have "\<forall>e' \<in> set es. fst e' \<noteq> fst e"
    using Cons.prems by (metis distinct.simps(2) image_eqI list.set_map list.simps(9))
  then show ?case using Cons.IH Cons.prems keep [OF push_entry_quiet] by (simp add: case_prod_unfold Let_def)
qed simp

lemma push_quiet: "\<forall>e \<in> set es. quiet w dir fs m e \<Longrightarrow> push_entries w dir fs es m = ([], m)"
  by (induction es) (simp_all add: quiet_def)

lemma push_entries_peers [simp]: "mg_peers (snd (push_entries w dir fs es m)) = mg_peers m"
proof (induction es arbitrary: m)
  case (Cons e es)
  have "mg_peers (snd (push_entry w dir fs e m)) = mg_peers m"
    by (simp add: push_entry_def Let_def split: prod.splits option.splits)
  then show ?case using Cons by (simp add: case_prod_unfold Let_def)
qed simp

text \<open>
  A version of a record is pushed once. As long as the folder does not change, a second round of
  the master sends nothing and changes nothing, whether or not the requests of the first round
  arrived: a peer that was down never receives what it missed by pushes.
\<close>
theorem push_sends_each_version_once:
  fixes w :: cert_world and dir :: string and m :: manager
  assumes "wf_files fs"
  defines "m1 \<equiv> snd (pushChangedCerts w dir (m, fs))"
  shows "pushChangedCerts w dir (m1, fs) = ([], m1)"
proof (cases "dir = [] \<or> ReadDir fs dir = None \<or> mg_peers m = []")
  case True
  then show ?thesis by (auto simp: m1_def pushChangedCerts_def Let_def split: option.splits)
next
  case False
  then obtain es where es: "ReadDir fs dir = Some es" by (cases "ReadDir fs dir") auto
  then obtain t0 where "map_of fs (Clean dir) = Some (Directory t0)"
    by (auto simp: ReadDir_def split: option.splits node.splits)
  with es have "distinct (map fst es)" using ReadDir_entries [OF assms(1), of dir t0] by (metis option.inject)
  moreover have m1: "m1 = snd (push_entries w dir fs es m)"
    using False es by (simp add: m1_def pushChangedCerts_def case_prod_unfold Let_def)
  ultimately have "push_entries w dir fs es m1 = ([], m1)" using push_quiet push_entries_quiet by blast
  then show ?thesis using False es by (simp add: pushChangedCerts_def)
qed

definition demo_pusher :: manager where
  "demo_pusher = demo_manager\<lparr>mg_peers := [(''10.0.0.2:8080'', new_peer ''10.0.0.2'' 8080)]\<rparr>"

theorem push_sends_each_version_once_witness:
  "pushChangedCerts demo_cert_world ''/m'' (snd (pushChangedCerts demo_cert_world ''/m'' (demo_pusher, demo_master_files)), demo_master_files) =
     ([], snd (pushChangedCerts demo_cert_world ''/m'' (demo_pusher, demo_master_files)))"
  by (rule push_sends_each_version_once [OF demo_master(1)])

text \<open>The takeover claim names its sender \<open>me\<close>; a node that accepts it never pulls from that master.\<close>

lemma claimed_me_never_pulls:
  assumes "fst (handleTakeover now ''me'' epoch m)"
  shows "runCertSync w dir fetch (snd (handleTakeover now ''me'' epoch m), fs) = ([], snd (handleTakeover now ''me'' epoch m), fs)"
  using assms by (simp add: runCertSync_def handleTakeover_def split: if_splits)

end
