(* ===== verification/Go_Json.thy ===== *)
theory Go_Json
  imports Go_Base Go_Float "HOL-Library.AList"
begin

text \<open>
  \<open>encoding/json\<close>: how a JSON value is decoded into a Go variable. Syntax is not modelled, a document is
  its tree. A number keeps whether it was written as an integer literal, since only such a literal
  decodes into an integer type.

  A decoder takes the value and the variable and returns the variable and whether a type error was met.
  As in Go such an error does not stop the decoding: the rest of the document is still decoded, and
  \<open>Unmarshal\<close> reports the error at the end. \<open>null\<close> leaves a variable as it is, and resets a pointer, a
  slice or a map.
\<close>

datatype json =
    JNull
  | JBool bool
  | JInt int
  | JDec real
  | JStr string
  | JArr "json list"
  | JObj "(string \<times> json) list"

type_synonym 'a decoder = "json \<Rightarrow> 'a \<Rightarrow> 'a \<times> bool"

section \<open>Values\<close>

definition dec_string :: "string decoder" where
  "dec_string j x = (case j of JNull \<Rightarrow> (x, False) | JStr s \<Rightarrow> (s, False) | _ \<Rightarrow> (x, True))"

definition dec_bool :: "bool decoder" where
  "dec_bool j x = (case j of JNull \<Rightarrow> (x, False) | JBool b \<Rightarrow> (b, False) | _ \<Rightarrow> (x, True))"

definition dec_int :: "int decoder" where
  "dec_int j x =
    (case j of
       JNull \<Rightarrow> (x, False)
     | JInt n \<Rightarrow> if - (2 ^ 63) \<le> n \<and> n < 2 ^ 63 then (n, False) else (x, True)
     | _ \<Rightarrow> (x, True))"

text \<open>A literal beyond the range of \<open>float64\<close> is an error, as for \<open>ParseFloat\<close>.\<close>

definition dec_real :: "fpu \<Rightarrow> real \<Rightarrow> f64 \<Rightarrow> f64 \<times> bool" where
  "dec_real u r x = (case rnd u r of Fin v \<Rightarrow> (Fin v, False) | _ \<Rightarrow> (x, True))"

definition dec_f64 :: "fpu \<Rightarrow> f64 decoder" where
  "dec_f64 u j x =
    (case j of JNull \<Rightarrow> (x, False) | JInt n \<Rightarrow> dec_real u (of_int n) x | JDec r \<Rightarrow> dec_real u r x | _ \<Rightarrow> (x, True))"

section \<open>Pointers, slices and maps\<close>

text \<open>A pointer is allocated with the zero value before its target is decoded.\<close>

definition dec_ptr :: "'a \<Rightarrow> 'a decoder \<Rightarrow> 'a option decoder" where
  "dec_ptr zero d j p =
    (case j of
       JNull \<Rightarrow> (None, False)
     | _ \<Rightarrow> (let (x, err) = d j (case p of None \<Rightarrow> zero | Some y \<Rightarrow> y) in (Some x, err)))"

definition dec_list :: "'a \<Rightarrow> 'a decoder \<Rightarrow> 'a list decoder" where
  "dec_list zero d j xs =
    (case j of
       JNull \<Rightarrow> ([], False)
     | JArr js \<Rightarrow> (let ys = map (\<lambda>k. d k zero) js in (map fst ys, \<exists>y \<in> set ys. snd y))
     | _ \<Rightarrow> (xs, True))"

text \<open>A slice that may be \<open>nil\<close>: \<open>[]\<close> in the document is not \<open>nil\<close>.\<close>

definition dec_slice :: "'a \<Rightarrow> 'a decoder \<Rightarrow> 'a list option decoder" where
  "dec_slice zero d j xs =
    (case j of
       JNull \<Rightarrow> (None, False)
     | JArr js \<Rightarrow> (let (ys, err) = dec_list zero d j [] in (Some ys, err))
     | _ \<Rightarrow> (xs, True))"

definition dec_map :: "'a \<Rightarrow> 'a decoder \<Rightarrow> (string \<times> 'a) list decoder" where
  "dec_map zero d j m =
    (case j of
       JNull \<Rightarrow> ([], False)
     | JObj kvs \<Rightarrow>
         fold (\<lambda>(k, v) (m, err). let (x, e) = d v zero in (AList.update k x m, err \<or> e)) kvs (m, False)
     | _ \<Rightarrow> (m, True))"

section \<open>Structs\<close>

text \<open>
  A field: its JSON name and the decoder of the whole struct that assigns to it. A key matches the
  field of that exact name, and otherwise one whose name is equal under case folding; other keys are
  skipped.
\<close>

definition field :: "string \<Rightarrow> ('r \<Rightarrow> 'a) \<Rightarrow> (('a \<Rightarrow> 'a) \<Rightarrow> 'r \<Rightarrow> 'r) \<Rightarrow> 'a decoder \<Rightarrow> string \<times> 'r decoder" where
  "field name get upd d = (name, \<lambda>j r. let (x, err) = d j (get r) in (upd (\<lambda>_. x) r, err))"

definition find_field :: "(string \<times> 'r decoder) list \<Rightarrow> string \<Rightarrow> 'r decoder option" where
  "find_field fs k =
    (case map_of fs k of
       Some d \<Rightarrow> Some d
     | None \<Rightarrow> map_option snd (find (\<lambda>(n, _). EqualFold n k) fs))"

definition dec_member :: "(string \<times> 'r decoder) list \<Rightarrow> string \<times> json \<Rightarrow> 'r \<times> bool \<Rightarrow> 'r \<times> bool" where
  "dec_member fs kv acc =
    (case (kv, acc) of ((k, v), (r, err)) \<Rightarrow>
       (case find_field fs k of
          None \<Rightarrow> (r, err)
        | Some d \<Rightarrow> (let (r', e) = d v r in (r', err \<or> e))))"

definition dec_struct :: "(string \<times> 'r decoder) list \<Rightarrow> 'r decoder" where
  "dec_struct fs j r =
    (case j of JNull \<Rightarrow> (r, False) | JObj kvs \<Rightarrow> fold (dec_member fs) kvs (r, False) | _ \<Rightarrow> (r, True))"

text \<open>
  \<open>json.Unmarshal(data, &p)\<close> on an absent document is a syntax error that leaves the variable alone.
\<close>

definition Unmarshal :: "'a decoder \<Rightarrow> 'a \<Rightarrow> json option \<Rightarrow> 'a \<times> bool" where
  "Unmarshal d zero doc = (case doc of None \<Rightarrow> (zero, True) | Some j \<Rightarrow> d j zero)"

section \<open>Facts\<close>

lemma dec_f64_finite: "is_finite x \<Longrightarrow> is_finite (fst (dec_f64 u j x))"
  by (auto simp: dec_f64_def dec_real_def is_finite_def split: json.splits f64.splits)

lemma dec_struct_keeps:
  assumes "\<And>n d j r. (n, d) \<in> set fs \<Longrightarrow> I r \<Longrightarrow> I (fst (d j r))" "I r"
  shows "I (fst (dec_struct fs j r))"
proof -
  have member: "I (fst (dec_member fs kv acc))" if "I (fst acc)" for kv acc
  proof -
    obtain k v r err where *: "kv = (k, v)" "acc = (r, err)" by (cases kv; cases acc) auto
    have "\<exists>n. (n, d) \<in> set fs" if "find_field fs k = Some d" for d
      using that by (auto simp: find_field_def find_Some_iff split: option.splits dest: map_of_SomeD) (metis nth_mem)
    then show ?thesis using assms(1) that *
      by (auto simp: dec_member_def case_prod_unfold Let_def split: option.split)
  qed
  have "I (fst (fold (dec_member fs) kvs acc))" if "I (fst acc)" for kvs acc
    using that
  proof (induction kvs arbitrary: acc)
    case (Cons kv kvs)
    show ?case using Cons.IH [OF member [OF Cons.prems]] by simp
  qed simp
  then show ?thesis using assms(2) by (auto simp: dec_struct_def split: json.split)
qed

lemma dec_list_all:
  assumes "\<And>j. I (fst (d j zero))" "\<forall>x \<in> set xs. I x"
  shows "\<forall>x \<in> set (fst (dec_list zero d j xs)). I x"
  using assms by (auto simp: dec_list_def Let_def split: json.split)

lemma dec_ptr_all:
  assumes "\<And>j x. I x \<Longrightarrow> I (fst (d j x))" "I zero" "pred_option I p"
  shows "pred_option I (fst (dec_ptr zero d j p))"
  using assms by (auto simp: dec_ptr_def case_prod_unfold Let_def split: json.split option.split)

end
