(* ===== verification/Messages.thy ===== *)
theory Messages
  imports Go_Json Validation Engine_Settings
begin

text \<open>
  The wire format of the inbound messages: the JSON tags of \<open>internal/api/messages.go\<close> and
  \<open>internal/domain/types.go\<close> as decoders of the payload types, one per struct, and the zero value each
  decoding starts from.
\<close>

section \<open>Zero values\<close>

definition zero_latlon :: latlon where "zero_latlon = \<lparr>ll_lat = Fin 0, ll_lon = Fin 0\<rparr>"

definition zero_bounds :: patrol_bounds where "zero_bounds = \<lparr>pb_NE = zero_latlon, pb_SW = zero_latlon\<rparr>"

definition zero_zone :: patrol_zone where
  "zero_zone = \<lparr>pz_type = [], pz_center = None, pz_radius = Fin 0, pz_bounds = None, pz_active = False\<rparr>"

definition zero_leg :: route_leg where
  "zero_leg = \<lparr>leg_type = [], leg_start = zero_latlon, leg_end = zero_latlon, leg_startTime = 0, leg_endTime = 0, leg_speed = Fin 0\<rparr>"

definition zero_set_location :: set_location_payload where
  "zero_set_location = \<lparr>slp_lat = Fin 0, slp_lon = Fin 0, slp_name = []\<rparr>"

definition zero_play_route :: play_route_payload where
  "zero_play_route = \<lparr>prp_endLat = Fin 0, prp_endLon = Fin 0, prp_speed = Fin 0, prp_profile = []\<rparr>"

definition zero_play_sequence :: play_sequence_payload where
  "zero_play_sequence = \<lparr>psp_legs = [], psp_looping = False\<rparr>"

definition zero_play_gpx :: play_gpx_payload where
  "zero_play_gpx = \<lparr>pgp_content = [], pgp_speed = Fin 0\<rparr>"

definition zero_favorite :: favorite_payload where
  "zero_favorite = \<lparr>fp_lat = Fin 0, fp_lon = Fin 0, fp_name = [], fp_newName = []\<rparr>"

definition zero_heartbeat :: heartbeat_payload where
  "zero_heartbeat = \<lparr>hb_IsMaintaining = False, hb_Latitude = Fin 0, hb_Longitude = Fin 0, hb_Timestamp = 0\<rparr>"

definition zero_real_location :: real_location_payload where
  "zero_real_location = \<lparr>rlp_latitude = Fin 0, rlp_longitude = Fin 0\<rparr>"

definition zero_debug_log :: debug_log_payload where
  "zero_debug_log = \<lparr>dlp_message = [], dlp_level = [], dlp_source = [], dlp_category = [], dlp_action = [], dlp_fields = []\<rparr>"

definition zero_save_settings :: save_settings_payload where
  "zero_save_settings = \<lparr>ss_CompanionPort = None, ss_PreferredDriver = None, ss_UsbDriver = None, ss_WifiDriver = None,
     ss_Fallback = None, ss_Notifications = None, ss_DynamicIsland = None, ss_Jitter = None, ss_OsrmBaseURL = None,
     ss_RoutingMode = None, ss_RoutingProvider = None, ss_RoutingPriority = None, ss_GoogleKey = None,
     ss_MapboxToken = None, ss_HeartbeatSec = None, ss_MasterDeadSec = None, ss_PeerTimeoutSec = None,
     ss_ClusterMode = None, ss_ClusterNodes = None, ss_ClusterSyncCerts = None\<rparr>"

section \<open>Business types\<close>

definition dec_latlon :: "fpu \<Rightarrow> latlon decoder" where
  "dec_latlon u = dec_struct
    [field ''lat'' ll_lat ll_lat_update (dec_f64 u),
     field ''lon'' ll_lon ll_lon_update (dec_f64 u)]"

definition dec_bounds :: "fpu \<Rightarrow> patrol_bounds decoder" where
  "dec_bounds u = dec_struct
    [field ''ne'' pb_NE pb_NE_update (dec_latlon u),
     field ''sw'' pb_SW pb_SW_update (dec_latlon u)]"

definition dec_zone :: "fpu \<Rightarrow> patrol_zone decoder" where
  "dec_zone u = dec_struct
    [field ''type'' pz_type pz_type_update dec_string,
     field ''center'' pz_center pz_center_update (dec_ptr zero_latlon (dec_latlon u)),
     field ''radius'' pz_radius pz_radius_update (dec_f64 u),
     field ''bounds'' pz_bounds pz_bounds_update (dec_ptr zero_bounds (dec_bounds u)),
     field ''active'' pz_active pz_active_update dec_bool]"

definition dec_leg :: "fpu \<Rightarrow> route_leg decoder" where
  "dec_leg u = dec_struct
    [field ''type'' leg_type leg_type_update dec_string,
     field ''start'' leg_start leg_start_update (dec_latlon u),
     field ''end'' leg_end leg_end_update (dec_latlon u),
     field ''startTime'' leg_startTime leg_startTime_update dec_int,
     field ''endTime'' leg_endTime leg_endTime_update dec_int,
     field ''speed'' leg_speed leg_speed_update (dec_f64 u)]"

section \<open>Payloads\<close>

definition dec_set_location :: "fpu \<Rightarrow> set_location_payload decoder" where
  "dec_set_location u = dec_struct
    [field ''lat'' slp_lat slp_lat_update (dec_f64 u),
     field ''lon'' slp_lon slp_lon_update (dec_f64 u),
     field ''name'' slp_name slp_name_update dec_string]"

definition dec_play_route :: "fpu \<Rightarrow> play_route_payload decoder" where
  "dec_play_route u = dec_struct
    [field ''endLat'' prp_endLat prp_endLat_update (dec_f64 u),
     field ''endLon'' prp_endLon prp_endLon_update (dec_f64 u),
     field ''speed'' prp_speed prp_speed_update (dec_f64 u),
     field ''profile'' prp_profile prp_profile_update dec_string]"

definition dec_play_sequence :: "fpu \<Rightarrow> play_sequence_payload decoder" where
  "dec_play_sequence u = dec_struct
    [field ''legs'' psp_legs psp_legs_update (dec_list zero_leg (dec_leg u)),
     field ''looping'' psp_looping psp_looping_update dec_bool]"

definition dec_play_gpx :: "fpu \<Rightarrow> play_gpx_payload decoder" where
  "dec_play_gpx u = dec_struct
    [field ''gpxContent'' pgp_content pgp_content_update dec_string,
     field ''speed'' pgp_speed pgp_speed_update (dec_f64 u)]"

definition dec_favorite :: "fpu \<Rightarrow> favorite_payload decoder" where
  "dec_favorite u = dec_struct
    [field ''lat'' fp_lat fp_lat_update (dec_f64 u),
     field ''lon'' fp_lon fp_lon_update (dec_f64 u),
     field ''name'' fp_name fp_name_update dec_string,
     field ''newName'' fp_newName fp_newName_update dec_string]"

definition dec_heartbeat :: "fpu \<Rightarrow> heartbeat_payload decoder" where
  "dec_heartbeat u = dec_struct
    [field ''isMaintaining'' hb_IsMaintaining hb_IsMaintaining_update dec_bool,
     field ''latitude'' hb_Latitude hb_Latitude_update (dec_f64 u),
     field ''longitude'' hb_Longitude hb_Longitude_update (dec_f64 u),
     field ''timestamp'' hb_Timestamp hb_Timestamp_update dec_int]"

definition dec_real_location :: "fpu \<Rightarrow> real_location_payload decoder" where
  "dec_real_location u = dec_struct
    [field ''latitude'' rlp_latitude rlp_latitude_update (dec_f64 u),
     field ''longitude'' rlp_longitude rlp_longitude_update (dec_f64 u)]"

definition dec_debug_log :: "debug_log_payload decoder" where
  "dec_debug_log = dec_struct
    [field ''message'' dlp_message dlp_message_update dec_string,
     field ''level'' dlp_level dlp_level_update dec_string,
     field ''source'' dlp_source dlp_source_update dec_string,
     field ''category'' dlp_category dlp_category_update dec_string,
     field ''action'' dlp_action dlp_action_update dec_string,
     field ''fields'' dlp_fields dlp_fields_update (dec_map [] dec_string)]"

text \<open>\<open>PatrolUpdatePayload\<close> only wraps the zone.\<close>

definition dec_patrol_update :: "fpu \<Rightarrow> patrol_zone decoder" where
  "dec_patrol_update u = dec_struct [field ''zone'' (\<lambda>z. z) (\<lambda>f. f) (dec_zone u)]"

definition dec_save_settings :: "save_settings_payload decoder" where
  "dec_save_settings = dec_struct
    [field ''companionPort'' ss_CompanionPort ss_CompanionPort_update (dec_ptr 0 dec_int),
     field ''preferredDriver'' ss_PreferredDriver ss_PreferredDriver_update (dec_ptr [] dec_string),
     field ''usbDriver'' ss_UsbDriver ss_UsbDriver_update (dec_ptr [] dec_string),
     field ''wifiDriver'' ss_WifiDriver ss_WifiDriver_update (dec_ptr [] dec_string),
     field ''fallbackEnabled'' ss_Fallback ss_Fallback_update (dec_ptr False dec_bool),
     field ''notificationsEnabled'' ss_Notifications ss_Notifications_update (dec_ptr False dec_bool),
     field ''dynamicIslandEnabled'' ss_DynamicIsland ss_DynamicIsland_update (dec_ptr False dec_bool),
     field ''jitterEnabled'' ss_Jitter ss_Jitter_update (dec_ptr False dec_bool),
     field ''osrmBaseUrl'' ss_OsrmBaseURL ss_OsrmBaseURL_update (dec_ptr [] dec_string),
     field ''routingMode'' ss_RoutingMode ss_RoutingMode_update (dec_ptr [] dec_string),
     field ''routingProvider'' ss_RoutingProvider ss_RoutingProvider_update (dec_ptr [] dec_string),
     field ''routingProviderPriority'' ss_RoutingPriority ss_RoutingPriority_update (dec_slice [] dec_string),
     field ''googleRoutesApiKey'' ss_GoogleKey ss_GoogleKey_update (dec_ptr [] dec_string),
     field ''mapboxAccessToken'' ss_MapboxToken ss_MapboxToken_update (dec_ptr [] dec_string),
     field ''clusterHeartbeatSeconds'' ss_HeartbeatSec ss_HeartbeatSec_update (dec_ptr 0 dec_int),
     field ''clusterMasterDeadSeconds'' ss_MasterDeadSec ss_MasterDeadSec_update (dec_ptr 0 dec_int),
     field ''clusterPeerTimeoutSeconds'' ss_PeerTimeoutSec ss_PeerTimeoutSec_update (dec_ptr 0 dec_int),
     field ''clusterMode'' ss_ClusterMode ss_ClusterMode_update (dec_ptr [] dec_string),
     field ''clusterNodes'' ss_ClusterNodes ss_ClusterNodes_update (dec_slice [] dec_string),
     field ''clusterSyncCerts'' ss_ClusterSyncCerts ss_ClusterSyncCerts_update (dec_ptr False dec_bool)]"

record switch_driver_payload =
  sd_DriverID :: string
  sd_Transport :: string
  sd_WifiAddress :: string
  sd_TargetUdid :: string

definition zero_switch_driver :: switch_driver_payload where
  "zero_switch_driver = \<lparr>sd_DriverID = [], sd_Transport = [], sd_WifiAddress = [], sd_TargetUdid = []\<rparr>"

definition dec_switch_driver :: "switch_driver_payload decoder" where
  "dec_switch_driver = dec_struct
    [field ''driverId'' sd_DriverID sd_DriverID_update dec_string,
     field ''transport'' sd_Transport sd_Transport_update dec_string,
     field ''wifiAddress'' sd_WifiAddress sd_WifiAddress_update dec_string,
     field ''targetUdid'' sd_TargetUdid sd_TargetUdid_update dec_string]"

text \<open>The two payloads of a single string.\<close>

definition dec_probe_rsd_ports :: "string decoder" where
  "dec_probe_rsd_ports = dec_struct [field ''host'' (\<lambda>h. h) (\<lambda>f. f) dec_string]"

definition dec_revoke_paired_device :: "string decoder" where
  "dec_revoke_paired_device = dec_struct [field ''id'' (\<lambda>h. h) (\<lambda>f. f) dec_string]"

section \<open>No infinity and no NaN comes over the wire\<close>

lemma field_keeps:
  "(n, d) = field name get upd dec \<Longrightarrow> (\<And>x. P (upd (\<lambda>_. x) r) \<longleftrightarrow> Q x) \<Longrightarrow> Q (fst (dec j (get r))) \<Longrightarrow> P (fst (d j r))"
  by (auto simp: field_def case_prod_unfold Let_def)

definition finite_latlon :: "latlon \<Rightarrow> bool" where
  "finite_latlon p \<longleftrightarrow> is_finite (ll_lat p) \<and> is_finite (ll_lon p)"

lemma dec_latlon_finite: "finite_latlon p \<Longrightarrow> finite_latlon (fst (dec_latlon u j p))"
  unfolding dec_latlon_def
  by (rule dec_struct_keeps)
    (auto simp: field_def finite_latlon_def case_prod_unfold Let_def intro: dec_f64_finite)

definition finite_bounds :: "patrol_bounds \<Rightarrow> bool" where
  "finite_bounds b \<longleftrightarrow> finite_latlon (pb_NE b) \<and> finite_latlon (pb_SW b)"

lemma dec_bounds_finite: "finite_bounds b \<Longrightarrow> finite_bounds (fst (dec_bounds u j b))"
  unfolding dec_bounds_def
  by (rule dec_struct_keeps)
    (auto simp: field_def finite_bounds_def case_prod_unfold Let_def intro: dec_latlon_finite)

definition finite_zone :: "patrol_zone \<Rightarrow> bool" where
  "finite_zone z \<longleftrightarrow> pred_option finite_latlon (pz_center z) \<and> is_finite (pz_radius z) \<and>
     pred_option finite_bounds (pz_bounds z)"

lemma zero_finite: "finite_latlon zero_latlon" "finite_bounds zero_bounds" "finite_zone zero_zone"
  by (simp_all add: finite_latlon_def finite_bounds_def finite_zone_def zero_latlon_def zero_bounds_def zero_zone_def is_finite_def)

lemma dec_zone_finite: "finite_zone z \<Longrightarrow> finite_zone (fst (dec_zone u j z))"
  unfolding dec_zone_def
  by (rule dec_struct_keeps)
    (auto simp: field_def finite_zone_def case_prod_unfold Let_def
      intro: dec_f64_finite dec_ptr_all [OF dec_latlon_finite zero_finite(1)] dec_ptr_all [OF dec_bounds_finite zero_finite(2)])

text \<open>
  A patrol that arrives over the wire and is accepted has a finite radius between zero and the
  limit: JSON carries no NaN, so the comparison of the validator that NaN would pass is never met.
\<close>
theorem wire_patrol_radius:
  assumes "Unmarshal (dec_patrol_update u) zero_zone doc = (z, False)" "Validate_PatrolUpdate z = None"
    and "pz_active z" "pz_type z = ''circle''"
  shows "\<exists>r. pz_radius z = Fin r \<and> 0 < r \<and> r \<le> maxRadiusM"
proof -
  have "finite_zone z"
  proof (cases doc)
    case None
    then show ?thesis using assms(1) by (simp add: Unmarshal_def)
  next
    case (Some j)
    then have "z = fst (dec_patrol_update u j zero_zone)" using assms(1) by (simp add: Unmarshal_def)
    moreover have "finite_zone (fst (dec_patrol_update u j zero_zone))" unfolding dec_patrol_update_def
      by (rule dec_struct_keeps [where I = finite_zone, OF _ zero_finite(3)])
        (auto simp: field_def case_prod_unfold Let_def intro: dec_zone_finite)
    ultimately show ?thesis by simp
  qed
  then obtain r where "pz_radius z = Fin r" by (auto simp: finite_zone_def is_finite_def split: f64.splits)
  then show ?thesis using assms(2-4) PatrolUpdate_accepts_iff [of z] by (auto simp: maxRadiusM_def)
qed

end
