(* ===== verification/Go_Crypto.thy ===== *)
theory Go_Crypto
  imports Go_Encoding "HOL-Library.Word"
begin

text \<open>
  The hash functions of Go's standard library that the sources use: SHA-1 and HMAC-SHA-1 for the
  pairing codes, SHA-256 in hexadecimal for the device secrets. Bytes are characters, words 32 bits.
\<close>

unbundle bit_operations_syntax

section \<open>Blocks\<close>

definition be_bytes :: "nat \<Rightarrow> nat \<Rightarrow> string" where
  "be_bytes k n = map (\<lambda>i. char_of (n div 256 ^ (k - 1 - i) mod 256)) [0..<k]"

definition be_word :: "string \<Rightarrow> 32 word" where
  "be_word bs = foldl (\<lambda>a c. push_bit 8 a OR of_nat (of_char c)) 0 bs"

definition be_word_bytes :: "32 word \<Rightarrow> string" where
  "be_word_bytes w = be_bytes 4 (unat w)"

text \<open>The padding of both hash functions: a one bit, zeros, the length in bits in 64 bits.\<close>

definition sha_pad :: "string \<Rightarrow> string" where
  "sha_pad m = m @ [char_of (128 :: nat)] @ replicate ((119 - length m mod 64) mod 64) (char_of (0 :: nat)) @
     be_bytes 8 (8 * length m)"

definition block_words :: "string \<Rightarrow> 32 word list" where
  "block_words b = map be_word (chunks 4 b)"

section \<open>SHA-1\<close>

fun sha1_schedule :: "nat \<Rightarrow> 32 word list \<Rightarrow> 32 word list" where
  "sha1_schedule 0 w = w"
| "sha1_schedule (Suc k) w =
    (let n = length w in
     sha1_schedule k (w @ [word_rotl 1 (w ! (n - 3) XOR w ! (n - 8) XOR w ! (n - 14) XOR w ! (n - 16))]))"

definition sha1_round :: "nat \<times> 32 word \<Rightarrow> 32 word list \<Rightarrow> 32 word list" where
  "sha1_round tw h =
    (let (t, w) = tw; a = h ! 0; b = h ! 1; c = h ! 2; d = h ! 3; e = h ! 4;
         (f, k) =
           (if t < 20 then ((b AND c) OR (NOT b AND d), 0x5A827999)
            else if t < 40 then (b XOR c XOR d, 0x6ED9EBA1)
            else if t < 60 then ((b AND c) OR (b AND d) OR (c AND d), 0x8F1BBCDC)
            else (b XOR c XOR d, 0xCA62C1D6))
     in [word_rotl 5 a + f + e + k + w, a, word_rotl 30 b, c, d])"

definition sha1_block :: "32 word list \<Rightarrow> string \<Rightarrow> 32 word list" where
  "sha1_block h b = map2 (+) h (fold sha1_round (zip [0..<80] (sha1_schedule 64 (block_words b))) h)"

definition SHA1 :: "string \<Rightarrow> string" where
  "SHA1 m = concat (map be_word_bytes
     (foldl sha1_block [0x67452301, 0xEFCDAB89, 0x98BADCFE, 0x10325476, 0xC3D2E1F0] (chunks 64 (sha_pad m))))"

section \<open>HMAC\<close>

definition xor_byte :: "nat \<Rightarrow> char \<Rightarrow> char" where
  "xor_byte n c = char_of (n XOR of_char c)"

definition HMAC_SHA1 :: "string \<Rightarrow> string \<Rightarrow> string" where
  "HMAC_SHA1 key m =
    (let k = (if 64 < length key then SHA1 key else key);
         k = k @ replicate (64 - length k) (char_of (0 :: nat))
     in SHA1 (map (xor_byte 92) k @ SHA1 (map (xor_byte 54) k @ m)))"

section \<open>SHA-256\<close>

text \<open>
  The constants, as the standard defines them: the first thirty-two bits of the fractional parts of the
  cube roots of the first sixty-four primes and, to start from, of the square roots of the first eight.
\<close>

primrec root_bits :: "nat \<Rightarrow> int \<Rightarrow> nat \<Rightarrow> int \<Rightarrow> int" where
  "root_bits k n 0 acc = acc"
| "root_bits k n (Suc b) acc = root_bits k n b (if (acc + 2 ^ b) ^ k \<le> n then acc + 2 ^ b else acc)"

definition root_fraction :: "nat \<Rightarrow> int \<Rightarrow> 32 word" where
  "root_fraction k p = of_int (root_bits k (p * 2 ^ (32 * k)) 40 0)"

definition small_primes :: "int list" where
  "small_primes = filter (\<lambda>n. list_all (\<lambda>d. n mod d \<noteq> 0) [2..n - 1]) [2..311]"

definition sha256_k :: "32 word list" where
  "sha256_k = map (root_fraction 3) small_primes"

definition sha256_start :: "32 word list" where
  "sha256_start = map (root_fraction 2) (take 8 small_primes)"

fun sha256_schedule :: "nat \<Rightarrow> 32 word list \<Rightarrow> 32 word list" where
  "sha256_schedule 0 w = w"
| "sha256_schedule (Suc k) w =
    (let n = length w; x = w ! (n - 15); y = w ! (n - 2);
         s0 = word_rotr 7 x XOR word_rotr 18 x XOR drop_bit 3 x;
         s1 = word_rotr 17 y XOR word_rotr 19 y XOR drop_bit 10 y
     in sha256_schedule k (w @ [w ! (n - 16) + s0 + w ! (n - 7) + s1]))"

definition sha256_round :: "32 word \<times> 32 word \<Rightarrow> 32 word list \<Rightarrow> 32 word list" where
  "sha256_round kw h =
    (let (k, w) = kw; a = h ! 0; b = h ! 1; c = h ! 2; d = h ! 3; e = h ! 4; f = h ! 5; g = h ! 6;
         s1 = word_rotr 6 e XOR word_rotr 11 e XOR word_rotr 25 e;
         ch = (e AND f) XOR (NOT e AND g);
         t1 = h ! 7 + s1 + ch + k + w;
         s0 = word_rotr 2 a XOR word_rotr 13 a XOR word_rotr 22 a;
         maj = (a AND b) XOR (a AND c) XOR (b AND c)
     in [t1 + (s0 + maj), a, b, c, d + t1, e, f, g])"

definition sha256_block :: "32 word list \<Rightarrow> string \<Rightarrow> 32 word list" where
  "sha256_block h b = map2 (+) h (fold sha256_round (zip sha256_k (sha256_schedule 48 (block_words b))) h)"

definition SHA256 :: "string \<Rightarrow> string" where
  "SHA256 m = concat (map be_word_bytes
     (foldl sha256_block sha256_start (chunks 64 (sha_pad m))))"

section \<open>Hexadecimal\<close>

definition hex_digit :: "nat \<Rightarrow> char" where
  "hex_digit n = ''0123456789abcdef'' ! n"

definition HexEncode :: "string \<Rightarrow> string" where
  "HexEncode s = concat (map (\<lambda>c. [hex_digit (of_char c div 16), hex_digit (of_char c mod 16)]) s)"

section \<open>Lengths\<close>

lemma length_be_bytes [simp]: "length (be_bytes k n) = k"
  by (simp add: be_bytes_def)

lemma length_sha1_round [simp]: "length (sha1_round tw h) = 5"
  by (simp add: sha1_round_def Let_def case_prod_unfold)

lemma length_fold_round: "length h = 5 \<Longrightarrow> length (fold sha1_round xs h) = 5"
  by (induction xs arbitrary: h) simp_all

lemma length_sha1_block [simp]: "length h = 5 \<Longrightarrow> length (sha1_block h b) = 5"
  by (simp add: sha1_block_def length_fold_round)

lemma length_SHA1 [simp]: "length (SHA1 m) = 20"
proof -
  have "length (foldl sha1_block h bs) = 5" if "length h = 5" for h bs
    using that by (induction bs arbitrary: h) simp_all
  moreover have "length (concat (map be_word_bytes ws)) = 4 * length ws" for ws
    by (induction ws) (simp_all add: be_word_bytes_def)
  ultimately show ?thesis by (simp add: SHA1_def)
qed

lemma length_HMAC [simp]: "length (HMAC_SHA1 key m) = 20"
  by (simp add: HMAC_SHA1_def Let_def)

end
