(* ===== verification/Auth.thy ===== *)
theory Auth
  imports Go_Net Go_Crypto Driver_Base
begin

text \<open>
  Remote access: the rotating pairing code of \<open>internal/auth/totp.go\<close> and the store of paired devices of
  \<open>internal/auth/store.go\<close>.

  The two SQLite tables are the seed, if there is one, and a list of rows with distinct identifiers.
  What the outside decides, the clock in seconds, the UUID, the random bytes and whether a read or a
  write of the database succeeds, is a record. Errors are values.
\<close>

section \<open>The pairing code\<close>

definition totpStep :: int where "totpStep = 30"
definition totpDigits :: nat where "totpDigits = 6"

definition ToUpper :: "string \<Rightarrow> string" where
  "ToUpper s = map (\<lambda>c. let n = (of_char c :: nat) in if 97 \<le> n \<and> n \<le> 122 then char_of (n - 32) else c) s"

definition pad_zeros :: "nat \<Rightarrow> string \<Rightarrow> string" where
  "pad_zeros w s = replicate (w - length s) (CHR ''0'') @ s"

definition truncate_mac :: "string \<Rightarrow> 32 word" where
  "truncate_mac mac =
    (let offset = nat (of_char (last mac) AND 15);
         byte = (\<lambda>i. of_nat (of_char (mac ! i)) :: 32 word)
     in push_bit 24 (byte offset AND 0x7f) OR push_bit 16 (byte (offset + 1)) OR push_bit 8 (byte (offset + 2))
        OR byte (offset + 3))"

definition counter_at :: "int \<Rightarrow> 64 word" where
  "counter_at t = word_of_int t div word_of_int totpStep"

text \<open>\<open>codeAt\<close>, at a Unix time: \<open>None\<close> for a seed that is not base32.\<close>

definition codeAt :: "string \<Rightarrow> int \<Rightarrow> string option" where
  "codeAt seedB32 t =
    map_option (\<lambda>key. pad_zeros totpDigits
        (show_nat (unat (truncate_mac (HMAC_SHA1 key (be_bytes 8 (unat (counter_at t)))) mod 10 ^ totpDigits))))
      (DecodeBase32 (ToUpper seedB32))"

fun verify_skews :: "string \<Rightarrow> string \<Rightarrow> int \<Rightarrow> int list \<Rightarrow> bool" where
  "verify_skews seedB32 code t [] = False"
| "verify_skews seedB32 code t (skew # skews) =
    (case codeAt seedB32 (t + skew) of
       None \<Rightarrow> False
     | Some expected \<Rightarrow> expected = code \<or> verify_skews seedB32 code t skews)"

definition verifyCodeAt :: "string \<Rightarrow> string \<Rightarrow> int \<Rightarrow> bool" where
  "verifyCodeAt seedB32 code t =
    (let code = TrimSpace code in
     if length code \<noteq> totpDigits then False else verify_skews seedB32 code t [0, - totpStep, totpStep])"

section \<open>The store\<close>

record paired_device =
  dv_ID :: string
  dv_Label :: string
  dv_CreatedAt :: int
  dv_LastSeen :: int

record device_row =
  dr_id :: string
  dr_token_hash :: string
  dr_label :: string
  dr_created_at :: int
  dr_last_seen :: int

record store =
  au_seed :: "string option"
  au_devices :: "device_row list"

record auth_world =
  aw_now :: int
  aw_uuid :: string
  aw_random :: "nat \<Rightarrow> string option"
  aw_read_ok :: bool
  aw_write_ok :: bool

datatype auth_error = DbError | RandError | BadSeed | ErrInvalidToken

definition base64_url_alphabet :: string where
  "base64_url_alphabet = ''ABCDEFGHIJKLMNOPQRSTUVWXYZabcdefghijklmnopqrstuvwxyz0123456789-_''"

definition hashSecret :: "string \<Rightarrow> string" where
  "hashSecret secret = HexEncode (SHA256 secret)"

definition ensureSeed :: "auth_world \<Rightarrow> store \<Rightarrow> (auth_error + string) \<times> store" where
  "ensureSeed w s =
    (if \<not> aw_read_ok w then (Inl DbError, s)
     else case au_seed s of
       Some seed \<Rightarrow> (Inr seed, s)
     | None \<Rightarrow>
         (case aw_random w 20 of
            None \<Rightarrow> (Inl RandError, s)
          | Some raw \<Rightarrow>
              (let seed = EncodeBase32 raw in
               if aw_write_ok w then (Inr seed, s\<lparr>au_seed := Some seed\<rparr>) else (Inl DbError, s))))"

definition CurrentCode :: "auth_world \<Rightarrow> int \<Rightarrow> store \<Rightarrow> (auth_error + string) \<times> store" where
  "CurrentCode w t s =
    (let (r, s) = ensureSeed w s in
     (case r of
        Inl err \<Rightarrow> Inl err
      | Inr seed \<Rightarrow> (case codeAt seed t of None \<Rightarrow> Inl BadSeed | Some c \<Rightarrow> Inr c), s))"

definition VerifyCode :: "auth_world \<Rightarrow> string \<Rightarrow> int \<Rightarrow> store \<Rightarrow> bool \<times> store" where
  "VerifyCode w code t s =
    (let (r, s) = ensureSeed w s in
     (case r of Inl err \<Rightarrow> False | Inr seed \<Rightarrow> verifyCodeAt seed code t, s))"

definition RegenerateSeed :: "auth_world \<Rightarrow> store \<Rightarrow> auth_error option \<times> store" where
  "RegenerateSeed w s =
    (case aw_random w 20 of
       None \<Rightarrow> (Some RandError, s)
     | Some raw \<Rightarrow>
         if aw_write_ok w then (None, s\<lparr>au_seed := Some (EncodeBase32 raw)\<rparr>) else (Some DbError, s))"

text \<open>The insertion fails on a write error and on an identifier already in the table.\<close>

definition Pair_device :: "auth_world \<Rightarrow> string \<Rightarrow> store \<Rightarrow> (auth_error + string \<times> paired_device) \<times> store" where
  "Pair_device w label s =
    (let i = aw_uuid w in
     case aw_random w 32 of
       None \<Rightarrow> (Inl RandError, s)
     | Some secretRaw \<Rightarrow>
         (let secret = encode 6 base64_url_alphabet secretRaw;
              row = \<lparr>dr_id = i, dr_token_hash = hashSecret secret, dr_label = TrimSpace label,
                     dr_created_at = aw_now w, dr_last_seen = aw_now w\<rparr>
          in if \<not> aw_write_ok w \<or> list_ex (\<lambda>r. dr_id r = i) (au_devices s) then (Inl DbError, s)
             else (Inr (i @ CHR ''.'' # secret,
                        \<lparr>dv_ID = i, dv_Label = TrimSpace label, dv_CreatedAt = aw_now w, dv_LastSeen = aw_now w\<rparr>),
                   s\<lparr>au_devices := au_devices s @ [row]\<rparr>)))"

definition VerifyToken :: "auth_world \<Rightarrow> string \<Rightarrow> store \<Rightarrow> bool \<times> store" where
  "VerifyToken w token s =
    (case cut_on (CHR ''.'') token of
       None \<Rightarrow> (False, s)
     | Some (i, secret) \<Rightarrow>
         if i = [] \<or> secret = [] \<or> \<not> aw_read_ok w then (False, s)
         else case find (\<lambda>r. dr_id r = i) (au_devices s) of
           None \<Rightarrow> (False, s)
         | Some row \<Rightarrow>
             if dr_token_hash row \<noteq> hashSecret secret then (False, s)
             else (True,
                   if aw_write_ok w
                   then s\<lparr>au_devices := map (\<lambda>r. if dr_id r = i then r\<lparr>dr_last_seen := aw_now w\<rparr> else r) (au_devices s)\<rparr>
                   else s))"

definition ListDevices :: "auth_world \<Rightarrow> store \<Rightarrow> auth_error + paired_device list" where
  "ListDevices w s =
    (if \<not> aw_read_ok w then Inl DbError
     else Inr (map (\<lambda>r. \<lparr>dv_ID = dr_id r, dv_Label = dr_label r, dv_CreatedAt = dr_created_at r, dv_LastSeen = dr_last_seen r\<rparr>)
            (sort_key (\<lambda>r. - dr_created_at r) (au_devices s))))"

definition Revoke :: "auth_world \<Rightarrow> string \<Rightarrow> store \<Rightarrow> auth_error option \<times> store" where
  "Revoke w i s =
    (if \<not> aw_write_ok w then (Some DbError, s)
     else (if list_ex (\<lambda>r. dr_id r = i) (au_devices s) then None else Some ErrInvalidToken,
           s\<lparr>au_devices := filter (\<lambda>r. dr_id r \<noteq> i) (au_devices s)\<rparr>))"

section \<open>Histories of the store\<close>

datatype auth_op =
    AEnsure auth_world
  | AVerifyCode auth_world string int
  | ARegenerate auth_world
  | APair auth_world string
  | AVerifyToken auth_world string
  | ARevoke auth_world string

fun auth_step :: "auth_op \<Rightarrow> store \<Rightarrow> store" where
  "auth_step (AEnsure w) s = snd (ensureSeed w s)"
| "auth_step (AVerifyCode w code t) s = snd (VerifyCode w code t s)"
| "auth_step (ARegenerate w) s = snd (RegenerateSeed w s)"
| "auth_step (APair w label) s = snd (Pair_device w label s)"
| "auth_step (AVerifyToken w token) s = snd (VerifyToken w token s)"
| "auth_step (ARevoke w i) s = snd (Revoke w i s)"

lemma ensureSeed_devices [simp]: "au_devices (snd (ensureSeed w s)) = au_devices s"
  by (simp add: ensureSeed_def Let_def split: option.split)

lemma auth_step_devices [simp]:
  "au_devices (snd (VerifyCode w code t s)) = au_devices s"
  "au_devices (snd (RegenerateSeed w s)) = au_devices s"
  by (simp_all add: VerifyCode_def RegenerateSeed_def Let_def case_prod_unfold split: option.split)

text \<open>The hash stored for a device.\<close>

definition hash_of :: "string \<Rightarrow> store \<Rightarrow> string option" where
  "hash_of i s = map_option dr_token_hash (find (\<lambda>r. dr_id r = i) (au_devices s))"

lemma find_map_id: "(\<And>r. dr_id (f r) = dr_id r) \<Longrightarrow>
    find (\<lambda>r. dr_id r = i) (map f rs) = map_option f (find (\<lambda>r. dr_id r = i) rs)"
  by (induction rs) auto

lemma hash_VerifyToken [simp]: "hash_of i (snd (VerifyToken w token s)) = hash_of i s"
  by (auto simp: VerifyToken_def hash_of_def find_map_id option.map_comp comp_def split: option.split prod.split)
    (auto simp: option.map_comp comp_def intro!: option.map_cong)

lemma find_removed: "find (\<lambda>r. dr_id r = i) (filter (\<lambda>r. dr_id r \<noteq> j) rs) = (if j = i then None else find (\<lambda>r. dr_id r = i) rs)"
  by (induction rs) auto

lemma find_added:
  "find (\<lambda>r. dr_id r = i) (rs @ [row]) =
     (if list_ex (\<lambda>r. dr_id r = i) rs then find (\<lambda>r. dr_id r = i) rs else if dr_id row = i then Some row else None)"
  by (induction rs) auto

lemma find_absent: "\<not> list_ex (\<lambda>r. dr_id r = i) rs \<Longrightarrow> find (\<lambda>r. dr_id r = i) rs = None"
  by (induction rs) auto

lemma hash_Revoke: "hash_of i (snd (Revoke w j s)) = (if aw_write_ok w \<and> j = i then None else hash_of i s)"
  by (simp add: Revoke_def hash_of_def find_removed)

lemma hash_Pair_device: "aw_uuid w \<noteq> i \<Longrightarrow> hash_of i (snd (Pair_device w label s)) = hash_of i s"
  by (auto simp: Pair_device_def hash_of_def Let_def find_added find_absent split: option.split)

definition pairs_as :: "string \<Rightarrow> auth_op \<Rightarrow> bool" where
  "pairs_as i op \<longleftrightarrow> (case op of APair w label \<Rightarrow> aw_uuid w = i | _ \<Rightarrow> False)"

definition revokes :: "string \<Rightarrow> auth_op \<Rightarrow> bool" where
  "revokes i op \<longleftrightarrow> (case op of ARevoke w j \<Rightarrow> j = i \<and> aw_write_ok w | _ \<Rightarrow> False)"

lemma hash_step: "\<not> pairs_as i op \<Longrightarrow> hash_of i (auth_step op s) = (if revokes i op then None else hash_of i s)"
  by (cases op) (simp_all add: pairs_as_def revokes_def hash_Pair_device hash_Revoke, simp_all add: hash_of_def)

lemma hash_steps: "\<forall>op \<in> set ops. \<not> pairs_as i op \<Longrightarrow>
    hash_of i (fold auth_step ops s) = (if \<exists>op \<in> set ops. revokes i op then None else hash_of i s)"
proof (induction ops arbitrary: s)
  case (Cons op ops)
  then show ?case using hash_step [of i op s] by simp
qed simp

lemma VerifyToken_iff:
  "cut_on (CHR ''.'') token = Some (i, secret) \<Longrightarrow>
     fst (VerifyToken w token s) \<longleftrightarrow> i \<noteq> [] \<and> secret \<noteq> [] \<and> aw_read_ok w \<and> hash_of i s = Some (hashSecret secret)"
  by (auto simp: VerifyToken_def hash_of_def split: option.split)

lemma encode_nonempty: "s \<noteq> [] \<Longrightarrow> encode 6 a s \<noteq> []"
proof -
  assume "s \<noteq> []"
  then have "8 \<le> 8 * length s" by (cases s) auto
  then have "0 < length (encode 6 a s)" unfolding length_encode [OF zero_less_numeral] by (simp add: div_greater_zero_iff)
  then show ?thesis by simp
qed

text \<open>The token of a new device: its identifier, a dot and a secret in the URL-safe alphabet.\<close>

lemma Pair_device_token:
  assumes "Pair_device w label s = (Inr (token, dev), s')" "CHR ''.'' \<notin> set (aw_uuid w)" "aw_random w 32 \<noteq> Some []"
  obtains secret where "token = aw_uuid w @ CHR ''.'' # secret" "secret \<noteq> []" "dv_ID dev = aw_uuid w"
    "cut_on (CHR ''.'') token = Some (aw_uuid w, secret)" "hash_of (aw_uuid w) s' = Some (hashSecret secret)"
    "set secret \<subseteq> set base64_url_alphabet"
proof -
  obtain raw where raw: "aw_random w 32 = Some raw" using assms(1) by (auto simp: Pair_device_def Let_def split: option.splits)
  let ?secret = "encode 6 base64_url_alphabet raw"
  have new: "token = aw_uuid w @ CHR ''.'' # ?secret" "dv_ID dev = aw_uuid w" "\<not> list_ex (\<lambda>r. dr_id r = aw_uuid w) (au_devices s)"
    using assms(1) raw by (auto simp: Pair_device_def Let_def split: if_splits)
  then have row: "hash_of (aw_uuid w) s' = Some (hashSecret ?secret)"
    using assms(1) raw by (auto simp: Pair_device_def Let_def hash_of_def find_added split: if_splits)
  have cut: "cut_on (CHR ''.'') token = Some (aw_uuid w, ?secret)" using assms(2) by (simp add: new cut_on_Some)
  have "?secret \<noteq> []" using assms(3) raw by (intro encode_nonempty) auto
  moreover have "set ?secret \<subseteq> set base64_url_alphabet" by (rule encode_alphabet) (simp add: base64_url_alphabet_def)
  ultimately show ?thesis using new row cut by (intro that)
qed

text \<open>
  C21: A device token authenticates until its device is revoked, and never afterwards. Whatever happens
  to the store after the pairing (codes shown and checked, the seed replaced, other devices paired,
  tokens checked, devices revoked), the token handed out is accepted exactly when no revocation of
  its device has succeeded.
\<close>
theorem token_until_revoked:
  assumes "Pair_device w label s = (Inr (token, dev), s')"
    and "aw_uuid w \<noteq> []" "CHR ''.'' \<notin> set (aw_uuid w)" "aw_random w 32 \<noteq> Some []"
    and "\<forall>op \<in> set ops. \<not> pairs_as (aw_uuid w) op" "aw_read_ok w'"
  shows "fst (VerifyToken w' token (fold auth_step ops s')) \<longleftrightarrow> (\<forall>op \<in> set ops. \<not> revokes (dv_ID dev) op)"
proof -
  obtain secret where t: "secret \<noteq> []" "dv_ID dev = aw_uuid w" "cut_on (CHR ''.'') token = Some (aw_uuid w, secret)"
    "hash_of (aw_uuid w) s' = Some (hashSecret secret)"
    using Pair_device_token [OF assms(1,3,4)] by metis
  have "hash_of (aw_uuid w) (fold auth_step ops s') =
      (if \<exists>op \<in> set ops. revokes (aw_uuid w) op then None else Some (hashSecret secret))"
    using hash_steps [OF assms(5)] t(4) by simp
  then show ?thesis using assms(2,6) t(1,2) by (auto simp: VerifyToken_iff [OF t(3)])
qed

definition demo_bytes :: "nat \<Rightarrow> string" where "demo_bytes n = replicate n (CHR ''x'')"

lemma demo_bytes_nonempty [simp]: "demo_bytes n = [] \<longleftrightarrow> n = 0"
  by (simp add: demo_bytes_def)

definition demo_auth_world :: auth_world where
  "demo_auth_world = \<lparr>aw_now = 100, aw_uuid = ''dev'', aw_random = (\<lambda>n. Some (demo_bytes n)), aw_read_ok = True, aw_write_ok = True\<rparr>"

definition empty_store :: store where "empty_store = \<lparr>au_seed = None, au_devices = []\<rparr>"

theorem token_until_revoked_witness:
  "\<exists>token dev s'. Pair_device demo_auth_world ''phone'' empty_store = (Inr (token, dev), s') \<and>
     fst (VerifyToken demo_auth_world token (auth_step (ARegenerate demo_auth_world) s')) \<and>
     \<not> fst (VerifyToken demo_auth_world token (auth_step (ARevoke demo_auth_world ''dev'') s'))"
proof -
  obtain token dev s' where p: "Pair_device demo_auth_world ''phone'' empty_store = (Inr (token, dev), s')" "dv_ID dev = ''dev''"
    by (simp add: Pair_device_def demo_auth_world_def empty_store_def Let_def)
  have w: "aw_uuid demo_auth_world \<noteq> []" "CHR ''.'' \<notin> set (aw_uuid demo_auth_world)" "aw_random demo_auth_world 32 \<noteq> Some []"
    "aw_read_ok demo_auth_world" by (simp_all add: demo_auth_world_def)
  have "\<forall>op \<in> set [ARegenerate demo_auth_world]. \<not> pairs_as (aw_uuid demo_auth_world) op"
    "\<forall>op \<in> set [ARevoke demo_auth_world ''dev'']. \<not> pairs_as (aw_uuid demo_auth_world) op"
    by (simp_all add: pairs_as_def)
  note T = token_until_revoked [OF p(1) w(1-3) this(1) w(4)] token_until_revoked [OF p(1) w(1-3) this(2) w(4)]
  have "\<not> revokes ''dev'' (ARegenerate demo_auth_world)" "revokes ''dev'' (ARevoke demo_auth_world ''dev'')"
    by (simp_all add: revokes_def demo_auth_world_def)
  then show ?thesis using T p by (auto simp: p(2))
qed

section \<open>The lifetime of a code\<close>

definition rotates :: "auth_op \<Rightarrow> bool" where
  "rotates op \<longleftrightarrow> (case op of ARegenerate w \<Rightarrow> True | _ \<Rightarrow> False)"

lemma seed_kept: "au_seed s = Some seed \<Longrightarrow> \<not> rotates op \<Longrightarrow> au_seed (auth_step op s) = Some seed"
  by (cases op) (auto simp: rotates_def ensureSeed_def VerifyCode_def Pair_device_def VerifyToken_def Revoke_def Let_def
      split: option.split prod.split)

lemma seed_kept_all: "au_seed s = Some seed \<Longrightarrow> \<forall>op \<in> set ops. \<not> rotates op \<Longrightarrow> au_seed (fold auth_step ops s) = Some seed"
  by (induction ops arbitrary: s) (simp_all add: seed_kept)

lemma show_nat_length: "n < 10 ^ Suc k \<Longrightarrow> length (show_nat n) \<le> Suc k"
proof (induction k arbitrary: n)
  case 0
  then show ?case by (simp add: show_nat.simps)
next
  case (Suc k)
  show ?case
  proof (cases "n < 10")
    case False
    have "n div 10 < 10 ^ Suc k" using Suc.prems by (simp add: less_mult_imp_div_less mult.commute)
    then have "length (show_nat (n div 10)) \<le> Suc k" by (rule Suc.IH)
    then show ?thesis using False by (subst show_nat.simps) simp
  qed (simp add: show_nat.simps)
qed

lemma codeAt_digits:
  assumes "codeAt seed t = Some c"
  shows "length c = totpDigits" "\<forall>x \<in> set c. digit_val x \<noteq> None"
proof -
  obtain v :: "32 word" where v: "c = pad_zeros totpDigits (show_nat (unat (v mod 10 ^ totpDigits)))"
    using assms by (auto simp: codeAt_def)
  have "unat (v mod 1000000) < 10 ^ Suc 5" by (simp add: unat_mod)
  then have "length (show_nat (unat (v mod 1000000))) \<le> Suc 5" by (rule show_nat_length)
  then show "length c = totpDigits" by (simp add: v pad_zeros_def totpDigits_def)
  show "\<forall>x \<in> set c. digit_val x \<noteq> None"
    using show_nat_digits by (auto simp: v pad_zeros_def digit_val_def)
qed

lemma TrimSpace_digits: "\<forall>x \<in> set c. digit_val x \<noteq> None \<Longrightarrow> TrimSpace c = c"
proof -
  assume d: "\<forall>x \<in> set c. digit_val x \<noteq> None"
  have "\<not> is_space x" if "digit_val x \<noteq> None" for x using that by (auto simp: is_space_def digit_val_def)
  then have "\<not> is_space x" if "x \<in> set c" for x using d that by blast
  then have "dropWhile is_space c = c" "dropWhile is_space (rev c) = rev c"
    unfolding dropWhile_eq_self_iff by (metis hd_in_set, metis hd_in_set set_rev)
  then show ?thesis by (simp add: TrimSpace_def)
qed

lemma counter_at_eq: "0 \<le> t \<Longrightarrow> t < 2 ^ 63 \<Longrightarrow> unat (counter_at t) = nat (t div 30)"
  by (simp add: counter_at_def totpStep_def unat_div_distrib nat_div_distrib unsigned_of_int take_bit_int_eq_self)

lemma codeAt_window: "0 \<le> t \<Longrightarrow> t < 2 ^ 63 \<Longrightarrow> 0 \<le> t' \<Longrightarrow> t' < 2 ^ 63 \<Longrightarrow> t div 30 = t' div 30 \<Longrightarrow> codeAt seed t = codeAt seed t'"
  by (simp add: codeAt_def counter_at_eq)

text \<open>A code derived in the window of \<open>t\<close> or one next to it verifies at \<open>t\<close>.\<close>

lemma verifyCodeAt_window:
  assumes "codeAt seed u = Some c" "30 \<le> t" "t + 30 < 2 ^ 63" "0 \<le> u" "u < 2 ^ 63"
    and "\<bar>u div 30 - t div 30\<bar> \<le> 1"
  shows "verifyCodeAt seed c t"
proof -
  note c = codeAt_digits [OF assms(1)]
  obtain key where "DecodeBase32 (ToUpper seed) = Some key" using assms(1) by (auto simp: codeAt_def)
  then have some: "codeAt seed v \<noteq> None" for v by (simp add: codeAt_def)
  have "(t - 30) div 30 = t div 30 - 1" "(t + 30) div 30 = t div 30 + 1" by simp_all
  moreover have "u div 30 = t div 30 \<or> u div 30 = t div 30 - 1 \<or> u div 30 = t div 30 + 1" using assms(6) by linarith
  ultimately have "codeAt seed t = Some c \<or> codeAt seed (t - 30) = Some c \<or> codeAt seed (t + 30) = Some c"
    using assms(1-5) codeAt_window [of u t seed] codeAt_window [of u "t - 30" seed] codeAt_window [of u "t + 30" seed]
    by (elim disjE) simp_all
  moreover obtain c1 c2 c3 where "codeAt seed t = Some c1" "codeAt seed (t - 30) = Some c2" "codeAt seed (t + 30) = Some c3"
    using some by blast
  ultimately show ?thesis using c
    by (auto simp: verifyCodeAt_def TrimSpace_digits totpStep_def Let_def split: option.split)
qed

text \<open>
  The code on the screen works for the person who types it, and more than once. A code shown at
  one time consists of six digits and is accepted at any time up to thirty seconds earlier or later,
  whatever happens to the store in between short of a new seed: redeeming it does not use it up.
\<close>
theorem shown_code_verifies:
  assumes "CurrentCode w t s = (Inr code, s')"
    and "\<forall>op \<in> set ops. \<not> rotates op" "aw_read_ok w'"
    and "30 \<le> t" "t < 2 ^ 62" "30 \<le> t'" "t' < 2 ^ 62" "\<bar>t' - t\<bar> \<le> 30"
  shows "fst (VerifyCode w' code t' (fold auth_step ops s')) \<and> length code = 6 \<and> (\<forall>c \<in> set code. digit_val c \<noteq> None)"
proof -
  obtain seed where seed: "ensureSeed w s = (Inr seed, s')" "codeAt seed t = Some code"
    using assms(1) by (auto simp: CurrentCode_def Let_def case_prod_unfold prod_eq_iff split: sum.splits option.splits)
  then have "au_seed s' = Some seed" by (auto simp: ensureSeed_def Let_def split: if_splits option.splits)
  then have "au_seed (fold auth_step ops s') = Some seed" using assms(2) by (rule seed_kept_all)
  moreover have "\<bar>t div 30 - t' div 30\<bar> \<le> 1" using assms(8) by linarith
  then have "verifyCodeAt seed code t'" using assms(4-7) by (intro verifyCodeAt_window [OF seed(2)]) simp_all
  ultimately show ?thesis
    using assms(3) codeAt_digits [OF seed(2)] by (simp add: VerifyCode_def ensureSeed_def totpDigits_def)
qed

lemma ToUpper_base32: "ToUpper (EncodeBase32 s) = EncodeBase32 s"
proof -
  have "set (EncodeBase32 s) \<subseteq> set base32_alphabet"
    unfolding EncodeBase32_def by (rule encode_alphabet) (simp add: base32_alphabet_ok)
  moreover have "\<forall>c \<in> set base32_alphabet. \<not> (97 \<le> (of_char c :: nat) \<and> (of_char c :: nat) \<le> 122)"
    by (simp add: base32_alphabet_def)
  ultimately show ?thesis unfolding ToUpper_def by (intro map_idI) (auto simp: Let_def)
qed

theorem shown_code_verifies_witness:
  "\<exists>code s'. CurrentCode demo_auth_world 1000 \<lparr>au_seed = Some (EncodeBase32 ''a''), au_devices = []\<rparr> = (Inr code, s') \<and>
     fst (VerifyCode demo_auth_world code 1030 (auth_step (APair demo_auth_world ''phone'') s'))"
proof -
  let ?s = "\<lparr>au_seed = Some (EncodeBase32 ''a''), au_devices = []\<rparr>"
  obtain code where c: "codeAt (EncodeBase32 ''a'') 1000 = Some code"
    by (simp add: codeAt_def ToUpper_base32 DecodeBase32_Encode)
  then have cur: "CurrentCode demo_auth_world 1000 ?s = (Inr code, ?s)"
    by (simp add: CurrentCode_def ensureSeed_def demo_auth_world_def)
  have quiet: "\<forall>op \<in> set [APair demo_auth_world ''phone'']. \<not> rotates op" by (simp add: rotates_def)
  have rd: "aw_read_ok demo_auth_world" by (simp add: demo_auth_world_def)
  have "fst (VerifyCode demo_auth_world code 1030 (fold auth_step [APair demo_auth_world ''phone''] ?s))"
    using shown_code_verifies [OF cur quiet rd, of 1030] by simp
  then show ?thesis using cur by auto
qed

end
