(* ===== verification/Rate_Limits.thy ===== *)
theory Rate_Limits
  imports Go_Float
begin

text \<open>
  The two token buckets of the server: the throttle of failed pairings
  (\<open>internal/server/pair_throttle.go\<close>) and the limiter of WebSocket messages (\<open>internal/server/hub.go\<close>).
  Both are instances of one contract, the locale \<open>token_bucket\<close>, under which the bounds are proved once.
  Times are nanoseconds. The arithmetic takes the rounding as a parameter; the bounds are for exact
  arithmetic.
\<close>

section \<open>The contract of a token bucket\<close>

text \<open>
  \<open>avail now s\<close> is what the bucket holds at a time, \<open>take\<close> asks for one token. The bucket fills at \<open>rate\<close>
  tokens a nanosecond up to \<open>cap\<close>; \<open>ok\<close> is the invariant of the implementation.
\<close>

locale token_bucket =
  fixes ok :: "int \<Rightarrow> 's \<Rightarrow> bool"
    and avail :: "int \<Rightarrow> 's \<Rightarrow> real"
    and take_one :: "int \<Rightarrow> 's \<Rightarrow> bool \<times> 's"
    and rate :: real
    and cap :: real
  assumes rate_pos: "0 < rate"
    and wait_ok: "ok now s \<Longrightarrow> now \<le> later \<Longrightarrow> ok later s"
    and take_ok: "ok now s \<Longrightarrow> ok now (snd (take_one now s))"
    and avail_range: "ok now s \<Longrightarrow> 0 \<le> avail now s \<and> avail now s \<le> cap"
    and wait: "ok now s \<Longrightarrow> now \<le> later \<Longrightarrow> avail later s = min cap (avail now s + rate * (later - now))"
    and granted: "ok now s \<Longrightarrow> fst (take_one now s) \<longleftrightarrow> 1 \<le> avail now s"
    and cost: "ok now s \<Longrightarrow> avail now (snd (take_one now s)) = avail now s - (if fst (take_one now s) then 1 else 0)"

text \<open>What a sequence of requests is granted.\<close>

fun grants :: "(int \<Rightarrow> 's \<Rightarrow> bool \<times> 's) \<Rightarrow> int list \<Rightarrow> 's \<Rightarrow> bool list" where
  "grants take_one [] s = []"
| "grants take_one (t # ts) s = fst (take_one t s) # grants take_one ts (snd (take_one t s))"

fun spaced :: "int \<Rightarrow> int list \<Rightarrow> bool" where
  "spaced gap (t # t' # ts) = (t + gap \<le> t' \<and> spaced gap (t' # ts))"
| "spaced gap ts = True"

context token_bucket
begin

lemma wait_le: "ok now s \<Longrightarrow> now \<le> later \<Longrightarrow> avail later s \<le> avail now s + rate * (later - now)"
  by (subst wait) auto

lemma grants_bound:
  "ok t0 s \<Longrightarrow> sorted (t0 # ts) \<Longrightarrow>
     real (length (filter (\<lambda>b. b) (grants take_one ts s))) \<le> avail t0 s + rate * (last (t0 # ts) - t0)"
proof (induction ts arbitrary: t0 s)
  case Nil
  then show ?case using avail_range [OF Nil(1)] by simp
next
  case (Cons t ts)
  then have le: "t0 \<le> t" and srt: "sorted (t # ts)" by auto
  have ok: "ok t s" using wait_ok [OF Cons.prems(1) le] .
  define n where "n = real (length (filter (\<lambda>b. b) (grants take_one ts (snd (take_one t s)))))"
  have "n \<le> avail t (snd (take_one t s)) + rate * (last (t # ts) - t)"
    unfolding n_def using Cons.IH [OF take_ok [OF ok] srt] .
  moreover have "avail t s \<le> avail t0 s + rate * (t - t0)" using wait_le [OF Cons.prems(1) le] .
  moreover have "rate * (last (t0 # t # ts) - t0) = rate * (last (t # ts) - t) + rate * (t - t0)"
    by (simp add: algebra_simps)
  moreover have "real (length (filter (\<lambda>b. b) (grants take_one (t # ts) s))) = (if fst (take_one t s) then 1 else 0) + n"
    by (simp add: n_def)
  ultimately show ?case using cost [OF ok] by linarith
qed

text \<open>Whoever leaves the time of one token between two requests is never refused.\<close>

lemma patient_granted:
  "ok t0 s \<Longrightarrow> 1 \<le> avail t0 s \<Longrightarrow> t0 \<le> hd ts \<Longrightarrow> 1 \<le> rate * gap \<Longrightarrow> 1 \<le> cap \<Longrightarrow> 0 \<le> gap \<Longrightarrow> spaced gap ts \<Longrightarrow>
     list_all (\<lambda>b. b) (grants take_one ts s)"
proof (induction ts arbitrary: t0 s)
  case (Cons t ts)
  have ok: "ok t s" using wait_ok [OF Cons.prems(1)] Cons.prems(3) by simp
  have "t0 \<le> t" using Cons.prems(3) by simp
  then have "0 \<le> rate * (t - t0)" using rate_pos by simp
  then have "1 \<le> avail t s" using Cons.prems(2,5) by (simp add: wait [OF Cons.prems(1) \<open>t0 \<le> t\<close>])
  then have g: "fst (take_one t s)" using granted [OF ok] by simp
  show ?case
  proof (cases ts)
    case (Cons t' ts')
    then have gap: "t + gap \<le> t'" "spaced gap ts" using Cons.prems(7) by simp_all
    then have le: "t \<le> t'" using Cons.prems(6) by simp
    let ?s = "snd (take_one t s)"
    have ok': "ok t ?s" by (rule take_ok [OF ok])
    have "rate * gap \<le> rate * (t' - t)" using gap(1) rate_pos by simp
    then have "1 \<le> avail t' ?s"
      unfolding wait [OF ok' le] using avail_range [OF ok'] Cons.prems(4,5) by linarith
    then have "list_all (\<lambda>b. b) (grants take_one ts ?s)"
      using wait_ok [OF ok' le] Cons.prems(4-6) gap(2) Cons by (intro Cons.IH [of t']) simp_all
    then show ?thesis using g by simp
  qed (use g in simp)
qed simp

end

text \<open>A bucket among others: between the requests other operations run, which may give tokens back.\<close>

locale shared_bucket = token_bucket +
  fixes other :: "int \<Rightarrow> 'e \<Rightarrow> 's \<Rightarrow> 's"
    and gain :: "'e \<Rightarrow> nat"
  assumes other_ok: "ok now s \<Longrightarrow> ok now (other now e s)"
    and other_gain: "ok now s \<Longrightarrow> avail now (other now e s) \<le> avail now s + gain e"

fun admitted :: "(int \<Rightarrow> 's \<Rightarrow> bool \<times> 's) \<Rightarrow> (int \<Rightarrow> 'e \<Rightarrow> 's \<Rightarrow> 's) \<Rightarrow> (int \<times> 'e option) list \<Rightarrow> 's \<Rightarrow> nat" where
  "admitted take_one other [] s = 0"
| "admitted take_one other ((t, None) # es) s =
     (if fst (take_one t s) then 1 else 0) + admitted take_one other es (snd (take_one t s))"
| "admitted take_one other ((t, Some e) # es) s = admitted take_one other es (other t e s)"

fun gains :: "('e \<Rightarrow> nat) \<Rightarrow> (int \<times> 'e option) list \<Rightarrow> nat" where
  "gains gain [] = 0"
| "gains gain ((t, None) # es) = gains gain es"
| "gains gain ((t, Some e) # es) = gain e + gains gain es"

context shared_bucket
begin

lemma admitted_bound:
  "ok t0 s \<Longrightarrow> sorted (t0 # map fst es) \<Longrightarrow>
     real (admitted take_one other es s) \<le> avail t0 s + rate * (last (t0 # map fst es) - t0) + gains gain es"
proof (induction es arbitrary: t0 s)
  case Nil
  then show ?case using avail_range by simp
next
  case (Cons x es)
  obtain t e where x: "x = (t, e)" by (cases x)
  have le: "t0 \<le> t" and srt: "sorted (t # map fst es)" using Cons.prems(2) by (auto simp: x)
  have ok: "ok t s" using wait_ok [OF Cons.prems(1) le] .
  have grow: "avail t s \<le> avail t0 s + rate * (t - t0)" using wait_le [OF Cons.prems(1) le] .
  have split: "rate * (last (t0 # map fst (x # es)) - t0) = rate * (last (t # map fst es) - t) + rate * (t - t0)"
    by (simp add: x algebra_simps)
  show ?case
  proof (cases e)
    case None
    then show ?thesis
      using Cons.IH [OF take_ok [OF ok] srt] grow cost [OF ok] split by (auto simp: x split: if_splits)
  next
    case (Some y)
    then show ?thesis
      using Cons.IH [OF other_ok [OF ok] srt, of y] grow other_gain [OF ok, of y] split by (simp add: x)
  qed
qed

end

section \<open>Durations\<close>

definition second :: int where "second = 1000000000"

text \<open>\<open>Duration.Seconds\<close>.\<close>

definition duration_seconds :: "fpu \<Rightarrow> int \<Rightarrow> f64" where
  "duration_seconds u d =
    (let q = (if d < 0 then - (- d div second) else d div second); r = d - q * second
     in fadd u (rnd u (of_int q)) (fdiv u (rnd u (of_int r)) (Fin (of_int second))))"

lemma duration_seconds_exact: "duration_seconds exact_fpu d = Fin (d / second)"
proof -
  define q where "q = (if d < 0 then - (- d div second) else d div second)"
  have "real_of_int q + (d - q * second) / second = d / second" by (simp add: second_def field_simps)
  then show ?thesis by (simp add: duration_seconds_def Let_def second_def flip: q_def)
qed

section \<open>The throttle of the pairing attempts\<close>

definition pairBurst :: f64 where "pairBurst = Fin 5"
definition pairRefillInterval :: int where "pairRefillInterval = 10 * second"
definition pairEntryTTL :: int where "pairEntryTTL = 30 * 60 * second"

record pair_bucket =
  pb_tokens :: f64
  pb_lastSeen :: int

type_synonym pair_throttle = "string \<rightharpoonup> pair_bucket"

definition newPairThrottle :: pair_throttle where
  "newPairThrottle = Map.empty"

definition pruneLocked :: "int \<Rightarrow> pair_throttle \<Rightarrow> pair_throttle" where
  "pruneLocked now t =
    (\<lambda>ip. case t ip of None \<Rightarrow> None | Some b \<Rightarrow> if pairEntryTTL < now - pb_lastSeen b then None else Some b)"

text \<open>What the bucket of an address holds once refilled.\<close>

definition pair_refilled :: "fpu \<Rightarrow> string \<Rightarrow> int \<Rightarrow> pair_throttle \<Rightarrow> f64" where
  "pair_refilled u ip now t =
    (case t ip of
       None \<Rightarrow> pairBurst
     | Some b \<Rightarrow>
         (let elapsed = duration_seconds u (now - pb_lastSeen b);
              n = fadd u (pb_tokens b) (fdiv u elapsed (duration_seconds u pairRefillInterval))
          in if flt pairBurst n then pairBurst else n))"

definition pair_allow :: "fpu \<Rightarrow> string \<Rightarrow> int \<Rightarrow> pair_throttle \<Rightarrow> bool \<times> pair_throttle" where
  "pair_allow u ip now t =
    (let t = pruneLocked now t; tokens = pair_refilled u ip now t
     in if flt tokens (Fin 1) then (False, t(ip \<mapsto> \<lparr>pb_tokens = tokens, pb_lastSeen = now\<rparr>))
        else (True, t(ip \<mapsto> \<lparr>pb_tokens = fsub u tokens (Fin 1), pb_lastSeen = now\<rparr>)))"

definition pair_refund :: "fpu \<Rightarrow> string \<Rightarrow> pair_throttle \<Rightarrow> pair_throttle" where
  "pair_refund u ip t =
    (case t ip of
       None \<Rightarrow> t
     | Some b \<Rightarrow>
         (let n = fadd u (pb_tokens b) (Fin 1)
          in t(ip \<mapsto> b\<lparr>pb_tokens := (if flt pairBurst n then pairBurst else n)\<rparr>)))"

text \<open>The tokens of an address at a time, in exact arithmetic.\<close>

fun fin_part :: "f64 \<Rightarrow> real" where
  "fin_part (Fin r) = r"
| "fin_part _ = 0"

definition pair_ok :: "int \<Rightarrow> pair_throttle \<Rightarrow> bool" where
  "pair_ok now t \<longleftrightarrow> (\<forall>ip b. t ip = Some b \<longrightarrow>
     pb_lastSeen b \<le> now \<and> (\<exists>r. pb_tokens b = Fin r \<and> 0 \<le> r \<and> r \<le> 5))"

definition pair_rate :: real where "pair_rate = 1 / pairRefillInterval"

definition pair_avail :: "string \<Rightarrow> int \<Rightarrow> pair_throttle \<Rightarrow> real" where
  "pair_avail ip now t =
    (case t ip of None \<Rightarrow> 5 | Some b \<Rightarrow> min 5 (fin_part (pb_tokens b) + pair_rate * (now - pb_lastSeen b)))"

text \<open>An entry is pruned only once its bucket is full again, so pruning is invisible.\<close>

lemma prune_avail: "pair_ok now t \<Longrightarrow> pair_avail ip now (pruneLocked now t) = pair_avail ip now t"
proof (cases "t ip")
  case (Some b)
  assume "pair_ok now t"
  then obtain r where r: "pb_tokens b = Fin r" "0 \<le> r" using Some by (auto simp: pair_ok_def)
  have "5 \<le> r + pair_rate * (now - pb_lastSeen b)" if "pairEntryTTL < now - pb_lastSeen b"
    using that r(2) by (simp add: pair_rate_def pairEntryTTL_def pairRefillInterval_def second_def field_simps)
  then show ?thesis using Some r by (simp add: pair_avail_def pruneLocked_def)
qed (simp add: pair_avail_def pruneLocked_def)

lemma prune_ok: "pair_ok now t \<Longrightarrow> pair_ok now (pruneLocked now t)"
  by (auto simp: pair_ok_def pruneLocked_def split: option.splits if_splits)

lemma pair_refilled_exact: "pair_ok now t \<Longrightarrow> pair_refilled exact_fpu ip now t = Fin (pair_avail ip now t)"
proof (cases "t ip")
  case (Some b)
  assume "pair_ok now t"
  then obtain r where "pb_tokens b = Fin r" using Some by (auto simp: pair_ok_def)
  then show ?thesis using Some
    by (simp add: pair_refilled_def pair_avail_def duration_seconds_exact pairBurst_def pair_rate_def pairRefillInterval_def
        second_def Let_def min_def)
qed (simp add: pair_refilled_def pair_avail_def pairBurst_def)

lemma pair_avail_range: "pair_ok now t \<Longrightarrow> 0 \<le> pair_avail ip now t \<and> pair_avail ip now t \<le> 5"
  by (cases "t ip") (force simp: pair_ok_def pair_avail_def pair_rate_def pairRefillInterval_def second_def)+

lemma pair_allow_exact:
  assumes "pair_ok now t"
  shows "pair_allow exact_fpu ip now t =
    (1 \<le> pair_avail ip now t,
     (pruneLocked now t)(ip \<mapsto> \<lparr>pb_tokens = Fin (pair_avail ip now t - (if 1 \<le> pair_avail ip now t then 1 else 0)),
                             pb_lastSeen = now\<rparr>))"
  using pair_refilled_exact [OF prune_ok [OF assms], of ip] by (simp add: pair_allow_def Let_def prune_avail [OF assms])

lemma pair_allow_ok: "pair_ok now t \<Longrightarrow> pair_ok now (snd (pair_allow exact_fpu ip now t))"
  using prune_ok [of now t] pair_avail_range [of now t ip] by (auto simp: pair_allow_exact pair_ok_def)

lemma pair_avail_own: "pair_ok now t \<Longrightarrow>
    pair_avail ip now (snd (pair_allow exact_fpu ip now t)) = pair_avail ip now t - (if 1 \<le> pair_avail ip now t then 1 else 0)"
  using pair_avail_range [of now t ip] by (simp add: pair_allow_exact pair_avail_def [of _ _ "_(_ \<mapsto> _)"])

lemma pair_avail_other: "pair_ok now t \<Longrightarrow> jp \<noteq> ip \<Longrightarrow>
    pair_avail ip now (snd (pair_allow exact_fpu jp now t)) = pair_avail ip now t"
  using prune_avail [of now t ip] by (simp add: pair_allow_exact pair_avail_def)

lemma pair_wait_ok: "pair_ok now t \<Longrightarrow> now \<le> later \<Longrightarrow> pair_ok later t"
  by (force simp: pair_ok_def)

lemma pair_wait: "pair_ok now t \<Longrightarrow> now \<le> later \<Longrightarrow>
    pair_avail ip later t = min 5 (pair_avail ip now t + pair_rate * (later - now))"
proof (cases "t ip")
  case (Some b)
  assume "now \<le> later"
  then have "0 \<le> pair_rate * (later - now)" by (simp add: pair_rate_def pairRefillInterval_def second_def)
  then show ?thesis using Some by (simp add: pair_avail_def min_def algebra_simps)
next
  case None
  assume "now \<le> later"
  then show ?thesis using None by (simp add: pair_avail_def pair_rate_def pairRefillInterval_def second_def)
qed

text \<open>The operations that are not an attempt of the address: attempts of the others, and refunds.\<close>

datatype pair_event = Attempt string | Refund string

fun pair_other :: "string \<Rightarrow> int \<Rightarrow> pair_event \<Rightarrow> pair_throttle \<Rightarrow> pair_throttle" where
  "pair_other ip now (Attempt jp) t = (if jp = ip then t else snd (pair_allow exact_fpu jp now t))"
| "pair_other ip now (Refund jp) t = pair_refund exact_fpu jp t"

fun refunds_of :: "string \<Rightarrow> pair_event \<Rightarrow> nat" where
  "refunds_of ip (Refund jp) = (if jp = ip then 1 else 0)"
| "refunds_of ip (Attempt jp) = 0"

lemma refund_exact:
  assumes "pair_ok now t" "t ip = Some b"
  shows "pair_refund exact_fpu ip t = t(ip \<mapsto> b\<lparr>pb_tokens := Fin (min 5 (fin_part (pb_tokens b) + 1))\<rparr>)"
proof -
  obtain r where "pb_tokens b = Fin r" using assms by (auto simp: pair_ok_def)
  then show ?thesis using assms(2) by (simp add: pair_refund_def Let_def pairBurst_def min_def)
qed

lemma refund_ok: "pair_ok now t \<Longrightarrow> pair_ok now (pair_refund exact_fpu ip t)"
proof (cases "t ip")
  case (Some b)
  assume ok: "pair_ok now t"
  then obtain r where "pb_tokens b = Fin r" "0 \<le> r" "pb_lastSeen b \<le> now" using Some by (auto simp: pair_ok_def)
  then show ?thesis using ok by (simp add: refund_exact [OF ok Some]) (auto simp: pair_ok_def)
qed (simp add: pair_refund_def)

lemma refund_avail: "pair_ok now t \<Longrightarrow> pair_avail jp now (pair_refund exact_fpu ip t) \<le> pair_avail jp now t + (if ip = jp then 1 else 0)"
proof (cases "t ip")
  case (Some b)
  assume ok: "pair_ok now t"
  show ?thesis
  proof (cases "ip = jp")
    case True
    then show ?thesis using Some by (simp add: refund_exact [OF ok Some] pair_avail_def min_def flip: True)
  qed (simp add: refund_exact [OF ok Some] pair_avail_def)
qed (simp add: pair_refund_def)

interpretation pair_bucket: shared_bucket pair_ok "pair_avail ip" "pair_allow exact_fpu ip" pair_rate 5 "pair_other ip" "refunds_of ip"
proof unfold_locales
  show "0 < pair_rate" by (simp add: pair_rate_def pairRefillInterval_def second_def)
next
  fix now e t assume ok: "pair_ok now t"
  show "pair_ok now (pair_other ip now e t)" by (cases e) (simp_all add: pair_allow_ok refund_ok ok)
  show "pair_avail ip now (pair_other ip now e t) \<le> pair_avail ip now t + refunds_of ip e"
  proof (cases e)
    case (Attempt jp)
    then show ?thesis by (cases "jp = ip") (simp_all add: pair_avail_other ok)
  next
    case (Refund jp)
    then show ?thesis using refund_avail [OF ok, of ip jp] by (cases "jp = ip") simp_all
  qed
next
  fix now t assume ok: "pair_ok now t"
  have f: "fst (pair_allow exact_fpu ip now t) \<longleftrightarrow> 1 \<le> pair_avail ip now t"
    by (simp only: pair_allow_exact [OF ok] fst_conv)
  then show "fst (pair_allow exact_fpu ip now t) \<longleftrightarrow> 1 \<le> pair_avail ip now t" .
  show "pair_ok now (snd (pair_allow exact_fpu ip now t))" by (rule pair_allow_ok [OF ok])
  show "0 \<le> pair_avail ip now t \<and> pair_avail ip now t \<le> 5" by (rule pair_avail_range [OF ok])
  show "pair_avail ip now (snd (pair_allow exact_fpu ip now t)) =
      pair_avail ip now t - (if fst (pair_allow exact_fpu ip now t) then 1 else 0)"
    unfolding f by (rule pair_avail_own [OF ok])
next
  fix now later t assume a: "pair_ok now t" "now \<le> later"
  show "pair_ok later t" by (rule pair_wait_ok [OF a])
  show "pair_avail ip later t = min 5 (pair_avail ip now t + pair_rate * (later - now))" by (rule pair_wait [OF a])
qed

text \<open>
  C34: Six digits can not be searched. However requests of all addresses interleave, in any stretch of
  time one address is granted at most five attempts, one more for every ten seconds, and one more
  for every attempt that was given back because it succeeded.
\<close>
theorem pair_guesses_bounded:
  fixes t0 :: int
  assumes "sorted (t0 # map fst es)"
  shows "real (admitted (pair_allow exact_fpu ip) (pair_other ip) es newPairThrottle) \<le>
    5 + (last (t0 # map fst es) - t0) / pairRefillInterval + gains (refunds_of ip) es"
proof -
  have "pair_ok t0 newPairThrottle" by (simp add: pair_ok_def newPairThrottle_def)
  from pair_bucket.admitted_bound [OF this assms, of ip] show ?thesis
    by (simp add: pair_avail_def newPairThrottle_def pair_rate_def)
qed

theorem pair_guesses_bounded_witness:
  "real (admitted (pair_allow exact_fpu ''10.0.0.7'') (pair_other ''10.0.0.7'') [(0, None), (60 * second, Some (Refund ''10.0.0.7''))] newPairThrottle) \<le> 12"
  using pair_guesses_bounded [of 0 "[(0, None), (60 * second, Some (Refund ''10.0.0.7''))]" "''10.0.0.7''"]
  by (simp add: second_def pairRefillInterval_def)

section \<open>The limiter of the WebSocket messages\<close>

record rate_limiter =
  rl_tokens :: f64
  rl_lastUpdate :: int
  rl_limit :: f64
  rl_burst :: f64

definition newRateLimiter :: "int \<Rightarrow> f64 \<Rightarrow> f64 \<Rightarrow> rate_limiter" where
  "newRateLimiter now limit burst = \<lparr>rl_tokens = burst, rl_lastUpdate = now, rl_limit = limit, rl_burst = burst\<rparr>"

definition limiter_allow :: "fpu \<Rightarrow> int \<Rightarrow> rate_limiter \<Rightarrow> bool \<times> rate_limiter" where
  "limiter_allow u now rl =
    (let elapsed = duration_seconds u (now - rl_lastUpdate rl);
         rl = rl\<lparr>rl_lastUpdate := now\<rparr>;
         n = fadd u (rl_tokens rl) (fmul u elapsed (rl_limit rl));
         n = (if flt (rl_burst rl) n then rl_burst rl else n)
     in if fle (Fin 1) n then (True, rl\<lparr>rl_tokens := fsub u n (Fin 1)\<rparr>) else (False, rl\<lparr>rl_tokens := n\<rparr>))"

text \<open>The limiter of a connection: ten messages a second, twenty at once.\<close>

definition limiter_ok :: "int \<Rightarrow> rate_limiter \<Rightarrow> bool" where
  "limiter_ok now rl \<longleftrightarrow> rl_limit rl = Fin 10 \<and> rl_burst rl = Fin 20 \<and> rl_lastUpdate rl \<le> now \<and>
     (\<exists>r. rl_tokens rl = Fin r \<and> 0 \<le> r \<and> r \<le> 20)"

definition limiter_rate :: real where "limiter_rate = 10 / second"

definition limiter_avail :: "int \<Rightarrow> rate_limiter \<Rightarrow> real" where
  "limiter_avail now rl = min 20 (fin_part (rl_tokens rl) + 10 * (now - rl_lastUpdate rl) / second)"

lemma limiter_allow_exact:
  assumes "limiter_ok now rl"
  shows "limiter_allow exact_fpu now rl =
    (1 \<le> limiter_avail now rl,
     rl\<lparr>rl_lastUpdate := now, rl_tokens := Fin (limiter_avail now rl - (if 1 \<le> limiter_avail now rl then 1 else 0))\<rparr>)"
proof -
  obtain r where "rl_tokens rl = Fin r" using assms by (auto simp: limiter_ok_def)
  then show ?thesis using assms
    by (simp add: limiter_allow_def limiter_ok_def limiter_avail_def duration_seconds_exact Let_def min_def mult.commute)
qed

lemma limiter_range: "limiter_ok now rl \<Longrightarrow> 0 \<le> limiter_avail now rl \<and> limiter_avail now rl \<le> 20"
  by (auto simp: limiter_ok_def limiter_avail_def second_def)

lemma limiter_step: "limiter_ok now rl \<Longrightarrow> limiter_ok now (snd (limiter_allow exact_fpu now rl)) \<and>
    limiter_avail now (snd (limiter_allow exact_fpu now rl)) = limiter_avail now rl - (if 1 \<le> limiter_avail now rl then 1 else 0)"
  using limiter_range [of now rl] by (auto simp: limiter_allow_exact limiter_ok_def limiter_avail_def [of now "_\<lparr>rl_lastUpdate := _, rl_tokens := _\<rparr>"])

lemma limiter_wait: "limiter_ok now rl \<Longrightarrow> now \<le> later \<Longrightarrow>
    limiter_ok later rl \<and> limiter_avail later rl = min 20 (limiter_avail now rl + limiter_rate * (later - now))"
proof
  assume a: "limiter_ok now rl" "now \<le> later"
  then show "limiter_ok later rl" by (force simp: limiter_ok_def)
  have "0 \<le> 10 * (later - now) / second" using a(2) by (simp add: second_def)
  moreover have "10 * (later - rl_lastUpdate rl) / second = 10 * (now - rl_lastUpdate rl) / second + 10 * (later - now) / second"
    by (simp add: field_simps second_def)
  ultimately show "limiter_avail later rl = min 20 (limiter_avail now rl + limiter_rate * (later - now))"
    by (simp add: limiter_avail_def limiter_rate_def)
qed

interpretation ws_limiter: token_bucket limiter_ok limiter_avail "limiter_allow exact_fpu" limiter_rate 20
proof unfold_locales
  show "0 < limiter_rate" by (simp add: limiter_rate_def second_def)
next
  fix now rl assume ok: "limiter_ok now rl"
  have f: "fst (limiter_allow exact_fpu now rl) \<longleftrightarrow> 1 \<le> limiter_avail now rl"
    by (simp only: limiter_allow_exact [OF ok] fst_conv)
  then show "fst (limiter_allow exact_fpu now rl) \<longleftrightarrow> 1 \<le> limiter_avail now rl" .
  show "limiter_ok now (snd (limiter_allow exact_fpu now rl))" using limiter_step [OF ok] by (rule conjunct1)
  show "0 \<le> limiter_avail now rl \<and> limiter_avail now rl \<le> 20" by (rule limiter_range [OF ok])
  show "limiter_avail now (snd (limiter_allow exact_fpu now rl)) =
      limiter_avail now rl - (if fst (limiter_allow exact_fpu now rl) then 1 else 0)"
    unfolding f using limiter_step [OF ok] by (rule conjunct2)
next
  fix now later rl assume a: "limiter_ok now rl" "now \<le> later"
  show "limiter_ok later rl" "limiter_avail later rl = min 20 (limiter_avail now rl + limiter_rate * (later - now))"
    using limiter_wait [OF a] by simp_all
qed

text \<open>
  A connection is served at most twenty messages and ten more a second, and a client that leaves a
  tenth of a second between its messages is never cut off.
\<close>
theorem message_rate:
  fixes t0 :: int
  defines "rl \<equiv> newRateLimiter t0 (Fin 10) (Fin 20)"
  assumes "sorted (t0 # ts)"
  shows "real (length (filter (\<lambda>b. b) (grants (limiter_allow exact_fpu) ts rl))) \<le> 20 + 10 * (last (t0 # ts) - t0) / second \<and>
    (spaced (second div 10) ts \<longrightarrow> list_all (\<lambda>b. b) (grants (limiter_allow exact_fpu) ts rl))"
proof (intro conjI impI)
  have ok: "limiter_ok t0 rl" by (simp add: rl_def newRateLimiter_def limiter_ok_def)
  have a: "limiter_avail t0 rl = 20" by (simp add: rl_def newRateLimiter_def limiter_avail_def)
  show "real (length (filter (\<lambda>b. b) (grants (limiter_allow exact_fpu) ts rl))) \<le> 20 + 10 * (last (t0 # ts) - t0) / second"
    using ws_limiter.grants_bound [OF ok assms(2)] by (simp add: a limiter_rate_def)
  assume sp: "spaced (second div 10) ts"
  show "list_all (\<lambda>b. b) (grants (limiter_allow exact_fpu) ts rl)"
  proof (cases ts)
    case (Cons t ts')
    then have "t0 \<le> hd ts" using assms(2) by simp
    then show ?thesis using sp
      by (intro ws_limiter.patient_granted [OF ok _ _ _ _ _ sp]) (simp_all add: a limiter_rate_def second_def)
  qed simp
qed

theorem message_rate_witness:
  "list_all (\<lambda>b. b) (grants (limiter_allow exact_fpu) [0, 100000000, 200000000] (newRateLimiter 0 (Fin 10) (Fin 20)))"
  using message_rate [of 0 "[0, 100000000, 200000000]"] by (simp add: second_def)

end
