(* ===== verification/Server_Auth.thy ===== *)
theory Server_Auth
  imports Auth Rate_Limits
begin

text \<open>
  Who may act on the engine: the credential check of \<open>internal/server/auth.go\<close>, the origin guard of
  \<open>origin.go\<close> and the pairing endpoints of \<open>pair.go\<close>.

  A request is the record of the headers and addresses these files read. The static key and the
  configured origins of the environment are a record. \<open>url.Parse\<close> is modelled for what an origin can
  be: no user information, and a percent sign anywhere is an error.
\<close>

section \<open>Requests\<close>

record request =
  rq_Origin :: string
  rq_Authorization :: string
  rq_Protocol :: string
  rq_QueryToken :: string
  rq_Host :: string
  rq_RemoteAddr :: string

record environment =
  ev_ApiKey :: string
  ev_AllowedOrigins :: string

section \<open>Credentials\<close>

definition subprotocolToken :: "request \<Rightarrow> string" where
  "subprotocolToken r =
    (let raw = rq_Protocol r; parts = split_on (CHR '','') raw in
     if raw = [] \<or> length parts \<noteq> 2 \<or> \<not> EqualFold (TrimSpace (parts ! 0)) ''bearer'' then []
     else TrimSpace (parts ! 1))"

definition bearerOrQueryToken :: "request \<Rightarrow> string" where
  "bearerOrQueryToken r =
    (if HasPrefix (rq_Authorization r) ''Bearer '' then TrimSpace (TrimPrefix (rq_Authorization r) ''Bearer '')
     else if subprotocolToken r \<noteq> [] then subprotocolToken r
     else rq_QueryToken r)"

definition clientIP :: "request \<Rightarrow> string" where
  "clientIP r = (case SplitHostPort (rq_RemoteAddr r) of None \<Rightarrow> rq_RemoteAddr r | Some (host, port) \<Rightarrow> host)"

definition isLoopback :: "request \<Rightarrow> bool" where
  "isLoopback r = (case ParseIP (clientIP r) of None \<Rightarrow> False | Some a \<Rightarrow> IsLoopback a)"

section \<open>Origins\<close>

definition letter :: "char \<Rightarrow> bool" where
  "letter c \<longleftrightarrow> (let n = (of_char c :: nat) in 97 \<le> n \<and> n \<le> 122 \<or> 65 \<le> n \<and> n \<le> 90)"

definition digit :: "char \<Rightarrow> bool" where
  "digit c \<longleftrightarrow> digit_val c \<noteq> None"

definition control :: "char \<Rightarrow> bool" where
  "control c \<longleftrightarrow> (let n = (of_char c :: nat) in n < 32 \<or> n = 127)"

definition url_host_char :: "char \<Rightarrow> bool" where
  "url_host_char c \<longleftrightarrow> letter c \<or> digit c \<or> 128 \<le> (of_char c :: nat) \<or>
     c \<in> set ''-_.~!$&()*+,;=:[]<>'' \<or> c = CHR 0x27 \<or> c = CHR 0x22"

text \<open>The scheme and what follows the colon; \<open>None\<close> is an error, no scheme is the empty one.\<close>

fun scheme_loop :: "string \<Rightarrow> string \<Rightarrow> string \<Rightarrow> (string \<times> string) option" where
  "scheme_loop raw acc [] = Some ([], raw)"
| "scheme_loop raw acc (c # cs) =
    (if letter c then scheme_loop raw (acc @ [c]) cs
     else if digit c \<or> c \<in> set ''+-.'' then (if acc = [] then Some ([], raw) else scheme_loop raw (acc @ [c]) cs)
     else if c = CHR '':'' then (if acc = [] then None else Some (acc, cs))
     else Some ([], raw))"

definition valid_port :: "string \<Rightarrow> bool" where
  "valid_port p \<longleftrightarrow> p = [] \<or> hd p = CHR '':'' \<and> list_all digit (tl p)"

definition parse_host :: "string \<Rightarrow> string option" where
  "parse_host h =
    (let port_ok =
       (if HasPrefix h ''['' then
          (case cut_last (CHR '']'') h of None \<Rightarrow> False | Some (a, p) \<Rightarrow> valid_port p)
        else (case cut_last (CHR '':'') h of None \<Rightarrow> True | Some (a, p) \<Rightarrow> list_all digit p))
     in if port_ok \<and> list_all url_host_char h then Some h else None)"

definition before :: "char \<Rightarrow> string \<Rightarrow> string" where
  "before c s = takeWhile (\<lambda>x. x \<noteq> c) s"

text \<open>\<open>url.Parse\<close>: the scheme in lower case and the host.\<close>

definition ParseURL :: "string \<Rightarrow> (string \<times> string) option" where
  "ParseURL raw =
    (let s = before (CHR ''#'') raw in
     if list_ex control s \<or> CHR ''%'' \<in> set raw then None
     else case scheme_loop s [] s of
       None \<Rightarrow> None
     | Some (scheme, rest) \<Rightarrow>
         (let scheme = ToLower scheme; rest = before (CHR ''?'') rest in
          if \<not> HasPrefix rest ''/'' then
            (if scheme \<noteq> [] then Some (scheme, [])
             else if CHR '':'' \<in> set (before (CHR ''/'') rest) then None else Some ([], []))
          else if HasPrefix rest ''//'' \<and> (scheme \<noteq> [] \<or> \<not> HasPrefix rest ''///'')
          then map_option (\<lambda>h. (scheme, h)) (parse_host (before (CHR ''/'') (drop 2 rest)))
          else Some (scheme, [])))"

definition nativeOriginSchemes :: "string list" where
  "nativeOriginSchemes = [''tauri'', ''capacitor'', ''ionic'', ''file'']"

definition configuredOrigins :: "environment \<Rightarrow> string list" where
  "configuredOrigins v =
    (if ev_AllowedOrigins v = [] then []
     else map (\<lambda>p. TrimSuffix p ''/'') (filter (\<lambda>p. p \<noteq> []) (map TrimSpace (split_on (CHR '','') (ev_AllowedOrigins v)))))"

definition trim_brackets :: "string \<Rightarrow> string" where
  "trim_brackets s =
    (let cut = dropWhile (\<lambda>c. c = CHR ''['' \<or> c = CHR '']'') in rev (cut (rev (cut s))))"

definition hostnameOf :: "string \<Rightarrow> string" where
  "hostnameOf hostport = (case SplitHostPort hostport of Some (h, p) \<Rightarrow> h | None \<Rightarrow> trim_brackets hostport)"

definition isLoopbackHost :: "string \<Rightarrow> bool" where
  "isLoopbackHost host =
    (let host = ToLower (TrimSuffix host ''.'') in
     host = ''localhost'' \<or> HasSuffix host ''.localhost'' \<or>
     (case ParseIP host of None \<Rightarrow> False | Some a \<Rightarrow> IsLoopback a))"

definition checkOrigin :: "environment \<Rightarrow> request \<Rightarrow> bool" where
  "checkOrigin v r =
    (let origin = rq_Origin r in
     if origin = [] then True
     else if EqualFold origin ''null'' then False
     else case ParseURL origin of
       None \<Rightarrow> False
     | Some (scheme, host) \<Rightarrow>
         if host = [] then ToLower scheme \<in> set nativeOriginSchemes
         else if ToLower scheme \<in> set nativeOriginSchemes then True
         else if EqualFold host (rq_Host r) then True
         else if isLoopbackHost (hostnameOf host) then True
         else list_ex (\<lambda>allowed. EqualFold allowed origin) (configuredOrigins v))"

section \<open>The gate\<close>

datatype gate = Allowed | Forbidden | Unauthorized

text \<open>The store is \<open>None\<close> on a server without remote access.\<close>

definition checkAuth :: "auth_world \<Rightarrow> environment \<Rightarrow> request \<Rightarrow> store option \<Rightarrow> gate \<times> store option" where
  "checkAuth w v r a =
    (if \<not> checkOrigin v r then (Forbidden, a)
     else
       (let token = bearerOrQueryToken r;
            (ok, a) = (case a of
                None \<Rightarrow> (False, None)
              | Some s \<Rightarrow> if token = [] then (False, Some s) else (let (b, s') = VerifyToken w token s in (b, Some s')))
        in if ok then (Allowed, a)
           else if ev_ApiKey v \<noteq> [] then (if token = ev_ApiKey v then Allowed else Unauthorized, a)
           else if isLoopback r then (Allowed, a)
           else (Unauthorized, a)))"

section \<open>The pairing endpoints\<close>

record pair_server =
  ps_store :: store
  ps_throttle :: pair_throttle

datatype pair_reply =
    PairForbidden | TooManyAttempts | BadBody | BadCode | PairFailed | Paired string paired_device

text \<open>\<open>handlePair\<close>; the body is \<open>None\<close> when it does not decode. The clock is in nanoseconds.\<close>

definition handlePair ::
  "fpu \<Rightarrow> int \<Rightarrow> auth_world \<Rightarrow> environment \<Rightarrow> request \<Rightarrow> (string \<times> string) option \<Rightarrow> pair_server \<Rightarrow> pair_reply \<times> pair_server" where
  "handlePair u now w v r body s =
    (if \<not> checkOrigin v r then (PairForbidden, s)
     else
       (let ip = clientIP r; (ok, t) = pair_allow u ip now (ps_throttle s); s = s\<lparr>ps_throttle := t\<rparr> in
        if \<not> ok then (TooManyAttempts, s)
        else case body of
          None \<Rightarrow> (BadBody, s)
        | Some (code, label) \<Rightarrow>
            (let (good, st) = VerifyCode w code (aw_now w) (ps_store s); s = s\<lparr>ps_store := st\<rparr> in
             if \<not> good then (BadCode, s)
             else
               (let (res, st) = Pair_device w label (ps_store s); s = s\<lparr>ps_store := st\<rparr> in
                case res of
                  Inl err \<Rightarrow> (PairFailed, s)
                | Inr (token, dev) \<Rightarrow> (Paired token dev, s\<lparr>ps_throttle := pair_refund u ip (ps_throttle s)\<rparr>)))))"

text \<open>\<open>handlePairCode\<close>: \<open>None\<close> is the answer 403.\<close>

definition handlePairCode :: "auth_world \<Rightarrow> request \<Rightarrow> store \<Rightarrow> (auth_error + string \<times> int) option \<times> store" where
  "handlePairCode w r s =
    (if \<not> isLoopback r then (None, s)
     else
       (let (c, s) = CurrentCode w (aw_now w) s in
        (Some (case c of Inl err \<Rightarrow> Inl err | Inr code \<Rightarrow> Inr (code, 30 - aw_now w mod 30)), s)))"

definition handleListDevices :: "auth_world \<Rightarrow> request \<Rightarrow> store \<Rightarrow> (auth_error + paired_device list) option" where
  "handleListDevices w r s = (if \<not> isLoopback r then None else Some (ListDevices w s))"

definition handleRevokeDevice :: "auth_world \<Rightarrow> request \<Rightarrow> string \<Rightarrow> store \<Rightarrow> auth_error option option \<times> store" where
  "handleRevokeDevice w r i s =
    (if \<not> isLoopback r then (None, s) else (let (e, s) = Revoke w i s in (Some e, s)))"

section \<open>Origins of web pages\<close>

definition name_char :: "char \<Rightarrow> bool" where
  "name_char c \<longleftrightarrow> letter c \<or> digit c \<or> c = CHR ''-'' \<or> c = CHR ''.''"

definition port_suffix :: "string \<Rightarrow> bool" where
  "port_suffix p \<longleftrightarrow> p = [] \<or> (\<exists>ds. p = CHR '':'' # ds \<and> list_all digit ds)"

lemma name_char_not:
  "name_char c \<Longrightarrow> c \<noteq> CHR '':'' \<and> c \<noteq> CHR ''/'' \<and> c \<noteq> CHR ''?'' \<and> c \<noteq> CHR ''#'' \<and> c \<noteq> CHR ''%'' \<and>
     c \<noteq> CHR ''['' \<and> c \<noteq> CHR '']'' \<and> \<not> control c \<and> url_host_char c"
  by (auto simp: name_char_def letter_def digit_def digit_val_def control_def url_host_char_def Let_def split: if_splits)

lemma digit_name: "digit c \<Longrightarrow> name_char c"
  by (simp add: name_char_def)

lemma before_none: "c \<notin> set s \<Longrightarrow> before c s = s"
  unfolding before_def by (auto simp: takeWhile_eq_all_conv)

lemma cut_last_none: "c \<notin> set s \<Longrightarrow> cut_last c s = None"
  by (cases "cut_last c s") (auto simp: cut_last_Some)

text \<open>What \<open>url.Parse\<close> and \<open>hostnameOf\<close> make of the host and port of a page.\<close>

lemma page_host:
  assumes "list_all name_char name" "name \<noteq> []" "port_suffix port"
  shows "parse_host (name @ port) = Some (name @ port)" "hostnameOf (name @ port) = name"
    "\<forall>c \<in> set (name @ port). c \<noteq> CHR ''/'' \<and> c \<noteq> CHR ''?'' \<and> c \<noteq> CHR ''#'' \<and> c \<noteq> CHR ''%'' \<and> \<not> control c"
proof -
  have n: "\<And>c. c \<in> set name \<Longrightarrow> name_char c" using assms(1) by (simp add: list_all_iff)
  have colon: "CHR '':'' \<notin> set name" "CHR ''['' \<notin> set name" "CHR '']'' \<notin> set name" using n name_char_not by blast+
  have first: "\<not> HasPrefix (name @ port) ''[''" "hd (name @ port) \<noteq> CHR ''[''"
    using assms(2) colon by (cases name; auto simp: HasPrefix_def)+
  have pc: "c = CHR '':'' \<or> name_char c" if "c \<in> set port" for c
    using that assms(3) by (auto simp: port_suffix_def list_all_iff digit_name)
  show "\<forall>c \<in> set (name @ port). c \<noteq> CHR ''/'' \<and> c \<noteq> CHR ''?'' \<and> c \<noteq> CHR ''#'' \<and> c \<noteq> CHR ''%'' \<and> \<not> control c"
  proof
    fix c assume "c \<in> set (name @ port)"
    then have "c = CHR '':'' \<or> name_char c" using n pc by auto
    then show "c \<noteq> CHR ''/'' \<and> c \<noteq> CHR ''?'' \<and> c \<noteq> CHR ''#'' \<and> c \<noteq> CHR ''%'' \<and> \<not> control c"
      using name_char_not [of c] by (elim disjE) (simp_all add: control_def)
  qed
  have "url_host_char (CHR '':'')" by (simp add: url_host_char_def)
  then have host: "list_all url_host_char (name @ port)"
    unfolding list_all_iff using n pc name_char_not by (metis Un_iff set_append)
  show "parse_host (name @ port) = Some (name @ port)"
  proof (cases port)
    case Nil
    then show ?thesis using host first colon by (simp add: parse_host_def cut_last_none)
  next
    case (Cons c ds)
    then have p: "port = CHR '':'' # ds" "list_all digit ds" using assms(3) by (auto simp: port_suffix_def)
    then have "CHR '':'' \<notin> set ds" using digit_name name_char_not unfolding list_all_iff by metis
    then have "cut_last (CHR '':'') (name @ port) = Some (name, ds)" by (simp add: cut_last_Some p)
    then show ?thesis using host first p by (simp add: parse_host_def)
  qed
  show "hostnameOf (name @ port) = name"
  proof (cases port)
    case Nil
    have "dropWhile (\<lambda>c. c = CHR ''['' \<or> c = CHR '']'') name = name"
      "dropWhile (\<lambda>c. c = CHR ''['' \<or> c = CHR '']'') (rev name) = rev name"
      unfolding dropWhile_eq_self_iff using colon by (metis hd_in_set, metis hd_in_set set_rev)
    then show ?thesis using Nil first colon
      by (simp add: hostnameOf_def SplitHostPort_def cut_last_none trim_brackets_def)
  next
    case (Cons c ds)
    then have p: "port = CHR '':'' # ds" "list_all digit ds" using assms(3) by (auto simp: port_suffix_def)
    then have d: "CHR '':'' \<notin> set ds" "CHR ''['' \<notin> set ds" "CHR '']'' \<notin> set ds"
      using digit_name name_char_not unfolding list_all_iff by metis+
    have "cut_last (CHR '':'') (name @ port) = Some (name, ds)" using d by (simp add: cut_last_Some p)
    then show ?thesis using first colon d by (simp add: hostnameOf_def SplitHostPort_def p)
  qed
qed

lemma ParseURL_page:
  assumes "list_all name_char name" "name \<noteq> []" "port_suffix port" "scheme = ''http'' \<or> scheme = ''https''"
  shows "ParseURL (scheme @ ''://'' @ name @ port) = Some (scheme, name @ port)"
proof -
  note h = page_host [OF assms(1-3)]
  define hp where "hp = name @ port"
  have f: "CHR ''/'' \<notin> set hp" "CHR ''?'' \<notin> set hp" "CHR ''#'' \<notin> set hp" "CHR ''%'' \<notin> set hp" "\<not> list_ex control hp"
    using h(3) by (auto simp: hp_def list_ex_iff)
  have b: "before (CHR ''#'') (scheme @ ''://'' @ hp) = scheme @ ''://'' @ hp"
    "before (CHR ''?'') (''//'' @ hp) = ''//'' @ hp" "before (CHR ''/'') hp = hp"
    using f assms(4) by (auto intro!: before_none)
  have "scheme_loop (scheme @ ''://'' @ hp) [] (scheme @ ''://'' @ hp) = Some (scheme, ''//'' @ hp)"
    using assms(4) by (auto simp: letter_def Let_def digit_def digit_val_def)
  moreover have "\<not> list_ex control (scheme @ ''://'' @ hp)" "CHR ''%'' \<notin> set (scheme @ ''://'' @ hp)"
    using f assms(4) by (auto simp: control_def)
  moreover have "ToLower scheme = scheme" using assms(4) by (auto simp: ToLower_def lower_char_def)
  moreover have "HasPrefix (''//'' @ hp) ''/''" "HasPrefix (''//'' @ hp) ''//''" by (simp_all add: HasPrefix_def)
  ultimately have "ParseURL (scheme @ ''://'' @ hp) = map_option (\<lambda>h. (scheme, h)) (parse_host hp)"
    using b assms(4) by (auto simp: ParseURL_def Let_def)
  then show ?thesis using h(1) by (simp add: hp_def)
qed

text \<open>
  The origin guard, for pages served over HTTP. A request of a page is accepted exactly when the
  origin's host is the very host the request names, or this machine, or the origin is configured.
\<close>
theorem page_accepted_iff:
  assumes "list_all name_char name" "name \<noteq> []" "port_suffix port" "scheme = ''http'' \<or> scheme = ''https''"
    and "rq_Origin r = scheme @ ''://'' @ name @ port"
  shows "checkOrigin v r \<longleftrightarrow>
    EqualFold (name @ port) (rq_Host r) \<or> isLoopbackHost name \<or> (\<exists>a \<in> set (configuredOrigins v). EqualFold a (rq_Origin r))"
proof -
  have "ToLower (scheme @ ''://'' @ name @ port) \<noteq> ToLower ''null''"
    using assms(4) by (auto simp: ToLower_def lower_char_def)
  moreover have "ToLower scheme \<notin> set nativeOriginSchemes"
    using assms(4) by (auto simp: ToLower_def lower_char_def nativeOriginSchemes_def)
  ultimately show ?thesis
    using assms ParseURL_page [OF assms(1-4)] page_host [OF assms(1-3)]
    by (auto simp: checkOrigin_def EqualFold_def list_ex_iff Let_def)
qed

definition page_request :: "string \<Rightarrow> string \<Rightarrow> request" where
  "page_request origin host = \<lparr>rq_Origin = origin, rq_Authorization = [], rq_Protocol = [], rq_QueryToken = [],
     rq_Host = host, rq_RemoteAddr = ''127.0.0.1:50000''\<rparr>"

definition bare_environment :: environment where
  "bare_environment = \<lparr>ev_ApiKey = [], ev_AllowedOrigins = []\<rparr>"

lemma evil_name: "list_all name_char ''evil.com''" "''evil.com'' \<noteq> []" "port_suffix []" "\<not> isLoopbackHost ''evil.com''"
  by (simp_all add: name_char_def letter_def port_suffix_def isLoopbackHost_def TrimSuffix_def HasSuffix_def HasPrefix_def
      ToLower_def lower_char_def ip_defs)

theorem page_accepted_iff_witness:
  "\<not> checkOrigin bare_environment (page_request ''https://evil.com'' ''127.0.0.1:8080'')"
proof -
  have "rq_Origin (page_request ''https://evil.com'' ''127.0.0.1:8080'') = ''https'' @ ''://'' @ ''evil.com'' @ []"
    by (simp add: page_request_def)
  from page_accepted_iff [OF evil_name(1-3) _ this, of bare_environment] show ?thesis
    by (simp add: evil_name(4) configuredOrigins_def bare_environment_def page_request_def EqualFold_def ToLower_def lower_char_def)
qed

lemma page_request_loopback: "isLoopback (page_request origin host)"
proof -
  have "SplitHostPort (JoinHostPort ''127.0.0.1'' ''50000'') = Some (''127.0.0.1'', ''50000'')"
    by (rule Split_Join) simp_all
  then have "clientIP (page_request origin host) = ''127.0.0.1''"
    by (simp add: clientIP_def page_request_def JoinHostPort_def)
  then show ?thesis by (simp add: isLoopback_def ParseIP_v4_loopback)
qed

text \<open>
  The guard does not stop DNS rebinding. Without a static key, a page served from any host whose
  name was rebound to this machine is let through with no credential at all, since its requests name
  that same host.
\<close>
theorem rebound_page_is_trusted:
  assumes "list_all name_char name" "name \<noteq> []" "port_suffix port" "ev_ApiKey v = []"
    and "rq_Origin r = ''http://'' @ name @ port" "rq_Host r = name @ port" "isLoopback r"
  shows "fst (checkAuth w v r a) = Allowed"
proof -
  have "ParseURL (rq_Origin r) = Some (''http'', name @ port)"
    using ParseURL_page [OF assms(1-3), of "''http''"] assms(5) by simp
  moreover have "\<not> EqualFold (rq_Origin r) ''null''"
    using assms(5) by (simp add: EqualFold_def ToLower_def lower_char_def)
  ultimately have "checkOrigin v r" using assms(2,6) by (simp add: checkOrigin_def EqualFold_def Let_def)
  then show ?thesis using assms(4,7) by (simp add: checkAuth_def Let_def case_prod_unfold split: option.split)
qed

theorem rebound_page_is_trusted_witness:
  "fst (checkAuth demo_auth_world bare_environment (page_request ''http://evil.com'' ''evil.com'') None) = Allowed"
  by (rule rebound_page_is_trusted [OF evil_name(1-3)]) (simp_all add: bare_environment_def page_request_loopback,
      simp_all add: page_request_def)

section \<open>Histories of the pairing server\<close>

datatype pair_request =
    ReqPair int auth_world environment request "(string \<times> string) option"
  | ReqCode auth_world request
  | ReqRevoke auth_world request string
  | ReqCheck auth_world environment request

fun serve :: "fpu \<Rightarrow> pair_request \<Rightarrow> pair_server \<Rightarrow> pair_server" where
  "serve u (ReqPair now w v r body) s = snd (handlePair u now w v r body s)"
| "serve u (ReqCode w r) s = s\<lparr>ps_store := snd (handlePairCode w r (ps_store s))\<rparr>"
| "serve u (ReqRevoke w r i) s = s\<lparr>ps_store := snd (handleRevokeDevice w r i (ps_store s))\<rparr>"
| "serve u (ReqCheck w v r) s = s\<lparr>ps_store := the (snd (checkAuth w v r (Some (ps_store s))))\<rparr>"

text \<open>The tokens handed out, each with the seed and the code it was redeemed with, and the time.\<close>

fun issued :: "fpu \<Rightarrow> pair_request list \<Rightarrow> pair_server \<Rightarrow> (string \<times> string \<times> string \<times> int) list" where
  "issued u [] s = []"
| "issued u (e # es) s =
    (case e of
       ReqPair now w v r (Some (code, label)) \<Rightarrow>
         (case handlePair u now w v r (Some (code, label)) s of
            (Paired token dev, s') \<Rightarrow> [(token, the (au_seed (ps_store s')), code, aw_now w)]
          | _ \<Rightarrow> [])
     | _ \<Rightarrow> []) @ issued u es (serve u e s)"

definition credentials :: "store \<Rightarrow> (string \<times> string) set" where
  "credentials s = (\<lambda>r. (dr_id r, dr_token_hash r)) ` set (au_devices s)"

lemma credentials_hash: "hash_of i s = Some h \<Longrightarrow> (i, h) \<in> credentials s"
  by (auto simp: hash_of_def credentials_def find_Some_iff image_iff)

lemma credentials_touch:
  "(\<And>r. dr_id (f r) = dr_id r \<and> dr_token_hash (f r) = dr_token_hash r) \<Longrightarrow>
     credentials (s\<lparr>au_devices := map f (au_devices s)\<rparr>) = credentials s"
  by (cases s) (simp add: credentials_def image_image)

lemma credentials_VerifyToken [simp]: "credentials (snd (VerifyToken w token s)) = credentials s"
proof -
  have "credentials (s\<lparr>au_devices := map (\<lambda>r. if dr_id r = i then r\<lparr>dr_last_seen := t\<rparr> else r) (au_devices s)\<rparr>) = credentials s" for i t
    by (rule credentials_touch) simp
  then show ?thesis by (simp add: VerifyToken_def split: option.split prod.split)
qed

lemma credentials_same: "au_devices s' = au_devices s \<Longrightarrow> credentials s' = credentials s"
  by (simp add: credentials_def)

lemma credentials_Revoke: "credentials (snd (Revoke w i s)) \<subseteq> credentials s"
  by (auto simp: Revoke_def credentials_def)

lemma credentials_check: "credentials (the (snd (checkAuth w v r (Some s)))) = credentials s"
  by (simp add: checkAuth_def Let_def case_prod_unfold)

lemma credentials_code: "credentials (snd (handlePairCode w r s)) = credentials s"
  using ensureSeed_devices [of w s]
  by (simp add: handlePairCode_def CurrentCode_def Let_def case_prod_unfold credentials_def)

text \<open>Where a credential of the store comes from.\<close>

definition backed :: "(string \<times> string \<times> string \<times> int) list \<Rightarrow> string \<times> string \<Rightarrow> bool" where
  "backed outs c \<longleftrightarrow> (\<exists>secret seed code t.
     (fst c @ CHR ''.'' # secret, seed, code, t) \<in> set outs \<and> snd c = hashSecret secret \<and> verifyCodeAt seed code t)"

lemma Pair_device_result:
  assumes "Pair_device w label s = (Inr (token, dev), s')"
  obtains secret where "token = aw_uuid w @ CHR ''.'' # secret" "au_seed s' = au_seed s"
    "credentials s' = insert (aw_uuid w, hashSecret secret) (credentials s)"
  using assms by (auto simp: Pair_device_def Let_def credentials_def split: option.splits if_splits)

lemma Pair_device_fails: "Pair_device w label s = (Inl e, s') \<Longrightarrow> s' = s"
  by (auto simp: Pair_device_def Let_def split: option.splits if_splits)

lemma VerifyCode_good: "VerifyCode w code t s = (True, s') \<Longrightarrow> \<exists>seed. au_seed s' = Some seed \<and> verifyCodeAt seed code t"
  by (auto simp: VerifyCode_def ensureSeed_def Let_def split: if_splits option.splits)

lemma refused_store:
  assumes "\<not> (checkOrigin v r \<and> fst (pair_allow u (clientIP r) now (ps_throttle s)))"
  shows "ps_store (snd (handlePair u now w v r body s)) = ps_store s"
proof (cases "pair_allow u (clientIP r) now (ps_throttle s)")
  case (Pair ok t)
  then show ?thesis using assms by (cases "checkOrigin v r") (simp_all add: handlePair_def)
qed

lemma serve_pair:
  "c \<in> credentials (ps_store (snd (handlePair u now w v r body s))) \<Longrightarrow>
     c \<in> credentials (ps_store s) \<or> backed (issued u [ReqPair now w v r body] s) c"
proof (cases "checkOrigin v r \<and> fst (pair_allow u (clientIP r) now (ps_throttle s))")
  case False
  then show "c \<in> credentials (ps_store (snd (handlePair u now w v r body s))) \<Longrightarrow> ?thesis"
    by (simp add: refused_store)
next
  case True
  assume c: "c \<in> credentials (ps_store (snd (handlePair u now w v r body s)))"
  show ?thesis
  proof (cases body)
    case None
    then show ?thesis using True c by (simp add: handlePair_def Let_def case_prod_unfold)
  next
    case (Some b)
    obtain code label where b: "b = (code, label)" by (cases b)
    obtain good st where v: "VerifyCode w code (aw_now w) (ps_store s) = (good, st)" by fastforce
    have same: "credentials st = credentials (ps_store s)"
      using auth_step_devices(1) [of w code "aw_now w" "ps_store s"] v by (intro credentials_same) simp
    obtain res st' where p: "Pair_device w label st = (res, st')" by fastforce
    show ?thesis
    proof (cases "good \<and> (\<exists>x. res = Inr x)")
      case False
      then have "ps_store (snd (handlePair u now w v r body s)) = st"
        using True Some b v p Pair_device_fails [of w label st] by (auto simp: handlePair_def Let_def case_prod_unfold split: sum.split)
      then show ?thesis using c same by simp
    next
      case good: True
      then obtain token dev where res: "res = Inr (token, dev)" by auto
      obtain seed where seed: "au_seed st = Some seed" "verifyCodeAt seed code (aw_now w)" using VerifyCode_good v good by metis
      have h: "handlePair u now w v r body s =
          (Paired token dev, \<lparr>ps_store = st', ps_throttle = pair_refund u (clientIP r) (snd (pair_allow u (clientIP r) now (ps_throttle s)))\<rparr>)"
        using True Some b v p res good by (simp add: handlePair_def Let_def case_prod_unfold)
      obtain secret where sec: "token = aw_uuid w @ CHR ''.'' # secret" "au_seed st' = au_seed st"
        "credentials st' = insert (aw_uuid w, hashSecret secret) (credentials st)"
        using Pair_device_result p res by metis
      have "issued u [ReqPair now w v r body] s = [(token, seed, code, aw_now w)]"
        using h Some b sec(2) seed(1) by simp
      then have "backed (issued u [ReqPair now w v r body] s) (aw_uuid w, hashSecret secret)"
        using seed(2) by (auto simp: backed_def sec(1))
      then show ?thesis using c h sec(3) same by auto
    qed
  qed
qed

lemma serve_credentials:
  "c \<in> credentials (ps_store (serve u e s)) \<Longrightarrow> c \<in> credentials (ps_store s) \<or> backed (issued u [e] s) c"
proof (cases e)
  case (ReqPair now w v r body)
  then show "c \<in> credentials (ps_store (serve u e s)) \<Longrightarrow> ?thesis" using serve_pair by simp
next
  case (ReqRevoke w r i)
  then show "c \<in> credentials (ps_store (serve u e s)) \<Longrightarrow> ?thesis"
    using credentials_Revoke [of w i "ps_store s"]
    by (cases "isLoopback r"; cases "Revoke w i (ps_store s)") (auto simp: handleRevokeDevice_def)
qed (simp_all add: credentials_code credentials_check)

lemma backed_mono: "backed outs c \<Longrightarrow> set outs \<subseteq> set outs' \<Longrightarrow> backed outs' c"
  unfolding backed_def by blast

lemma run_credentials:
  "c \<in> credentials (ps_store (fold (serve u) es s)) \<Longrightarrow> c \<in> credentials (ps_store s) \<or> backed (issued u es s) c"
proof (induction es arbitrary: s)
  case (Cons e es)
  then have "c \<in> credentials (ps_store (serve u e s)) \<or> backed (issued u es (serve u e s)) c" by simp
  moreover have "set (issued u [e] s) \<subseteq> set (issued u (e # es) s)" "set (issued u es (serve u e s)) \<subseteq> set (issued u (e # es) s)"
    by simp_all
  ultimately show ?case using serve_credentials backed_mono by blast
qed simp

text \<open>
  C3: Access from another machine comes from a redeemed code. Whatever requests the server has handled
  since it was installed, a request from elsewhere that is let through, and does not carry the static
  key, presents a token with the identity and the hash of one that was handed out for a pairing code
  that was valid at that moment.
\<close>
theorem remote_access_needs_redeemed_code:
  assumes "s = fold (serve u) es \<lparr>ps_store = empty_store, ps_throttle = newPairThrottle\<rparr>"
    and "fst (checkAuth w v r (Some (ps_store s))) = Allowed" "\<not> isLoopback r"
    and "ev_ApiKey v = [] \<or> bearerOrQueryToken r \<noteq> ev_ApiKey v"
  shows "\<exists>i secret secret' seed code t.
    cut_on (CHR ''.'') (bearerOrQueryToken r) = Some (i, secret) \<and> hashSecret secret = hashSecret secret' \<and>
    (i @ CHR ''.'' # secret', seed, code, t) \<in> set (issued u es \<lparr>ps_store = empty_store, ps_throttle = newPairThrottle\<rparr>) \<and>
    verifyCodeAt seed code t"
proof -
  have ok: "fst (VerifyToken w (bearerOrQueryToken r) (ps_store s))"
    using assms(2-4) by (auto simp: checkAuth_def Let_def case_prod_unfold split: if_splits)
  then obtain i secret where cut: "cut_on (CHR ''.'') (bearerOrQueryToken r) = Some (i, secret)"
    by (auto simp: VerifyToken_def split: option.splits)
  then have "hash_of i (ps_store s) = Some (hashSecret secret)" using ok VerifyToken_iff by metis
  then have "(i, hashSecret secret) \<in> credentials (ps_store s)" by (rule credentials_hash)
  then have "backed (issued u es \<lparr>ps_store = empty_store, ps_throttle = newPairThrottle\<rparr>) (i, hashSecret secret)"
    unfolding assms(1) using run_credentials by (fastforce simp: credentials_def empty_store_def)
  then show ?thesis using cut by (auto simp: backed_def)
qed

text \<open>A history that hands out a token: a device at \<open>10.0.0.7\<close> redeems the code the window shows.\<close>

definition remote_request :: "string \<Rightarrow> request" where
  "remote_request token = \<lparr>rq_Origin = [], rq_Authorization = ''Bearer '' @ token, rq_Protocol = [], rq_QueryToken = [],
     rq_Host = [], rq_RemoteAddr = ''10.0.0.7:50000''\<rparr>"

lemma remote_request_simps:
  "\<not> isLoopback (remote_request token)" "checkOrigin v (remote_request token)"
  "bearerOrQueryToken (remote_request token) = TrimSpace token" "clientIP (remote_request token) = ''10.0.0.7''"
proof -
  have "SplitHostPort (JoinHostPort ''10.0.0.7'' ''50000'') = Some (''10.0.0.7'', ''50000'')"
    by (rule Split_Join) simp_all
  then show c: "clientIP (remote_request token) = ''10.0.0.7''"
    by (simp add: clientIP_def remote_request_def JoinHostPort_def)
  show "\<not> isLoopback (remote_request token)" by (simp add: isLoopback_def c ip_defs)
  show "checkOrigin v (remote_request token)" by (simp add: checkOrigin_def remote_request_def)
  show "bearerOrQueryToken (remote_request token) = TrimSpace token"
    by (simp add: bearerOrQueryToken_def remote_request_def HasPrefix_def TrimPrefix_def)
qed

lemma token_allowed:
  assumes "checkOrigin v r" "fst (VerifyToken w (bearerOrQueryToken r) s)"
  shows "fst (checkAuth w v r (Some s)) = Allowed"
proof -
  have "bearerOrQueryToken r \<noteq> []" using assms(2) by (auto simp: VerifyToken_def)
  with assms show ?thesis by (simp add: checkAuth_def case_prod_unfold Let_def)
qed

theorem remote_access_needs_redeemed_code_witness:
  "\<exists>redeemed code token seed t. (token, seed, code, t) \<in> set (issued exact_fpu
       [ReqPair 0 demo_auth_world bare_environment (remote_request []) (Some (redeemed, ''phone''))]
       \<lparr>ps_store = empty_store, ps_throttle = newPairThrottle\<rparr>) \<and> verifyCodeAt seed code t"
proof -
  let ?w = demo_auth_world let ?seed = "EncodeBase32 (demo_bytes 20)"
  let ?s0 = "\<lparr>ps_store = empty_store, ps_throttle = newPairThrottle\<rparr>"
  let ?secret = "encode 6 base64_url_alphabet (demo_bytes 32)"
  let ?token = "''dev.'' @ ?secret"
  have w: "aw_random ?w n = Some (demo_bytes n)" "aw_read_ok ?w" "aw_write_ok ?w" "aw_uuid ?w = ''dev''" "aw_now ?w = 100" for n
    by (simp_all only: demo_auth_world_def auth_world.simps)
  obtain code where c: "codeAt ?seed 100 = Some code"
    unfolding codeAt_def ToUpper_base32 DecodeBase32_Encode option.map by blast
  have v: "verifyCodeAt ?seed code 100" by (rule verifyCodeAt_window [OF c]) simp_all
  let ?st = "\<lparr>au_seed = Some ?seed, au_devices = []\<rparr>"
  have vc: "VerifyCode ?w code 100 empty_store = (True, ?st)"
    using v by (simp only: VerifyCode_def ensureSeed_def w empty_store_def store.simps option.case Let_def if_True
        not_True_eq_False if_False sum.case prod.case store.update_convs)
  obtain dev row where pd: "Pair_device ?w ''phone'' ?st =
      (Inr (?token, dev), \<lparr>au_seed = Some ?seed, au_devices = [row]\<rparr>)" "hash_of ''dev'' \<lparr>au_seed = Some ?seed, au_devices = [row]\<rparr> = Some (hashSecret ?secret)"
    by (simp add: Pair_device_def w Let_def hash_of_def)
  have allow: "fst (pair_allow exact_fpu ''10.0.0.7'' 0 newPairThrottle)"
    by (subst pair_allow_exact) (simp_all add: pair_ok_def newPairThrottle_def pair_avail_def)
  let ?r = "ReqPair 0 ?w bare_environment (remote_request []) (Some (code, ''phone''))"
  have store: "ps_store (serve exact_fpu ?r ?s0) = \<lparr>au_seed = Some ?seed, au_devices = [row]\<rparr>"
    using allow by (simp add: handlePair_def remote_request_simps w vc pd(1) case_prod_unfold Let_def)
  have hd: "TrimSpace ?token = ?token"
  proof -
    have "set ?secret \<subseteq> set base64_url_alphabet" by (rule encode_alphabet) (simp add: base64_url_alphabet_def)
    moreover have "\<forall>x \<in> set base64_url_alphabet. \<not> is_space x" by (simp add: base64_url_alphabet_def is_space_def)
    moreover have "?secret \<noteq> []" by (rule encode_nonempty) simp
    ultimately have "\<not> is_space (last ?secret)" by (meson last_in_set subsetD)
    then have "dropWhile is_space (rev ?token) = rev ?token"
      using \<open>?secret \<noteq> []\<close> unfolding dropWhile_eq_self_iff by (simp add: hd_rev)
    then show ?thesis by (simp add: TrimSpace_def is_space_def [of "CHR ''d''"])
  qed
  have cut: "cut_on (CHR ''.'') ?token = Some (''dev'', ?secret)" by (simp add: cut_on_Some)
  have "?secret \<noteq> []" by (rule encode_nonempty) simp
  then have "fst (VerifyToken ?w ?token (ps_store (serve exact_fpu ?r ?s0)))"
    unfolding VerifyToken_iff [OF cut] store using pd(2) w(2) by simp
  then have allowed: "fst (checkAuth ?w bare_environment (remote_request ?token) (Some (ps_store (serve exact_fpu ?r ?s0)))) = Allowed"
    by (intro token_allowed remote_request_simps(2)) (simp only: remote_request_simps(3) hd)
  have s: "serve exact_fpu ?r ?s0 = fold (serve exact_fpu) [?r] ?s0" by (simp only: fold_simps)
  have key: "ev_ApiKey bare_environment = [] \<or> bearerOrQueryToken (remote_request ?token) \<noteq> ev_ApiKey bare_environment"
    by (simp add: bare_environment_def)
  show ?thesis using remote_access_needs_redeemed_code [OF s allowed remote_request_simps(1) key] by blast
qed

end
