(* ===== verification/Server_Dispatch.thy ===== *)
theory Server_Dispatch
  imports Messages Server_Auth Engine_System
begin

text \<open>
  The dispatcher of \<open>internal/server/dispatch.go\<close>: one WebSocket message, decoded and validated, becomes
  at most one engine operation and at most one reply to the client that sent it; the slow commands
  become background jobs that reply later. With it the action counters of \<open>metrics.go\<close>, the pairing
  actions of \<open>pair.go\<close> and the REST handlers of \<open>handlers.go\<close>.

  A message is its type and the JSON tree of its data. An error is passed on as the engine's error
  value where Go sends its text. What the machine around the server supplies (the two scanners of
  \<open>internal/discovery\<close>, the diagnostics, the clock) is the record \<open>server_world\<close>.
\<close>

section \<open>Actions\<close>

datatype ws_action =
    ActionSetLocation | ActionClearLocation | ActionPlayRoute | ActionPlayOsrmRoute | ActionPlaySequence
  | ActionPlayCustomGpx | ActionStopRoute | ActionPauseRoute | ActionResumeRoute | ActionAddFavorite
  | ActionRemoveFavorite | ActionRenameFavorite | ActionSaveSettings | ActionHeartbeat | ActionRealLocation
  | ActionGetStatus | ActionDebugLog | ActionPatrolUpdate | ActionRelance | ActionGetDeviceInfo | ActionGetLogs
  | ActionClearHistory | ActionSwitchDriver | ActionGetDiagnostics | ActionGetNetworkDevices | ActionScanMdns
  | ActionProbeRsdPorts | ActionPairDevice | ActionRestartServices | ActionRestartTunnel | ActionRestartMdns
  | ActionGetPairCode | ActionListPairedDevices | ActionRevokePairedDevice

definition action_names :: "(string \<times> ws_action) list" where
  "action_names =
    [(''SET_LOCATION'', ActionSetLocation), (''CLEAR_LOCATION'', ActionClearLocation), (''PLAY_ROUTE'', ActionPlayRoute),
     (''PLAY_OSRM_ROUTE'', ActionPlayOsrmRoute), (''PLAY_SEQUENCE'', ActionPlaySequence), (''PLAY_CUSTOM_GPX'', ActionPlayCustomGpx),
     (''STOP_ROUTE'', ActionStopRoute), (''PAUSE_ROUTE'', ActionPauseRoute), (''RESUME_ROUTE'', ActionResumeRoute),
     (''ADD_FAVORITE'', ActionAddFavorite), (''REMOVE_FAVORITE'', ActionRemoveFavorite), (''RENAME_FAVORITE'', ActionRenameFavorite),
     (''SAVE_SETTINGS'', ActionSaveSettings), (''HEARTBEAT'', ActionHeartbeat), (''REAL_LOCATION'', ActionRealLocation),
     (''GET_STATUS'', ActionGetStatus), (''DEBUG_LOG'', ActionDebugLog), (''PATROL_UPDATE'', ActionPatrolUpdate),
     (''RELANCE'', ActionRelance), (''GET_DEVICE_INFO'', ActionGetDeviceInfo), (''GET_LOGS'', ActionGetLogs),
     (''CLEAR_HISTORY'', ActionClearHistory), (''SWITCH_DRIVER'', ActionSwitchDriver), (''GET_DIAGNOSTICS'', ActionGetDiagnostics),
     (''GET_NETWORK_DEVICES'', ActionGetNetworkDevices), (''SCAN_MDNS'', ActionScanMdns), (''PROBE_RSD_PORTS'', ActionProbeRsdPorts),
     (''PAIR_DEVICE'', ActionPairDevice), (''RESTART_SERVICES'', ActionRestartServices), (''RESTART_TUNNEL'', ActionRestartTunnel),
     (''RESTART_MDNS'', ActionRestartMdns), (''GET_PAIR_CODE'', ActionGetPairCode), (''LIST_PAIRED_DEVICES'', ActionListPairedDevices),
     (''REVOKE_PAIRED_DEVICE'', ActionRevokePairedDevice)]"

text \<open>The types the switch of \<open>dispatch\<close> knows; \<open>ADD_HISTORY\<close> and \<open>SEQUENCE_SYNC\<close> have a constant but no case.\<close>

definition action_of :: "string \<Rightarrow> ws_action option" where
  "action_of name = map_of action_names name"

section \<open>Replies\<close>

datatype wire_error =
    WEngine engine_error | WDriver driver_error | WAuth auth_error | WJson | WNet string | WText string

record device_info_payload =
  dip_UDID :: string
  dip_Name :: string
  dip_ProductType :: string
  dip_ProductVersion :: string
  dip_SerialNumber :: string
  dip_WifiAddress :: string
  dip_TunnelAddress :: string
  dip_Error :: "wire_error option"

record network_device_payload =
  ndp_UDID :: string
  ndp_Address :: string
  ndp_Port :: int

record network_devices_payload =
  nds_Devices :: "network_device_payload list"
  nds_Error :: "wire_error option"

record mdns_device =
  md_Service :: string
  md_Instance :: string
  md_Hostname :: string
  md_IPv4 :: "string list"
  md_IPv6 :: "string list"
  md_Port :: int

record mdns_devices_payload =
  mds_Devices :: "mdns_device list"
  mds_Error :: "wire_error option"

record rsd_ports_payload =
  rp_Host :: string
  rp_OpenPorts :: "int list"
  rp_Error :: "wire_error option"

record pair_result_payload =
  pr_OK :: bool
  pr_Error :: "wire_error option"

record pair_code_payload =
  pc_Code :: string
  pc_SecondsRemaining :: int
  pc_Error :: "wire_error option"

record paired_devices_payload =
  pds_Devices :: "paired_device list"
  pds_Error :: "wire_error option"

record restart_step_payload =
  rst_Name :: string
  rst_OK :: bool
  rst_Error :: "wire_error option"

record restart_services_payload =
  rss_OK :: bool
  rss_Steps :: "restart_step_payload list"
  rss_Error :: "wire_error option"

record restart_result_payload =
  rr_OK :: bool
  rr_Error :: "wire_error option"

datatype reply =
    EventStatus status
  | EventPong int
  | EventLogs "log_entry list"
  | EventDeviceInfo device_info_payload
  | EventNetworkDevices network_devices_payload
  | EventMdnsDevices mdns_devices_payload
  | EventRsdPorts rsd_ports_payload
  | EventPairResult pair_result_payload
  | EventPairCode pair_code_payload
  | EventPairedDevices paired_devices_payload
  | EventDiagnostics "wire_error + string"
  | EventRestartServicesResult restart_services_payload
  | EventRestartTunnelResult restart_result_payload
  | EventRestartMdnsResult restart_result_payload

definition no_device_info :: device_info_payload where
  "no_device_info = \<lparr>dip_UDID = [], dip_Name = [], dip_ProductType = [], dip_ProductVersion = [], dip_SerialNumber = [],
     dip_WifiAddress = [], dip_TunnelAddress = [], dip_Error = None\<rparr>"

section \<open>The server\<close>

datatype job =
    SwitchJob string string string string
  | ServicesJob
  | TunnelJob
  | MdnsJob

record 'd server =
  sv_engine :: "'d engine"
  sv_auth :: "store option"
  sv_actions :: "string \<Rightarrow> string \<Rightarrow> 64 word"
  sv_jobs :: "(nat \<times> job) list"

record 'd server_world =
  sw_world :: "'d world"
  sw_auth :: auth_world
  sw_unix :: int
  sw_env :: environment
  sw_scan :: "string + mdns_device list"
  sw_probe :: "string \<Rightarrow> int list"
  sw_diagnostics :: "string + string"

text \<open>What handling a message gives: the replies, whether \<open>err\<close> is set, and the server.\<close>

type_synonym 'd handled = "reply list \<times> bool \<times> 'd server"

definition incrementActionMetric :: "string \<Rightarrow> string \<Rightarrow> 'd server \<Rightarrow> 'd server" where
  "incrementActionMetric action result s =
    s\<lparr>sv_actions := (sv_actions s)(action := (sv_actions s action)(result := sv_actions s action result + 1))\<rparr>"

definition trackAction :: "string \<Rightarrow> bool \<Rightarrow> 'd server \<Rightarrow> 'd server" where
  "trackAction action err s = incrementActionMetric action (if err then ''error'' else ''success'') s"

section \<open>Decode, validate, call\<close>

definition dispatchUnmarshal ::
  "'p decoder \<Rightarrow> 'p \<Rightarrow> ('p \<Rightarrow> vresult) \<Rightarrow> json option \<Rightarrow> ('p \<Rightarrow> 'd engine \<Rightarrow> bool \<times> 'd engine) \<Rightarrow> 'd engine \<Rightarrow> bool \<times> 'd engine" where
  "dispatchUnmarshal dec zero valid doc fn e =
    (let (p, bad) = Unmarshal dec zero doc
     in if bad then (True, e) else if valid p \<noteq> None then (True, e) else fn p e)"

definition failed :: "'x option \<times> 'd engine \<Rightarrow> bool \<times> 'd engine" where
  "failed r = (fst r \<noteq> None, snd r)"

definition fine :: "'d engine \<Rightarrow> bool \<times> 'd engine" where
  "fine e = (False, e)"

definition no_check :: "'p \<Rightarrow> vresult" where
  "no_check p = None"

definition on_engine :: "('d engine \<Rightarrow> bool \<times> 'd engine) \<Rightarrow> 'd server \<Rightarrow> 'd handled" where
  "on_engine f s = (let (err, e) = f (sv_engine s) in ([], err, s\<lparr>sv_engine := e\<rparr>))"

definition dispatchDebugLog :: "'d world \<Rightarrow> debug_log_payload \<Rightarrow> 'd engine \<Rightarrow> bool \<times> 'd engine" where
  "dispatchDebugLog w p e =
    fine (LogEvent w (if dlp_level p = [] then ''info'' else dlp_level p)
      (if dlp_source p = [] then ''ios-client'' else dlp_source p)
      (dlp_category p) (dlp_action p) (map (\<lambda>(k, v). (k, LvS v)) (dlp_fields p)) e)"

section \<open>Queries of the device and the network\<close>

definition dispatchGetDeviceInfo :: "'d server_world \<Rightarrow> 'd server \<Rightarrow> 'd handled" where
  "dispatchGetDeviceInfo w s =
    (let (r, e) = GetDeviceInfo (sw_world w) (sv_engine s); s = s\<lparr>sv_engine := e\<rparr> in
     case r of
       Inl err \<Rightarrow> ([EventDeviceInfo (no_device_info\<lparr>dip_Error := Some (WEngine err)\<rparr>)], True, s)
     | Inr d \<Rightarrow>
         ([EventDeviceInfo \<lparr>dip_UDID = dd_UDID d, dip_Name = dd_Name d, dip_ProductType = dd_ProductType d,
             dip_ProductVersion = dd_ProductVersion d, dip_SerialNumber = dd_SerialNumber d,
             dip_WifiAddress = dd_WifiAddress d, dip_TunnelAddress = dd_TunnelAddress d, dip_Error = None\<rparr>], False, s))"

definition dispatchGetNetworkDevices :: "'d server_world \<Rightarrow> 'd server \<Rightarrow> 'd handled" where
  "dispatchGetNetworkDevices w s =
    (let (r, e) = ListNetworkDevices (sw_world w) (sv_engine s); s = s\<lparr>sv_engine := e\<rparr> in
     case r of
       Inl err \<Rightarrow> ([EventNetworkDevices \<lparr>nds_Devices = [], nds_Error = Some (WEngine err)\<rparr>], True, s)
     | Inr ds \<Rightarrow>
         ([EventNetworkDevices
             \<lparr>nds_Devices = map (\<lambda>d. \<lparr>ndp_UDID = nd_UDID d, ndp_Address = nd_Address d, ndp_Port = nd_Port d\<rparr>) ds,
              nds_Error = None\<rparr>], False, s))"

definition dispatchScanMdns :: "'d server_world \<Rightarrow> 'd server \<Rightarrow> 'd handled" where
  "dispatchScanMdns w s =
    (case sw_scan w of
       Inl err \<Rightarrow> ([EventMdnsDevices \<lparr>mds_Devices = [], mds_Error = Some (WNet err)\<rparr>], True, s)
     | Inr ds \<Rightarrow> ([EventMdnsDevices \<lparr>mds_Devices = ds, mds_Error = None\<rparr>], False, s))"

definition dispatchProbeRsdPorts :: "'d server_world \<Rightarrow> json option \<Rightarrow> 'd server \<Rightarrow> 'd handled" where
  "dispatchProbeRsdPorts w doc s =
    (let (host, bad) = Unmarshal dec_probe_rsd_ports [] doc
     in if bad \<or> host = []
        then ([EventRsdPorts \<lparr>rp_Host = [], rp_OpenPorts = [], rp_Error = Some (WText ''host manquant ou invalide'')\<rparr>], False, s)
        else ([EventRsdPorts \<lparr>rp_Host = host, rp_OpenPorts = sw_probe w host, rp_Error = None\<rparr>], False, s))"

definition dispatchPairDevice :: "'d server_world \<Rightarrow> 'd server \<Rightarrow> 'd handled" where
  "dispatchPairDevice w s =
    (let (r, e) = PairDevice (sw_world w) (sv_engine s); s = s\<lparr>sv_engine := e\<rparr> in
     case r of
       Some err \<Rightarrow> ([EventPairResult \<lparr>pr_OK = False, pr_Error = Some (WEngine err)\<rparr>], True, s)
     | None \<Rightarrow> ([EventPairResult \<lparr>pr_OK = True, pr_Error = None\<rparr>], False, s))"

definition dispatchGetDiagnostics :: "'d server_world \<Rightarrow> 'd server \<Rightarrow> 'd handled" where
  "dispatchGetDiagnostics w s =
    (case sw_diagnostics w of
       Inl err \<Rightarrow> ([EventDiagnostics (Inl (WNet err))], True, s)
     | Inr d \<Rightarrow> ([EventDiagnostics (Inr d)], False, s))"

section \<open>Pairing management\<close>

text \<open>The refusal, if any. \<open>loopback\<close> was recorded when the connection was accepted.\<close>

definition guardPairWS :: "bool \<Rightarrow> 'd server \<Rightarrow> wire_error option" where
  "guardPairWS loopback s =
    (if sv_auth s = None then Some (WText ''remote access not configured'')
     else if \<not> loopback then Some (WText ''forbidden'') else None)"

definition dispatchGetPairCode :: "'d server_world \<Rightarrow> bool \<Rightarrow> 'd server \<Rightarrow> 'd handled" where
  "dispatchGetPairCode w loopback s =
    (case guardPairWS loopback s of
       Some err \<Rightarrow> ([EventPairCode \<lparr>pc_Code = [], pc_SecondsRemaining = 0, pc_Error = Some err\<rparr>], False, s)
     | None \<Rightarrow>
         (let (r, a) = CurrentCode (sw_auth w) (sw_unix w) (the (sv_auth s)); s = s\<lparr>sv_auth := Some a\<rparr> in
          case r of
            Inl err \<Rightarrow> ([EventPairCode \<lparr>pc_Code = [], pc_SecondsRemaining = 0, pc_Error = Some (WAuth err)\<rparr>], True, s)
          | Inr code \<Rightarrow> ([EventPairCode \<lparr>pc_Code = code, pc_SecondsRemaining = 30 - sw_unix w mod 30, pc_Error = None\<rparr>], False, s)))"

definition pairedDevicesPayload :: "auth_world \<Rightarrow> store \<Rightarrow> paired_devices_payload" where
  "pairedDevicesPayload w a =
    (case ListDevices w a of
       Inl err \<Rightarrow> \<lparr>pds_Devices = [], pds_Error = Some (WAuth err)\<rparr>
     | Inr ds \<Rightarrow> \<lparr>pds_Devices = ds, pds_Error = None\<rparr>)"

definition dispatchListPairedDevices :: "'d server_world \<Rightarrow> bool \<Rightarrow> 'd server \<Rightarrow> 'd handled" where
  "dispatchListPairedDevices w loopback s =
    (case guardPairWS loopback s of
       Some err \<Rightarrow> ([EventPairedDevices \<lparr>pds_Devices = [], pds_Error = Some err\<rparr>], False, s)
     | None \<Rightarrow> ([EventPairedDevices (pairedDevicesPayload (sw_auth w) (the (sv_auth s)))], False, s))"

definition dispatchRevokePairedDevice :: "'d server_world \<Rightarrow> bool \<Rightarrow> json option \<Rightarrow> 'd server \<Rightarrow> 'd handled" where
  "dispatchRevokePairedDevice w loopback doc s =
    (case guardPairWS loopback s of
       Some err \<Rightarrow> ([EventPairedDevices \<lparr>pds_Devices = [], pds_Error = Some err\<rparr>], False, s)
     | None \<Rightarrow>
         (let (i, bad) = Unmarshal dec_revoke_paired_device [] doc in
          if bad then ([EventPairedDevices \<lparr>pds_Devices = [], pds_Error = Some WJson\<rparr>], True, s)
          else
            (let (err, a) = Revoke (sw_auth w) i (the (sv_auth s)); s = s\<lparr>sv_auth := Some a\<rparr> in
             if err \<noteq> None \<and> err \<noteq> Some ErrInvalidToken
             then ([EventPairedDevices \<lparr>pds_Devices = [], pds_Error = map_option WAuth err\<rparr>], True, s)
             else ([EventPairedDevices (pairedDevicesPayload (sw_auth w) a)], False, s))))"


section \<open>Background commands\<close>

definition start_job :: "nat \<Rightarrow> job \<Rightarrow> 'd server \<Rightarrow> 'd handled" where
  "start_job c j s = ([], False, s\<lparr>sv_jobs := sv_jobs s @ [(c, j)]\<rparr>)"

text \<open>A payload that does not decode is counted here, since the common counter leaves this action out.\<close>

definition dispatchSwitchDriver :: "nat \<Rightarrow> json option \<Rightarrow> 'd server \<Rightarrow> 'd handled" where
  "dispatchSwitchDriver c doc s =
    (let (p, bad) = Unmarshal dec_switch_driver zero_switch_driver doc
     in if bad then ([], False, trackAction ''SWITCH_DRIVER'' True s)
        else start_job c (SwitchJob (sd_DriverID p) (sd_Transport p) (sd_WifiAddress p) (sd_TargetUdid p)) s)"

definition restart_step :: "maintenance_step \<Rightarrow> restart_step_payload" where
  "restart_step m = \<lparr>rst_Name = ms_Name m, rst_OK = (ms_Error m = None), rst_Error = map_option WEngine (ms_Error m)\<rparr>"

fun run_job :: "'d world \<Rightarrow> job \<Rightarrow> 'd engine \<Rightarrow> reply list \<times> bool \<times> 'd engine" where
  "run_job w (SwitchJob driverID transport wifi udid) e =
    (let (err, e) = SwitchDriver w driverID transport wifi udid e in ([], err \<noteq> None, e))"
| "run_job w ServicesJob e =
    (let ((steps, err), e) = RestartServices w e
     in ([EventRestartServicesResult \<lparr>rss_OK = (err = None), rss_Steps = map restart_step steps, rss_Error = map_option WEngine err\<rparr>],
         err \<noteq> None, e))"
| "run_job w TunnelJob e =
    (let (err, e) = RestartTunnel w e
     in ([EventRestartTunnelResult \<lparr>rr_OK = (err = None), rr_Error = map_option WEngine err\<rparr>], err \<noteq> None, e))"
| "run_job w MdnsJob e =
    (let (err, e) = RestartMdns w e
     in ([EventRestartMdnsResult \<lparr>rr_OK = (err = None), rr_Error = map_option WDriver err\<rparr>], err \<noteq> None, e))"

fun job_action :: "job \<Rightarrow> string" where
  "job_action (SwitchJob driverID transport wifi udid) = ''SWITCH_DRIVER''"
| "job_action ServicesJob = ''RESTART_SERVICES''"
| "job_action TunnelJob = ''RESTART_TUNNEL''"
| "job_action MdnsJob = ''RESTART_MDNS''"

definition finish_job :: "'d world \<Rightarrow> nat \<times> job \<Rightarrow> 'd server \<Rightarrow> reply list \<times> 'd server" where
  "finish_job w cj s =
    (let (rs, err, e) = run_job w (snd cj) (sv_engine s)
     in (rs, trackAction (job_action (snd cj)) err (s\<lparr>sv_engine := e, sv_jobs := remove1 cj (sv_jobs s)\<rparr>)))"

section \<open>The routing table\<close>

fun handle :: "'d server_world \<Rightarrow> nat \<Rightarrow> bool \<Rightarrow> ws_action \<Rightarrow> json option \<Rightarrow> 'd server \<Rightarrow> 'd handled" where
  "handle w c lo ActionSetLocation doc s =
    on_engine (dispatchUnmarshal (dec_set_location (w_fpu (sw_world w))) zero_set_location Validate_SetLocation doc
      (\<lambda>p e. failed (SetLocation (sw_world w) (slp_lat p) (slp_lon p) (slp_name p) e))) s"
| "handle w c lo ActionClearLocation doc s = on_engine (\<lambda>e. failed (ClearLocation (sw_world w) e)) s"
| "handle w c lo ActionGetStatus doc s = ([EventStatus (Status (sv_engine s))], False, s)"
| "handle w c lo ActionRealLocation doc s =
    on_engine (dispatchUnmarshal (dec_real_location (w_fpu (sw_world w))) zero_real_location Validate_RealLocation doc
      (\<lambda>p e. fine (ReportRealLocation (sw_world w) (rlp_latitude p) (rlp_longitude p) e))) s"
| "handle w c lo ActionHeartbeat doc s =
    (let p = fst (Unmarshal (dec_heartbeat (w_fpu (sw_world w))) zero_heartbeat doc);
         (pong, e) = Heartbeat (sw_world w) p (sv_engine s)
     in ([EventPong pong], False, s\<lparr>sv_engine := e\<rparr>))"
| "handle w c lo ActionPlayRoute doc s =
    on_engine (dispatchUnmarshal (dec_play_route (w_fpu (sw_world w))) zero_play_route Validate_PlayRoute doc
      (\<lambda>p e. failed (PlayRoute (sw_world w) (prp_endLat p) (prp_endLon p) (prp_speed p) (prp_profile p) e))) s"
| "handle w c lo ActionPlayOsrmRoute doc s =
    on_engine (dispatchUnmarshal (dec_play_route (w_fpu (sw_world w))) zero_play_route Validate_PlayRoute doc
      (\<lambda>p e. failed (PlayRoute (sw_world w) (prp_endLat p) (prp_endLon p) (prp_speed p) (prp_profile p) e))) s"
| "handle w c lo ActionPlaySequence doc s =
    on_engine (dispatchUnmarshal (dec_play_sequence (w_fpu (sw_world w))) zero_play_sequence Validate_PlaySequence doc
      (\<lambda>p e. failed (PlaySequence (sw_world w) (psp_legs p) (psp_looping p) e))) s"
| "handle w c lo ActionPlayCustomGpx doc s =
    on_engine (dispatchUnmarshal (dec_play_gpx (w_fpu (sw_world w))) zero_play_gpx Validate_PlayCustomGpx doc
      (\<lambda>p e. failed (PlayCustomGpx (sw_world w) (pgp_content p) (pgp_speed p) e))) s"
| "handle w c lo ActionPatrolUpdate doc s =
    on_engine (dispatchUnmarshal (dec_patrol_update (w_fpu (sw_world w))) zero_zone Validate_PatrolUpdate doc
      (\<lambda>z e. fine (PatrolUpdate (sw_world w) z e))) s"
| "handle w c lo ActionStopRoute doc s = on_engine (\<lambda>e. fine (StopRoute (sw_world w) e)) s"
| "handle w c lo ActionPauseRoute doc s = on_engine (\<lambda>e. fine (PauseRoute (sw_world w) e)) s"
| "handle w c lo ActionResumeRoute doc s = on_engine (\<lambda>e. fine (ResumeRoute (sw_world w) e)) s"
| "handle w c lo ActionAddFavorite doc s =
    on_engine (dispatchUnmarshal (dec_favorite (w_fpu (sw_world w))) zero_favorite Validate_Favorite doc
      (\<lambda>p e. fine (AddFavorite (sw_world w) (fp_lat p) (fp_lon p) (fp_name p) e))) s"
| "handle w c lo ActionRemoveFavorite doc s =
    on_engine (dispatchUnmarshal (dec_favorite (w_fpu (sw_world w))) zero_favorite Validate_Favorite doc
      (\<lambda>p e. fine (RemoveFavorite (sw_world w) (fp_lat p) (fp_lon p) e))) s"
| "handle w c lo ActionRenameFavorite doc s =
    on_engine (dispatchUnmarshal (dec_favorite (w_fpu (sw_world w))) zero_favorite Validate_Favorite doc
      (\<lambda>p e. fine (RenameFavorite (sw_world w) (fp_lat p) (fp_lon p) (fp_newName p) e))) s"
| "handle w c lo ActionClearHistory doc s = on_engine (\<lambda>e. fine (ClearHistory (sw_world w) e)) s"
| "handle w c lo ActionSwitchDriver doc s = dispatchSwitchDriver c doc s"
| "handle w c lo ActionGetLogs doc s = ([EventLogs (GetLogs (sv_engine s))], False, s)"
| "handle w c lo ActionDebugLog doc s =
    on_engine (dispatchUnmarshal dec_debug_log zero_debug_log Validate_DebugLog doc (dispatchDebugLog (sw_world w))) s"
| "handle w c lo ActionSaveSettings doc s =
    on_engine (dispatchUnmarshal dec_save_settings zero_save_settings no_check doc
      (\<lambda>p e. fine (SaveSettings (sw_world w) p e))) s"
| "handle w c lo ActionRelance doc s = on_engine (\<lambda>e. failed (Relance (sw_world w) e)) s"
| "handle w c lo ActionGetDeviceInfo doc s = dispatchGetDeviceInfo w s"
| "handle w c lo ActionGetNetworkDevices doc s = dispatchGetNetworkDevices w s"
| "handle w c lo ActionScanMdns doc s = dispatchScanMdns w s"
| "handle w c lo ActionProbeRsdPorts doc s = dispatchProbeRsdPorts w doc s"
| "handle w c lo ActionPairDevice doc s = dispatchPairDevice w s"
| "handle w c lo ActionGetPairCode doc s = dispatchGetPairCode w lo s"
| "handle w c lo ActionListPairedDevices doc s = dispatchListPairedDevices w lo s"
| "handle w c lo ActionRevokePairedDevice doc s = dispatchRevokePairedDevice w lo doc s"
| "handle w c lo ActionGetDiagnostics doc s = dispatchGetDiagnostics w s"
| "handle w c lo ActionRestartServices doc s = start_job c ServicesJob s"
| "handle w c lo ActionRestartTunnel doc s = start_job c TunnelJob s"
| "handle w c lo ActionRestartMdns doc s = start_job c MdnsJob s"

text \<open>The switch, with its default case, and the deferred counter.\<close>

definition dispatch :: "'d server_world \<Rightarrow> nat \<Rightarrow> bool \<Rightarrow> string \<Rightarrow> json option \<Rightarrow> 'd server \<Rightarrow> reply list \<times> 'd server" where
  "dispatch w c loopback name doc s =
    (let (rs, err, s) =
        (case action_of name of Some a \<Rightarrow> handle w c loopback a doc s | None \<Rightarrow> ([], True, s))
     in (rs, if name \<noteq> ''SWITCH_DRIVER'' \<and> name \<noteq> ''RESTART_SERVICES'' then trackAction name err s else s))"

section \<open>REST\<close>

datatype rest_reply = Denied gate | BadRequest | OpError "engine_error option" | Health int | StatusReply status | LogsReply "log_entry list"

definition authorized :: "'d server_world \<Rightarrow> request \<Rightarrow> 'd server \<Rightarrow> gate \<times> 'd server" where
  "authorized w r s = (let (g, a) = checkAuth (sw_auth w) (sw_env w) r (sv_auth s) in (g, s\<lparr>sv_auth := a\<rparr>))"

definition handleHealth :: "fpu \<Rightarrow> int \<Rightarrow> int \<Rightarrow> rest_reply" where
  "handleHealth u now startedAt = Health (f64_to_int u (duration_seconds u (now - startedAt)))"

definition handleStatus :: "'d server_world \<Rightarrow> request \<Rightarrow> 'd server \<Rightarrow> rest_reply \<times> 'd server" where
  "handleStatus w r s =
    (let (g, s) = authorized w r s in if g \<noteq> Allowed then (Denied g, s) else (StatusReply (Status (sv_engine s)), s))"

definition handleSet :: "'d server_world \<Rightarrow> request \<Rightarrow> json option \<Rightarrow> 'd server \<Rightarrow> rest_reply \<times> 'd server" where
  "handleSet w r body s =
    (let (g, s) = authorized w r s in
     if g \<noteq> Allowed then (Denied g, s)
     else
       (let (p, bad) = Unmarshal (dec_set_location (w_fpu (sw_world w))) zero_set_location body in
        if bad then (BadRequest, s)
        else if Validate_SetLocation p \<noteq> None then (BadRequest, s)
        else (let (err, e) = SetLocation (sw_world w) (slp_lat p) (slp_lon p) (slp_name p) (sv_engine s)
              in (OpError err, s\<lparr>sv_engine := e\<rparr>))))"

definition handleClear :: "'d server_world \<Rightarrow> request \<Rightarrow> 'd server \<Rightarrow> rest_reply \<times> 'd server" where
  "handleClear w r s =
    (let (g, s) = authorized w r s in
     if g \<noteq> Allowed then (Denied g, s)
     else (let (err, e) = ClearLocation (sw_world w) (sv_engine s) in (OpError err, s\<lparr>sv_engine := e\<rparr>)))"

record log_query =
  lq_level :: string
  lq_source :: string
  lq_category :: string
  lq_action :: string
  lq_q :: string
  lq_limit :: int

definition parseLogLimit :: "string \<Rightarrow> int" where
  "parseLogLimit raw =
    (if raw = [] then 0
     else case Atoi raw of None \<Rightarrow> 0 | Some n \<Rightarrow> if n \<le> 0 then 0 else if 1000 < n then 1000 else n)"

text \<open>The text of an entry and the rendering of a field, which the log model leaves out, are parameters.\<close>

definition logEntryContains :: "(log_entry \<Rightarrow> string) \<Rightarrow> (log_value \<Rightarrow> string) \<Rightarrow> log_entry \<Rightarrow> string \<Rightarrow> bool" where
  "logEntryContains message render entry query =
    (let needle = ToLower query in
     list_ex (\<lambda>v. Contains (ToLower v) needle)
       [le_Level entry, le_Source entry, le_Category entry, le_Action entry, message entry] \<or>
     list_ex (\<lambda>(k, v). Contains (ToLower k) needle \<or> Contains (ToLower (render v)) needle) (le_Fields entry))"

definition log_matches :: "(log_entry \<Rightarrow> string) \<Rightarrow> (log_value \<Rightarrow> string) \<Rightarrow> log_query \<Rightarrow> log_entry \<Rightarrow> bool" where
  "log_matches message render q entry \<longleftrightarrow>
     (lq_level q = [] \<or> EqualFold (le_Level entry) (lq_level q)) \<and>
     (lq_source q = [] \<or> EqualFold (le_Source entry) (lq_source q)) \<and>
     (lq_category q = [] \<or> EqualFold (le_Category entry) (lq_category q)) \<and>
     (lq_action q = [] \<or> EqualFold (le_Action entry) (lq_action q)) \<and>
     (lq_q q = [] \<or> logEntryContains message render entry (lq_q q))"

definition filterLogs :: "(log_entry \<Rightarrow> string) \<Rightarrow> (log_value \<Rightarrow> string) \<Rightarrow> log_entry list \<Rightarrow> log_query \<Rightarrow> log_entry list" where
  "filterLogs message render logs q =
    (let out = filter (log_matches message render q) logs
     in if 0 < lq_limit q \<and> lq_limit q < int (length out) then drop (length out - nat (lq_limit q)) out else out)"

definition handleLogs ::
  "(log_entry \<Rightarrow> string) \<Rightarrow> (log_value \<Rightarrow> string) \<Rightarrow> 'd server_world \<Rightarrow> request \<Rightarrow> log_query \<Rightarrow> 'd server \<Rightarrow> rest_reply \<times> 'd server" where
  "handleLogs message render w r q s =
    (let (g, s) = authorized w r s in
     if g \<noteq> Allowed then (Denied g, s) else (LogsReply (filterLogs message render (GetLogs (sv_engine s)) q), s))"


section \<open>A server only ever runs its engine\<close>

lemma run_perform: "run e (perform w a e)"
  by (rule run_step) (rule run_refl)

lemmas run_ops =
  run_perform [where a = "ASetLocation la lo nm", simplified] run_perform [where a = AClearLocation, simplified]
  run_perform [where a = "AHeartbeat p", simplified] run_perform [where a = "AReportReal la lo", simplified]
  run_perform [where a = ARelance, simplified] run_perform [where a = AStopRoute, simplified]
  run_perform [where a = APauseRoute, simplified] run_perform [where a = AResumeRoute, simplified]
  run_perform [where a = "APlayRoute la lo sp pr", simplified] run_perform [where a = "APlaySequence legs l", simplified]
  run_perform [where a = "APlayGpx g sp", simplified] run_perform [where a = "APatrol z", simplified]
  run_perform [where a = "AAddFavorite la lo nm", simplified] run_perform [where a = "ARemoveFavorite la lo", simplified]
  run_perform [where a = "ARenameFavorite la lo nm", simplified] run_perform [where a = AClearHistory, simplified]
  run_perform [where a = "ASaveSettings q", simplified] run_perform [where a = "ASwitchDriver i t wa ud", simplified]
  run_perform [where a = ARestartServices, simplified] run_perform [where a = ARestartTunnel, simplified]
  run_perform [where a = ARestartMdns, simplified] run_perform [where a = APair, simplified]
  run_perform [where a = ADeviceInfo, simplified] run_perform [where a = AListNetwork, simplified]
  run_perform [where a = "ALog l s ca ac fs", simplified]
  for la lo nm p sp pr legs l g z q i t wa ud s ca ac fs

lemma run_unmarshal: "(\<And>p. run e (snd (fn p e))) \<Longrightarrow> run e (snd (dispatchUnmarshal dec zero valid doc fn e))"
  by (simp add: dispatchUnmarshal_def case_prod_unfold Let_def run_refl)

lemma run_on_engine: "run (sv_engine s) (snd (f (sv_engine s))) \<Longrightarrow> run (sv_engine s) (sv_engine (snd (snd (on_engine f s))))"
  by (simp add: on_engine_def case_prod_unfold Let_def)

lemma track_same [simp]: "sv_engine (trackAction a err s) = sv_engine s" "sv_auth (trackAction a err s) = sv_auth s"
  "sv_jobs (trackAction a err s) = sv_jobs s"
  by (simp_all add: trackAction_def incrementActionMetric_def)

lemma start_job_same [simp]: "sv_engine (snd (snd (start_job c j s))) = sv_engine s" "sv_auth (snd (snd (start_job c j s))) = sv_auth s"
  "sv_actions (snd (snd (start_job c j s))) = sv_actions s" "fst (start_job c j s) = []" "\<not> fst (snd (start_job c j s))"
  "sv_jobs (snd (snd (start_job c j s))) = sv_jobs s @ [(c, j)]"
  by (simp_all add: start_job_def)

lemma switch_same [simp]: "sv_engine (snd (snd (dispatchSwitchDriver c doc s))) = sv_engine s"
  by (simp add: dispatchSwitchDriver_def case_prod_unfold Let_def)

lemma pairing_same [simp]:
  "sv_engine (snd (snd (dispatchGetPairCode w lo s))) = sv_engine s"
  "sv_engine (snd (snd (dispatchListPairedDevices w lo s))) = sv_engine s"
  "sv_engine (snd (snd (dispatchRevokePairedDevice w lo doc s))) = sv_engine s"
  "sv_engine (snd (snd (dispatchScanMdns w s))) = sv_engine s"
  "sv_engine (snd (snd (dispatchProbeRsdPorts w doc s))) = sv_engine s"
  "sv_engine (snd (snd (dispatchGetDiagnostics w s))) = sv_engine s"
  by (simp_all add: dispatchGetPairCode_def dispatchListPairedDevices_def dispatchRevokePairedDevice_def dispatchScanMdns_def
      dispatchProbeRsdPorts_def dispatchGetDiagnostics_def case_prod_unfold Let_def split: option.split sum.split)

lemma run_queries:
  "run (sv_engine s) (sv_engine (snd (snd (dispatchGetDeviceInfo w s))))"
  "run (sv_engine s) (sv_engine (snd (snd (dispatchGetNetworkDevices w s))))"
  "run (sv_engine s) (sv_engine (snd (snd (dispatchPairDevice w s))))"
  using run_ops
  by (auto simp: dispatchGetDeviceInfo_def dispatchGetNetworkDevices_def dispatchPairDevice_def case_prod_unfold Let_def
      split: sum.split option.split)

lemma run_handle: "run (sv_engine s) (sv_engine (snd (snd (handle w c lo a doc s))))"
  by (cases a)
    (auto simp: run_refl run_queries failed_def fine_def dispatchDebugLog_def case_prod_unfold Let_def
      intro!: run_on_engine run_unmarshal intro: run_ops)

lemma run_dispatch: "run (sv_engine s) (sv_engine (snd (dispatch w c lo name doc s)))"
  by (simp add: dispatch_def case_prod_unfold Let_def run_handle run_refl split: option.split)

lemma run_finish_job: "run (sv_engine s) (sv_engine (snd (finish_job w cj s)))"
  using run_ops by (cases "snd cj") (auto simp: finish_job_def case_prod_unfold Let_def)

text \<open>What can happen to a server between two steps of its engine's own goroutines.\<close>

datatype server_event =
    Message nat bool string "json option"
  | Finish "nat \<times> job"
  | RestSet request "json option"
  | RestClear request
  | RestRead request

fun serve_event :: "'d server_world \<Rightarrow> server_event \<Rightarrow> 'd server \<Rightarrow> 'd server" where
  "serve_event w (Message c loopback name doc) s = snd (dispatch w c loopback name doc s)"
| "serve_event w (Finish cj) s = snd (finish_job (sw_world w) cj s)"
| "serve_event w (RestSet r body) s = snd (handleSet w r body s)"
| "serve_event w (RestClear r) s = snd (handleClear w r s)"
| "serve_event w (RestRead r) s = snd (handleStatus w r s)"

inductive server_run :: "'d server \<Rightarrow> 'd server \<Rightarrow> bool" where
  server_start: "server_run s s"
| server_event: "server_run s s' \<Longrightarrow> server_run s (serve_event w ev s')"
| server_engine: "server_run s s' \<Longrightarrow> server_run s (s'\<lparr>sv_engine := perform w a (sv_engine s')\<rparr>)"

lemma authorized_engine [simp]: "sv_engine (snd (authorized w r s)) = sv_engine s"
  by (simp add: authorized_def case_prod_unfold Let_def)

lemma run_serve_event: "run (sv_engine s) (sv_engine (serve_event w ev s))"
  using run_dispatch run_finish_job run_ops
  by (cases ev) (auto simp: handleSet_def handleClear_def handleStatus_def case_prod_unfold Let_def run_refl)



section \<open>The action counters\<close>

definition counted :: "string \<Rightarrow> 'd server \<Rightarrow> 64 word" where
  "counted name s = sv_actions s name ''success'' + sv_actions s name ''error''"

definition new_jobs :: "'d server \<Rightarrow> 'd server \<Rightarrow> (nat \<times> job) list" where
  "new_jobs s s' = drop (length (sv_jobs s)) (sv_jobs s')"

definition settle :: "'d world \<Rightarrow> (nat \<times> job) list \<Rightarrow> 'd server \<Rightarrow> 'd server" where
  "settle w js s = fold (\<lambda>cj s. snd (finish_job w cj s)) js s"

lemma counted_track [simp]: "counted name (trackAction a err s) = counted name s + (if name = a then 1 else 0)"
  by (simp add: counted_def trackAction_def incrementActionMetric_def)

lemma counted_engine [simp]: "counted name (s\<lparr>sv_engine := e\<rparr>) = counted name s" "counted name (s\<lparr>sv_engine := e, sv_jobs := js\<rparr>) = counted name s"
  "counted name (s\<lparr>sv_auth := a\<rparr>) = counted name s" "counted name (s\<lparr>sv_jobs := js\<rparr>) = counted name s"
  by (simp_all add: counted_def)

lemma counted_finish: "counted name (snd (finish_job w cj s)) = counted name s + (if name = job_action (snd cj) then 1 else 0)"
  by (simp add: finish_job_def case_prod_unfold Let_def)

lemma quiet_queries:
  "sv_jobs (snd (snd (dispatchGetDeviceInfo w s))) = sv_jobs s" "counted t (snd (snd (dispatchGetDeviceInfo w s))) = counted t s"
  "sv_jobs (snd (snd (dispatchGetNetworkDevices w s))) = sv_jobs s" "counted t (snd (snd (dispatchGetNetworkDevices w s))) = counted t s"
  "sv_jobs (snd (snd (dispatchPairDevice w s))) = sv_jobs s" "counted t (snd (snd (dispatchPairDevice w s))) = counted t s"
  by (simp_all add: dispatchGetDeviceInfo_def dispatchGetNetworkDevices_def dispatchPairDevice_def case_prod_unfold Let_def
      split: sum.split option.split)

lemma quiet_pairing:
  "sv_jobs (snd (snd (dispatchGetPairCode w lo s))) = sv_jobs s" "counted t (snd (snd (dispatchGetPairCode w lo s))) = counted t s"
  "sv_jobs (snd (snd (dispatchListPairedDevices w lo s))) = sv_jobs s" "counted t (snd (snd (dispatchListPairedDevices w lo s))) = counted t s"
  "sv_jobs (snd (snd (dispatchRevokePairedDevice w lo doc s))) = sv_jobs s" "counted t (snd (snd (dispatchRevokePairedDevice w lo doc s))) = counted t s"
  by (simp_all add: dispatchGetPairCode_def dispatchListPairedDevices_def dispatchRevokePairedDevice_def case_prod_unfold Let_def
      split: option.split sum.split)

lemma quiet_network:
  "sv_jobs (snd (snd (dispatchScanMdns w s))) = sv_jobs s" "counted t (snd (snd (dispatchScanMdns w s))) = counted t s"
  "sv_jobs (snd (snd (dispatchProbeRsdPorts w doc s))) = sv_jobs s" "counted t (snd (snd (dispatchProbeRsdPorts w doc s))) = counted t s"
  "sv_jobs (snd (snd (dispatchGetDiagnostics w s))) = sv_jobs s" "counted t (snd (snd (dispatchGetDiagnostics w s))) = counted t s"
  by (simp_all add: dispatchScanMdns_def dispatchProbeRsdPorts_def dispatchGetDiagnostics_def case_prod_unfold Let_def split: sum.split)

lemma quiet_engine:
  "sv_jobs (snd (snd (on_engine f s))) = sv_jobs s" "counted t (snd (snd (on_engine f s))) = counted t s"
  by (simp_all add: on_engine_def case_prod_unfold Let_def)

lemma counted_start [simp]: "counted t (snd (snd (start_job c j s))) = counted t s"
  by (simp add: counted_def)

definition job_of :: "nat \<Rightarrow> ws_action \<Rightarrow> json option \<Rightarrow> (nat \<times> job) list" where
  "job_of c a doc =
    (case a of
       ActionRestartServices \<Rightarrow> [(c, ServicesJob)]
     | ActionRestartTunnel \<Rightarrow> [(c, TunnelJob)]
     | ActionRestartMdns \<Rightarrow> [(c, MdnsJob)]
     | ActionSwitchDriver \<Rightarrow>
         (let (p, bad) = Unmarshal dec_switch_driver zero_switch_driver doc
          in if bad then [] else [(c, SwitchJob (sd_DriverID p) (sd_Transport p) (sd_WifiAddress p) (sd_TargetUdid p))])
     | _ \<Rightarrow> [])"

lemma handle_jobs: "sv_jobs (snd (snd (handle w c lo a doc s))) = sv_jobs s @ job_of c a doc"
  by (cases a)
    (simp_all add: job_of_def quiet_queries quiet_pairing quiet_network quiet_engine dispatchSwitchDriver_def case_prod_unfold Let_def)

lemma handle_counted:
  "counted t (snd (snd (handle w c lo a doc s))) =
     counted t s + (if a = ActionSwitchDriver \<and> job_of c a doc = [] \<and> t = ''SWITCH_DRIVER'' then 1 else 0)"
  by (cases a)
    (simp_all add: job_of_def quiet_queries quiet_pairing quiet_network quiet_engine dispatchSwitchDriver_def case_prod_unfold Let_def)

lemma action_job:
  "action_of name = Some a \<Longrightarrow> cj \<in> set (job_of c a doc) \<Longrightarrow> job_action (snd cj) = name"
  "action_of name = Some ActionSwitchDriver \<longleftrightarrow> name = ''SWITCH_DRIVER''"
  "action_of name = Some ActionRestartServices \<longleftrightarrow> name = ''RESTART_SERVICES''"
  "action_of name = Some ActionRestartTunnel \<longleftrightarrow> name = ''RESTART_TUNNEL''"
  "action_of name = Some ActionRestartMdns \<longleftrightarrow> name = ''RESTART_MDNS''"
  by (auto simp: action_of_def action_names_def job_of_def case_prod_unfold Let_def split: if_splits ws_action.splits)

text \<open>
  Every message is counted. Once the background job it started, if any, has finished, the counters
  of its type, success and error together, have grown by one, whether it was refused, failed,
  succeeded or is of an unknown type; except that a restart of the tunnel and a restart of mDNS are
  counted twice. No other counter moves.
\<close>
theorem message_counted:
  fixes w :: "'d server_world"
  defines "s' \<equiv> \<lambda>c lo name doc s. snd (dispatch w c lo name doc s)"
  shows "counted t (settle (sw_world w) (new_jobs s (s' c lo name doc s)) (s' c lo name doc s)) =
    counted t s + (if t \<noteq> name then 0 else if name \<in> {''RESTART_TUNNEL'', ''RESTART_MDNS''} then 2 else 1)"
proof (cases "action_of name")
  case None
  then have "name \<noteq> ''SWITCH_DRIVER''" "name \<noteq> ''RESTART_SERVICES''" "name \<noteq> ''RESTART_TUNNEL''" "name \<noteq> ''RESTART_MDNS''"
    by (auto simp: action_of_def action_names_def)
  then show ?thesis using None by (simp add: s'_def dispatch_def new_jobs_def settle_def)
next
  case (Some a)
  have jobs: "new_jobs s (s' c lo name doc s) = job_of c a doc"
    using Some by (simp add: s'_def dispatch_def new_jobs_def case_prod_unfold Let_def handle_jobs)
  have one: "job_of c a doc = [] \<or> (\<exists>j. job_of c a doc = [(c, j)] \<and> job_action j = name)"
    using action_job(1) [OF Some, of _ c doc] by (auto simp: job_of_def case_prod_unfold Let_def split: ws_action.split)
  have none: "job_of c a doc = [] \<longleftrightarrow> a \<notin> {ActionSwitchDriver, ActionRestartServices, ActionRestartTunnel, ActionRestartMdns} \<or>
      a = ActionSwitchDriver \<and> job_of c a doc = []"
    by (auto simp: job_of_def split: ws_action.split)
  show ?thesis
  proof (cases "job_of c a doc")
    case Nil
    then show ?thesis using Some none action_job(2-5) [of name] unfolding jobs
      by (auto simp: s'_def dispatch_def case_prod_unfold Let_def handle_counted settle_def)
  next
    case (Cons cj js)
    then obtain j where j: "job_of c a doc = [(c, j)]" "job_action j = name" using one by auto
    then have "a \<in> {ActionSwitchDriver, ActionRestartServices, ActionRestartTunnel, ActionRestartMdns}" using none by auto
    then show ?thesis using Some j action_job(2-5) [of name] unfolding jobs
      by (auto simp: s'_def dispatch_def case_prod_unfold Let_def handle_counted settle_def counted_finish)
  qed
qed

section \<open>Secrets\<close>

fun shows_secret :: "reply \<Rightarrow> bool" where
  "shows_secret (EventPairCode p) = (pc_Code p \<noteq> [])"
| "shows_secret (EventPairedDevices p) = (pds_Devices p \<noteq> [])"
| "shows_secret _ = False"

lemma guard_remote: "\<not> lo \<Longrightarrow> guardPairWS lo s \<noteq> None"
  by (simp add: guardPairWS_def)

lemma remote_handle:
  assumes "\<not> lo"
  shows "sv_auth (snd (snd (handle w c lo a doc s))) = sv_auth s \<and> (\<forall>r \<in> set (fst (handle w c lo a doc s)). \<not> shows_secret r)"
  using guard_remote [OF assms, of s]
  by (cases a)
    (auto simp: on_engine_def dispatchGetDeviceInfo_def dispatchGetNetworkDevices_def dispatchPairDevice_def dispatchScanMdns_def
      dispatchProbeRsdPorts_def dispatchGetDiagnostics_def dispatchGetPairCode_def dispatchListPairedDevices_def
      dispatchRevokePairedDevice_def dispatchSwitchDriver_def start_job_def trackAction_def incrementActionMetric_def
      case_prod_unfold Let_def split: sum.split option.split)

text \<open>
  C35: Pairing is managed from this machine only. Whatever message a connection that was not opened over
  loopback sends, no reply to it carries a pairing code or a paired device, and the credential store
  keeps its seed and its devices.
\<close>
theorem remote_client_reads_no_code:
  assumes "\<not> lo"
  shows "sv_auth (snd (dispatch w c lo name doc s)) = sv_auth s \<and> (\<forall>r \<in> set (fst (dispatch w c lo name doc s)). \<not> shows_secret r)"
proof (cases "action_of name")
  case None
  then show ?thesis by (simp add: dispatch_def)
next
  case (Some a)
  then show ?thesis using remote_handle [OF assms, of w c a doc s] by (simp add: dispatch_def case_prod_unfold Let_def)
qed

definition demo_server :: "latlon list server" where
  "demo_server = \<lparr>sv_engine = demo_engine, sv_auth = Some empty_store, sv_actions = (\<lambda>_ _. 0), sv_jobs = []\<rparr>"

definition demo_server_world :: "latlon list server_world" where
  "demo_server_world = \<lparr>sw_world = demo_world, sw_auth = demo_auth_world, sw_unix = 1000, sw_env = bare_environment,
     sw_scan = Inr [], sw_probe = (\<lambda>_. []), sw_diagnostics = Inl []\<rparr>"

theorem remote_client_reads_no_code_witness:
  "sv_auth (snd (dispatch demo_server_world 0 False ''GET_PAIR_CODE'' None demo_server)) = Some empty_store \<and>
   list_all (\<lambda>r. \<not> shows_secret r) (fst (dispatch demo_server_world 0 False ''GET_PAIR_CODE'' None demo_server))"
  using remote_client_reads_no_code [of False demo_server_world 0 "''GET_PAIR_CODE''" None demo_server]
  by (simp add: demo_server_def list_all_iff)


section \<open>REST and WebSocket agree\<close>

text \<open>
  The two ways to set a position are one. An authorized request to set a location leaves the engine
  as the message SET_LOCATION with the same data does, and reports success exactly when the message is
  counted as one; a request that is not authorized leaves the engine alone.
\<close>
theorem rest_set_is_message:
  fixes w :: "'d server_world"
  defines "ws \<equiv> \<lambda>s body. handle w 0 False ActionSetLocation body s"
  shows "if fst (checkAuth (sw_auth w) (sw_env w) r (sv_auth s)) = Allowed
    then sv_engine (snd (handleSet w r body s)) = sv_engine (snd (snd (ws s body))) \<and>
      (fst (handleSet w r body s) = OpError None \<longleftrightarrow> \<not> fst (snd (ws s body)))
    else sv_engine (snd (handleSet w r body s)) = sv_engine s \<and>
      fst (handleSet w r body s) = Denied (fst (checkAuth (sw_auth w) (sw_env w) r (sv_auth s)))"
  by (auto simp: ws_def handleSet_def authorized_def on_engine_def dispatchUnmarshal_def failed_def case_prod_unfold Let_def)

end
