(* ===== verification/Server_Hub.thy ===== *)
theory Server_Hub
  imports Rate_Limits "HOL-Library.Word"
begin

text \<open>
  The fan-out of \<open>internal/server/hub.go\<close>, the connection goroutines of \<open>websocket.go\<close> and the background
  replies of \<open>dispatch.go\<close>.

  A connection is a number. Its outbound channel is a list of at most sixteen messages that may be
  closed; a broadcast carries its rank, so that what a client receives can be compared with what was
  sent. A step is one case of a \<open>select\<close> or one send: the steps of the goroutines interleave freely.
  Sending on a closed channel panics. The panic of a handler is recovered by the HTTP server; the
  panic of a goroutine the dispatcher started ends the process.
\<close>

section \<open>State\<close>

datatype msg = Broadcast nat string | Reply string

record conn =
  cn_send :: "msg list"
  cn_closed :: bool
  cn_wire :: "msg list"
  cn_greeting :: bool
  cn_pump :: bool
  cn_reader :: bool

record hub =
  hb_clients :: "nat list"
  hb_conn :: "nat \<Rightarrow> conn"
  hb_next :: nat
  hb_connected :: int
  hb_bytesSent :: "64 word"
  hb_dropped :: "64 word"
  hb_totalBytesSent :: "64 word"
  hb_totalDropped :: "64 word"
  hb_count :: nat
  hb_pending :: "nat list"
  hb_closeTwice :: bool
  hb_crashed :: bool

definition sendQueue :: nat where "sendQueue = 16"

definition new_conn :: conn where
  "new_conn = \<lparr>cn_send = [], cn_closed = False, cn_wire = [], cn_greeting = True, cn_pump = False, cn_reader = False\<rparr>"

definition newHub :: hub where
  "newHub = \<lparr>hb_clients = [], hb_conn = (\<lambda>_. new_conn), hb_next = 0, hb_connected = 0, hb_bytesSent = 0, hb_dropped = 0,
     hb_totalBytesSent = 0, hb_totalDropped = 0, hb_count = 0, hb_pending = [], hb_closeTwice = False, hb_crashed = False\<rparr>"

definition upd_conn :: "nat \<Rightarrow> (conn \<Rightarrow> conn) \<Rightarrow> hub \<Rightarrow> hub" where
  "upd_conn c f h = h\<lparr>hb_conn := (hb_conn h)(c := f (hb_conn h c))\<rparr>"

text \<open>\<open>close(c.send)\<close>: closing twice would panic.\<close>

definition close_send :: "nat \<Rightarrow> hub \<Rightarrow> hub" where
  "close_send c h =
    (let h' = upd_conn c (\<lambda>k. k\<lparr>cn_closed := True\<rparr>) h
     in if cn_closed (hb_conn h c) then h'\<lparr>hb_closeTwice := True\<rparr> else h')"

section \<open>The loop of the hub\<close>

definition hub_register :: "nat \<Rightarrow> hub \<Rightarrow> hub" where
  "hub_register c h = h\<lparr>hb_clients := List.insert c (hb_clients h), hb_connected := hb_connected h + 1\<rparr>"

definition hub_unregister :: "nat \<Rightarrow> hub \<Rightarrow> hub" where
  "hub_unregister c h =
    (if c \<in> set (hb_clients h)
     then (close_send c (h\<lparr>hb_clients := remove1 c (hb_clients h)\<rparr>))\<lparr>hb_connected := hb_connected h - 1\<rparr>
     else h)"

definition deliver :: "msg \<Rightarrow> nat \<Rightarrow> nat \<Rightarrow> hub \<Rightarrow> hub" where
  "deliver m n c h =
    (if length (cn_send (hb_conn h c)) < sendQueue
     then (upd_conn c (\<lambda>k. k\<lparr>cn_send := cn_send k @ [m]\<rparr>) h)
            \<lparr>hb_bytesSent := hb_bytesSent h + of_nat n, hb_totalBytesSent := hb_totalBytesSent h + of_nat n\<rparr>
     else (close_send c (h\<lparr>hb_clients := remove1 c (hb_clients h)\<rparr>))
            \<lparr>hb_dropped := hb_dropped h + 1, hb_totalDropped := hb_totalDropped h + 1, hb_connected := hb_connected h - 1\<rparr>)"

text \<open>The iteration over the map visits every client once, in an order Go does not fix.\<close>

definition hub_broadcast :: "nat list \<Rightarrow> string \<Rightarrow> hub \<Rightarrow> hub" where
  "hub_broadcast order text h =
    (fold (deliver (Broadcast (hb_count h) text) (length text)) order h)\<lparr>hb_count := hb_count h + 1\<rparr>"

definition snapshotAndReset :: "hub \<Rightarrow> (64 word \<times> 64 word) \<times> hub" where
  "snapshotAndReset h = ((hb_bytesSent h, hb_dropped h), h\<lparr>hb_bytesSent := 0, hb_dropped := 0\<rparr>)"

definition totals :: "hub \<Rightarrow> 64 word \<times> 64 word" where
  "totals h = (hb_totalBytesSent h, hb_totalDropped h)"

definition clientCount :: "hub \<Rightarrow> int" where
  "clientCount h = hb_connected h"

section \<open>The goroutines of a connection\<close>

datatype sending = Sent hub | Blocks | Panics

text \<open>\<open>c.send <- m\<close>.\<close>

definition chan_send :: "nat \<Rightarrow> msg \<Rightarrow> hub \<Rightarrow> sending" where
  "chan_send c m h =
    (if cn_closed (hb_conn h c) then Panics
     else if sendQueue \<le> length (cn_send (hb_conn h c)) then Blocks
     else Sent (upd_conn c (\<lambda>k. k\<lparr>cn_send := cn_send k @ [m]\<rparr>) h))"

text \<open>One turn of \<open>writePump\<close> that takes from the channel; the argument tells whether the write succeeds.\<close>

definition writePump :: "bool \<Rightarrow> nat \<Rightarrow> hub \<Rightarrow> hub" where
  "writePump ok c h =
    (case cn_send (hb_conn h c) of
       m # ms \<Rightarrow> upd_conn c (\<lambda>k. k\<lparr>cn_send := ms, cn_wire := (if ok then cn_wire k @ [m] else cn_wire k), cn_pump := ok\<rparr>) h
     | [] \<Rightarrow> if cn_closed (hb_conn h c) then upd_conn c (\<lambda>k. k\<lparr>cn_pump := False\<rparr>) h else h)"

text \<open>The end of \<open>readPump\<close>, by an error, a rate excess or a recovered panic.\<close>

definition readPump_exit :: "nat \<Rightarrow> hub \<Rightarrow> hub" where
  "readPump_exit c h = hub_unregister c (upd_conn c (\<lambda>k. k\<lparr>cn_reader := False\<rparr>) h)"

text \<open>A reply of the reader: it waits on a full queue, and a panic ends the reader.\<close>

definition reader_reply :: "nat \<Rightarrow> string \<Rightarrow> hub \<Rightarrow> hub" where
  "reader_reply c text h =
    (case chan_send c (Reply text) h of Sent h' \<Rightarrow> h' | Blocks \<Rightarrow> h | Panics \<Rightarrow> readPump_exit c h)"

text \<open>
  \<open>RESTART_SERVICES\<close>, \<open>RESTART_TUNNEL\<close> and \<open>RESTART_MDNS\<close> reply from a goroutine of their own
  (\<open>dispatch.go\<close>); its panic is not recovered.
\<close>

definition background_start :: "nat \<Rightarrow> hub \<Rightarrow> hub" where
  "background_start c h = h\<lparr>hb_pending := c # hb_pending h\<rparr>"

definition background_reply :: "nat \<Rightarrow> string \<Rightarrow> hub \<Rightarrow> hub" where
  "background_reply c text h =
    (case chan_send c (Reply text) h of
       Sent h' \<Rightarrow> h'\<lparr>hb_pending := remove1 c (hb_pending h')\<rparr>
     | Blocks \<Rightarrow> h
     | Panics \<Rightarrow> h\<lparr>hb_crashed := True\<rparr>)"

text \<open>
  \<open>handleWS\<close>: the connection registers, then sends the current status, then starts its two pumps. A
  broadcast may come in between, and with it the end of the channel.
\<close>

definition handleWS_register :: "hub \<Rightarrow> hub" where
  "handleWS_register h =
    (let c = hb_next h in hub_register c (h\<lparr>hb_next := c + 1, hb_conn := (hb_conn h)(c := new_conn)\<rparr>))"

definition handleWS_greet :: "nat \<Rightarrow> string \<Rightarrow> hub \<Rightarrow> hub" where
  "handleWS_greet c status h =
    (case chan_send c (Reply status) h of
       Sent h' \<Rightarrow> upd_conn c (\<lambda>k. k\<lparr>cn_greeting := False, cn_pump := True, cn_reader := True\<rparr>) h'
     | Blocks \<Rightarrow> h
     | Panics \<Rightarrow> upd_conn c (\<lambda>k. k\<lparr>cn_greeting := False\<rparr>) h)"

section \<open>Telemetry\<close>

record telemetry =
  tl_Latency :: f64
  tl_PacketLoss :: f64
  tl_Uptime :: int
  tl_Throughput :: f64

definition telemetry_of ::
  "fpu \<Rightarrow> int \<Rightarrow> int \<Rightarrow> f64 \<Rightarrow> 64 word \<Rightarrow> 64 word \<Rightarrow> int \<Rightarrow> telemetry" where
  "telemetry_of u interval uptime latency bytes dropped count =
    (let present = word_of_int count + dropped
     in \<lparr>tl_Latency = latency,
         tl_PacketLoss = (if 0 < present
           then fmul u (fdiv u (rnd u (unat dropped)) (rnd u (unat present))) (Fin 100) else Fin 0),
         tl_Uptime = f64_to_int u (duration_seconds u uptime),
         tl_Throughput = fdiv u (fdiv u (rnd u (unat bytes)) (Fin 1024)) (duration_seconds u interval)\<rparr>)"

section \<open>Runs\<close>

datatype hub_action =
    Connect
  | Greet nat string
  | PublishAll "nat list" string
  | Pump bool nat
  | Answer nat string
  | Leave nat
  | StartBackground nat
  | EndBackground nat string

fun hub_enabled :: "hub_action \<Rightarrow> hub \<Rightarrow> bool" where
  "hub_enabled Connect h = True"
| "hub_enabled (Greet c status) h = (c < hb_next h \<and> cn_greeting (hb_conn h c))"
| "hub_enabled (PublishAll order text) h = (distinct order \<and> set order = set (hb_clients h))"
| "hub_enabled (Pump ok c) h = (c < hb_next h \<and> cn_pump (hb_conn h c))"
| "hub_enabled (Answer c text) h = (c < hb_next h \<and> cn_reader (hb_conn h c))"
| "hub_enabled (Leave c) h = (c < hb_next h \<and> cn_reader (hb_conn h c))"
| "hub_enabled (StartBackground c) h = (c < hb_next h \<and> cn_reader (hb_conn h c))"
| "hub_enabled (EndBackground c text) h = (c \<in> set (hb_pending h))"

fun hub_step :: "hub_action \<Rightarrow> hub \<Rightarrow> hub" where
  "hub_step Connect h = handleWS_register h"
| "hub_step (Greet c status) h = handleWS_greet c status h"
| "hub_step (PublishAll order text) h = hub_broadcast order text h"
| "hub_step (Pump ok c) h = writePump ok c h"
| "hub_step (Answer c text) h = reader_reply c text h"
| "hub_step (Leave c) h = readPump_exit c h"
| "hub_step (StartBackground c) h = background_start c h"
| "hub_step (EndBackground c text) h = background_reply c text h"

inductive hub_run :: "hub \<Rightarrow> hub_action list \<Rightarrow> hub \<Rightarrow> bool" for h0 where
  start: "hub_run h0 [] h0"
| step: "hub_run h0 as h \<Longrightarrow> \<not> hb_crashed h \<Longrightarrow> hub_enabled a h \<Longrightarrow> hub_run h0 (as @ [a]) (hub_step a h)"

section \<open>Invariants\<close>

definition hub_ok :: "hub \<Rightarrow> bool" where
  "hub_ok h \<longleftrightarrow>
     distinct (hb_clients h) \<and> hb_connected h = int (length (hb_clients h)) \<and> \<not> hb_closeTwice h \<and>
     (\<forall>c. c \<in> set (hb_clients h) \<longleftrightarrow> c < hb_next h \<and> \<not> cn_closed (hb_conn h c)) \<and>
     (\<forall>c. length (cn_send (hb_conn h c)) \<le> sendQueue) \<and>
     (\<forall>c \<in> set (hb_pending h). c < hb_next h) \<and>
     (\<forall>c. cn_pump (hb_conn h c) \<longrightarrow> \<not> cn_greeting (hb_conn h c))"

lemma upd_conn_simps [simp]:
  "hb_clients (upd_conn c f h) = hb_clients h" "hb_next (upd_conn c f h) = hb_next h" "hb_connected (upd_conn c f h) = hb_connected h"
  "hb_closeTwice (upd_conn c f h) = hb_closeTwice h" "hb_pending (upd_conn c f h) = hb_pending h" "hb_count (upd_conn c f h) = hb_count h"
  "hb_crashed (upd_conn c f h) = hb_crashed h" "hb_conn (upd_conn c f h) = (hb_conn h)(c := f (hb_conn h c))"
  by (simp_all add: upd_conn_def)

lemma close_send_simps [simp]:
  "hb_clients (close_send c h) = hb_clients h" "hb_next (close_send c h) = hb_next h" "hb_connected (close_send c h) = hb_connected h"
  "hb_pending (close_send c h) = hb_pending h" "hb_count (close_send c h) = hb_count h" "hb_crashed (close_send c h) = hb_crashed h"
  "hb_conn (close_send c h) = (hb_conn h)(c := (hb_conn h c)\<lparr>cn_closed := True\<rparr>)"
  "hb_closeTwice (close_send c h) = (hb_closeTwice h \<or> cn_closed (hb_conn h c))"
  by (simp_all add: close_send_def Let_def)

lemma deliver_simps [simp]:
  "hb_next (deliver m n c h) = hb_next h" "hb_pending (deliver m n c h) = hb_pending h" "hb_count (deliver m n c h) = hb_count h"
  "hb_crashed (deliver m n c h) = hb_crashed h"
  by (simp_all add: deliver_def)

lemma length_removed: "c \<in> set xs \<Longrightarrow> int (length (remove1 c xs)) = int (length xs) - 1"
  by (induction xs) auto

lemma deliver_ok: "hub_ok h \<Longrightarrow> c \<in> set (hb_clients h) \<Longrightarrow> hub_ok (deliver m n c h)"
  using length_removed [of c "hb_clients h"] by (auto simp: hub_ok_def deliver_def sendQueue_def simp del: One_nat_def)

lemma deliver_keeps: "d \<in> set (hb_clients h) \<Longrightarrow> d \<noteq> c \<Longrightarrow> d \<in> set (hb_clients (deliver m n c h))"
  by (simp add: deliver_def)

lemma fold_deliver_ok:
  "hub_ok h \<Longrightarrow> distinct order \<Longrightarrow> set order \<subseteq> set (hb_clients h) \<Longrightarrow> hub_ok (fold (deliver m n) order h)"
proof (induction order arbitrary: h)
  case (Cons c order)
  have "d \<in> set (hb_clients (deliver m n c h))" if "d \<in> set order" for d
    using that Cons.prems(2,3) by (intro deliver_keeps) auto
  then have "set order \<subseteq> set (hb_clients (deliver m n c h))" by blast
  moreover have "hub_ok (deliver m n c h)" using Cons.prems by (intro deliver_ok) simp_all
  ultimately show ?case using Cons.IH Cons.prems(2) by simp
qed simp

lemma unregister_ok: "hub_ok h \<Longrightarrow> hub_ok (hub_unregister c h)"
  using length_removed [of c "hb_clients h"] by (auto simp: hub_ok_def hub_unregister_def)

lemma readPump_exit_ok: "hub_ok h \<Longrightarrow> hub_ok (readPump_exit c h)"
  unfolding readPump_exit_def by (rule unregister_ok) (auto simp: hub_ok_def)

lemma chan_send_ok: "hub_ok h \<Longrightarrow> chan_send c m h = Sent h' \<Longrightarrow> hub_ok h'"
  by (auto simp: hub_ok_def chan_send_def sendQueue_def split: if_splits)

lemma hub_step_ok: "hub_ok h \<Longrightarrow> hub_enabled a h \<Longrightarrow> hub_ok (hub_step a h)"
proof (cases a)
  case Connect
  assume ok: "hub_ok h"
  then have "hb_next h \<notin> set (hb_clients h)" by (auto simp: hub_ok_def)
  then show ?thesis using ok Connect
    by (auto simp: hub_ok_def handleWS_register_def hub_register_def new_conn_def Let_def)
next
  case (Greet c status)
  assume ok: "hub_ok h"
  show ?thesis
  proof (cases "chan_send c (Reply status) h")
    case (Sent h')
    then show ?thesis using chan_send_ok [OF ok Sent] Greet by (auto simp: handleWS_greet_def hub_ok_def)
  next
    case Blocks
    then show ?thesis using ok Greet by (simp add: handleWS_greet_def)
  next
    case Panics
    then show ?thesis using ok Greet by (auto simp: handleWS_greet_def hub_ok_def)
  qed
next
  case (PublishAll order body)
  assume "hub_ok h" "hub_enabled a h"
  then have "hub_ok (fold (deliver (Broadcast (hb_count h) body) (length body)) order h)"
    using PublishAll by (intro fold_deliver_ok) simp_all
  then show ?thesis using PublishAll by (simp add: hub_broadcast_def hub_ok_def)
next
  case (Pump ok c)
  assume "hub_ok h" "hub_enabled a h"
  moreover from this have "\<not> cn_greeting (hb_conn h c)" using Pump by (auto simp: hub_ok_def)
  moreover have "length ms \<le> sendQueue" if "cn_send (hb_conn h c) = m # ms" for m ms
    using that \<open>hub_ok h\<close> unfolding hub_ok_def by (metis Suc_leD length_Cons)
  ultimately show ?thesis using Pump by (auto simp: writePump_def hub_ok_def split: list.split)
next
  case (Answer c body)
  assume ok: "hub_ok h"
  then show ?thesis using Answer readPump_exit_ok chan_send_ok by (auto simp: reader_reply_def split: sending.split)
next
  case (Leave c)
  assume "hub_ok h"
  then show ?thesis using Leave readPump_exit_ok by simp
next
  case (StartBackground c)
  assume "hub_ok h" "hub_enabled a h"
  then show ?thesis using StartBackground by (auto simp: background_start_def hub_ok_def)
next
  case (EndBackground c body)
  assume ok: "hub_ok h"
  show ?thesis
  proof (cases "chan_send c (Reply body) h")
    case (Sent h')
    then show ?thesis using chan_send_ok [OF ok Sent] EndBackground
      by (auto simp: background_reply_def hub_ok_def dest: notin_set_remove1)
  next
    case Blocks
    then show ?thesis using ok EndBackground by (simp add: background_reply_def)
  next
    case Panics
    then show ?thesis using ok EndBackground by (simp add: background_reply_def hub_ok_def)
  qed
qed

lemma hub_run_ok: "hub_run newHub as h \<Longrightarrow> hub_ok h"
  by (induction rule: hub_run.induct) (simp_all add: hub_step_ok, simp add: hub_ok_def newHub_def new_conn_def)

text \<open>
  C24: The books of the hub. However connections, broadcasts, replies and departures interleave, no
  channel is closed twice, the channels still open are exactly those of the registered clients, their
  number is the one the metrics report, and no queue exceeds its sixteen places.
\<close>
theorem hub_books:
  assumes "hub_run newHub as h"
  shows "\<not> hb_closeTwice h \<and> clientCount h = int (card (set (hb_clients h))) \<and>
    (\<forall>c. c \<in> set (hb_clients h) \<longleftrightarrow> c < hb_next h \<and> \<not> cn_closed (hb_conn h c)) \<and>
    (\<forall>c. length (cn_send (hb_conn h c)) \<le> 16)"
  using hub_run_ok [OF assms] by (auto simp: hub_ok_def clientCount_def distinct_card sendQueue_def)

definition demo_hub_run :: "hub_action list" where
  "demo_hub_run = [Connect, Greet 0 ''status'', PublishAll [0] ''event'']"

definition demo_hub :: hub where
  "demo_hub = hub_broadcast [0] ''event'' (handleWS_greet 0 ''status'' (handleWS_register newHub))"

lemma demo_conn: "hb_conn (handleWS_greet 0 ''status'' (handleWS_register newHub)) 0 =
    \<lparr>cn_send = [Reply ''status''], cn_closed = False, cn_wire = [], cn_greeting = False, cn_pump = True, cn_reader = True\<rparr>"
  "hb_clients (handleWS_greet 0 ''status'' (handleWS_register newHub)) = [0]"
  "hb_next (handleWS_greet 0 ''status'' (handleWS_register newHub)) = 1"
  "\<not> hb_crashed (handleWS_greet 0 ''status'' (handleWS_register newHub))"
  by (simp_all add: handleWS_greet_def handleWS_register_def hub_register_def newHub_def new_conn_def chan_send_def sendQueue_def Let_def)

lemma demo_hub_runs: "hub_run newHub demo_hub_run demo_hub"
proof -
  let ?h1 = "handleWS_register newHub" and ?h2 = "handleWS_greet 0 ''status'' (handleWS_register newHub)"
  have "hub_run newHub ([] @ [Connect]) (hub_step Connect newHub)"
    by (rule hub_run.step [OF hub_run.start]) (simp_all add: newHub_def)
  then have 1: "hub_run newHub [Connect] ?h1" by simp
  have "hub_run newHub ([Connect] @ [Greet 0 ''status'']) (hub_step (Greet 0 ''status'') ?h1)"
    by (rule hub_run.step [OF 1]) (simp_all add: handleWS_register_def hub_register_def newHub_def new_conn_def Let_def)
  then have 2: "hub_run newHub [Connect, Greet 0 ''status''] ?h2" by simp
  have "hub_run newHub ([Connect, Greet 0 ''status''] @ [PublishAll [0] ''event'']) (hub_step (PublishAll [0] ''event'') ?h2)"
    by (rule hub_run.step [OF 2]) (simp_all add: demo_conn)
  then show ?thesis by (simp add: demo_hub_run_def demo_hub_def)
qed

theorem hub_books_witness:
  "clientCount demo_hub = int (card (set (hb_clients demo_hub))) \<and> (0 \<in> set (hb_clients demo_hub) \<longleftrightarrow> 0 < hb_next demo_hub \<and> \<not> cn_closed (hb_conn demo_hub 0))"
  using hub_books [OF demo_hub_runs] by blast

section \<open>What a client receives\<close>

definition ranks :: "msg list \<Rightarrow> nat list" where
  "ranks ms = List.map_filter (\<lambda>m. case m of Broadcast n body \<Rightarrow> Some n | Reply body \<Rightarrow> None) ms"

lemma ranks_append [simp]: "ranks (xs @ ys) = ranks xs @ ranks ys"
  by (induction xs) (simp_all add: ranks_def map_filter_simps split: option.split)

lemma ranks_simps [simp]: "ranks [] = []" "ranks (Broadcast n body # ms) = n # ranks ms" "ranks (Reply body # ms) = ranks ms"
  by (simp_all add: ranks_def map_filter_simps)

text \<open>
  A client that connected when \<open>a\<close> broadcasts had been made: what it got and what waits for it, if its
  writer is up or about to be, else only what it got.
\<close>

definition follows_from :: "nat \<Rightarrow> nat \<Rightarrow> bool \<Rightarrow> conn \<Rightarrow> bool" where
  "follows_from a n registered k \<longleftrightarrow>
     (if cn_pump k \<or> cn_greeting k
      then (\<exists>b. a \<le> b \<and> b \<le> n \<and> (registered \<longrightarrow> b = n) \<and> ranks (cn_wire k @ cn_send k) = [a..<b])
      else (\<exists>b. a \<le> b \<and> b \<le> n \<and> ranks (cn_wire k) = [a..<b]))"

definition stream_ok :: "hub \<Rightarrow> nat \<Rightarrow> nat \<Rightarrow> bool" where
  "stream_ok h n c \<longleftrightarrow> (\<exists>a. follows_from a n (c \<in> set (hb_clients h)) (hb_conn h c))"

lemma upt_prefix:
  assumes "xs @ ys = [a..<b]" "a \<le> b"
  shows "\<exists>b'. a \<le> b' \<and> b' \<le> b \<and> xs = [a..<b']"
proof -
  have "length xs + length ys = b - a" using assms(1) by (metis length_append length_upt)
  then have le: "a + length xs \<le> b" using assms(2) by simp
  have "xs = take (length xs) [a..<b]" using assms(1) by (metis append_eq_conv_conj)
  then have "xs = [a..<a + length xs]" using le by simp
  then show ?thesis using le by (intro exI [of _ "a + length xs"]) simp
qed

lemma follows_more: "follows_from a n registered k \<Longrightarrow> follows_from a n False k"
  by (auto simp: follows_from_def split: if_splits)

lemma follows_later: "follows_from a n False k \<Longrightarrow> n \<le> n' \<Longrightarrow> follows_from a n' False k"
  unfolding follows_from_def by (metis le_trans)

lemma follows_reply: "follows_from a n r k \<Longrightarrow> follows_from a n r (k\<lparr>cn_send := cn_send k @ [Reply body]\<rparr>)"
  by (auto simp: follows_from_def)

lemma follows_irrelevant:
  "follows_from a n r (k\<lparr>cn_closed := x\<rparr>) = follows_from a n r k" "follows_from a n r (k\<lparr>cn_reader := x\<rparr>) = follows_from a n r k"
  by (simp_all add: follows_from_def)

lemma follows_event:
  "follows_from a n True k \<Longrightarrow> follows_from a (Suc n) True (k\<lparr>cn_send := cn_send k @ [Broadcast n body]\<rparr>)"
  by (cases "cn_pump k \<or> cn_greeting k") (auto simp: follows_from_def intro: le_SucI)

lemma follows_pump_end: "follows_from a n r k \<Longrightarrow> cn_pump k \<or> cn_greeting k \<Longrightarrow> \<not> cn_pump k' \<Longrightarrow> \<not> cn_greeting k' \<Longrightarrow> cn_wire k' = cn_wire k \<Longrightarrow> follows_from a n r' k'"
proof -
  assume k: "\<not> cn_pump k'" "\<not> cn_greeting k'" "cn_wire k' = cn_wire k"
  assume "follows_from a n r k" "cn_pump k \<or> cn_greeting k"
  then obtain b where b: "a \<le> b" "b \<le> n" "ranks (cn_wire k) @ ranks (cn_send k) = [a..<b]" by (auto simp: follows_from_def)
  from upt_prefix [OF b(3,1)] b(2) k show ?thesis by (auto simp: follows_from_def)
qed

lemma stream_deliver:
  assumes "c \<in> set (hb_clients h)" "distinct (hb_clients h)" "stream_ok h n c"
  shows "stream_ok (deliver (Broadcast n body) len c h) (Suc n) c"
proof -
  obtain a where a: "follows_from a n True (hb_conn h c)" using assms by (auto simp: stream_ok_def)
  show ?thesis
  proof (cases "length (cn_send (hb_conn h c)) < sendQueue")
    case True
    then show ?thesis using follows_event [OF a, of body] assms(1) by (auto simp: stream_ok_def deliver_def)
  next
    case False
    have "follows_from a (Suc n) False (hb_conn h c)" using a follows_more follows_later by (meson le_SucI order_refl)
    then show ?thesis using False assms(2) by (auto simp: stream_ok_def deliver_def follows_irrelevant)
  qed
qed

lemma stream_deliver_other: "d \<noteq> c \<Longrightarrow> stream_ok (deliver m len c h) n d = stream_ok h n d"
  by (auto simp: stream_ok_def deliver_def)

lemma stream_absent: "c \<notin> set (hb_clients h) \<Longrightarrow> stream_ok h n c \<Longrightarrow> stream_ok h (Suc n) c"
  using follows_later [where n' = "Suc n"] by (fastforce simp: stream_ok_def)

lemma deliver_clients:
  "hb_clients (deliver m len c h) = (if length (cn_send (hb_conn h c)) < sendQueue then hb_clients h else remove1 c (hb_clients h))"
  by (simp add: deliver_def)

lemma deliver_absent: "d \<notin> set (hb_clients h) \<Longrightarrow> d \<notin> set (hb_clients (deliver m len c h))"
  by (cases "length (cn_send (hb_conn h c)) < sendQueue") (simp_all add: deliver_clients)

lemma stream_broadcast:
  assumes "hub_ok h" "distinct order" "set order \<subseteq> set (hb_clients h)" "\<forall>c. stream_ok h (if c \<in> set (hb_clients h) - set order then Suc n else n) c"
  shows "\<forall>c. stream_ok (fold (deliver (Broadcast n body) len) order h) (Suc n) c"
  using assms
proof (induction order arbitrary: h)
  case Nil
  then show ?case using stream_absent by (metis (full_types) Diff_empty list.set(1) fold_simps(1))
next
  case (Cons c order)
  let ?h = "deliver (Broadcast n body) len c h"
  have ok: "hub_ok ?h" using Cons.prems(1,3) by (intro deliver_ok) simp_all
  have sub: "set order \<subseteq> set (hb_clients ?h)"
    using Cons.prems(2,3) by (auto intro: deliver_keeps)
  have "stream_ok ?h (if d \<in> set (hb_clients ?h) - set order then Suc n else n) d" for d
  proof (cases "d = c")
    case True
    have "stream_ok h n c" using Cons.prems(4) by (metis DiffD2 list.set_intros(1))
    then have s: "stream_ok ?h (Suc n) c"
      using Cons.prems(1,3) by (intro stream_deliver) (simp_all add: hub_ok_def)
    show ?thesis
    proof (cases "c \<in> set (hb_clients ?h)")
      case True
      then show ?thesis using s Cons.prems(2) \<open>d = c\<close> by simp
    next
      case False
      have "length (cn_send (hb_conn h c)) \<ge> sendQueue" using False Cons.prems(3) by (auto simp: deliver_def split: if_splits)
      moreover obtain a where "follows_from a n True (hb_conn h c)"
        using \<open>stream_ok h n c\<close> Cons.prems(3) by (auto simp: stream_ok_def)
      then have "follows_from a n False (hb_conn h c)" by (rule follows_more)
      ultimately have "stream_ok ?h n c"
        using False by (auto simp: stream_ok_def deliver_def follows_irrelevant)
      then show ?thesis using False \<open>d = c\<close> by simp
    qed
  next
    case False
    have "d \<in> set (hb_clients ?h) \<longleftrightarrow> d \<in> set (hb_clients h)" using False deliver_keeps deliver_absent by metis
    moreover have "d \<in> set (c # order) \<longleftrightarrow> d \<in> set order" using False by simp
    ultimately show ?thesis using Cons.prems(4) stream_deliver_other [OF False] by (metis DiffD1 DiffD2 DiffI)
  qed
  then show ?case using Cons.IH [OF ok _ sub] Cons.prems(2) by simp
qed

lemma stream_upd:
  "(\<And>a r. follows_from a n r (hb_conn h d) \<Longrightarrow> follows_from a n r (f (hb_conn h d))) \<Longrightarrow> stream_ok h n c \<Longrightarrow>
     stream_ok (upd_conn d f h) n c"
  by (auto simp: stream_ok_def)

lemma stream_count [simp]: "stream_ok (h\<lparr>hb_count := x\<rparr>) n c = stream_ok h n c" "stream_ok (h\<lparr>hb_pending := y\<rparr>) n c = stream_ok h n c"
  "stream_ok (h\<lparr>hb_crashed := z\<rparr>) n c = stream_ok h n c" "stream_ok (h\<lparr>hb_connected := v\<rparr>) n c = stream_ok h n c"
  by (simp_all add: stream_ok_def)

lemma stream_unregister: "hub_ok h \<Longrightarrow> stream_ok h n c \<Longrightarrow> stream_ok (hub_unregister d h) n c"
proof (cases "d \<in> set (hb_clients h)")
  case True
  assume "hub_ok h" "stream_ok h n c"
  moreover from this obtain a where "follows_from a n (c \<in> set (hb_clients h)) (hb_conn h c)" by (auto simp: stream_ok_def)
  moreover from this have "follows_from a n False (hb_conn h c)" by (rule follows_more)
  ultimately show ?thesis using True by (auto simp: stream_ok_def hub_unregister_def follows_irrelevant hub_ok_def)
qed (simp add: hub_unregister_def)

lemma stream_readPump_exit: "hub_ok h \<Longrightarrow> stream_ok h n c \<Longrightarrow> stream_ok (readPump_exit d h) n c"
  unfolding readPump_exit_def
  by (intro stream_unregister stream_upd) (simp_all add: hub_ok_def follows_irrelevant)

lemma chan_send_Sent:
  "chan_send d m h = Sent h' \<Longrightarrow> h' = upd_conn d (\<lambda>k. k\<lparr>cn_send := cn_send k @ [m]\<rparr>) h"
  by (simp add: chan_send_def split: if_splits)

lemma stream_chan_send: "chan_send d (Reply body) h = Sent h' \<Longrightarrow> stream_ok h n c \<Longrightarrow> stream_ok h' n c"
  by (drule chan_send_Sent) (auto intro!: stream_upd follows_reply)

lemma stream_connect:
  assumes s: "\<forall>c. stream_ok h (hb_count h) c"
  shows "stream_ok (handleWS_register h) (hb_count h) c"
proof (cases "c = hb_next h")
  case True
  then show ?thesis
    by (auto simp: stream_ok_def handleWS_register_def hub_register_def new_conn_def follows_from_def Let_def)
next
  case False
  then show ?thesis using s by (auto simp: stream_ok_def handleWS_register_def hub_register_def Let_def)
qed

lemma stream_greet:
  assumes ok: "hub_ok h" and g: "cn_greeting (hb_conn h d)" and s: "\<forall>c. stream_ok h (hb_count h) c"
  shows "stream_ok (handleWS_greet d status h) (hb_count h) c \<and> hb_count (handleWS_greet d status h) = hb_count h"
proof (cases "chan_send d (Reply status) h")
  case (Sent h')
  note h' = chan_send_Sent [OF Sent]
  have "cn_greeting (hb_conn h' d)" using g by (simp add: h')
  then have "stream_ok (upd_conn d (\<lambda>k. k\<lparr>cn_greeting := False, cn_pump := True, cn_reader := True\<rparr>) h') (hb_count h) c"
    using stream_chan_send [OF Sent] s by (intro stream_upd) (auto simp: follows_from_def)
  then show ?thesis using Sent h' by (simp add: handleWS_greet_def)
next
  case Blocks
  then show ?thesis using s by (simp add: handleWS_greet_def)
next
  case Panics
  have "\<not> cn_pump (hb_conn h d)" using g ok by (auto simp: hub_ok_def)
  then have "stream_ok (upd_conn d (\<lambda>k. k\<lparr>cn_greeting := False\<rparr>) h) (hb_count h) c"
    using s g follows_pump_end by (intro stream_upd) (simp, blast)+
  then show ?thesis using Panics by (simp add: handleWS_greet_def)
qed

lemma stream_pump:
  assumes pump: "cn_pump (hb_conn h d)" "\<not> cn_greeting (hb_conn h d)" and s: "\<forall>c. stream_ok h (hb_count h) c"
  shows "stream_ok (writePump w d h) (hb_count h) c"
proof (cases "cn_send (hb_conn h d)")
  case Nil
  then show ?thesis using s pump follows_pump_end by (auto simp: writePump_def intro!: stream_upd)
next
  case (Cons m ms)
  have "follows_from a n r ((hb_conn h d)\<lparr>cn_send := ms, cn_wire := (if w then cn_wire (hb_conn h d) @ [m] else cn_wire (hb_conn h d)), cn_pump := w\<rparr>)"
    if f: "follows_from a n r (hb_conn h d)" for a n r
  proof (cases w)
    case True
    then show ?thesis using f pump Cons by (simp add: follows_from_def)
  next
    case False
    then show ?thesis using pump by (intro follows_pump_end [OF f]) simp_all
  qed
  then show ?thesis using s Cons by (auto simp: writePump_def intro!: stream_upd)
qed

lemma hub_step_stream:
  assumes ok: "hub_ok h" and en: "hub_enabled a h" and s: "\<forall>c. stream_ok h (hb_count h) c"
  shows "\<forall>c. stream_ok (hub_step a h) (hb_count (hub_step a h)) c"
proof (cases a)
  case Connect
  moreover have "hb_count (handleWS_register h) = hb_count h" by (simp add: handleWS_register_def hub_register_def Let_def)
  ultimately show ?thesis using stream_connect [OF s] by simp
next
  case (Greet d status)
  then show ?thesis using stream_greet [OF ok _ s, of d status] en by simp
next
  case (PublishAll order body)
  let ?h = "fold (deliver (Broadcast (hb_count h) body) (length body)) order h"
  have "\<forall>c. stream_ok ?h (Suc (hb_count h)) c"
    using en PublishAll s by (intro stream_broadcast [OF ok]) simp_all
  then show ?thesis using PublishAll by (simp add: hub_broadcast_def)
next
  case (Pump w d)
  moreover have "cn_pump (hb_conn h d)" "\<not> cn_greeting (hb_conn h d)" using en Pump ok by (auto simp: hub_ok_def)
  moreover have "hb_count (writePump w d h) = hb_count h" by (simp add: writePump_def split: list.split)
  ultimately show ?thesis using stream_pump [OF _ _ s] by simp
next
  case (Answer d body)
  have "stream_ok (reader_reply d body h) (hb_count h) c" for c
    using s stream_chan_send stream_readPump_exit [OF ok] by (auto simp: reader_reply_def split: sending.split)
  moreover have "hb_count (reader_reply d body h) = hb_count h"
    by (auto simp: reader_reply_def chan_send_def readPump_exit_def hub_unregister_def split: sending.split if_splits)
  ultimately show ?thesis using Answer by simp
next
  case (Leave d)
  moreover have "hb_count (readPump_exit d h) = hb_count h" by (simp add: readPump_exit_def hub_unregister_def)
  ultimately show ?thesis using s stream_readPump_exit [OF ok] by simp
next
  case (StartBackground d)
  then show ?thesis using s by (simp add: background_start_def)
next
  case (EndBackground d body)
  have "stream_ok (background_reply d body h) (hb_count h) c" for c
    using s stream_chan_send by (auto simp: background_reply_def split: sending.split)
  moreover have "hb_count (background_reply d body h) = hb_count h"
    by (auto simp: background_reply_def chan_send_def split: sending.split if_splits)
  ultimately show ?thesis using EndBackground by simp
qed


lemma hub_run_stream: "hub_run newHub as h \<Longrightarrow> stream_ok h (hb_count h) c"
proof (induction arbitrary: c rule: hub_run.induct)
  case start
  show ?case by (auto simp: stream_ok_def follows_from_def newHub_def new_conn_def intro: exI [of _ 0])
next
  case (step as h a)
  then show ?case using hub_step_stream [OF hub_run_ok [OF step.hyps(1)] step.hyps(3)] by blast
qed

lemma follows_wire: "follows_from a n r k \<Longrightarrow> \<exists>b. a \<le> b \<and> b \<le> n \<and> ranks (cn_wire k) = [a..<b]"
  unfolding follows_from_def using upt_prefix by (fastforce split: if_splits)

text \<open>
  C4: No gaps. Whatever interleaving the hub goes through, the broadcasts a connection has been sent are
  consecutive ones, in order and without repetition; and for a registered client whose writer runs, what
  it was sent together with what waits in its queue goes up to the last broadcast made. A slow client is
  disconnected, it never silently loses an event.
\<close>
theorem stream_without_gaps:
  assumes "hub_run newHub as h"
  shows "(\<exists>a b. b \<le> hb_count h \<and> ranks (cn_wire (hb_conn h c)) = [a..<b]) \<and>
    (c \<in> set (hb_clients h) \<and> cn_pump (hb_conn h c) \<longrightarrow>
       (\<exists>a. ranks (cn_wire (hb_conn h c) @ cn_send (hb_conn h c)) = [a..<hb_count h]))"
proof -
  obtain a where a: "follows_from a (hb_count h) (c \<in> set (hb_clients h)) (hb_conn h c)"
    using hub_run_stream [OF assms] by (auto simp: stream_ok_def)
  show ?thesis using follows_wire [OF a] a by (auto simp: follows_from_def split: if_splits)
qed

theorem stream_without_gaps_witness:
  "\<exists>a. ranks (cn_wire (hb_conn demo_hub 0) @ cn_send (hb_conn demo_hub 0)) = [a..<hb_count demo_hub]"
  using stream_without_gaps [OF demo_hub_runs, of 0]
  by (simp add: demo_hub_def hub_broadcast_def deliver_def demo_conn sendQueue_def)

section \<open>The reply of a background command\<close>

lemma leave_closes: "hub_ok h \<Longrightarrow> c < hb_next h \<Longrightarrow> cn_closed (hb_conn (readPump_exit c h) c)"
  by (auto simp: readPump_exit_def hub_unregister_def hub_ok_def)

lemma leave_same [simp]: "hb_pending (readPump_exit c h) = hb_pending h" "hb_crashed (readPump_exit c h) = hb_crashed h"
  by (simp_all add: readPump_exit_def hub_unregister_def)

text \<open>
  A client can end the engine. From any state of the hub in which a reader runs, a client that asks
  for one of the background commands and leaves before its reply is ready makes the reply go to a
  closed channel, in a goroutine nobody recovers.
\<close>
theorem early_leave_crashes:
  assumes "hub_run newHub as h" "\<not> hb_crashed h" "c < hb_next h" "cn_reader (hb_conn h c)"
  shows "\<exists>h'. hub_run newHub (as @ [StartBackground c, Leave c, EndBackground c body]) h' \<and> hb_crashed h'"
proof -
  let ?h1 = "background_start c h" let ?h2 = "readPump_exit c ?h1"
  have 1: "hub_run newHub (as @ [StartBackground c]) ?h1"
    using hub_run.step [OF assms(1,2), of "StartBackground c"] assms(3,4) by simp
  have up: "\<not> hb_crashed ?h1" "c < hb_next ?h1" "cn_reader (hb_conn ?h1 c)" "c \<in> set (hb_pending ?h1)"
    using assms(2-4) by (simp_all add: background_start_def)
  have 2: "hub_run newHub (as @ [StartBackground c, Leave c]) ?h2"
    using hub_run.step [OF 1 up(1), of "Leave c"] up by simp
  have "hub_run newHub (as @ [StartBackground c, Leave c, EndBackground c body]) (background_reply c body ?h2)"
    using hub_run.step [OF 2, of "EndBackground c body"] up by simp
  moreover have "hb_crashed (background_reply c body ?h2)"
    using leave_closes [OF hub_run_ok [OF 1] up(2)] by (simp add: background_reply_def chan_send_def)
  ultimately show ?thesis by blast
qed

lemma demo_alive: "\<not> hb_crashed demo_hub" "0 < hb_next demo_hub" "cn_reader (hb_conn demo_hub 0)"
  by (simp_all add: demo_hub_def hub_broadcast_def deliver_def demo_conn sendQueue_def)

theorem early_leave_crashes_witness:
  "\<exists>h'. hub_run newHub (demo_hub_run @ [StartBackground 0, Leave 0, EndBackground 0 ''ok'']) h' \<and> hb_crashed h'"
  by (rule early_leave_crashes [OF demo_hub_runs demo_alive])

lemma only_background_crashes:
  "hub_run newHub as h \<Longrightarrow> hb_crashed h \<or> hb_pending h \<noteq> [] \<Longrightarrow> \<exists>c. StartBackground c \<in> set as"
proof (induction rule: hub_run.induct)
  case start
  then show ?case by (simp add: newHub_def)
next
  case (step as h a)
  have fold: "hb_crashed (fold (deliver m n) order g) = hb_crashed g \<and> hb_pending (fold (deliver m n) order g) = hb_pending g" for m n order g
    by (induction order arbitrary: g) simp_all
  show ?case
  proof (cases "hb_pending h = []")
    case True
    then show ?thesis using step.prems step.hyps(2,3)
      by (cases a) (auto simp: handleWS_register_def hub_register_def Let_def handleWS_greet_def chan_send_def hub_broadcast_def fold
        writePump_def reader_reply_def split: sending.splits if_splits list.splits)
  next
    case False
    then show ?thesis using step.IH by auto
  qed
qed

end
