(* ===== verification/Diagnostics.thy ===== *)
theory Diagnostics
  imports Cluster_Certs
begin

text \<open>
  Enrolment (\<open>internal/enroller/enroller.go\<close>), the pairing records a machine holds and the pre-flight
  report (\<open>internal/diagnostics/diagnostics.go\<close> and \<open>readiness.go\<close>), over the files of the certificate
  sync. What the drivers print about their versions is a parameter; the texts of the report are
  constructors of what they say.
\<close>

section \<open>The Lockdown folder\<close>

text \<open>\<open>platform.LockdownDir\<close> on Unix: the folder, or nothing where it does not exist.\<close>

definition lockdown_path :: string where "lockdown_path = ''/var/lib/lockdown''"

definition LockdownDir :: "files \<Rightarrow> string" where
  "LockdownDir fs = (case map_of fs lockdown_path of Some (Directory t) \<Rightarrow> lockdown_path | _ \<Rightarrow> [])"

section \<open>Enrolment\<close>

record enroll_request =
  er_UDID :: string
  er_DeviceRecord :: string

datatype enroll_error = MissingInput | InvalidUDID | NoLockdownDir | InvalidBase64 | WriteFailed

fun is_invalid_input :: "enroll_error \<Rightarrow> bool" where
  "is_invalid_input MissingInput = True"
| "is_invalid_input InvalidUDID = True"
| "is_invalid_input InvalidBase64 = True"
| "is_invalid_input _ = False"

text \<open>The pattern \<open>^[A-Fa-f0-9-]+$\<close>.\<close>

definition udid_char :: "char \<Rightarrow> bool" where
  "udid_char c \<longleftrightarrow>
     (CHR ''A'' \<le> c \<and> c \<le> CHR ''F'') \<or> (CHR ''a'' \<le> c \<and> c \<le> CHR ''f'') \<or> (CHR ''0'' \<le> c \<and> c \<le> CHR ''9'') \<or> c = CHR ''-''"

definition Validate_Enroll :: "enroll_request \<Rightarrow> enroll_error option" where
  "Validate_Enroll r =
    (if er_UDID r = [] \<or> er_DeviceRecord r = [] then Some MissingInput
     else if Contains (er_UDID r) ''/'' \<or> Contains (er_UDID r) [CHR 0x5C] \<or> Contains (er_UDID r) ''..'' \<or>
             \<not> (er_UDID r \<noteq> [] \<and> list_all udid_char (er_UDID r))
     then Some InvalidUDID else None)"

text \<open>The folder exists where \<open>LockdownDir\<close> names it, so \<open>MkdirAll\<close> has nothing to create.\<close>

definition Enroll :: "cert_world \<Rightarrow> enroll_request \<Rightarrow> files \<Rightarrow> (enroll_error + string) \<times> files" where
  "Enroll w r fs =
    (case Validate_Enroll r of
       Some err \<Rightarrow> (Inl err, fs)
     | None \<Rightarrow>
         (let dir = LockdownDir fs in
          if dir = [] then (Inl NoLockdownDir, fs)
          else case DecodeBase64 (er_DeviceRecord r) of
            None \<Rightarrow> (Inl InvalidBase64, fs)
          | Some content \<Rightarrow>
              (let destPath = Join dir (er_UDID r @ ''.plist'') in
               if \<not> cw_writable w destPath \<or> (case map_of fs destPath of Some n \<Rightarrow> is_dir n | None \<Rightarrow> False)
               then (Inl WriteFailed, fs)
               else (Inr destPath, put destPath (Regular content (cw_now w)) fs))))"

text \<open>\<open>handleEnroll\<close> after its authorization: the status code and the files.\<close>

definition handleEnroll :: "cert_world \<Rightarrow> enroll_request option \<Rightarrow> files \<Rightarrow> int \<times> files" where
  "handleEnroll w body fs =
    (case body of
       None \<Rightarrow> (400, fs)
     | Some r \<Rightarrow>
         if Validate_Enroll r \<noteq> None then (400, fs)
         else (case Enroll w r fs of
             (Inl err, fs') \<Rightarrow> (if is_invalid_input err then 400 else 500, fs')
           | (Inr path, fs') \<Rightarrow> (200, fs')))"

section \<open>Pairing records\<close>

definition IsPaired :: "files \<Rightarrow> string \<Rightarrow> bool" where
  "IsPaired fs udid \<longleftrightarrow>
     udid \<noteq> [] \<and> LockdownDir fs \<noteq> [] \<and>
     (case map_of fs (Join (LockdownDir fs) (udid @ ''.plist'')) of Some n \<Rightarrow> \<not> is_dir n | None \<Rightarrow> False)"

record pairing_record =
  pg_UDID :: string
  pg_DeviceName :: string
  pg_ModTime :: int

text \<open>
  The leftmost match of \<open><key>DeviceName</key>\s*<string>([^<]+)</string>\<close>: white space is skipped greedily,
  which is what the expression does since no white space can match \<open><string>\<close>.
\<close>

definition name_at :: "string \<Rightarrow> string option" where
  "name_at text =
    (if \<not> HasPrefix text ''<key>DeviceName</key>'' then None
     else
       (let rest = dropWhile (\<lambda>c. c \<in> {CHR '' '', CHR 9, CHR 10, CHR 12, CHR 13}) (drop 21 text) in
        if \<not> HasPrefix rest ''<string>'' then None
        else
          (let rest = drop 8 rest; name = takeWhile (\<lambda>c. c \<noteq> CHR ''<'') rest in
           if name \<noteq> [] \<and> HasPrefix (drop (length name) rest) ''</string>'' then Some name else None)))"

fun find_name :: "string \<Rightarrow> string option" where
  "find_name [] = None"
| "find_name (c # cs) = (case name_at (c # cs) of Some n \<Rightarrow> Some n | None \<Rightarrow> find_name cs)"

definition pairingDeviceName :: "cert_world \<Rightarrow> files \<Rightarrow> string \<Rightarrow> string" where
  "pairingDeviceName w fs path =
    (case content_of w fs path of
       None \<Rightarrow> []
     | Some content \<Rightarrow> (case find_name content of None \<Rightarrow> [] | Some n \<Rightarrow> n))"

definition record_of :: "cert_world \<Rightarrow> files \<Rightarrow> string \<Rightarrow> string \<times> node \<Rightarrow> pairing_record option" where
  "record_of w fs dir e =
    (let (name, n) = e; udid = take (length name - 6) name in
     if is_dir n \<or> \<not> HasSuffix (ToLower name) ''.plist'' \<or> udid = [] then None
     else Some \<lparr>pg_UDID = udid, pg_DeviceName = pairingDeviceName w fs (Join dir name), pg_ModTime = to_milli (node_time n)\<rparr>)"

definition pairingRecords :: "cert_world \<Rightarrow> files \<Rightarrow> string \<Rightarrow> pairing_record list" where
  "pairingRecords w fs dir =
    (if dir = [] then []
     else case ReadDir fs dir of None \<Rightarrow> [] | Some es \<Rightarrow> List.map_filter (record_of w fs dir) es)"

section \<open>Hints\<close>

datatype hint = NoHint | ListTimedOut | ListFailed | NoDevice | Unpaired "string list"

text \<open>The text of an error is a parameter, and so is whether it wraps the context's deadline.\<close>

definition isTimeoutError :: "(driver_error \<Rightarrow> string) \<Rightarrow> (driver_error \<Rightarrow> bool) \<Rightarrow> driver_error \<Rightarrow> bool" where
  "isTimeoutError message deadline err \<longleftrightarrow>
     (let msg = ToLower (message err) in
      deadline err \<or> Contains msg ''context deadline exceeded'' \<or> Contains msg ''i/o timeout'' \<or> Contains msg ''timed out'')"

definition unpaired_udids :: "files \<Rightarrow> Driver_Base.device list \<Rightarrow> string list" where
  "unpaired_udids fs devices = filter (\<lambda>u. u \<noteq> [] \<and> \<not> IsPaired fs u) (map dv_UDID devices)"

definition PairingHint ::
  "(driver_error \<Rightarrow> string) \<Rightarrow> (driver_error \<Rightarrow> bool) \<Rightarrow> files \<Rightarrow> driver_error + Driver_Base.device list \<Rightarrow> hint" where
  "PairingHint message deadline fs listed =
    (case listed of
       Inl err \<Rightarrow> if isTimeoutError message deadline err then ListTimedOut else ListFailed
     | Inr devices \<Rightarrow>
         if devices = [] then NoDevice
         else if unpaired_udids fs devices = [] then NoHint else Unpaired (unpaired_udids fs devices))"

section \<open>The pre-flight report\<close>

datatype requirement_status = RequirementOK | RequirementFailed | RequirementUnknown

datatype detail =
    DetectionFailed driver_error | NoDeviceSeen | OneDevice string | SomeDevices nat
  | NothingToVerify | CertificatePresent | NoCertificate "string list"
  | Observed bool | NotObserved

datatype remedy = CheckUsbmux | PlugDevice | TrustComputer | EnableDeveloperMode | MountNeedsInternet

record requirement =
  re_ID :: string
  re_Status :: requirement_status
  re_Detail :: detail
  re_Fix :: "remedy option"

record readiness =
  rd_Ready :: bool
  rd_Requirements :: "requirement list"

definition statusOf :: "bool option \<Rightarrow> requirement_status" where
  "statusOf v = (case v of None \<Rightarrow> RequirementUnknown | Some True \<Rightarrow> RequirementOK | Some False \<Rightarrow> RequirementFailed)"

definition detailFor :: "bool option \<Rightarrow> detail" where
  "detailFor v = (case v of None \<Rightarrow> NotObserved | Some b \<Rightarrow> Observed b)"

definition fixFor :: "bool option \<Rightarrow> remedy \<Rightarrow> remedy option" where
  "fixFor v f = (if v = Some True then None else Some f)"

definition describeDevices :: "Driver_Base.device list \<Rightarrow> detail" where
  "describeDevices devices =
    (if length devices = 1
     then OneDevice (if dv_Name (devices ! 0) = [] then dv_UDID (devices ! 0) else dv_Name (devices ! 0))
     else SomeDevices (length devices))"

definition pairingRequirement :: "files \<Rightarrow> Driver_Base.device list \<Rightarrow> requirement" where
  "pairingRequirement fs devices =
    (if devices = [] then
       \<lparr>re_ID = ''pairing'', re_Status = RequirementUnknown, re_Detail = NothingToVerify, re_Fix = None\<rparr>
     else if unpaired_udids fs devices = [] then
       \<lparr>re_ID = ''pairing'', re_Status = RequirementOK, re_Detail = CertificatePresent, re_Fix = None\<rparr>
     else
       \<lparr>re_ID = ''pairing'', re_Status = RequirementFailed, re_Detail = NoCertificate (unpaired_udids fs devices),
        re_Fix = Some TrustComputer\<rparr>)"

definition device_requirement :: "driver_error + Driver_Base.device list \<Rightarrow> requirement" where
  "device_requirement listed =
    (case listed of
       Inl err \<Rightarrow> \<lparr>re_ID = ''device'', re_Status = RequirementFailed, re_Detail = DetectionFailed err, re_Fix = Some CheckUsbmux\<rparr>
     | Inr [] \<Rightarrow> \<lparr>re_ID = ''device'', re_Status = RequirementFailed, re_Detail = NoDeviceSeen, re_Fix = Some PlugDevice\<rparr>
     | Inr devices \<Rightarrow> \<lparr>re_ID = ''device'', re_Status = RequirementOK, re_Detail = describeDevices devices, re_Fix = None\<rparr>)"

text \<open>A driver without the probe leaves both observations unknown; a failed listing gives no devices.\<close>

definition no_state :: device_state where
  "no_state = \<lparr>ds_DeveloperMode = None, ds_ImageMounted = None\<rparr>"

definition CheckReadiness :: "files \<Rightarrow> driver_error + Driver_Base.device list \<Rightarrow> device_state option \<Rightarrow> readiness" where
  "CheckReadiness fs listed probe =
    (let devices = (case listed of Inl err \<Rightarrow> [] | Inr ds \<Rightarrow> ds);
         state = (case probe of None \<Rightarrow> no_state | Some s \<Rightarrow> s);
         reqs = [device_requirement listed, pairingRequirement fs devices,
           \<lparr>re_ID = ''developer-mode'', re_Status = statusOf (ds_DeveloperMode state),
            re_Detail = detailFor (ds_DeveloperMode state), re_Fix = fixFor (ds_DeveloperMode state) EnableDeveloperMode\<rparr>,
           \<lparr>re_ID = ''developer-image'', re_Status = statusOf (ds_ImageMounted state),
            re_Detail = detailFor (ds_ImageMounted state), re_Fix = fixFor (ds_ImageMounted state) MountNeedsInternet\<rparr>]
     in \<lparr>rd_Ready = list_all (\<lambda>r. re_Status r = RequirementOK) reqs, rd_Requirements = reqs\<rparr>)"

section \<open>Diagnostics\<close>

record diagnostics =
  dg_GoIosPath :: string
  dg_GoIosError :: bool
  dg_GoIosVersion :: string
  dg_Pmd3Path :: string
  dg_Pmd3Error :: bool
  dg_Pmd3Version :: string
  dg_LockdownDir :: string
  dg_PairingRecords :: "pairing_record list"
  dg_USBDevices :: "Driver_Base.device list"
  dg_USBDevicesError :: "driver_error option"
  dg_UnpairedUSBDevices :: "string list"
  dg_Readiness :: readiness

text \<open>
  The two commands: the path found, or none, and the version it printed. The device list is asked for
  twice, once for the report itself and once for the readiness, and the answers may differ.
\<close>

definition CollectWithProbe ::
  "cert_world \<Rightarrow> files \<Rightarrow> (string \<times> string) option \<Rightarrow> (string \<times> string) option \<Rightarrow>
   driver_error + Driver_Base.device list \<Rightarrow> driver_error + Driver_Base.device list \<Rightarrow> device_state option \<Rightarrow> diagnostics" where
  "CollectWithProbe w fs goios pmd3 listed listed' probe =
    (let dir = LockdownDir fs; records = pairingRecords w fs dir;
         devices = (case listed of Inl err \<Rightarrow> [] | Inr ds \<Rightarrow> ds)
     in \<lparr>dg_GoIosPath = (case goios of None \<Rightarrow> [] | Some (p, v) \<Rightarrow> p), dg_GoIosError = (goios = None),
         dg_GoIosVersion = (case goios of None \<Rightarrow> [] | Some (p, v) \<Rightarrow> v),
         dg_Pmd3Path = (case pmd3 of None \<Rightarrow> [] | Some (p, v) \<Rightarrow> p), dg_Pmd3Error = (pmd3 = None),
         dg_Pmd3Version = (case pmd3 of None \<Rightarrow> [] | Some (p, v) \<Rightarrow> TrimSpace v),
         dg_LockdownDir = dir, dg_PairingRecords = records, dg_USBDevices = devices,
         dg_USBDevicesError = (case listed of Inl err \<Rightarrow> Some err | Inr ds \<Rightarrow> None),
         dg_UnpairedUSBDevices = filter (\<lambda>u. u \<noteq> [] \<and> u \<notin> pg_UDID ` set records) (map dv_UDID devices),
         dg_Readiness = CheckReadiness fs listed' probe\<rparr>)"


section \<open>What enrolment does\<close>

lemma Clean_lockdown: "Clean lockdown_path = lockdown_path"
  by (simp add: lockdown_path_def Clean_def elements_def path_of_def IsAbs_def clean_push.simps)

lemma LockdownDir_cases: "LockdownDir fs = [] \<or> LockdownDir fs = lockdown_path \<and> (\<exists>t. map_of fs lockdown_path = Some (Directory t))"
  by (auto simp: LockdownDir_def split: option.split node.split)

lemma lockdown_nonempty: "lockdown_path \<noteq> []"
  by (simp add: lockdown_path_def)

lemma Join_lockdown: "plain name \<Longrightarrow> Join lockdown_path name = file_in lockdown_path name"
  using Join_Clean [of name lockdown_path] by (simp add: Clean_lockdown)

lemma no_slash_plain: "CHR ''/'' \<notin> set u \<Longrightarrow> plain (u @ ''.plist'')"
proof -
  assume u: "CHR ''/'' \<notin> set u"
  have "length (u @ ''.plist'') \<ge> 6" by simp
  then have "u @ ''.plist'' \<noteq> ''.''" "u @ ''.plist'' \<noteq> ''..''" "u @ ''.plist'' \<noteq> []" by (auto dest: arg_cong [where f = length])
  then show ?thesis using u by (simp add: plain_def)
qed

lemma valid_udid: "Validate_Enroll r = None \<Longrightarrow> er_UDID r \<noteq> [] \<and> plain (er_UDID r @ ''.plist'')"
proof -
  assume v: "Validate_Enroll r = None"
  then have "list_all udid_char (er_UDID r)" "er_UDID r \<noteq> []" by (auto simp: Validate_Enroll_def split: if_splits)
  moreover from this have "CHR ''/'' \<notin> set (er_UDID r)" by (auto simp: list_all_iff udid_char_def less_eq_char_def)
  ultimately show ?thesis by (simp add: no_slash_plain)
qed

lemma file_in_differs: "plain name \<Longrightarrow> file_in lockdown_path name \<noteq> lockdown_path"
  using file_in_facts(2) [of name lockdown_path] by (metis append_self_conv list.distinct(1))

text \<open>The record of a valid request: where it goes, what writing it changes, and that the device then counts as paired.\<close>

lemma record_written:
  assumes "Validate_Enroll r = None" "LockdownDir fs \<noteq> []"
  defines "path \<equiv> file_in lockdown_path (er_UDID r @ ''.plist'')"
  shows "LockdownDir fs = lockdown_path" "Join lockdown_path (er_UDID r @ ''.plist'') = path"
    "map_of (put path (Regular content t) fs) = (map_of fs)(path \<mapsto> Regular content t)"
    "IsPaired (put path (Regular content t) fs) (er_UDID r)"
proof -
  show dir: "LockdownDir fs = lockdown_path" using LockdownDir_cases assms(2) by blast
  have p: "plain (er_UDID r @ ''.plist'')" "er_UDID r \<noteq> []" using valid_udid [OF assms(1)] by blast+
  show join: "Join lockdown_path (er_UDID r @ ''.plist'') = path" using Join_lockdown [OF p(1)] by (simp add: path_def)
  have differs: "path \<noteq> lockdown_path" using file_in_differs [OF p(1)] by (simp add: path_def)
  show after: "map_of (put path (Regular content t) fs) = (map_of fs)(path \<mapsto> Regular content t)"
    by (auto simp: map_of_put fun_eq_iff)
  have "LockdownDir (put path (Regular content t) fs) = lockdown_path"
    using dir LockdownDir_cases [of fs] differs unfolding LockdownDir_def after by (auto simp: lockdown_nonempty)
  then show "IsPaired (put path (Regular content t) fs) (er_UDID r)"
    unfolding IsPaired_def join after using p(2) by (simp add: lockdown_nonempty join after)
qed

text \<open>
  Enrolment writes one file. A successful enrolment of a device changes the file system at exactly
  one path, the record of that device inside the Lockdown folder, whatever the identifier was; the file
  holds the decoded content, and the device then counts as paired. A refused one changes nothing.
\<close>
theorem enrol_writes_one_record:
  "case Enroll w r fs of
     (Inl err, fs') \<Rightarrow> fs' = fs
   | (Inr path, fs') \<Rightarrow>
       path = file_in lockdown_path (er_UDID r @ ''.plist'') \<and>
       (\<exists>content. DecodeBase64 (er_DeviceRecord r) = Some content \<and>
          map_of fs' = (map_of fs)(path \<mapsto> Regular content (cw_now w))) \<and>
       IsPaired fs' (er_UDID r)"
proof (cases "Validate_Enroll r = None \<and> LockdownDir fs \<noteq> []")
  case False
  then show ?thesis by (auto simp: Enroll_def split: option.split)
next
  case True
  then show ?thesis using record_written [of r fs] by (auto simp: Enroll_def Let_def lockdown_nonempty split: option.split)
qed

section \<open>What the report means\<close>

lemma statusOf_OK: "statusOf v = RequirementOK \<longleftrightarrow> v = Some True"
  by (auto simp: statusOf_def split: option.split bool.split)

text \<open>
  The report is ready exactly when it should be: the driver listed at least one device, every listed
  device that has an identifier has a pairing record on this machine, and the device itself answered
  that the developer mode is on and the developer image mounted. An observation nobody could make is
  never taken for a success.
\<close>
theorem ready_iff:
  "rd_Ready (CheckReadiness fs listed probe) \<longleftrightarrow>
     (\<exists>devices state. listed = Inr devices \<and> devices \<noteq> [] \<and> probe = Some state \<and>
        list_all (\<lambda>d. dv_UDID d = [] \<or> IsPaired fs (dv_UDID d)) devices \<and>
        ds_DeveloperMode state = Some True \<and> ds_ImageMounted state = Some True)"
proof -
  have dev: "re_Status (device_requirement listed) = RequirementOK \<longleftrightarrow> (\<exists>devices. listed = Inr devices \<and> devices \<noteq> [])"
    by (auto simp: device_requirement_def split: sum.split list.split)
  have pairing: "re_Status (pairingRequirement fs devices) = RequirementOK \<longleftrightarrow>
      devices \<noteq> [] \<and> list_all (\<lambda>d. dv_UDID d = [] \<or> IsPaired fs (dv_UDID d)) devices" for devices
    by (auto simp: pairingRequirement_def unpaired_udids_def filter_empty_conv list_all_iff)
  show ?thesis
    by (auto simp: CheckReadiness_def Let_def dev pairing statusOf_OK no_state_def split: option.splits)
qed

text \<open>Advice is given exactly for the observations that were not a success.\<close>

lemma fix_iff: "fixFor v f = None \<longleftrightarrow> statusOf v = RequirementOK"
  by (simp add: fixFor_def statusOf_OK)

text \<open>
  The two lists of unpaired devices agree one way: a device the report calls unpaired has no record
  under its identifier. The other way fails for a record whose extension is not in lower case, which the
  list accepts and \<open>IsPaired\<close> does not.
\<close>

lemma reported_unpaired:
  assumes wf: "wf_files fs" and u: "u \<in> set (dg_UnpairedUSBDevices (CollectWithProbe w fs g p listed listed' probe))"
    and plain: "CHR ''/'' \<notin> set u"
  shows "\<not> IsPaired fs u"
proof
  assume "IsPaired fs u"
  then obtain n where n: "LockdownDir fs = lockdown_path" "u \<noteq> []" "map_of fs (Join lockdown_path (u @ ''.plist'')) = Some n" "\<not> is_dir n"
    using LockdownDir_cases [of fs] by (auto simp: IsPaired_def split: option.splits)
  then obtain t where t: "map_of fs (Clean lockdown_path) = Some (Directory t)"
    using LockdownDir_cases [of fs] by (auto simp: Clean_lockdown lockdown_nonempty)
  note pl = no_slash_plain [OF plain]
  obtain es where es: "ReadDir fs lockdown_path = Some es" "(u @ ''.plist'', n) \<in> set es"
    using ReadDir_entries [OF wf t] n(3) pl by (metis Join_lockdown)
  have low: "ToLower (u @ ''.plist'') = ToLower u @ ''.plist''" by (simp add: ToLower_def lower_char_def)
  have "HasSuffix (ToLower (u @ ''.plist'')) ''.plist''" unfolding low by (simp add: HasSuffix_def HasPrefix_def)
  then have "\<exists>rec. record_of w fs lockdown_path (u @ ''.plist'', n) = Some rec \<and> pg_UDID rec = u"
    using n(2,4) by (simp add: record_of_def)
  then have "u \<in> pg_UDID ` set (pairingRecords w fs lockdown_path)"
    using es by (force simp: pairingRecords_def lockdown_nonempty List.map_filter_def)
  then show False using u n(1) by (auto simp: CollectWithProbe_def Let_def)
qed

text \<open>The folder is never created: where it does not exist, enrolment fails.\<close>

lemma enrol_needs_folder: "LockdownDir fs = [] \<Longrightarrow> Validate_Enroll r = None \<Longrightarrow> Enroll w r fs = (Inl NoLockdownDir, fs)"
  by (simp add: Enroll_def)

end
