(* ===== verification/Go_Flag.thy ===== *)
theory Go_Flag
  imports Go_Net Go_Float
begin

text \<open>
  What the command line of the engine uses of Go's library: \<open>time.ParseDuration\<close>, \<open>strconv.ParseBool\<close>,
  the integer syntax of package \<open>flag\<close>, and the loop of \<open>flag.FlagSet.Parse\<close>.

  Durations are nanoseconds. The micro sign of a duration unit is its UTF-8 bytes.
\<close>

section \<open>Durations\<close>

definition is_digit :: "char \<Rightarrow> bool" where
  "is_digit c \<longleftrightarrow> digit_val c \<noteq> None"

definition span_digits :: "string \<Rightarrow> string \<times> string" where
  "span_digits s = (takeWhile is_digit s, dropWhile is_digit s)"

definition dec_value :: "string \<Rightarrow> nat" where
  "dec_value ds = (case digits_acc digit_val 10 0 ds of None \<Rightarrow> 0 | Some n \<Rightarrow> n)"

definition duration_units :: "(string \<times> nat) list" where
  "duration_units =
    [(''ns'', 1), (''us'', 1000), ([CHR 0xC2, CHR 0xB5, CHR ''s''], 1000), ([CHR 0xCE, CHR 0xBC, CHR ''s''], 1000),
     (''ms'', 1000000), (''s'', 1000000000), (''m'', 60000000000), (''h'', 3600000000000)]"

text \<open>
  The fraction: digits are accumulated while the value stays below \<open>2^63 / 10\<close>, the rest is ignored; its
  value in the unit is a floating-point product, truncated.
\<close>

fun leadingFraction :: "nat \<Rightarrow> nat \<Rightarrow> string \<Rightarrow> nat \<times> nat" where
  "leadingFraction x scale [] = (x, scale)"
| "leadingFraction x scale (c # cs) =
    (case digit_val c of
       None \<Rightarrow> (x, scale)
     | Some d \<Rightarrow>
         if (2 ^ 63 - 1) div 10 < x \<or> 2 ^ 63 < x * 10 + d then (x, scale)
         else leadingFraction (x * 10 + d) (scale * 10) cs)"

definition fraction_value :: "fpu \<Rightarrow> nat \<Rightarrow> string \<Rightarrow> nat" where
  "fraction_value u unit ds =
    (let (f, scale) = leadingFraction 0 1 ds
     in if f = 0 then 0
        else nat (f64_to_int u (fmul u (rnd u (real f)) (fdiv u (rnd u (real unit)) (rnd u (real scale))))))"

text \<open>One \<open>number unit\<close> group: its value in nanoseconds and the rest of the text.\<close>

definition duration_group :: "fpu \<Rightarrow> string \<Rightarrow> (nat \<times> string) option" where
  "duration_group u s =
    (if s = [] \<or> \<not> (hd s = CHR ''.'' \<or> is_digit (hd s)) then None
     else
       (let (ds, s) = span_digits s;
            (fs, s) = (case s of c # cs \<Rightarrow> if c = CHR ''.'' then span_digits cs else ([], s) | [] \<Rightarrow> ([], s));
            name = takeWhile (\<lambda>c. c \<noteq> CHR ''.'' \<and> \<not> is_digit c) s;
            v = dec_value ds
        in if 2 ^ 63 < v \<or> (ds = [] \<and> fs = []) then None
           else case map_of duration_units name of
             None \<Rightarrow> None
           | Some unit \<Rightarrow>
               if 2 ^ 63 div unit < v then None
               else
                 (let d = v * unit + fraction_value u unit fs
                  in if 2 ^ 63 < d then None else Some (d, drop (length name) s))))"

text \<open>A group consumes at least one character, so the length of the text is fuel enough.\<close>

fun duration_groups :: "fpu \<Rightarrow> nat \<Rightarrow> nat \<Rightarrow> string \<Rightarrow> nat option" where
  "duration_groups u n d [] = Some d"
| "duration_groups u 0 d (c # cs) = None"
| "duration_groups u (Suc n) d (c # cs) =
    (case duration_group u (c # cs) of
       None \<Rightarrow> None
     | Some (v, rest) \<Rightarrow> if 2 ^ 63 < d + v then None else duration_groups u n (d + v) rest)"

definition ParseDuration :: "fpu \<Rightarrow> string \<Rightarrow> int option" where
  "ParseDuration u s =
    (let (neg, s) = (case s of
           c # cs \<Rightarrow> if c = CHR ''-'' then (True, cs) else if c = CHR ''+'' then (False, cs) else (False, s)
         | [] \<Rightarrow> (False, s))
     in if s = ''0'' then Some 0
        else if s = [] then None
        else case duration_groups u (length s) 0 s of
          None \<Rightarrow> None
        | Some d \<Rightarrow> if neg then Some (- int d) else if 2 ^ 63 - 1 < d then None else Some (int d))"

section \<open>Booleans and integers\<close>

definition ParseBool :: "string \<Rightarrow> bool option" where
  "ParseBool s =
    (if s \<in> {''1'', ''t'', ''T'', ''TRUE'', ''true'', ''True''} then Some True
     else if s \<in> {''0'', ''f'', ''F'', ''FALSE'', ''false'', ''False''} then Some False
     else None)"

text \<open>\<open>strconv.ParseInt(s, 0, 64)\<close>: a base prefix, and underscores only between digits or after the prefix.\<close>

fun underscores :: "bool \<Rightarrow> bool \<Rightarrow> string \<Rightarrow> bool" where
  "underscores after_digit after_score [] = (\<not> after_score)"
| "underscores after_digit after_score (c # cs) =
    (if c = CHR ''_'' then after_digit \<and> underscores False True cs else underscores True False cs)"

definition base_prefix :: "string \<Rightarrow> nat \<times> string \<times> bool" where
  "base_prefix s =
    (case s of
       a # b # rest \<Rightarrow>
         if a \<noteq> CHR ''0'' then (10, s, False)
         else if b \<in> {CHR ''x'', CHR ''X''} \<and> rest \<noteq> [] then (16, rest, True)
         else if b \<in> {CHR ''b'', CHR ''B''} \<and> rest \<noteq> [] then (2, rest, True)
         else if b \<in> {CHR ''o'', CHR ''O''} \<and> rest \<noteq> [] then (8, rest, True)
         else (8, b # rest, True)
     | _ \<Rightarrow> (10, s, False))"

definition digit_in :: "nat \<Rightarrow> char \<Rightarrow> nat option" where
  "digit_in base c = (case hex_val c of Some d \<Rightarrow> if d < base then Some d else None | None \<Rightarrow> None)"

definition ParseInt0 :: "string \<Rightarrow> int option" where
  "ParseInt0 s =
    (let (neg, s) = (case s of
           c # cs \<Rightarrow> if c = CHR ''-'' then (True, cs) else if c = CHR ''+'' then (False, cs) else (False, s)
         | [] \<Rightarrow> (False, s));
         (base, ds, prefixed) = base_prefix s;
         digits = filter (\<lambda>c. c \<noteq> CHR ''_'') ds
     in if digits = [] \<or> (CHR ''_'' \<in> set ds \<and> \<not> underscores prefixed False ds) then None
        else case digits_acc (digit_in base) base 0 digits of
          None \<Rightarrow> None
        | Some n \<Rightarrow>
            (let v = (if neg then - int n else int n)
             in if - (2 ^ 63) \<le> v \<and> v < 2 ^ 63 then Some v else None))"

section \<open>fmt.Sscanf\<close>

text \<open>The verb \<open>%d\<close> at the start of a text: the number, within 64 bits, and the rest.\<close>

definition scan_int :: "string \<Rightarrow> (int \<times> string) option" where
  "scan_int s =
    (let s = dropWhile (\<lambda>c. c = CHR '' '') s;
         (neg, s) = (case s of
             [] \<Rightarrow> (False, [])
           | c # cs \<Rightarrow> if c = CHR ''-'' then (True, cs) else if c = CHR ''+'' then (False, cs) else (False, s));
         ds = takeWhile is_digit s
     in if ds = [] then None
        else (let v = (if neg then - int (dec_value ds) else int (dec_value ds))
              in if - (2 ^ 63) \<le> v \<and> v < 2 ^ 63 then Some (v, dropWhile is_digit s) else None))"

section \<open>Flags\<close>

text \<open>
  A setter takes the text of a value and updates the variables, or refuses it. A boolean flag takes no
  separate argument.
\<close>

record 'c flag_def =
  fl_bool :: bool
  fl_set :: "string \<Rightarrow> 'c \<Rightarrow> 'c option"

text \<open>What one argument is: the end of the flags, a syntax error, or a flag with perhaps a value.\<close>

datatype arg_kind = EndOfFlags | BadSyntax | FlagArg string "string option"

definition classify_arg :: "string \<Rightarrow> arg_kind" where
  "classify_arg s =
    (if length s < 2 \<or> hd s \<noteq> CHR ''-'' then EndOfFlags
     else if s = ''--'' then EndOfFlags
     else
       (let name = (if s ! 1 = CHR ''-'' then drop 2 s else drop 1 s)
        in if name = [] \<or> hd name = CHR ''-'' \<or> hd name = CHR ''='' then BadSyntax
           else if CHR ''='' \<in> set name
                then FlagArg (takeWhile (\<lambda>c. c \<noteq> CHR ''='') name) (Some (tl (dropWhile (\<lambda>c. c \<noteq> CHR ''='') name)))
                else FlagArg name None))"

fun parse_flags :: "(string \<times> 'c flag_def) list \<Rightarrow> string list \<Rightarrow> 'c \<Rightarrow> 'c option" where
  "parse_flags formal [] c = Some c"
| "parse_flags formal (s # args) c =
    (case classify_arg s of
       EndOfFlags \<Rightarrow> Some c
     | BadSyntax \<Rightarrow> None
     | FlagArg name given \<Rightarrow>
         (case map_of formal name of
            None \<Rightarrow> None
          | Some f \<Rightarrow>
              (case given of
                 Some v \<Rightarrow> (case fl_set f v c of None \<Rightarrow> None | Some c' \<Rightarrow> parse_flags formal args c')
               | None \<Rightarrow>
                   if fl_bool f
                   then (case fl_set f ''true'' c of None \<Rightarrow> None | Some c' \<Rightarrow> parse_flags formal args c')
                   else (case args of
                           [] \<Rightarrow> None
                         | v # args' \<Rightarrow> (case fl_set f v c of None \<Rightarrow> None | Some c' \<Rightarrow> parse_flags formal args' c')))))"

definition string_flag :: "((string \<Rightarrow> string) \<Rightarrow> 'c \<Rightarrow> 'c) \<Rightarrow> 'c flag_def" where
  "string_flag upd = \<lparr>fl_bool = False, fl_set = (\<lambda>v c. Some (upd (\<lambda>_. v) c))\<rparr>"

definition int_flag :: "((int \<Rightarrow> int) \<Rightarrow> 'c \<Rightarrow> 'c) \<Rightarrow> 'c flag_def" where
  "int_flag upd = \<lparr>fl_bool = False, fl_set = (\<lambda>v c. map_option (\<lambda>n. upd (\<lambda>_. n) c) (ParseInt0 v))\<rparr>"

definition bool_flag :: "((bool \<Rightarrow> bool) \<Rightarrow> 'c \<Rightarrow> 'c) \<Rightarrow> 'c flag_def" where
  "bool_flag upd = \<lparr>fl_bool = True, fl_set = (\<lambda>v c. map_option (\<lambda>b. upd (\<lambda>_. b) c) (ParseBool v))\<rparr>"

definition duration_flag :: "fpu \<Rightarrow> ((int \<Rightarrow> int) \<Rightarrow> 'c \<Rightarrow> 'c) \<Rightarrow> 'c flag_def" where
  "duration_flag u upd = \<lparr>fl_bool = False, fl_set = (\<lambda>v c. map_option (\<lambda>d. upd (\<lambda>_. d) c) (ParseDuration u v))\<rparr>"

section \<open>Which flags were given\<close>

text \<open>The assignments of a command line, in order.\<close>

fun assignments :: "(string \<times> 'c flag_def) list \<Rightarrow> string list \<Rightarrow> (string \<times> string) list" where
  "assignments formal [] = []"
| "assignments formal (s # args) =
    (case classify_arg s of
       FlagArg name given \<Rightarrow>
         (case map_of formal name of
            None \<Rightarrow> []
          | Some f \<Rightarrow>
              (case given of
                 Some v \<Rightarrow> (name, v) # assignments formal args
               | None \<Rightarrow>
                   if fl_bool f then (name, ''true'') # assignments formal args
                   else (case args of [] \<Rightarrow> [] | v # args' \<Rightarrow> (name, v) # assignments formal args')))
     | _ \<Rightarrow> [])"

text \<open>The last value given to a flag, if any.\<close>

definition given_value :: "(string \<times> 'c flag_def) list \<Rightarrow> string list \<Rightarrow> string \<Rightarrow> string option" where
  "given_value formal args name = map_of (rev (assignments formal args)) name"

text \<open>
  A field of the variables that one flag sets to the text it is given and no other flag touches holds
  the last value given to that flag, and its default if there is none.
\<close>

lemma parse_flags_field:
  assumes own: "\<And>v c c'. map_of formal name = Some f \<Longrightarrow> fl_set f v c = Some c' \<Longrightarrow> get c' = v"
    and others: "\<And>n g v c c'. map_of formal n = Some g \<Longrightarrow> n \<noteq> name \<Longrightarrow> fl_set g v c = Some c' \<Longrightarrow> get c' = get c"
    and f: "map_of formal name = Some f"
  shows "parse_flags formal args c = Some c' \<Longrightarrow>
    get c' = (case given_value formal args name of Some v \<Rightarrow> v | None \<Rightarrow> get c)"
proof (induction "length args" arbitrary: args c rule: less_induct)
  case less
  have pick: "get c' = (case map_of (rev ((n, v) # as)) name of Some x \<Rightarrow> x | None \<Rightarrow> get c)"
    if "map_of formal n = Some g" "fl_set g v c = Some c1"
      and "get c' = (case map_of (rev as) name of Some x \<Rightarrow> x | None \<Rightarrow> get c1)" for n g v c1 as
  proof (cases "n = name")
    case True
    then have "g = f" using that(1) f by simp
    then have "get c1 = v" using own [OF f] that(2) by simp
    then show ?thesis using that(3) True by (simp add: map_add_def split: option.split)
  next
    case False
    then show ?thesis using that others by (auto simp: map_add_def split: option.split)
  qed
  note IH = less.hyps [unfolded given_value_def]
  show ?case
  proof (cases args)
    case Nil
    then show ?thesis using less.prems by (simp add: given_value_def)
  next
    case (Cons s rest)
    show ?thesis
    proof (cases "classify_arg s")
      case EndOfFlags
      then show ?thesis using less.prems Cons by (simp add: given_value_def)
    next
      case BadSyntax
      then show ?thesis using less.prems Cons by simp
    next
      case (FlagArg n given)
      then obtain g where g: "map_of formal n = Some g" using less.prems Cons by (auto split: option.splits)
      show ?thesis
      proof (cases "given = None \<and> \<not> fl_bool g")
        case True
        then obtain v rest' c1 where *: "rest = v # rest'" "fl_set g v c = Some c1" "parse_flags formal rest' c1 = Some c'"
          using less.prems Cons FlagArg g by (auto split: list.splits option.splits)
        then show ?thesis using pick [OF g *(2) IH [OF _ *(3)]] Cons FlagArg g True by (simp add: given_value_def)
      next
        case False
        define v where "v = (case given of Some v \<Rightarrow> v | None \<Rightarrow> ''true'')"
        have *: "fl_set g v c \<noteq> None" "parse_flags formal rest (the (fl_set g v c)) = Some c'"
          using less.prems Cons FlagArg g False by (auto simp: v_def split: option.splits)
        then have 1: "fl_set g v c = Some (the (fl_set g v c))" by simp
        have "assignments formal args = (n, v) # assignments formal rest"
          using Cons FlagArg g False by (auto simp: v_def split: option.split)
        then show ?thesis unfolding given_value_def using pick [OF g 1 IH [OF _ *(2)]] Cons by simp
      qed
    qed
  qed
qed

end
