(* ===== verification/Headless.thy ===== *)
theory Headless
  imports Go_Flag Go_Path Engine_Props Cluster_Node
begin

text \<open>
  The command \<open>cmd/headless\<close>: how its flags, the environment and the saved settings become a
  configuration (\<open>config.go\<close>), and how the driver, the engine, the cluster manager and the server are put
  together, run and shut down (\<open>run.go\<close>).

  The environment is a function from names to texts, empty where a variable is not set. Contexts of
  the cluster manager are numbered; the context of the process is number zero.
\<close>

section \<open>config.go\<close>

type_synonym getenv = "string \<Rightarrow> string"

definition envOr :: "getenv \<Rightarrow> string \<Rightarrow> string \<Rightarrow> string" where
  "envOr getenv key fallback = (if getenv key \<noteq> [] then getenv key else fallback)"

definition envBool :: "getenv \<Rightarrow> string \<Rightarrow> bool" where
  "envBool getenv key \<longleftrightarrow> getenv key \<in> {''1'', ''true'', ''yes''}"

definition envIntOr :: "getenv \<Rightarrow> string \<Rightarrow> int \<Rightarrow> int" where
  "envIntOr getenv key fallback =
    (if getenv key = [] then fallback else case Atoi (getenv key) of None \<Rightarrow> fallback | Some n \<Rightarrow> n)"

definition envDurationOr :: "fpu \<Rightarrow> getenv \<Rightarrow> string \<Rightarrow> int \<Rightarrow> int" where
  "envDurationOr u getenv key fallback =
    (if getenv key = [] then fallback else case ParseDuration u (getenv key) of None \<Rightarrow> fallback | Some d \<Rightarrow> d)"

definition splitClusterNodes :: "string \<Rightarrow> string list" where
  "splitClusterNodes raw =
    (if TrimSpace raw = [] then []
     else filter (\<lambda>p. p \<noteq> []) (map TrimSpace (split_on (CHR '','') raw)))"

definition parseTransport :: "string \<Rightarrow> transport_kind" where
  "parseTransport s =
    (if s = ''usb'' then TransportUSB else if s = ''wifi'' then TransportWiFi else TransportAuto)"

text \<open>The variables of the flag set; \<open>fv_clusterNodes\<close> is the text before it is split.\<close>

record flag_vars =
  fv_driver :: string
  fv_transport :: string
  fv_addr :: string
  fv_mdnsInterface :: string
  fv_goiosBin :: string
  fv_pythonBin :: string
  fv_rsd :: string
  fv_driverAPIPort :: int
  fv_logFile :: string
  fv_noTunnel :: bool
  fv_clusterMode :: string
  fv_clusterNodes :: string
  fv_serverName :: string
  fv_clusterSyncCerts :: bool
  fv_tunnelStartTimeout :: int
  fv_shutdownTimeout :: int
  fv_actionTimeout :: int
  fv_telemetryInterval :: int

record run_config =
  rc_driverID :: string
  rc_transport :: string
  rc_addr :: string
  rc_mdnsInterface :: string
  rc_goiosBin :: string
  rc_pythonBin :: string
  rc_rsd :: string
  rc_driverAPIPort :: int
  rc_logFile :: string
  rc_noTunnel :: bool
  rc_clusterMode :: string
  rc_clusterNodes :: "string list"
  rc_serverName :: string
  rc_clusterSyncCerts :: bool
  rc_tunnelStartTimeout :: int
  rc_shutdownTimeout :: int
  rc_actionTimeout :: int
  rc_telemetryInterval :: int

definition second_ns :: int where "second_ns = 1000000000"

definition flag_defaults :: "fpu \<Rightarrow> getenv \<Rightarrow> settings \<Rightarrow> flag_vars" where
  "flag_defaults u getenv def =
    \<lparr>fv_driver = envOr getenv ''GPSMOCK_DRIVER'' (se_PreferredDriver def),
     fv_transport = envOr getenv ''GPSMOCK_TRANSPORT'' ''auto'',
     fv_addr = envOr getenv ''GPSMOCK_ADDR'' (CHR '':'' # Itoa (se_CompanionPort def)),
     fv_mdnsInterface = getenv ''GPSMOCK_MDNS_INTERFACE'',
     fv_goiosBin = getenv ''GPSMOCK_GOIOS_BIN'',
     fv_pythonBin = getenv ''GPSMOCK_PYTHON_BIN'',
     fv_rsd = getenv ''GPSMOCK_RSD'',
     fv_driverAPIPort = envIntOr getenv ''GPSMOCK_DRIVER_API_PORT'' 0,
     fv_logFile = getenv ''GPSMOCK_LOG_FILE'',
     fv_noTunnel = envBool getenv ''GPSMOCK_NO_TUNNEL'',
     fv_clusterMode = envOr getenv ''GPSMOCK_CLUSTER_MODE'' (se_ClusterMode def),
     fv_clusterNodes = getenv ''GPSMOCK_CLUSTER_NODES'',
     fv_serverName = getenv ''GPSMOCK_SERVER_NAME'',
     fv_clusterSyncCerts = envBool getenv ''GPSMOCK_CLUSTER_SYNC_CERTS'',
     fv_tunnelStartTimeout = envDurationOr u getenv ''GPSMOCK_TUNNEL_START_TIMEOUT'' (90 * second_ns),
     fv_shutdownTimeout = envDurationOr u getenv ''GPSMOCK_SHUTDOWN_TIMEOUT'' (5 * second_ns),
     fv_actionTimeout = envDurationOr u getenv ''GPSMOCK_ACTION_TIMEOUT'' (60 * second_ns),
     fv_telemetryInterval = envDurationOr u getenv ''GPSMOCK_TELEMETRY_INTERVAL'' (5 * second_ns)\<rparr>"

definition flag_table :: "fpu \<Rightarrow> (string \<times> flag_vars flag_def) list" where
  "flag_table u =
    [(''driver'', string_flag fv_driver_update),
     (''transport'', string_flag fv_transport_update),
     (''addr'', string_flag fv_addr_update),
     (''mdns-interface'', string_flag fv_mdnsInterface_update),
     (''goios-bin'', string_flag fv_goiosBin_update),
     (''python-bin'', string_flag fv_pythonBin_update),
     (''rsd'', string_flag fv_rsd_update),
     (''driver-api-port'', int_flag fv_driverAPIPort_update),
     (''log-file'', string_flag fv_logFile_update),
     (''no-tunnel'', bool_flag fv_noTunnel_update),
     (''cluster-mode'', string_flag fv_clusterMode_update),
     (''cluster-nodes'', string_flag fv_clusterNodes_update),
     (''server-name'', string_flag fv_serverName_update),
     (''cluster-sync-certs'', bool_flag fv_clusterSyncCerts_update),
     (''tunnel-start-timeout'', duration_flag u fv_tunnelStartTimeout_update),
     (''shutdown-timeout'', duration_flag u fv_shutdownTimeout_update),
     (''action-timeout'', duration_flag u fv_actionTimeout_update),
     (''telemetry-interval'', duration_flag u fv_telemetryInterval_update)]"

definition config_of :: "flag_vars \<Rightarrow> run_config" where
  "config_of v =
    \<lparr>rc_driverID = fv_driver v, rc_transport = fv_transport v, rc_addr = fv_addr v,
     rc_mdnsInterface = fv_mdnsInterface v, rc_goiosBin = fv_goiosBin v, rc_pythonBin = fv_pythonBin v,
     rc_rsd = fv_rsd v, rc_driverAPIPort = fv_driverAPIPort v, rc_logFile = fv_logFile v,
     rc_noTunnel = fv_noTunnel v, rc_clusterMode = fv_clusterMode v,
     rc_clusterNodes = splitClusterNodes (fv_clusterNodes v), rc_serverName = fv_serverName v,
     rc_clusterSyncCerts = fv_clusterSyncCerts v, rc_tunnelStartTimeout = fv_tunnelStartTimeout v,
     rc_shutdownTimeout = fv_shutdownTimeout v, rc_actionTimeout = fv_actionTimeout v,
     rc_telemetryInterval = fv_telemetryInterval v\<rparr>"

definition resolveRunConfig :: "fpu \<Rightarrow> string list \<Rightarrow> getenv \<Rightarrow> settings \<Rightarrow> run_config option" where
  "resolveRunConfig u args getenv def =
    map_option config_of (parse_flags (flag_table u) args (flag_defaults u getenv def))"

definition applyBundledDriverPaths :: "string \<Rightarrow> string \<Rightarrow> run_config \<Rightarrow> run_config" where
  "applyBundledDriverPaths bundledGoios bundledPython cfg =
    cfg\<lparr>rc_goiosBin := (if rc_goiosBin cfg = [] then bundledGoios else rc_goiosBin cfg),
        rc_pythonBin := (if rc_pythonBin cfg = [] then bundledPython else rc_pythonBin cfg)\<rparr>"

text \<open>The home directory is \<open>None\<close> where it can not be found.\<close>

definition defaultDataDir :: "string option \<Rightarrow> string" where
  "defaultDataDir home =
    (case home of Some h \<Rightarrow> if h \<noteq> [] then Join h ''.gpsmock'' else ''.'' | None \<Rightarrow> ''.'')"

section \<open>run.go\<close>

text \<open>Durations of the driver configuration are milliseconds in the driver model.\<close>

definition driver_config_of :: "run_config \<Rightarrow> driver_config" where
  "driver_config_of cfg =
    \<lparr>dc_Transport = parseTransport (rc_transport cfg),
     dc_BinaryPaths =
       (let m = (if rc_goiosBin cfg \<noteq> [] then [''go-ios'' \<mapsto> rc_goiosBin cfg] else Map.empty)
        in if rc_pythonBin cfg \<noteq> [] then m(''python'' \<mapsto> rc_pythonBin cfg) else m),
     dc_ManualAddress = rc_rsd cfg, dc_TargetUDID = [], dc_DaemonAPIPort = rc_driverAPIPort cfg,
     dc_StartTimeout = rc_tunnelStartTimeout cfg div 1000000\<rparr>"

text \<open>
  The error of \<open>Atoi\<close> is dropped here, so its value counts: zero for a text that is no number, the
  nearest 64-bit integer for one that is too large.
\<close>

definition Atoi_value :: "string \<Rightarrow> int" where
  "Atoi_value s =
    (case Atoi s of
       Some n \<Rightarrow> n
     | None \<Rightarrow>
         (let (neg, ds) = (case s of
                [] \<Rightarrow> (False, [])
              | c # cs \<Rightarrow> if c = CHR ''-'' then (True, cs) else if c = CHR ''+'' then (False, cs) else (False, s))
          in case parse_nat ds of None \<Rightarrow> 0 | Some n \<Rightarrow> if neg then - (2 ^ 63) else 2 ^ 63 - 1))"

definition self_port :: "string \<Rightarrow> int" where
  "self_port addr = Atoi_value (case SplitHostPort addr of Some (h, p) \<Rightarrow> p | None \<Rightarrow> [])"

definition peer_info :: "peer \<Rightarrow> cluster_peer_info" where
  "peer_info p = \<lparr>cp_Address = pe_Address p, cp_Port = pe_Port p, cp_Online = pe_Online p, cp_Role = pe_Role p,
     cp_Name = pe_Name p, cp_Discovered = pe_Discovered p\<rparr>"

text \<open>What the engine sees of its cluster manager.\<close>

definition manager_view :: "manager \<Rightarrow> cluster_view" where
  "manager_view m = \<lparr>cv_Role = mg_role m, cv_Mode = mg_mode m, cv_Peers = map peer_info (map snd (mg_peers m)),
     cv_SyncCerts = mg_syncCerts m\<rparr>"

record 'd host =
  no_engine :: "'d engine"
  no_manager :: manager
  no_boot :: nat

text \<open>What the machine supplies: its name, its addresses, the tuning of the cluster and the database.\<close>

record machine =
  ma_hostname :: "string option"
  ma_addrs :: "string list"
  ma_tuning :: tuning
  ma_db :: sql_db

text \<open>
  \<open>runEngine\<close> up to the start of the background loops. The driver made here is number zero of the
  engine, and \<open>no_boot\<close> is the variable \<open>drv\<close> of the function.
\<close>

definition boot :: "'d world \<Rightarrow> machine \<Rightarrow> run_config \<Rightarrow> settings \<Rightarrow> secrets \<Rightarrow> driver_error + 'd host" where
  "boot w ma cfg def sec =
    (case New_driver (w_drivers w) (rc_driverID cfg) (driver_config_of cfg) of
       Inl err \<Rightarrow> Inl err
     | Inr drv \<Rightarrow>
         (let e = NewWithSecrets w drv def sec (ma_tuning ma) (ma_db ma);
              e = SetDriverConfigBase (driver_config_of cfg) e;
              e = SetSecretStore (SetStore e);
              m = New_manager (rc_clusterMode cfg) (rc_clusterNodes cfg) (rc_serverName cfg) (ma_hostname ma)
                    (self_port (rc_addr cfg)) (ma_addrs ma) (rc_clusterSyncCerts cfg);
              e = SetClusterManager (Some (manager_view m)) e;
              e = OnEvent e
          in Inr \<lparr>no_engine = e, no_manager = Manager_Start 0 m, no_boot = en_drv e\<rparr>))"

text \<open>The tunnel started in the background, unless \<open>-no-tunnel\<close> was given.\<close>

definition boot_tunnel :: "'d world \<Rightarrow> run_config \<Rightarrow> 'd host \<Rightarrow> 'd host" where
  "boot_tunnel w cfg n =
    (if rc_noTunnel cfg then n else n\<lparr>no_engine := snd (StartTunnel w (no_engine n))\<rparr>)"

text \<open>The end of \<open>runEngine\<close>, its deferred calls included: the process context is cancelled first.\<close>

definition shutdown :: "'d world \<Rightarrow> 'd host \<Rightarrow> 'd host" where
  "shutdown w n =
    (let e = no_engine n; d = no_boot n
     in n\<lparr>no_engine := set_driver d (snd (op_StopTunnel (w_ops w) (en_drivers e d))) e,
          no_manager := Release (Manager_Stop (no_manager n))\<rparr>)"

definition effective_shutdown_timeout :: "run_config \<Rightarrow> int" where
  "effective_shutdown_timeout cfg = (if rc_shutdownTimeout cfg \<le> 0 then 5 * second_ns else rc_shutdownTimeout cfg)"

text \<open>
  What \<open>advertiseMdns\<close> registers: instance, service and port, and whether it restricts itself to the
  interface asked for; the registration itself is the zeroconf library's.
\<close>

definition advertiseMdns :: "string option \<Rightarrow> (string \<Rightarrow> bool) \<Rightarrow> string \<Rightarrow> string \<Rightarrow> (string \<times> string \<times> int \<times> string option) option" where
  "advertiseMdns hostname exists addr ifaceName =
    (case SplitHostPort addr of
       None \<Rightarrow> None
     | Some (h, portStr) \<Rightarrow>
         (case Atoi portStr of
            None \<Rightarrow> None
          | Some port \<Rightarrow>
              Some ((case hostname of Some n \<Rightarrow> if n \<noteq> [] then n else ''gpsmock-engine'' | None \<Rightarrow> ''gpsmock-engine''),
                    ServiceType, port,
                    if ifaceName \<noteq> [] \<and> exists ifaceName then Some ifaceName else None)))"

section \<open>main.go\<close>

definition data_dir :: "getenv \<Rightarrow> string option \<Rightarrow> string" where
  "data_dir getenv home = envOr getenv ''GPSMOCK_DATA_DIR'' (defaultDataDir home)"

text \<open>
  The decisions of \<open>main\<close> once the database is open: the saved settings or, where they can not be
  read, the defaults; the saved keys, empty where they can not be read; the configuration, and the
  drivers of the portable build where no others were named. \<open>None\<close> is the exit with status 2.
\<close>

definition main_config :: "fpu \<Rightarrow> nat option \<times> nat option \<Rightarrow> sql_db \<Rightarrow> string \<times> string \<Rightarrow> getenv \<Rightarrow> string list
    \<Rightarrow> (run_config \<times> settings \<times> secrets) option" where
  "main_config u fails db bundled getenv args =
    (let (loaded, err) = Load_settings (fst fails) db;
         def = (if err = None then loaded else Default_settings);
         sec = fst (LoadSecrets (snd fails) db)
     in case resolveRunConfig u args getenv def of
          None \<Rightarrow> None
        | Some cfg \<Rightarrow>
            Some (if rc_goiosBin cfg = [] \<or> rc_pythonBin cfg = [] then applyBundledDriverPaths (fst bundled) (snd bundled) cfg
                  else cfg, def, sec))"

definition main_boot :: "'d world \<Rightarrow> machine \<Rightarrow> nat option \<times> nat option \<Rightarrow> string \<times> string \<Rightarrow> getenv \<Rightarrow> string list
    \<Rightarrow> (driver_error + run_config \<times> 'd host) option" where
  "main_boot w ma fails bundled getenv args =
    (case main_config (w_fpu w) fails (ma_db ma) bundled getenv args of
       None \<Rightarrow> None
     | Some (cfg, def, sec) \<Rightarrow>
         Some (case boot w ma cfg def sec of Inl err \<Rightarrow> Inl err | Inr n \<Rightarrow> Inr (cfg, boot_tunnel w cfg n)))"

section \<open>svc\_windows.go\<close>

text \<open>
  The loop of the Windows service. An input is a request of the service manager or the return of
  \<open>runEngine\<close>, whose error is dropped. The result is what was reported, whether the engine's context
  was cancelled inside the loop, and the exit code, which is \<open>None\<close> while the loop waits. After a stop
  request the loop waits for the return of the engine and reads nothing else.
\<close>

datatype svc_cmd = Interrogate | SvcStop | SvcShutdown | SvcOther
datatype svc_state = StartPending | SvcRunning | StopPending | CurrentStatus
datatype svc_input = Request svc_cmd | EngineDone "driver_error option"

fun await_done :: "svc_input list \<Rightarrow> (bool \<times> nat) option" where
  "await_done [] = None"
| "await_done (EngineDone e # _) = Some (False, 0)"
| "await_done (Request c # is) = await_done is"

fun service_loop :: "svc_input list \<Rightarrow> svc_state list \<times> bool \<times> (bool \<times> nat) option" where
  "service_loop [] = ([], False, None)"
| "service_loop (EngineDone e # _) = ([], False, Some (False, 0))"
| "service_loop (Request c # is) =
    (case c of
       Interrogate \<Rightarrow> (let (out, r) = service_loop is in (CurrentStatus # out, r))
     | SvcOther \<Rightarrow> service_loop is
     | _ \<Rightarrow> ([StopPending], True, await_done is))"

definition Execute_service :: "svc_input list \<Rightarrow> svc_state list \<times> bool \<times> (bool \<times> nat) option" where
  "Execute_service is = (let (out, r) = service_loop is in (StartPending # SvcRunning # out, r))"

lemma await_done_iff: "await_done is = (if \<exists>e. EngineDone e \<in> set is then Some (False, 0) else None)"
  by (induction "is" rule: await_done.induct) auto

fun idle_request :: "svc_input \<Rightarrow> bool" where
  "idle_request (Request c) \<longleftrightarrow> c \<noteq> SvcStop \<and> c \<noteq> SvcShutdown"
| "idle_request (EngineDone e) \<longleftrightarrow> False"

definition stop_asked :: "svc_input list \<Rightarrow> bool" where
  "stop_asked is = (case dropWhile idle_request is of Request c # _ \<Rightarrow> True | _ \<Rightarrow> False)"

lemma service_loop_shape:
  "service_loop is =
    (replicate (length (filter (\<lambda>i. i = Request Interrogate) (takeWhile idle_request is))) CurrentStatus @
       (if stop_asked is then [StopPending] else []),
     stop_asked is, if \<exists>e. EngineDone e \<in> set is then Some (False, 0) else None)"
  by (induction "is" rule: service_loop.induct) (auto simp: stop_asked_def await_done_iff split: svc_cmd.split)

text \<open>
  The service ends once the engine has returned, whatever was asked meanwhile, and always with exit
  code zero: an engine that fails to start, because its driver is unknown say, is reported to the
  service manager as a service that ran and stopped. Between, it reports that it starts, that it runs,
  its status whenever asked, and that it stops exactly when it was told to before the engine returned.
\<close>
theorem service_always_succeeds:
  "Execute_service is =
    ([StartPending, SvcRunning] @
       replicate (length (filter (\<lambda>i. i = Request Interrogate) (takeWhile idle_request is))) CurrentStatus @
       (if stop_asked is then [StopPending] else []),
     stop_asked is, if \<exists>e. EngineDone e \<in> set is then Some (False, 0) else None)"
  by (simp add: Execute_service_def service_loop_shape)

section \<open>Which source wins\<close>

lemma flag_setters:
  "fl_set (string_flag upd) v c = Some c' \<longleftrightarrow> c' = upd (\<lambda>_. v) c"
  "fl_set (int_flag updi) v c = Some c' \<longleftrightarrow> (\<exists>n. ParseInt0 v = Some n \<and> c' = updi (\<lambda>_. n) c)"
  "fl_set (bool_flag updb) v c = Some c' \<longleftrightarrow> (\<exists>b. ParseBool v = Some b \<and> c' = updb (\<lambda>_. b) c)"
  "fl_set (duration_flag u updi) v c = Some c' \<longleftrightarrow> (\<exists>n. ParseDuration u v = Some n \<and> c' = updi (\<lambda>_. n) c)"
  by (auto simp: string_flag_def int_flag_def bool_flag_def duration_flag_def)


text \<open>
  Only three of the saved settings reach the configuration: the driver, the port and the mode of
  the cluster. Everything else that is saved, the list of cluster nodes, the name of the server and the
  replication of the pairing records among it, makes no difference to it.
\<close>
theorem saved_settings_read_at_boot:
  "resolveRunConfig u args getenv def =
   resolveRunConfig u args getenv (Default_settings\<lparr>se_PreferredDriver := se_PreferredDriver def,
     se_CompanionPort := se_CompanionPort def, se_ClusterMode := se_ClusterMode def\<rparr>)"
  by (simp add: resolveRunConfig_def flag_defaults_def)


section \<open>What a shutdown stops\<close>

lemma StartTunnel_nextDrv: "en_nextDrv (snd (StartTunnel w e)) = en_nextDrv e"
  by (auto simp: StartTunnel_def start_begin_def driver_start_def start_finish_def start_failed_def start_succeeded_def
      publish_tunnel_def clearActiveStart_def Let_def case_prod_unfold split: sum.split)

lemma boot_facts:
  assumes "boot w ma cfg def sec = Inr n"
  shows "no_boot n = 0" "en_drv (no_engine n) = 0" "en_nextDrv (no_engine n) = 1"
  using assms
  by (auto simp: boot_def Let_def NewWithSecrets_def OnEvent_def SetClusterManager_def SetStore_def SetSecretStore_def
      SetDriverConfigBase_def split: sum.splits)

lemma boot_tunnel_facts:
  assumes "boot w ma cfg def sec = Inr n"
  shows "no_boot (boot_tunnel w' cfg' n) = 0" "en_drv (no_engine (boot_tunnel w' cfg' n)) = 0"
    "en_nextDrv (no_engine (boot_tunnel w' cfg' n)) = 1"
  using boot_facts [OF assms] by (simp_all add: boot_tunnel_def StartTunnel_drv StartTunnel_nextDrv)

lemma SwitchDriver_drv:
  assumes "New_driver (w_drivers w) i (switch_config (en_driverCfg e) t wa ud) = Inr d"
  shows "en_drv (snd (SwitchDriver w i t wa ud e)) = en_nextDrv e"
proof -
  have "en_drv (snd (switch_finish w i t wa ud (en_driverCfg e, p) x)) = en_nextDrv x" for p x
    using assms by (auto simp: switch_finish_def install_driver_def Let_def case_prod_unfold StartTunnel_drv split: option.split)
  then show ?thesis by (simp add: SwitchDriver_def switch_begin_def Let_def case_prod_unfold stopActiveSimulation_def split: option.split)
qed

lemma shutdown_drivers: "en_drivers (no_engine (shutdown w n)) =
    (en_drivers (no_engine n))(no_boot n := snd (op_StopTunnel (w_ops w) (en_drivers (no_engine n) (no_boot n))))"
  "en_drv (no_engine (shutdown w n)) = en_drv (no_engine n)"
  by (simp_all add: shutdown_def Let_def set_driver_def)

text \<open>
  A shutdown stops the driver the process started with. As long as nobody switched, that is the
  driver in use and it is told to stop; after a switch it is another one, and the driver in use, with
  the tunnel daemon it runs, is left as it is.
\<close>
theorem shutdown_stops_boot_driver:
  fixes w w' :: "'d world"
  assumes "boot w ma cfg def sec = Inr n0"
    and "New_driver (w_drivers w') i (switch_config (en_driverCfg (no_engine (boot_tunnel w cfg n0))) t wa ud) = Inr d"
  shows "(let n = boot_tunnel w cfg n0; n' = n\<lparr>no_engine := snd (SwitchDriver w' i t wa ud (no_engine n))\<rparr>
    in driver (no_engine (shutdown w' n)) = snd (op_StopTunnel (w_ops w') (driver (no_engine n))) \<and>
       driver (no_engine (shutdown w' n')) = driver (no_engine n'))"
proof -
  define n where "n = boot_tunnel w cfg n0"
  define n' where "n' = n\<lparr>no_engine := snd (SwitchDriver w' i t wa ud (no_engine n))\<rparr>"
  note b = boot_tunnel_facts [OF assms(1), of w cfg, folded n_def]
  have "driver (no_engine (shutdown w' n)) = snd (op_StopTunnel (w_ops w') (driver (no_engine n)))"
    using b by (simp add: driver_def shutdown_drivers)
  moreover have "en_drv (no_engine n') = 1" using SwitchDriver_drv [OF assms(2)] b by (simp add: n'_def n_def)
  then have "driver (no_engine (shutdown w' n')) = driver (no_engine n')"
    using b by (simp add: driver_def shutdown_drivers n'_def)
  ultimately show ?thesis by (simp add: n_def n'_def Let_def)
qed

text \<open>A driver that is nothing but whether its daemon runs.\<close>

definition daemon_ops :: "bool driver_ops" where
  "daemon_ops = \<lparr>op_ID = (\<lambda>_. DriverGoIos),
     op_StartTunnel = (\<lambda>now d. (Inr \<lparr>ti_Address = ''fd00::1'', ti_Port = 1234, ti_Type = ConnWiFi, ti_Since = now,
                                 ti_UserspacePort = 0\<rparr>, True)),
     op_StopTunnel = (\<lambda>d. (None, False)), op_SetLocation = (\<lambda>lat lon d. (None, d)),
     op_ClearLocation = (\<lambda>d. (None, d)), op_CheckHealth = (\<lambda>d. (True, d)), op_Reresolve = (\<lambda>d. None),
     op_DeviceDetails = (\<lambda>d. None), op_Pair = (\<lambda>d. None), op_ListNetwork = (\<lambda>d. None)\<rparr>"

definition daemon_world :: "bool world" where
  "daemon_world = \<lparr>w_now = 1000, w_fpu = exact_fpu, w_net = offline_net, w_ops = daemon_ops,
     w_drivers = \<lparr>dr_factories = [(DriverGoIos, \<lambda>_. Inr False)], dr_infos = []\<rparr>, w_storeFail = None, w_secretFail = None,
     w_gpx = (\<lambda>_. None), w_rand = (\<lambda>_. 1 / 2), w_osrmEnv = [], w_googleEnv = [], w_googleEnv2 = [], w_mapboxEnv = [],
     w_env = \<lparr>env_OS = ''linux'', env_IsDocker = False, env_Mode = ''Headless'', env_Version = ''dev''\<rparr>,
     w_killPmd3 = None, w_restartMdns = None\<rparr>"

definition demo_run_config :: run_config where
  "demo_run_config = config_of (flag_defaults exact_fpu (\<lambda>_. []) Default_settings)\<lparr>rc_driverID := DriverGoIos\<rparr>"

definition demo_machine :: machine where
  "demo_machine = \<lparr>ma_hostname = None, ma_addrs = [],
     ma_tuning = \<lparr>tu_heartbeat = 10000000000, tu_masterDead = 30000000000, tu_peerTimeout = 3000000000\<rparr>,
     ma_db = \<lparr>db_settings = None, db_secrets = Map.empty\<rparr>\<rparr>"

lemma demo_args:
  "classify_arg ''--driver=pymobiledevice'' = FlagArg ''driver'' (Some ''pymobiledevice'')"
  "classify_arg ''-rsd'' = FlagArg ''rsd'' None"
  by (code_simp, code_simp)


lemma demo_boot: "\<exists>n. boot daemon_world demo_machine demo_run_config Default_settings sec = Inr n"
  by (simp add: boot_def New_driver_def daemon_world_def demo_run_config_def Let_def)


text \<open>A process that switched drivers leaves the daemon of the new one running when it ends.\<close>

theorem shutdown_stops_boot_driver_witness:
  "\<exists>n0. boot daemon_world demo_machine demo_run_config Default_settings \<lparr>sec_Google = [], sec_Mapbox = []\<rparr> = Inr n0 \<and>
     (let n = boot_tunnel daemon_world demo_run_config n0;
          n' = n\<lparr>no_engine := snd (SwitchDriver daemon_world DriverGoIos ''usb'' [] [] (no_engine n))\<rparr>
      in \<not> driver (no_engine (shutdown daemon_world n)) \<and>
         driver (no_engine (shutdown daemon_world n')) = driver (no_engine n'))"
proof -
  obtain n0 where b: "boot daemon_world demo_machine demo_run_config Default_settings \<lparr>sec_Google = [], sec_Mapbox = []\<rparr> = Inr n0"
    using demo_boot by blast
  have d: "New_driver (w_drivers daemon_world) DriverGoIos
      (switch_config (en_driverCfg (no_engine (boot_tunnel daemon_world demo_run_config n0))) ''usb'' [] []) = Inr False"
    by (simp add: New_driver_def daemon_world_def)
  have "\<not> snd (op_StopTunnel (w_ops daemon_world) x)" for x by (simp add: daemon_world_def daemon_ops_def)
  then show ?thesis using shutdown_stops_boot_driver [OF b d] b by (auto simp: Let_def)
qed

end
