(* ===== verification/Platform.thy ===== *)
theory Platform
  imports Go_Path Go_Json Driver_Mount
begin

text \<open>
  How the engine finds and runs the programs behind its drivers: \<open>internal/platform/binary.go\<close> on Unix,
  and what the two command-line drivers share. What the machine answers is an argument: which files
  exist, what \<open>exec.LookPath\<close> finds, where the executable is.
\<close>

section \<open>binary.go\<close>

record host_lookup =
  hl_isFile :: "string \<Rightarrow> bool"
  hl_lookPath :: "string \<Rightarrow> string option"
  hl_executable :: "string option"
  hl_abs :: "string \<Rightarrow> string option"

text \<open>\<open>filepath.Dir\<close>: what is before the last slash, cleaned.\<close>

definition Dir :: "string \<Rightarrow> string" where
  "Dir p = Clean (rev (dropWhile (\<lambda>c. c \<noteq> slash) (rev p)))"

definition resourceRoots :: "host_lookup \<Rightarrow> string list" where
  "resourceRoots h =
    ''.'' # (case hl_executable h of
               None \<Rightarrow> []
             | Some exe \<Rightarrow> if Dir exe \<noteq> [] \<and> Dir exe \<noteq> ''.'' then [Dir exe] else [])"

definition located :: "host_lookup \<Rightarrow> string \<Rightarrow> string" where
  "located h c = (case hl_abs h c of Some a \<Rightarrow> a | None \<Rightarrow> c)"

definition findResource :: "host_lookup \<Rightarrow> string list \<Rightarrow> string option" where
  "findResource h rels =
    map_option (located h)
      (find (hl_isFile h) (concat (map (\<lambda>root. map (Join root) rels) (resourceRoots h))))"

definition first_on_path :: "host_lookup \<Rightarrow> string list \<Rightarrow> string option" where
  "first_on_path h names = (case List.map_filter (hl_lookPath h) names of [] \<Rightarrow> None | p # _ \<Rightarrow> Some p)"

text \<open>The order both resolvers share: an explicit path or nothing, else the path, else the resources.\<close>

definition resolve_program :: "host_lookup \<Rightarrow> string \<Rightarrow> string list \<Rightarrow> string list \<Rightarrow> string + string" where
  "resolve_program h explicit names rels =
    (if explicit \<noteq> [] then (if hl_isFile h explicit then Inr explicit else Inl (''not found at '' @ explicit))
     else case first_on_path h names of
       Some p \<Rightarrow> Inr p
     | None \<Rightarrow> (case findResource h rels of Some p \<Rightarrow> Inr p | None \<Rightarrow> Inl ''not found''))"

definition explicit_path :: "(string \<rightharpoonup> string) \<Rightarrow> string \<Rightarrow> string" where
  "explicit_path m key = (case m key of Some p \<Rightarrow> p | None \<Rightarrow> [])"

definition goIosFallbacks :: "string list" where "goIosFallbacks = [Join ''resources'' ''ios'', ''ios'']"

definition pmd3Fallbacks :: "string list" where
  "pmd3Fallbacks = [Join (Join (Join ''resources'' ''python-embed'') ''bin'') ''python3'']"

definition pythonCandidates :: "string list" where "pythonCandidates = [''python3'', ''python'']"

definition ResolveGoIos :: "host_lookup \<Rightarrow> (string \<rightharpoonup> string) \<Rightarrow> string + string" where
  "ResolveGoIos h paths = resolve_program h (explicit_path paths ''go-ios'') [''ios'', ''go-ios''] goIosFallbacks"

definition Pmd3Command :: "host_lookup \<Rightarrow> (string \<rightharpoonup> string) \<Rightarrow> string + string" where
  "Pmd3Command h paths = resolve_program h (explicit_path paths ''python'') pythonCandidates pmd3Fallbacks"

section \<open>Programs\<close>

text \<open>What a program answers: the error of its run, or what it printed and the document in it.\<close>

datatype cli_result = CliFails string | CliPrints string "json option"

definition cli_text :: "cli_result \<Rightarrow> string" where
  "cli_text r = (case r of CliFails err \<Rightarrow> err | CliPrints t doc \<Rightarrow> t)"

text \<open>What a driver asks of the outside: a program it runs to its end, a daemon, a request.\<close>

datatype cli_event = Ran "string list" | Spawned "string list" nat | Asked string

section \<open>Loosely typed documents\<close>

text \<open>\<open>map[string]any\<close>: the last value of a key counts.\<close>

definition as_object :: "json option \<Rightarrow> (string \<times> json) list option" where
  "as_object doc =
    (case doc of
       Some (JObj kvs) \<Rightarrow> Some (fold (\<lambda>(k, v). AList.update k v) kvs [])
     | Some JNull \<Rightarrow> Some []
     | _ \<Rightarrow> None)"

definition as_array :: "json option \<Rightarrow> json list option" where
  "as_array doc = (case doc of Some (JArr js) \<Rightarrow> Some js | Some JNull \<Rightarrow> Some [] | _ \<Rightarrow> None)"

definition StringField :: "(string \<times> json) list \<Rightarrow> string \<Rightarrow> string" where
  "StringField raw key = (case map_of raw key of Some (JStr s) \<Rightarrow> s | _ \<Rightarrow> [])"

definition details_of :: "string \<Rightarrow> (string \<times> json) list \<Rightarrow> string \<Rightarrow> device_details" where
  "details_of udid raw tunnelAddress =
    \<lparr>dd_UDID = udid, dd_Name = StringField raw ''DeviceName'', dd_ProductType = StringField raw ''ProductType'',
     dd_ProductVersion = StringField raw ''ProductVersion'', dd_SerialNumber = StringField raw ''SerialNumber'',
     dd_WifiAddress = StringField raw ''WiFiAddress'', dd_TunnelAddress = tunnelAddress\<rparr>"

section \<open>The world of a command-line driver\<close>

text \<open>
  What the outside answers during one call: the clock, the programs on the machine, how a coordinate is
  formatted, what a program prints, whether a daemon's process can be started and which number it gets
  (the flag tells the first attempt from the fallback), what each pass of the polling loop sees, whether
  the caller's context has ended, whether an address can be dialled, in which order a Go map is
  traversed, and the document the daemon's HTTP interface serves, if it can be reached.
\<close>

record raw_poll =
  rp_fetch :: "json option option"
  rp_run :: "string list \<Rightarrow> cli_result"
  rp_output :: "string list"
  rp_select :: select_case

record cli_world =
  cl_now :: int
  cl_host :: host_lookup
  cl_ftoa :: "f64 \<Rightarrow> string"
  cl_run :: "string list \<Rightarrow> cli_result"
  cl_decode :: "string \<Rightarrow> json option"
  cl_fetch :: "json option option"
  cl_launch :: "string list \<Rightarrow> driver_error option"
  cl_pid :: "bool \<Rightarrow> nat"
  cl_polls :: "bool \<Rightarrow> raw_poll list"
  cl_ctxDone :: bool
  cl_dial :: "string \<Rightarrow> bool"
  cl_order :: "(string \<times> json) list \<Rightarrow> (string \<times> json) list"

section \<open>A start that returns\<close>

text \<open>What a start must leave behind: with a result that tunnel mounted, with an error none.\<close>

definition start_settled :: "(driver_error + tunnel_info) option \<Rightarrow> tunnel_mount \<Rightarrow> bool" where
  "start_settled r m \<longleftrightarrow> r \<noteq> None \<and> Mount_Current m = (case r of Some (Inr ti) \<Rightarrow> Some ti | _ \<Rightarrow> None)"

lemma start_loop_settled:
  assumes "qs \<noteq> []" "po_select (last qs) \<noteq> SelTick" "Mount_Current m = None"
  shows "start_settled (fst (start_loop keep pid out qs m)) (snd (snd (start_loop keep pid out qs m)))"
  using assms
proof (induction qs arbitrary: out)
  case (Cons q qs)
  show ?case
  proof (cases "po_resolve q = None \<and> po_select q = SelTick")
    case True
    then have "qs \<noteq> []" using Cons.prems(2) by auto
    then show ?thesis using Cons.IH [of "fold (appendTail keep) (po_output q) out"] Cons.prems True by (simp add: Let_def)
  next
    case False
    then show ?thesis using Cons.prems(3)
      by (cases "po_resolve q"; cases "po_select q") (simp_all add: start_settled_def Let_def Mount_Current_def mount_set_def)
  qed
qed simp

lemma Mount_Start_settled:
  assumes "qs \<noteq> []" "po_select (last qs) \<noteq> SelTick"
  shows "start_settled (fst (Mount_Start now cfg pid qs m)) (snd (snd (Mount_Start now cfg pid qs m)))"
proof (cases "Mount_Current m")
  case None
  then have "Mount_Current (m\<lparr>tm_exited := Some pid\<rparr>) = None" by (simp add: Mount_Current_def split: if_splits)
  note loop = start_loop_settled [OF assms this, of "mc_Filter cfg" pid "[]"]
  show ?thesis using None loop
    by (auto simp: Mount_Start_def start_settled_def SetActive_def mount_set_def split: sum.split option.split daemon_start.split)
      (simp_all add: Mount_Current_def)
qed (simp add: Mount_Start_def start_settled_def)

section \<open>Where a program is taken from\<close>

definition bundled :: "host_lookup \<Rightarrow> string list \<Rightarrow> string set" where
  "bundled h rels = {c. hl_isFile h c \<and> (\<exists>root rel. root \<in> set (resourceRoots h) \<and> rel \<in> set rels \<and> c = Join root rel)}"

lemma findResource_bundled:
  "case findResource h rels of
     None \<Rightarrow> bundled h rels = {}
   | Some p \<Rightarrow> \<exists>c. c \<in> bundled h rels \<and> p = located h c"
proof -
  define cs where "cs = concat (map (\<lambda>root. map (Join root) rels) (resourceRoots h))"
  have cs: "c \<in> set cs \<and> hl_isFile h c \<longleftrightarrow> c \<in> bundled h rels" for c
    unfolding bundled_def cs_def by auto
  show ?thesis
  proof (cases "find (hl_isFile h) cs")
    case None
    then have "bundled h rels = {}" using cs by (auto simp: find_None_iff)
    then show ?thesis by (simp add: findResource_def cs_def [symmetric] None)
  next
    case (Some c)
    then have "c \<in> set cs" "hl_isFile h c" by (auto simp: find_Some_iff)
    then have "c \<in> bundled h rels" using cs by blast
    then show ?thesis using Some by (simp add: findResource_def cs_def [symmetric] Some) blast
  qed
qed

text \<open>
  A program the user named is the one that is run, or none: where the named file is missing nothing
  else is tried. Without a name the first of the known names on the path is taken, and only where none is
  there a bundled copy, and then one that exists.
\<close>
theorem named_program_or_none:
  "case resolve_program h explicit names rels of
      Inr p \<Rightarrow> if explicit \<noteq> [] then p = explicit \<and> hl_isFile h p
               else (case List.map_filter (hl_lookPath h) names of q # _ \<Rightarrow> p = q
                    | [] \<Rightarrow> \<exists>c. c \<in> bundled h rels \<and> p = located h c)
    | Inl err \<Rightarrow> if explicit \<noteq> [] then \<not> hl_isFile h explicit
               else List.map_filter (hl_lookPath h) names = [] \<and> bundled h rels = {}"
  using findResource_bundled [of h rels]
  by (cases "findResource h rels") (simp_all add: resolve_program_def first_on_path_def split: list.split)

end
