(* ===== verification/Goios.thy ===== *)
theory Goios
  imports Platform "HOL-Library.Sublist"
begin

text \<open>
  The go-ios driver, \<open>internal/driver/goios\<close>: how it finds the command, which arguments it passes, how it
  reads the answers, and the tunnel it mounts. The state is the \<open>Driver\<close> struct, with what was run
  appended to it; the queries of the polling loop are not recorded.
\<close>

section \<open>The driver\<close>

record goios =
  gd_binPaths :: "string \<rightharpoonup> string"
  gd_lockdownArgs :: "string list"
  gd_manual :: string
  gd_target :: string
  gd_timeout :: int
  gd_infoPort :: int
  gd_bin :: string
  gd_udid :: string
  gd_mount :: tunnel_mount
  gd_gate :: mount_gate
  gd_log :: "cli_event list"

definition go_default_timeout :: int where "go_default_timeout = 45 * 1000"

definition New_goios :: "host_lookup \<Rightarrow> string \<Rightarrow> driver_config \<Rightarrow> goios" where
  "New_goios h lockdown cfg =
    \<lparr>gd_binPaths = dc_BinaryPaths cfg,
     gd_lockdownArgs = (if lockdown \<noteq> [] then [''--pair-record-path='' @ lockdown] else []),
     gd_manual = dc_ManualAddress cfg, gd_target = dc_TargetUDID cfg,
     gd_timeout = (if dc_StartTimeout cfg \<le> 0 then go_default_timeout else dc_StartTimeout cfg),
     gd_infoPort = dc_DaemonAPIPort cfg,
     gd_bin = (case ResolveGoIos h (dc_BinaryPaths cfg) of Inr p \<Rightarrow> p | Inl _ \<Rightarrow> []),
     gd_udid = dc_TargetUDID cfg, gd_mount = zero_mount, gd_gate = gate_zero, gd_log = []\<rparr>"

definition go_binPath :: "host_lookup \<Rightarrow> goios \<Rightarrow> (string + string) \<times> goios" where
  "go_binPath h d =
    (if gd_bin d \<noteq> [] then (Inr (gd_bin d), d)
     else case ResolveGoIos h (gd_binPaths d) of
       Inl err \<Rightarrow> (Inl err, d)
     | Inr p \<Rightarrow> (Inr p, d\<lparr>gd_bin := p\<rparr>))"

text \<open>The command with the given arguments, run to its end.\<close>

definition go_output :: "cli_world \<Rightarrow> string list \<Rightarrow> goios \<Rightarrow> (driver_error + string \<times> json option) \<times> goios" where
  "go_output w args d =
    (case go_binPath (cl_host w) d of
       (Inl err, d) \<Rightarrow> (Inl (DriverError err), d)
     | (Inr bin, d) \<Rightarrow>
         (case cl_run w (bin # args) of
            CliFails err \<Rightarrow> (Inl (DriverError err), d\<lparr>gd_log := gd_log d @ [Ran (bin # args)]\<rparr>)
          | CliPrints text doc \<Rightarrow> (Inr (text, doc), d\<lparr>gd_log := gd_log d @ [Ran (bin # args)]\<rparr>)))"

section \<open>Devices\<close>

definition parse_go_devices :: "json option \<Rightarrow> device list" where
  "parse_go_devices doc =
    (let (udids, err) = Unmarshal (dec_struct [field ''deviceList'' (\<lambda>x. x) (\<lambda>f. f) (dec_list [] dec_string)]) [] doc
     in if err then [] else map (\<lambda>u. \<lparr>dv_UDID = u, dv_Name = [], dv_Source = ''usbmux''\<rparr>) udids)"

definition go_ListDevices :: "cli_world \<Rightarrow> goios \<Rightarrow> (driver_error + device list) \<times> goios" where
  "go_ListDevices w d =
    (case go_output w [''list''] d of
       (Inl err, d) \<Rightarrow> (Inl err, d)
     | (Inr (text, doc), d) \<Rightarrow> (Inr (parse_go_devices doc), d))"

definition setUDID :: "string \<Rightarrow> goios \<Rightarrow> goios" where
  "setUDID udid d = (if gd_target d \<noteq> [] \<or> udid = [] then d else d\<lparr>gd_udid := udid\<rparr>)"

definition getUDID :: "cli_world \<Rightarrow> goios \<Rightarrow> string \<times> goios" where
  "getUDID w d =
    (if gd_udid d \<noteq> [] then (gd_udid d, d)
     else (let d = (case go_ListDevices w d of (Inr (dv # _), d) \<Rightarrow> setUDID (dv_UDID dv) d | (_, d) \<Rightarrow> d)
           in (gd_udid d, d)))"

definition detailsUDID :: "cli_world \<Rightarrow> goios \<Rightarrow> (driver_error + string) \<times> goios" where
  "detailsUDID w d =
    (if gd_target d \<noteq> [] then (Inr (gd_target d), d)
     else case go_ListDevices w d of
       (Inl err, d) \<Rightarrow> (Inl err, d)
     | (Inr [], d) \<Rightarrow> (Inl (DriverError ''no device detected''), d)
     | (Inr (dv # _), d) \<Rightarrow> (Inr (dv_UDID dv), d))"

definition udid_flag :: "string \<Rightarrow> string" where "udid_flag udid = ''--udid='' @ udid"

definition udid_arg :: "string \<Rightarrow> string list" where
  "udid_arg udid = (if udid \<noteq> [] then [udid_flag udid] else [])"

definition tunnel_address :: "tunnel_mount \<Rightarrow> string" where
  "tunnel_address m = (case Mount_Current m of Some ti \<Rightarrow> ti_Address ti | None \<Rightarrow> [])"

definition go_DeviceDetails :: "cli_world \<Rightarrow> goios \<Rightarrow> (driver_error + device_details) \<times> goios" where
  "go_DeviceDetails w d =
    (case detailsUDID w d of
       (Inl err, d) \<Rightarrow> (Inl err, d)
     | (Inr udid, d) \<Rightarrow>
         (case go_output w [''info'', udid_flag udid] d of
            (Inl err, d) \<Rightarrow> (Inl err, d)
          | (Inr (text, doc), d) \<Rightarrow>
              (case as_object doc of
                 None \<Rightarrow> (Inl (DriverError ''invalid JSON''), d)
               | Some raw \<Rightarrow> (Inr (details_of udid raw (tunnel_address (gd_mount d))), d))))"

section \<open>The state of the device\<close>

definition go_probe :: "cli_world \<Rightarrow> string list \<Rightarrow> goios \<Rightarrow> (driver_error + string \<times> json option) \<times> goios" where
  "go_probe w args d = go_output w (args @ udid_arg (gd_udid d)) d"

definition go_mode_of :: "((string \<times> json) list \<Rightarrow> (string \<times> json) list) \<Rightarrow> json option \<Rightarrow> bool option" where
  "go_mode_of order doc =
    (case as_object doc of
       None \<Rightarrow> None
     | Some kvs \<Rightarrow>
         (case List.map_filter (\<lambda>(k, v). if Contains (ToLower k) ''enabled''
                                         then (case v of JBool b \<Rightarrow> Some b | _ \<Rightarrow> None) else None) (order kvs) of
            [] \<Rightarrow> None
          | b # _ \<Rightarrow> Some b))"

definition go_developerModeEnabled :: "cli_world \<Rightarrow> goios \<Rightarrow> bool option \<times> goios" where
  "go_developerModeEnabled w d =
    (case go_probe w [''devmode'', ''get''] d of
       (Inl err, d) \<Rightarrow> (None, d)
     | (Inr (text, doc), d) \<Rightarrow> (go_mode_of (cl_order w) doc, d))"

definition go_image_of :: "((string \<times> json) list \<Rightarrow> (string \<times> json) list) \<Rightarrow> json option \<Rightarrow> bool option" where
  "go_image_of order doc =
    (case as_array doc of
       Some js \<Rightarrow> Some (js \<noteq> [])
     | None \<Rightarrow>
         (case as_object doc of
            None \<Rightarrow> None
          | Some kvs \<Rightarrow>
              (case List.map_filter (\<lambda>(k, v). case v of JArr js \<Rightarrow> Some (js \<noteq> []) | _ \<Rightarrow> None) (order kvs) of
                 [] \<Rightarrow> None
               | b # _ \<Rightarrow> Some b)))"

definition go_developerImageMounted :: "cli_world \<Rightarrow> goios \<Rightarrow> bool option \<times> goios" where
  "go_developerImageMounted w d =
    (case go_probe w [''image'', ''list''] d of
       (Inl err, d) \<Rightarrow> (None, d)
     | (Inr (text, doc), d) \<Rightarrow> (go_image_of (cl_order w) doc, d))"

definition go_ProbeDeviceState :: "cli_world \<Rightarrow> goios \<Rightarrow> device_state \<times> goios" where
  "go_ProbeDeviceState w d =
    (case go_binPath (cl_host w) d of
       (Inl err, d) \<Rightarrow> (\<lparr>ds_DeveloperMode = None, ds_ImageMounted = None\<rparr>, d)
     | (Inr bin, d) \<Rightarrow>
         (let (mode, d) = go_developerModeEnabled w d;
              (image, d) = go_developerImageMounted w d
          in (\<lparr>ds_DeveloperMode = mode, ds_ImageMounted = image\<rparr>, d)))"

definition go_mountDeveloperImage :: "cli_world \<Rightarrow> goios \<Rightarrow> goios" where
  "go_mountDeveloperImage w d =
    (case go_binPath (cl_host w) d of
       (Inl err, d) \<Rightarrow> d
     | (Inr bin, d) \<Rightarrow>
         (let udid = gd_udid d in
          if Gate_Mounted (cl_now w) udid (gd_gate d) then d
          else case go_developerImageMounted w d of
            (Some True, d) \<Rightarrow> d\<lparr>gd_gate := MarkMounted (cl_now w) udid (gd_gate d)\<rparr>
          | (_, d) \<Rightarrow>
              (case go_output w ([''image'', ''auto''] @ udid_arg udid) d of
                 (Inl err, d) \<Rightarrow> d
               | (Inr out, d) \<Rightarrow> d\<lparr>gd_gate := MarkMounted (cl_now w) udid (gd_gate d)\<rparr>)))"

section \<open>Tunnels\<close>

record go_tunnel =
  gt_Address :: string
  gt_RsdPort :: int
  gt_UDID :: string
  gt_UserspaceTun :: bool
  gt_UserspaceTunPort :: int

definition zero_go_tunnel :: go_tunnel where
  "zero_go_tunnel = \<lparr>gt_Address = [], gt_RsdPort = 0, gt_UDID = [], gt_UserspaceTun = False, gt_UserspaceTunPort = 0\<rparr>"

definition dec_go_tunnels :: "go_tunnel list decoder" where
  "dec_go_tunnels = dec_list zero_go_tunnel (dec_struct
    [field ''address'' gt_Address gt_Address_update dec_string,
     field ''rsdPort'' gt_RsdPort gt_RsdPort_update dec_int,
     field ''udid'' gt_UDID gt_UDID_update dec_string,
     field ''userspaceTun'' gt_UserspaceTun gt_UserspaceTun_update dec_bool,
     field ''userspaceTunPort'' gt_UserspaceTunPort gt_UserspaceTunPort_update dec_int])"

definition defaultTunnelInfoPort :: int where "defaultTunnelInfoPort = 28100"

definition infoPort :: "goios \<Rightarrow> int" where
  "infoPort d = (if 0 < gd_infoPort d then gd_infoPort d else defaultTunnelInfoPort)"

definition tunnelInfoBase :: "goios \<Rightarrow> string" where
  "tunnelInfoBase d = ''http://127.0.0.1:'' @ Itoa (infoPort d)"

definition tunnelsURL :: "goios \<Rightarrow> string" where "tunnelsURL d = tunnelInfoBase d @ ''/tunnels''"

definition hasUsableTunnel :: "go_tunnel list \<Rightarrow> bool" where
  "hasUsableTunnel es \<longleftrightarrow> list_ex (\<lambda>e. gt_Address e \<noteq> [] \<and> 0 < gt_RsdPort e) es"

text \<open>
  The search for a JSON array in the output of \<open>ios tunnel ls\<close>: from every opening bracket on, the first
  value is decoded. \<open>decode\<close> is the JSON decoder.
\<close>

fun parseTunnelList :: "(string \<Rightarrow> json option) \<Rightarrow> string \<Rightarrow> go_tunnel list" where
  "parseTunnelList decode [] = []"
| "parseTunnelList decode (c # cs) =
    (if c = CHR ''[''
     then (let (es, err) = Unmarshal dec_go_tunnels [] (decode (c # cs))
           in if \<not> err \<and> hasUsableTunnel es then es else parseTunnelList decode cs)
     else parseTunnelList decode cs)"

definition fetchTunnels :: "json option option \<Rightarrow> go_tunnel list option" where
  "fetchTunnels answer =
    (case answer of
       None \<Rightarrow> None
     | Some doc \<Rightarrow> (let (es, err) = Unmarshal dec_go_tunnels [] doc in if err then None else Some es))"

definition tunnelsCLI :: "cli_world \<Rightarrow> goios \<Rightarrow> go_tunnel list \<times> goios" where
  "tunnelsCLI w d =
    (case go_output w [''tunnel'', ''ls''] d of
       (Inl err, d) \<Rightarrow> ([], d)
     | (Inr (text, doc), d) \<Rightarrow> (parseTunnelList (cl_decode w) text, d))"

definition go_tunnels :: "cli_world \<Rightarrow> goios \<Rightarrow> go_tunnel list \<times> goios" where
  "go_tunnels w d =
    (let d = d\<lparr>gd_log := gd_log d @ [Asked (tunnelsURL d)]\<rparr>
     in case fetchTunnels (cl_fetch w) of Some es \<Rightarrow> (es, d) | None \<Rightarrow> tunnelsCLI w d)"

definition go_endpoint :: "int \<Rightarrow> go_tunnel \<Rightarrow> tunnel_endpoint option" where
  "go_endpoint now e =
    map_option (\<lambda>ep. if gt_UserspaceTun e then ep\<lparr>te_Info := (te_Info ep)\<lparr>ti_UserspacePort := gt_UserspaceTunPort e\<rparr>\<rparr> else ep)
      (NewTunnelEndpoint now (gt_Address e) (gt_RsdPort e) (gt_UDID e))"

definition first_endpoint :: "int \<Rightarrow> string \<Rightarrow> go_tunnel list \<Rightarrow> tunnel_endpoint option" where
  "first_endpoint now target es =
    (case List.map_filter (go_endpoint now) (filter (\<lambda>e. target = [] \<or> gt_UDID e = target) es) of
       [] \<Rightarrow> None
     | ep # _ \<Rightarrow> Some ep)"

definition queryTunnel :: "cli_world \<Rightarrow> goios \<Rightarrow> tunnel_endpoint option \<times> goios" where
  "queryTunnel w d = (let (es, d) = go_tunnels w d in (first_endpoint (cl_now w) (gd_target d) es, d))"

definition go_network_device :: "go_tunnel \<Rightarrow> network_device option" where
  "go_network_device e =
    (if gt_Address e = [] \<or> gt_RsdPort e \<le> 0 then None
     else Some \<lparr>nd_UDID = gt_UDID e, nd_Address = gt_Address e, nd_Port = gt_RsdPort e,
                nd_UserspacePort = (if gt_UserspaceTun e then gt_UserspaceTunPort e else 0)\<rparr>)"

definition go_ListNetworkDevices :: "cli_world \<Rightarrow> goios \<Rightarrow> network_device list \<times> goios" where
  "go_ListNetworkDevices w d = (let (es, d) = go_tunnels w d in (List.map_filter go_network_device es, d))"

section \<open>Starting and stopping\<close>

definition tunnelStartArgs :: "bool \<Rightarrow> goios \<Rightarrow> string list" where
  "tunnelStartArgs userspace d =
    [''tunnel'', ''start''] @ gd_lockdownArgs d @ [''--tunnel-info-port='' @ Itoa (infoPort d)] @
    (if userspace then [''--userspace''] else []) @ udid_arg (gd_udid d)"

text \<open>One pass of the polling loop: what the driver resolves from what it sees.\<close>

definition go_poll :: "cli_world \<Rightarrow> goios \<Rightarrow> raw_poll \<Rightarrow> poll" where
  "go_poll w d q =
    \<lparr>po_resolve = fst (queryTunnel (w\<lparr>cl_fetch := rp_fetch q, cl_run := rp_run q\<rparr>) d),
     po_output = rp_output q, po_select = rp_select q\<rparr>"

definition go_mount_config :: "cli_world \<Rightarrow> bool \<Rightarrow> goios \<Rightarrow> mount_config" where
  "go_mount_config w userspace d =
    \<lparr>mc_ManualAddress = gd_manual d, mc_BeforeStart = None,
     mc_StartDaemon = (case fst (go_binPath (cl_host w) d) of
         Inl err \<Rightarrow> StarterFails (DriverError err)
       | Inr bin \<Rightarrow> (case cl_launch w (bin # tunnelStartArgs userspace d) of Some err \<Rightarrow> ExecFails err | None \<Rightarrow> Launched)),
     mc_HasResolve = True, mc_Filter = (\<lambda>_. True)\<rparr>"

text \<open>
  The agent on the driver's port is asked to stop before a daemon is started, and only then; what is
  started is recorded.
\<close>

definition start_events :: "cli_world \<Rightarrow> bool \<Rightarrow> goios \<Rightarrow> cli_event list" where
  "start_events w userspace d =
    (if Mount_Current (gd_mount d) = None \<and> gd_manual d = []
     then Asked (tunnelInfoBase d @ ''/shutdown'') #
       (case fst (go_binPath (cl_host w) d) of
          Inl err \<Rightarrow> []
        | Inr bin \<Rightarrow> [Spawned (bin # tunnelStartArgs userspace d) (cl_pid w userspace)])
     else [])"

definition startTunnelMode :: "cli_world \<Rightarrow> bool \<Rightarrow> goios \<Rightarrow> (driver_error + tunnel_info) option \<times> nat option \<times> goios" where
  "startTunnelMode w userspace d =
    (let evs = start_events w userspace d;
         (r, killed, m) = Mount_Start (cl_now w) (go_mount_config w userspace d) (cl_pid w userspace)
           (map (go_poll w d) (cl_polls w userspace)) (gd_mount d)
     in (r, killed, (if evs = [] then d else snd (go_binPath (cl_host w) d))\<lparr>gd_mount := m, gd_log := gd_log d @ evs\<rparr>))"

definition is_up :: "(driver_error + tunnel_info) option \<Rightarrow> bool" where
  "is_up r = (case r of Some (Inr _) \<Rightarrow> True | _ \<Rightarrow> False)"

text \<open>\<open>None\<close> is a start that still polls. The processes killed on the way are returned.\<close>

definition go_StartTunnel :: "cli_world \<Rightarrow> goios \<Rightarrow> (driver_error + tunnel_info) option \<times> nat list \<times> goios" where
  "go_StartTunnel w d =
    (let d = go_mountDeveloperImage w (snd (getUDID w d));
         (r, k, d) = startTunnelMode w False d;
         ks = (case k of None \<Rightarrow> [] | Some p \<Rightarrow> [p])
     in if r = None \<or> is_up r \<or> gd_manual d \<noteq> [] \<or> cl_ctxDone w then (r, ks, d)
        else (let (r, k, d) = startTunnelMode w True d
              in (r, ks @ (case k of None \<Rightarrow> [] | Some p \<Rightarrow> [p]), d)))"

definition go_StopTunnel :: "goios \<Rightarrow> nat option \<times> goios" where
  "go_StopTunnel d = (let (k, m) = Mount_Stop (gd_mount d) in (k, d\<lparr>gd_mount := m\<rparr>))"

definition go_CheckHealth :: "cli_world \<Rightarrow> goios \<Rightarrow> bool" where
  "go_CheckHealth w d = Mount_CheckHealth (cl_dial w) (gd_mount d)"

text \<open>A manual address is not re-resolved: the devices are then not asked for.\<close>

definition go_Reresolve :: "cli_world \<Rightarrow> goios \<Rightarrow> (tunnel_info \<times> bool \<times> bool) \<times> goios" where
  "go_Reresolve w d =
    (let (devices, d) = (if IsManual (gd_mount d) then ([], d) else go_ListNetworkDevices w d);
         (r, m) = ReresolveActiveTunnel (cl_now w) (Inr devices) (gd_mount d)
     in (r, d\<lparr>gd_mount := m\<rparr>))"

section \<open>Positions and pairing\<close>

definition go_run :: "cli_world \<Rightarrow> string list \<Rightarrow> goios \<Rightarrow> driver_error option \<times> goios" where
  "go_run w args d = (case go_output w args d of (Inl err, d) \<Rightarrow> (Some err, d) | (Inr out, d) \<Rightarrow> (None, d))"

definition tunnel_args :: "tunnel_info \<Rightarrow> string list" where
  "tunnel_args ti = [''--address='' @ ti_Address ti, ''--rsd-port='' @ Itoa (ti_Port ti)]"

definition userspace_args :: "tunnel_info \<Rightarrow> string list" where
  "userspace_args ti = (if 0 < ti_UserspacePort ti then [''--userspace-port='' @ Itoa (ti_UserspacePort ti)] else [])"

definition go_SetLocation :: "cli_world \<Rightarrow> f64 \<Rightarrow> f64 \<Rightarrow> goios \<Rightarrow> driver_error option \<times> goios" where
  "go_SetLocation w lat lon d =
    (case Mount_Current (gd_mount d) of
       None \<Rightarrow> (Some (DriverError ''tunnel not started''), d)
     | Some ti \<Rightarrow>
         (let args = ''setlocation'' # tunnel_args ti @ [''--lat='' @ cl_ftoa w lat, ''--lon='' @ cl_ftoa w lon] @ userspace_args ti;
              (udid, d) = getUDID w d
          in go_run w (args @ udid_arg udid) d))"

definition go_ClearLocation :: "cli_world \<Rightarrow> goios \<Rightarrow> driver_error option \<times> goios" where
  "go_ClearLocation w d =
    (case Mount_Current (gd_mount d) of
       None \<Rightarrow> (Some (DriverError ''tunnel not started''), d)
     | Some ti \<Rightarrow>
         (let args = ''resetlocation'' # tunnel_args ti @ userspace_args ti;
              (udid, d) = getUDID w d
          in go_run w (args @ udid_arg udid) d))"

definition go_Pair :: "cli_world \<Rightarrow> goios \<Rightarrow> driver_error option \<times> goios" where
  "go_Pair w d = (let (udid, d) = getUDID w d in go_run w (''pair'' # udid_arg udid) d)"

section \<open>One device\<close>

text \<open>The calls the engine and the server make of the driver.\<close>

datatype go_op =
    GoStart | GoStop | GoSet f64 f64 | GoClear | GoPair | GoDetails | GoProbe | GoReresolve | GoList | GoNetwork

fun go_op_run :: "go_op \<Rightarrow> cli_world \<Rightarrow> goios \<Rightarrow> goios" where
  "go_op_run GoStart w d = snd (snd (go_StartTunnel w d))"
| "go_op_run GoStop w d = snd (go_StopTunnel d)"
| "go_op_run (GoSet lat lon) w d = snd (go_SetLocation w lat lon d)"
| "go_op_run GoClear w d = snd (go_ClearLocation w d)"
| "go_op_run GoPair w d = snd (go_Pair w d)"
| "go_op_run GoDetails w d = snd (go_DeviceDetails w d)"
| "go_op_run GoProbe w d = snd (go_ProbeDeviceState w d)"
| "go_op_run GoReresolve w d = snd (go_Reresolve w d)"
| "go_op_run GoList w d = snd (go_ListDevices w d)"
| "go_op_run GoNetwork w d = snd (go_ListNetworkDevices w d)"

definition go_ops_run :: "(go_op \<times> cli_world) list \<Rightarrow> goios \<Rightarrow> goios" where
  "go_ops_run ops d = fold (\<lambda>(p, w). go_op_run p w) ops d"

text \<open>A command that names the device, or one of the two that list what there is.\<close>

fun names_device :: "string \<Rightarrow> cli_event \<Rightarrow> bool" where
  "names_device t (Ran (bin # args)) \<longleftrightarrow> args = [''list''] \<or> args = [''tunnel'', ''ls''] \<or> udid_flag t \<in> set args"
| "names_device t (Spawned (bin # args) pid) \<longleftrightarrow> udid_flag t \<in> set args"
| "names_device t (Asked url) \<longleftrightarrow> True"
| "names_device t _ \<longleftrightarrow> False"

definition pinned :: "string \<Rightarrow> goios \<Rightarrow> bool" where
  "pinned t d \<longleftrightarrow> gd_target d = t \<and> gd_udid d = t \<and> list_all (names_device t) (gd_log d) \<and>
     (tm_cmd (gd_mount d) = None \<or> tm_udid (gd_mount d) = t)"

lemma go_binPath_same: "\<exists>b. snd (go_binPath h d) = d\<lparr>gd_bin := b\<rparr>"
  by (auto simp: go_binPath_def split: sum.split intro: exI [of _ "gd_bin d"])

lemma pinned_bin [simp]: "pinned t (d\<lparr>gd_bin := b\<rparr>) = pinned t d" "pinned t (d\<lparr>gd_gate := g\<rparr>) = pinned t d"
  by (simp_all add: pinned_def)

lemma pinned_binPath: "pinned t d \<Longrightarrow> pinned t (snd (go_binPath h d))"
  using go_binPath_same [of h d] by auto

lemma pinned_output:
  assumes "pinned t d" "args = [''list''] \<or> args = [''tunnel'', ''ls''] \<or> udid_flag t \<in> set args"
  shows "pinned t (snd (go_output w args d))"
  using assms pinned_binPath [OF assms(1), of "cl_host w"]
  by (auto simp: go_output_def pinned_def split: prod.split sum.split cli_result.split)

lemma pinned_udid_arg: "t \<noteq> [] \<Longrightarrow> udid_flag t \<in> set (udid_arg t)"
  by (simp add: udid_arg_def)

lemma pinned_getUDID: "pinned t d \<Longrightarrow> t \<noteq> [] \<Longrightarrow> getUDID w d = (t, d)"
  by (simp add: getUDID_def pinned_def)

lemma pinned_probe:
  "pinned t d \<Longrightarrow> t \<noteq> [] \<Longrightarrow> pinned t (snd (go_probe w args d))"
  unfolding go_probe_def by (rule pinned_output) (simp_all add: pinned_udid_arg pinned_def)

lemma pinned_image: "pinned t d \<Longrightarrow> t \<noteq> [] \<Longrightarrow> pinned t (snd (go_developerImageMounted w d))"
  using pinned_probe [of t d w "[''image'', ''list'']"]
  by (simp add: go_developerImageMounted_def case_prod_unfold split: sum.split)

lemma pinned_mode: "pinned t d \<Longrightarrow> t \<noteq> [] \<Longrightarrow> pinned t (snd (go_developerModeEnabled w d))"
  using pinned_probe [of t d w "[''devmode'', ''get'']"]
  by (simp add: go_developerModeEnabled_def case_prod_unfold split: sum.split)

lemma pinned_mount_image:
  assumes "pinned t d" "t \<noteq> []"
  shows "pinned t (go_mountDeveloperImage w d)"
proof -
  obtain r d1 where b: "go_binPath (cl_host w) d = (r, d1)" by fastforce
  have 1: "pinned t d1" using pinned_binPath [OF assms(1), of "cl_host w"] b by simp
  obtain i d2 where m: "go_developerImageMounted w d1 = (i, d2)" by fastforce
  have 2: "pinned t d2" using pinned_image [OF 1 assms(2), of w] m by simp
  have u: "gd_udid d1 = t" using 1 by (simp add: pinned_def)
  have 3: "pinned t (snd (go_output w ([''image'', ''auto''] @ udid_arg t) d2))"
    by (rule pinned_output [OF 2]) (simp add: pinned_udid_arg assms(2))
  show ?thesis using 1 2 3
    by (simp add: go_mountDeveloperImage_def b m u Let_def case_prod_unfold split: sum.split option.split bool.split)
qed

lemma start_loop_mount:
  assumes "start_loop keep pid out qs m = (r, k, m')"
  shows "m' = m \<or> (\<exists>ep q. q \<in> set qs \<and> po_resolve q = Some ep \<and> m' = mount_set (te_Info ep) (Some pid) (te_UDID ep) m)"
  using assms
proof (induction qs arbitrary: out)
  case (Cons q qs)
  then show ?case by (fastforce simp: Let_def split: option.splits select_case.splits)
qed simp

lemma Mount_Start_mount:
  assumes "Mount_Start now cfg pid qs m = (r, k, m')"
  shows "tm_cmd m' = None \<or> tm_cmd m' = tm_cmd m \<and> tm_udid m' = tm_udid m \<or>
    (\<exists>ep q. q \<in> set qs \<and> po_resolve q = Some ep \<and> tm_udid m' = TrimSpace (te_UDID ep))"
proof -
  consider "m' = m" | ti where "m' = SetActive ti [] m"
    | "start_loop (mc_Filter cfg) pid [] qs (m\<lparr>tm_exited := Some pid\<rparr>) = (r, k, m')"
    using assms by (auto simp: Mount_Start_def split: option.splits sum.splits if_splits daemon_start.splits)
  then show ?thesis
  proof cases
    case 3
    from start_loop_mount [OF 3] show ?thesis
    proof (elim disjE exE conjE)
      fix ep q assume q: "q \<in> set qs" "po_resolve q = Some ep"
        and m': "m' = mount_set (te_Info ep) (Some pid) (te_UDID ep) (m\<lparr>tm_exited := Some pid\<rparr>)"
      have "tm_udid m' = TrimSpace (te_UDID ep)" by (simp add: m' mount_set_def)
      then show ?thesis using q by blast
    qed simp
  qed (auto simp: SetActive_def mount_set_def)
qed

lemma go_endpoint_udid: "go_endpoint now e = Some ep \<Longrightarrow> te_UDID ep = TrimSpace (gt_UDID e)"
  by (auto simp: go_endpoint_def NewTunnelEndpoint_def Let_def split: if_splits)

lemma first_endpoint_target:
  assumes "first_endpoint now t es = Some ep" "t \<noteq> []"
  shows "te_UDID ep = TrimSpace t"
proof -
  have "ep \<in> set (List.map_filter (go_endpoint now) (filter (\<lambda>e. t = [] \<or> gt_UDID e = t) es))"
    using assms(1) by (auto simp: first_endpoint_def split: list.splits)
  then show ?thesis using assms(2) go_endpoint_udid by (force simp: List.map_filter_def)
qed

lemma go_tunnels_target: "gd_target (snd (go_tunnels w d)) = gd_target d"
proof -
  have "gd_target (snd (go_output w args x)) = gd_target x" for args x
    using go_binPath_same [of "cl_host w" x] by (auto simp: go_output_def split: prod.split sum.split cli_result.split)
  then show ?thesis by (simp add: go_tunnels_def tunnelsCLI_def Let_def case_prod_unfold split: option.split sum.split)
qed

lemma pinned_startTunnelMode:
  assumes d: "pinned t d" and t: "t \<noteq> []" "TrimSpace t = t"
  shows "pinned t (snd (snd (startTunnelMode w u d)))"
proof -
  obtain r k m where s: "Mount_Start (cl_now w) (go_mount_config w u d) (cl_pid w u) (map (go_poll w d) (cl_polls w u)) (gd_mount d) =
      (r, k, m)" by (metis prod_cases3)
  have "tm_cmd m = None \<or> tm_udid m = t"
    using Mount_Start_mount [OF s]
  proof (elim disjE exE conjE)
    assume "tm_cmd m = tm_cmd (gd_mount d)" "tm_udid m = tm_udid (gd_mount d)"
    then show ?thesis using d by (simp add: pinned_def)
  next
    fix ep q assume q: "q \<in> set (map (go_poll w d) (cl_polls w u))" "po_resolve q = Some ep" "tm_udid m = TrimSpace (te_UDID ep)"
    then obtain x where "first_endpoint (cl_now w) t x = Some ep"
      using d by (auto simp: go_poll_def queryTunnel_def case_prod_unfold Let_def pinned_def go_tunnels_target)
    then have "te_UDID ep = t" using first_endpoint_target t by simp
    then show ?thesis using q(3) t(2) by simp
  qed simp
  moreover have "list_all (names_device t) (start_events w u d)"
    using d t(1) by (simp add: start_events_def tunnelStartArgs_def pinned_udid_arg pinned_def split: sum.split)
  ultimately show ?thesis
    using d pinned_binPath [OF d, of "cl_host w"] by (simp add: startTunnelMode_def s Let_def pinned_def)
qed

lemma pinned_start:
  assumes "pinned t d" "t \<noteq> []" "TrimSpace t = t"
  shows "pinned t (snd (snd (go_StartTunnel w d)))"
proof -
  define d1 where "d1 = go_mountDeveloperImage w (snd (getUDID w d))"
  have 1: "pinned t d1" using pinned_mount_image [OF assms(1,2)] by (simp add: d1_def pinned_getUDID [OF assms(1,2)])
  note 2 = pinned_startTunnelMode [OF 1 assms(2,3), of w False]
  show ?thesis using 2 pinned_startTunnelMode [OF 2 assms(2,3), of w True]
    by (simp add: go_StartTunnel_def Let_def case_prod_unfold d1_def [symmetric])
qed

lemma pinned_run: "pinned t d \<Longrightarrow> udid_flag t \<in> set args \<Longrightarrow> pinned t (snd (go_run w args d))"
  using pinned_output [of t d args w] by (simp add: go_run_def case_prod_unfold split: sum.split)

lemma pinned_tunnels:
  assumes "pinned t d"
  shows "pinned t (snd (go_tunnels w d))"
proof -
  have 1: "pinned t (d\<lparr>gd_log := gd_log d @ [Asked (tunnelsURL d)]\<rparr>)" using assms by (simp add: pinned_def)
  show ?thesis using 1 pinned_output [OF 1, of "[''tunnel'', ''ls'']" w]
    by (simp add: go_tunnels_def tunnelsCLI_def Let_def case_prod_unfold split: option.split sum.split)
qed

lemma pinned_op:
  assumes "pinned t d" "t \<noteq> []" "TrimSpace t = t"
  shows "pinned t (go_op_run p w d)"
proof (cases p)
  case GoStart then show ?thesis using pinned_start [OF assms] by simp
next
  case GoStop then show ?thesis using assms by (simp add: go_StopTunnel_def Mount_Stop_def pinned_def Let_def)
next
  case (GoSet lat lon)
  then show ?thesis using assms
    by (auto simp: go_SetLocation_def pinned_getUDID Let_def pinned_udid_arg intro!: pinned_run split: option.split)
next
  case GoClear
  then show ?thesis using assms
    by (auto simp: go_ClearLocation_def pinned_getUDID Let_def pinned_udid_arg intro!: pinned_run split: option.split)
next
  case GoPair
  then show ?thesis using assms by (auto simp: go_Pair_def pinned_getUDID pinned_udid_arg intro!: pinned_run)
next
  case GoDetails
  have "pinned t (snd (go_output w [''info'', udid_flag t] d))" by (rule pinned_output [OF assms(1)]) simp
  then show ?thesis using assms GoDetails
    by (simp add: go_DeviceDetails_def detailsUDID_def pinned_def [of t d] case_prod_unfold split: sum.split option.split)
next
  case GoProbe
  have 1: "pinned t (snd (go_binPath (cl_host w) d))" by (rule pinned_binPath [OF assms(1)])
  then show ?thesis using GoProbe pinned_image [OF pinned_mode [OF 1 assms(2)] assms(2)]
    by (simp add: go_ProbeDeviceState_def case_prod_unfold Let_def split: sum.split)
next
  case GoReresolve
  have "pinned t (d\<lparr>gd_mount := snd (ReresolveActiveTunnel now l (gd_mount d))\<rparr>)" if "pinned t d" for d now l
    using that by (auto simp: pinned_def ReresolveActiveTunnel_def UpdateInfo_def Let_def split: sum.split option.split)
  then show ?thesis using GoReresolve assms(1) pinned_tunnels [OF assms(1), of w]
    by (simp add: go_Reresolve_def go_ListNetworkDevices_def case_prod_unfold Let_def)
next
  case GoList
  have "pinned t (snd (go_output w [''list''] d))" by (rule pinned_output [OF assms(1)]) simp
  then show ?thesis using GoList by (simp add: go_ListDevices_def case_prod_unfold split: sum.split)
next
  case GoNetwork
  then show ?thesis using pinned_tunnels [OF assms(1)] by (simp add: go_ListNetworkDevices_def case_prod_unfold Let_def)
qed

lemma pinned_new: "dc_TargetUDID cfg = t \<Longrightarrow> pinned t (New_goios h lockdown cfg)"
  by (simp add: New_goios_def pinned_def zero_mount_def)

lemma pinned_ops:
  "pinned t d \<Longrightarrow> t \<noteq> [] \<Longrightarrow> TrimSpace t = t \<Longrightarrow> pinned t (go_ops_run ops d)"
proof (induction ops arbitrary: d)
  case (Cons o ops)
  then show ?case using pinned_op [OF Cons.prems] by (auto simp: go_ops_run_def case_prod_unfold)
qed (simp add: go_ops_run_def)

text \<open>
  C15: A driver that was given a target device speaks of that device only. Whatever is asked of it and
  whatever go-ios answers, every command it ran or started names the target, but for the two that list
  devices and tunnels; the device it addresses never changes; and a tunnel it mounted with a daemon of
  its own is one go-ios reported for the target.
\<close>
theorem pinned_device_only:
  assumes "t \<noteq> []" "TrimSpace t = t" "dc_TargetUDID cfg = t"
  shows "let d = go_ops_run ops (New_goios h lockdown cfg) in
    list_all (names_device t) (gd_log d) \<and> gd_udid d = t \<and> (tm_cmd (gd_mount d) = None \<or> tm_udid (gd_mount d) = t)"
  using pinned_ops [OF pinned_new [OF assms(3)] assms(1,2), of ops h lockdown] by (simp add: pinned_def)

text \<open>
  Without a target a position can be sent to one device through the tunnel of another: the device
  named is the first one \<open>ios list\<close> shows at the time of the first position, whichever device the
  mounted tunnel belongs to.
\<close>
theorem unpinned_positions_name_first_listed:
  assumes "gd_target d = []" "gd_udid d = []" "gd_bin d = bin" "bin \<noteq> []"
    "Mount_Current (gd_mount d) = Some ti" "cl_run w [bin, ''list''] = CliPrints text doc"
    "parse_go_devices doc = dv # dvs" "dv_UDID dv \<noteq> []"
  shows "gd_log (snd (go_SetLocation w lat lon d)) = gd_log d @ [Ran [bin, ''list''],
    Ran (bin # ''setlocation'' # tunnel_args ti @ [''--lat='' @ cl_ftoa w lat, ''--lon='' @ cl_ftoa w lon] @ userspace_args ti @
      [udid_flag (dv_UDID dv)])]"
  using assms
  by (simp add: go_SetLocation_def getUDID_def go_ListDevices_def go_output_def go_binPath_def setUDID_def Let_def go_run_def
      udid_arg_def split: cli_result.split)

section \<open>A start that returns\<close>

text \<open>A world in which the deadline of a start, or its caller, ends the polling of both attempts.\<close>

definition cli_patient :: "cli_world \<Rightarrow> bool" where
  "cli_patient w \<longleftrightarrow> list_all (\<lambda>u. cl_polls w u \<noteq> [] \<and> rp_select (last (cl_polls w u)) \<noteq> SelTick) [False, True]"

lemma startTunnelMode_settled:
  assumes "cli_patient w"
  shows "start_settled (fst (startTunnelMode w u d)) (gd_mount (snd (snd (startTunnelMode w u d))))"
proof -
  have "cl_polls w u \<noteq> [] \<and> rp_select (last (cl_polls w u)) \<noteq> SelTick" using assms by (cases u) (simp_all add: cli_patient_def)
  then show ?thesis
    using Mount_Start_settled [of "map (go_poll w d) (cl_polls w u)" "cl_now w" "go_mount_config w u d" "cl_pid w u" "gd_mount d"]
    by (simp add: startTunnelMode_def case_prod_unfold Let_def last_map go_poll_def)
qed

text \<open>
  C37: A start of the go-ios driver always returns when its polling does: with a tunnel, which is then the
  one that is mounted, or with an error, and then none is mounted. It kills at most one daemon per
  attempt, and makes the userspace attempt only after a failed first one.
\<close>
theorem go_start_returns:
  assumes "cli_patient w"
  shows "case go_StartTunnel w d of (r, ks, d') \<Rightarrow> start_settled r (gd_mount d') \<and> length ks \<le> 2 \<and>
    (\<not> is_up (fst (startTunnelMode w False (go_mountDeveloperImage w (snd (getUDID w d))))) \<or> length ks \<le> 1)"
proof -
  define d1 where "d1 = go_mountDeveloperImage w (snd (getUDID w d))"
  obtain r k d2 where s: "startTunnelMode w False d1 = (r, k, d2)" by (metis prod_cases3)
  obtain r' k' d3 where t: "startTunnelMode w True d2 = (r', k', d3)" by (metis prod_cases3)
  show ?thesis
    using startTunnelMode_settled [OF assms, of False d1] startTunnelMode_settled [OF assms, of True d2]
    by (cases k; cases k') (simp_all add: go_StartTunnel_def d1_def [symmetric] s t Let_def)
qed

section \<open>Reading the answers\<close>

text \<open>
  The search through the output of \<open>ios tunnel ls\<close> always ends, and yields the first array in it that
  decodes into tunnels of which one can be used, whatever text surrounds it; nothing if there is none.
\<close>
theorem tunnel_list_is_first_usable:
  "parseTunnelList decode out =
    (case find (\<lambda>s. s \<noteq> [] \<and> hd s = CHR ''['' \<and> \<not> snd (Unmarshal dec_go_tunnels [] (decode s)) \<and>
                    hasUsableTunnel (fst (Unmarshal dec_go_tunnels [] (decode s)))) (rev (suffixes out)) of
       None \<Rightarrow> []
     | Some s \<Rightarrow> fst (Unmarshal dec_go_tunnels [] (decode s)))"
  by (induction out) (auto simp: case_prod_unfold Let_def)

text \<open>
  What \<open>ios devmode get\<close> answers is read from any boolean field whose name contains \<open>enabled\<close>: with
  two of them the traversal order of the map, which Go leaves open, decides.
\<close>
theorem developer_mode_any_field:
  assumes "as_object doc = Some kvs" "(k, JBool b) \<in> set kvs" "Contains (ToLower k) ''enabled''"
  shows "\<exists>order. (\<forall>xs. mset (order xs) = mset xs) \<and> go_mode_of order doc = Some b"
proof -
  define order where "order xs = (if (k, JBool b) \<in> set xs then (k, JBool b) # remove1 (k, JBool b) xs else xs)" for xs
  have "\<forall>xs. mset (order xs) = mset xs" by (simp add: order_def)
  moreover have "go_mode_of order doc = Some b" using assms by (simp add: go_mode_of_def order_def map_filter_simps)
  ultimately show ?thesis by blast
qed

section \<open>Examples\<close>

definition demo_host :: host_lookup where
  "demo_host = \<lparr>hl_isFile = (\<lambda>_. False), hl_lookPath = (\<lambda>n. if n = ''ios'' then Some ''/bin/ios'' else None),
     hl_executable = None, hl_abs = (\<lambda>_. None)\<rparr>"

definition demo_listing :: json where
  "demo_listing = JObj [(''deviceList'', JArr [JStr ''A'', JStr ''B''])]"

text \<open>A machine with two devices and a tunnel for the second.\<close>

definition demo_cli :: cli_world where
  "demo_cli = \<lparr>cl_now = 1000, cl_host = demo_host, cl_ftoa = (\<lambda>_. ''1''),
     cl_run = (\<lambda>argv. if argv = [''/bin/ios'', ''list''] then CliPrints [] (Some demo_listing) else CliPrints [] None),
     cl_decode = (\<lambda>_. None), cl_fetch = None, cl_launch = (\<lambda>_. None), cl_pid = (\<lambda>u. if u then 2 else 1),
     cl_polls = (\<lambda>_. [\<lparr>rp_fetch = Some (Some (JArr [JObj [(''address'', JStr ''fd00::b''), (''rsdPort'', JInt 7), (''udid'', JStr ''B'')]])),
                       rp_run = (\<lambda>_. CliFails ''x''), rp_output = [], rp_select = SelDeadline\<rparr>]),
     cl_ctxDone = False, cl_dial = (\<lambda>_. True), cl_order = (\<lambda>kvs. kvs)\<rparr>"

definition demo_driver_config :: "string \<Rightarrow> driver_config" where
  "demo_driver_config t = \<lparr>dc_Transport = TransportAuto, dc_BinaryPaths = Map.empty, dc_ManualAddress = [], dc_TargetUDID = t,
     dc_DaemonAPIPort = 0, dc_StartTimeout = 0\<rparr>"

theorem pinned_device_only_witness:
  "let d = go_ops_run [(GoStart, demo_cli), (GoSet (Fin 1) (Fin 1), demo_cli)] (New_goios demo_host [] (demo_driver_config ''B''))
   in list_all (names_device ''B'') (gd_log d) \<and> gd_udid d = ''B''"
proof -
  have "TrimSpace ''B'' = ''B''" by code_simp
  then show ?thesis using pinned_device_only [of "''B''" "demo_driver_config ''B''"] by (simp add: demo_driver_config_def Let_def)
qed

text \<open>The tunnel of the second device, the name of the first.\<close>

theorem go_start_returns_witness:
  "cli_patient demo_cli \<and> (case go_StartTunnel demo_cli (New_goios demo_host [] (demo_driver_config ''B'')) of
     (r, ks, d') \<Rightarrow> start_settled r (gd_mount d'))"
proof
  show p: "cli_patient demo_cli" by (simp add: cli_patient_def demo_cli_def)
  show "case go_StartTunnel demo_cli (New_goios demo_host [] (demo_driver_config ''B'')) of
     (r, ks, d') \<Rightarrow> start_settled r (gd_mount d')"
    using go_start_returns [OF p, of "New_goios demo_host [] (demo_driver_config ''B'')"] by (auto split: prod.splits)
qed

theorem unpinned_positions_name_first_listed_witness:
  "let d = (New_goios demo_host [] (demo_driver_config []))
       \<lparr>gd_mount := mount_set \<lparr>ti_Address = ''fd00::b'', ti_Port = 7, ti_Type = ConnWiFi, ti_Since = 0, ti_UserspacePort = 0\<rparr>
          (Some 1) ''B'' zero_mount\<rparr>
   in last (gd_log (snd (go_SetLocation demo_cli (Fin 1) (Fin 1) d))) =
        Ran [''/bin/ios'', ''setlocation'', ''--address=fd00::b'', ''--rsd-port=7'', ''--lat=1'', ''--lon=1'', udid_flag ''A''] \<and>
      tm_udid (gd_mount d) = ''B''"
proof -
  define d where "d = (New_goios demo_host [] (demo_driver_config []))
       \<lparr>gd_mount := mount_set \<lparr>ti_Address = ''fd00::b'', ti_Port = 7, ti_Type = ConnWiFi, ti_Since = 0, ti_UserspacePort = 0\<rparr>
          (Some 1) ''B'' zero_mount\<rparr>"
  have tb: "TrimSpace ''B'' = ''B''" by code_simp
  have i: "Itoa 7 = ''7''" by code_simp
  have p: "parse_go_devices (Some demo_listing) =
      [\<lparr>dv_UDID = ''A'', dv_Name = [], dv_Source = ''usbmux''\<rparr>, \<lparr>dv_UDID = ''B'', dv_Name = [], dv_Source = ''usbmux''\<rparr>]"
    by (simp add: parse_go_devices_def demo_listing_def Unmarshal_def dec_struct_def dec_member_def find_field_def field_def
        dec_list_def dec_string_def Let_def)
  have b: "gd_bin d = ''/bin/ios''"
    by (simp add: d_def New_goios_def ResolveGoIos_def resolve_program_def first_on_path_def explicit_path_def
        demo_driver_config_def demo_host_def map_filter_simps)
  have "gd_log (snd (go_SetLocation demo_cli (Fin 1) (Fin 1) d)) = gd_log d @ [Ran [''/bin/ios'', ''list''],
    Ran (''/bin/ios'' # ''setlocation'' # tunnel_args (tm_info (gd_mount d)) @ [''--lat=1'', ''--lon=1''] @
      userspace_args (tm_info (gd_mount d)) @ [udid_flag ''A''])]"
    using unpinned_positions_name_first_listed [of d "''/bin/ios''" "tm_info (gd_mount d)" demo_cli "[]" "Some demo_listing"] b p
    by (simp add: d_def New_goios_def demo_driver_config_def Mount_Current_def mount_set_def demo_cli_def)
  then show ?thesis unfolding d_def [symmetric] Let_def
    by (simp add: d_def mount_set_def tunnel_args_def userspace_args_def i tb)
qed

theorem developer_mode_any_field_witness:
  "\<exists>o1 o2. go_mode_of o1 (Some (JObj [(''developerModeEnabled'', JBool True), (''restoreEnabled'', JBool False)])) = Some True \<and>
     go_mode_of o2 (Some (JObj [(''developerModeEnabled'', JBool True), (''restoreEnabled'', JBool False)])) = Some False"
proof -
  let ?kvs = "[(''developerModeEnabled'', JBool True), (''restoreEnabled'', JBool False)]"
  have o: "as_object (Some (JObj ?kvs)) = Some ?kvs" by (simp add: as_object_def)
  have c: "Contains (ToLower ''developerModeEnabled'') ''enabled''" "Contains (ToLower ''restoreEnabled'') ''enabled''"
    by (code_simp, code_simp)
  show ?thesis
    using developer_mode_any_field [OF o _ c(1), of True] developer_mode_any_field [OF o _ c(2), of False] by auto
qed

end
