(* ===== verification/Location_Session.thy ===== *)
theory Location_Session
  imports Go_Json Driver_Base "HOL-Library.Word"
begin

text \<open>
  \<open>internal/driver/pmd3/location_session.go\<close>: the session with the Python process that holds the DVT
  connection. Requests carry an id and replies echo it; one goroutine reads the replies and hands each
  to the channel registered for its id.

  A channel is a number; all have room for one reply. What the process writes is an argument, a line
  with the document \<open>encoding/json\<close> reads in it. The first part is the session and its methods, the
  second lets the round trips, the reader and the deadlines interleave.
\<close>

section \<open>Replies\<close>

record worker_response =
  wr_ID :: "64 word"
  wr_OK :: bool
  wr_Error :: string

definition dec_uint64 :: "64 word decoder" where
  "dec_uint64 j x =
    (case j of
       JNull \<Rightarrow> (x, False)
     | JInt n \<Rightarrow> if 0 \<le> n \<and> n < 2 ^ 64 then (of_int n, False) else (x, True)
     | _ \<Rightarrow> (x, True))"

definition dec_worker_response :: "worker_response decoder" where
  "dec_worker_response = dec_struct
    [field ''id'' wr_ID wr_ID_update dec_uint64,
     field ''ok'' wr_OK wr_OK_update dec_bool,
     field ''error'' wr_Error wr_Error_update dec_string]"

text \<open>What the reader gets from the pipe: its end, or a line with the document in it, if it is one.\<close>

datatype worker_line = StdoutEnds string | StdoutLine string "json option"

datatype read_error = PipeError string | InvalidLine string

text \<open>How a round trip fails: the text of the process's standard error is part of most of them.\<close>

datatype ctx_error = Canceled | DeadlineExceeded

datatype trip_error =
    Unwritten string string
  | StdoutGone "read_error option" string
  | WorkerError string string
  | CtxDone ctx_error

section \<open>The session\<close>

datatype channel = Empty | Full worker_response | Closed

record session =
  ls_endpoint :: tunnel_info
  ls_pid :: nat
  ls_nextID :: "64 word"
  ls_pending :: "64 word \<rightharpoonup> nat"
  ls_chan :: "nat \<Rightarrow> channel"
  ls_nextChan :: nat
  ls_reading :: bool
  ls_readErr :: "read_error option"
  ls_stderr :: "string list"

definition handshakeID :: "64 word" where "handshakeID = 0"

definition session_register :: "64 word \<Rightarrow> session \<Rightarrow> nat \<times> session" where
  "session_register i s =
    (let c = ls_nextChan s
     in (c, s\<lparr>ls_pending := (ls_pending s)(i \<mapsto> c), ls_chan := (ls_chan s)(c := Empty), ls_nextChan := Suc c\<rparr>))"

definition session_unregister :: "64 word \<Rightarrow> session \<Rightarrow> session" where
  "session_unregister i s = s\<lparr>ls_pending := (ls_pending s)(i := None)\<rparr>"

text \<open>
  \<open>deliver\<close>. The flag is set if the send would block the reader on a full channel, or panic on a
  closed one.
\<close>

definition session_deliver :: "worker_response \<Rightarrow> session \<Rightarrow> bool \<times> session" where
  "session_deliver resp s =
    (let s' = session_unregister (wr_ID resp) s
     in case ls_pending s (wr_ID resp) of
          None \<Rightarrow> (False, s')
        | Some c \<Rightarrow> (ls_chan s c \<noteq> Empty, s'\<lparr>ls_chan := (ls_chan s')(c := Full resp)\<rparr>))"

definition failPending :: "session \<Rightarrow> session" where
  "failPending s =
    s\<lparr>ls_pending := Map.empty, ls_chan := (\<lambda>c. if c \<in> ran (ls_pending s) then Closed else ls_chan s c)\<rparr>"

definition reader_stops :: "read_error \<Rightarrow> session \<Rightarrow> session" where
  "reader_stops err s = (failPending (s\<lparr>ls_readErr := Some err\<rparr>))\<lparr>ls_reading := False\<rparr>"

text \<open>One pass of \<open>readLoop\<close>.\<close>

definition read_line :: "worker_line \<Rightarrow> session \<Rightarrow> bool \<times> session" where
  "read_line l s =
    (if \<not> ls_reading s then (False, s)
     else case l of
       StdoutEnds err \<Rightarrow> (False, reader_stops (PipeError err) s)
     | StdoutLine text doc \<Rightarrow>
         (let line = TrimSpace text
          in if line = [] then (False, s)
             else (let (resp, err) = Unmarshal dec_worker_response \<lparr>wr_ID = 0, wr_OK = False, wr_Error = []\<rparr> doc
                   in if err then (False, reader_stops (InvalidLine line) s) else session_deliver resp s)))"

definition captureStderr :: "string \<Rightarrow> session \<Rightarrow> session" where
  "captureStderr line s =
    (let tail = ls_stderr s @ [line]
     in s\<lparr>ls_stderr := (if 20 < length tail then drop (length tail - 20) tail else tail)\<rparr>)"

fun join_lines :: "string list \<Rightarrow> string" where
  "join_lines [] = []"
| "join_lines [x] = x"
| "join_lines (x # y # ys) = x @ CHR 0x0A # join_lines (y # ys)"

definition stderrSuffix :: "session \<Rightarrow> string" where
  "stderrSuffix s =
    (if ls_stderr s = [] then [] else CHR 0x0A # ''worker stderr:'' @ CHR 0x0A # join_lines (ls_stderr s))"

text \<open>\<open>await\<close>: what a reply, or the closing of its channel, means to the caller.\<close>

definition reply_result :: "session \<Rightarrow> worker_response option \<Rightarrow> trip_error option" where
  "reply_result s r =
    (case r of
       None \<Rightarrow> Some (StdoutGone (ls_readErr s) (stderrSuffix s))
     | Some resp \<Rightarrow>
         if \<not> wr_OK resp
         then Some (WorkerError (if wr_Error resp = [] then ''unknown worker error'' else wr_Error resp) (stderrSuffix s))
         else None)"

text \<open>
  A round trip on its own: whether the request could be written, what the process writes while the
  caller waits, and how the wait ends if no answer comes.
\<close>

record trip_env =
  tp_write :: "string option"
  tp_lines :: "worker_line list"
  tp_ctx :: ctx_error

fun await_reply :: "worker_line list \<Rightarrow> ctx_error \<Rightarrow> 64 word \<Rightarrow> nat \<Rightarrow> session \<Rightarrow> trip_error option \<times> session" where
  "await_reply lines ctx i c s =
    (case ls_chan s c of
       Full resp \<Rightarrow> (reply_result s (Some resp), s\<lparr>ls_chan := (ls_chan s)(c := Empty)\<rparr>)
     | Closed \<Rightarrow> (reply_result s None, s)
     | Empty \<Rightarrow>
         (case lines of
            [] \<Rightarrow> (Some (CtxDone ctx), session_unregister i s)
          | l # ls \<Rightarrow> await_reply ls ctx i c (snd (read_line l s))))"

declare await_reply.simps [simp del]

definition roundTrip :: "trip_env \<Rightarrow> session \<Rightarrow> trip_error option \<times> session" where
  "roundTrip env s =
    (let i = ls_nextID s + 1;
         (c, s) = session_register i (s\<lparr>ls_nextID := i\<rparr>)
     in case tp_write env of
          Some err \<Rightarrow> (Some (Unwritten err (stderrSuffix s)), session_unregister i s)
        | None \<Rightarrow> await_reply (tp_lines env) (tp_ctx env) i c s)"

text \<open>
  Starting the process: the pipes and the start can fail. The error of a process that does not report
  ready within its twelve seconds is that of the wait, and the process is killed.
\<close>

datatype worker_launch = LaunchFails string | LaunchedAs nat

definition new_session :: "nat \<Rightarrow> tunnel_info \<Rightarrow> session" where
  "new_session pid endpoint =
    \<lparr>ls_endpoint = endpoint, ls_pid = pid, ls_nextID = 0, ls_pending = Map.empty, ls_chan = (\<lambda>_. Empty),
     ls_nextChan = 0, ls_reading = True, ls_readErr = None, ls_stderr = []\<rparr>"

datatype session_error = NotLaunched string | NotReady trip_error

definition newLocationSession :: "worker_launch \<Rightarrow> worker_line list \<Rightarrow> ctx_error \<Rightarrow> tunnel_info \<Rightarrow>
    (session_error + session) \<times> nat option" where
  "newLocationSession l lines ctx endpoint =
    (case l of
       LaunchFails err \<Rightarrow> (Inl (NotLaunched err), None)
     | LaunchedAs pid \<Rightarrow>
         (let (c, s) = session_register handshakeID (new_session pid endpoint);
              (r, s) = await_reply lines ctx handshakeID c s
          in case r of
               Some err \<Rightarrow> (Inl (NotReady err), Some pid)
             | None \<Rightarrow> (Inr s, None)))"

text \<open>
  \<open>stop\<close>: the process is asked to end and given until the context ends to do so; then it is killed.
  Either way it is gone. \<open>forceKill\<close> kills at once.
\<close>

definition session_stop :: "trip_env \<Rightarrow> bool \<Rightarrow> ctx_error \<Rightarrow> session \<Rightarrow> trip_error option" where
  "session_stop env exits ctx s = (if exits then fst (roundTrip env s) else Some (CtxDone ctx))"

section \<open>Round trips, the reader and the deadlines interleaved\<close>

text \<open>
  The round trips between their registration and their end, and what has happened: a request got its
  channel, the reader handed over a reply, a round trip ended with a reply or without. The flag
  \<open>ss_fault\<close> is that of \<open>deliver\<close>.
\<close>

datatype session_event =
    Sent "64 word"
  | Read worker_response
  | Answered "64 word" worker_response
  | Unanswered "64 word" trip_error

record session_sys =
  ss_session :: session
  ss_waiting :: "(64 word \<times> nat) list"
  ss_trace :: "session_event list"
  ss_fault :: bool

datatype session_action =
    ABegin
  | AWriteFails nat string
  | ATake nat
  | ACtxDone nat ctx_error
  | ALine worker_line
  | AStderr string

definition response_in :: "worker_line \<Rightarrow> worker_response option" where
  "response_in l =
    (case l of
       StdoutEnds _ \<Rightarrow> None
     | StdoutLine text doc \<Rightarrow>
         (if TrimSpace text = [] then None
          else (case Unmarshal dec_worker_response \<lparr>wr_ID = 0, wr_OK = False, wr_Error = []\<rparr> doc of
                  (resp, err) \<Rightarrow> if err then None else Some resp)))"

definition end_trip :: "nat \<Rightarrow> session_event \<Rightarrow> session \<Rightarrow> session_sys \<Rightarrow> session_sys" where
  "end_trip n ev s y =
    y\<lparr>ss_session := s, ss_waiting := take n (ss_waiting y) @ drop (Suc n) (ss_waiting y), ss_trace := ss_trace y @ [ev]\<rparr>"

fun session_act :: "session_action \<Rightarrow> session_sys \<Rightarrow> session_sys" where
  "session_act ABegin y =
    (let s = ss_session y; i = ls_nextID s + 1; (c, s) = session_register i (s\<lparr>ls_nextID := i\<rparr>)
     in y\<lparr>ss_session := s, ss_waiting := ss_waiting y @ [(i, c)], ss_trace := ss_trace y @ [Sent i]\<rparr>)"
| "session_act (AWriteFails n err) y =
    (if n < length (ss_waiting y)
     then (let (i, c) = ss_waiting y ! n; s = ss_session y
           in end_trip n (Unanswered i (Unwritten err (stderrSuffix s))) (session_unregister i s) y)
     else y)"
| "session_act (ATake n) y =
    (if n < length (ss_waiting y)
     then (let (i, c) = ss_waiting y ! n; s = ss_session y
           in case ls_chan s c of
                Empty \<Rightarrow> y
              | Full resp \<Rightarrow> end_trip n (Answered i resp) (s\<lparr>ls_chan := (ls_chan s)(c := Empty)\<rparr>) y
              | Closed \<Rightarrow> end_trip n (Unanswered i (StdoutGone (ls_readErr s) (stderrSuffix s))) s y)
     else y)"
| "session_act (ACtxDone n ctx) y =
    (if n < length (ss_waiting y)
     then (let (i, c) = ss_waiting y ! n
           in end_trip n (Unanswered i (CtxDone ctx)) (session_unregister i (ss_session y)) y)
     else y)"
| "session_act (ALine l) y =
    (let s = ss_session y; (fault, s') = read_line l s
     in y\<lparr>ss_session := s', ss_fault := ss_fault y \<or> fault,
          ss_trace := ss_trace y @ (if ls_reading s then case response_in l of None \<Rightarrow> [] | Some r \<Rightarrow> [Read r] else [])\<rparr>)"
| "session_act (AStderr line) y = y\<lparr>ss_session := captureStderr line (ss_session y)\<rparr>"

declare session_act.simps [simp del]

text \<open>The system of a started process: the wait for its handshake is the first round trip.\<close>

definition started_session :: "nat \<Rightarrow> tunnel_info \<Rightarrow> session_sys" where
  "started_session pid endpoint =
    (let (c, s) = session_register handshakeID (new_session pid endpoint)
     in \<lparr>ss_session = s, ss_waiting = [(handshakeID, c)], ss_trace = [Sent handshakeID], ss_fault = False\<rparr>)"

definition run_session :: "session_action list \<Rightarrow> session_sys \<Rightarrow> session_sys" where
  "run_session acts y = fold session_act acts y"

text \<open>The replies with an id that were read after its request was registered.\<close>

definition replies_to :: "64 word \<Rightarrow> session_event list \<Rightarrow> worker_response list" where
  "replies_to i t = concat (map (\<lambda>e. case e of Read r \<Rightarrow> if wr_ID r = i then [r] else [] | _ \<Rightarrow> [])
     (dropWhile (\<lambda>e. e \<noteq> Sent i) t))"

fun ended_id :: "session_event \<Rightarrow> 64 word option" where
  "ended_id (Answered i r) = Some i"
| "ended_id (Unanswered i e) = Some i"
| "ended_id _ = None"

definition ended_ids :: "session_event list \<Rightarrow> 64 word list" where
  "ended_ids t = List.map_filter ended_id t"


section \<open>No reply is crossed\<close>

lemma replies_to_new: "Sent i \<notin> set t \<Longrightarrow> replies_to i (t @ [e]) = []"
proof -
  assume "Sent i \<notin> set t"
  then have "dropWhile (\<lambda>e. e \<noteq> Sent i) (t @ [e]) = dropWhile (\<lambda>e. e \<noteq> Sent i) [e]" by (intro dropWhile_append2) auto
  then show ?thesis by (simp add: replies_to_def)
qed

lemma replies_to_snoc:
  "Sent i \<in> set t \<Longrightarrow> replies_to i (t @ [e]) =
     replies_to i t @ (case e of Read r \<Rightarrow> if wr_ID r = i then [r] else [] | _ \<Rightarrow> [])"
  by (simp add: replies_to_def dropWhile_append1 split: session_event.split)

lemma ended_ids_snoc: "ended_ids (t @ [e]) = ended_ids t @ (case ended_id e of None \<Rightarrow> [] | Some i \<Rightarrow> [i])"
  by (simp add: ended_ids_def List.map_filter_def split: option.split)

definition slot_ok :: "session \<Rightarrow> session_event list \<Rightarrow> 64 word \<Rightarrow> nat \<Rightarrow> bool" where
  "slot_ok s t i c \<longleftrightarrow> c < ls_nextChan s \<and>
    (case ls_chan s c of
       Empty \<Rightarrow> ls_pending s i = Some c \<and> replies_to i t = []
     | Full r \<Rightarrow> ls_pending s i = None \<and> (\<exists>rest. replies_to i t = r # rest)
     | Closed \<Rightarrow> ls_pending s i = None)"

lemma slot_ok_cong:
  assumes "slot_ok s t i c" "ls_chan s' c = ls_chan s c" "ls_pending s' i = ls_pending s i"
    "replies_to i t' = replies_to i t" "ls_nextChan s \<le> ls_nextChan s'"
  shows "slot_ok s' t' i c"
  using assms by (cases "ls_chan s c") (simp_all add: slot_ok_def)

lemma slot_ok_stderr [simp]: "slot_ok (s\<lparr>ls_stderr := out\<rparr>) t i c = slot_ok s t i c"
  by (cases "ls_chan s c") (simp_all add: slot_ok_def)

definition session_inv :: "nat \<Rightarrow> session_sys \<Rightarrow> bool" where
  "session_inv n y \<longleftrightarrow>
    (let s = ss_session y; t = ss_trace y; w = ss_waiting y in
       n < 2 ^ 64 \<and> ls_nextID s = of_nat n \<and> (\<forall>i. Sent i \<in> set t \<longleftrightarrow> unat i \<le> n) \<and>
       distinct (map fst w) \<and> distinct (map snd w) \<and> distinct (ended_ids t) \<and>
       set (map fst w) \<inter> set (ended_ids t) = {} \<and> set (map fst w) \<union> set (ended_ids t) \<subseteq> {i. Sent i \<in> set t} \<and>
       (\<forall>i c. ls_pending s i = Some c \<longrightarrow> (i, c) \<in> set w \<and> ls_chan s c = Empty) \<and>
       (\<forall>i c. (i, c) \<in> set w \<longrightarrow> slot_ok s t i c) \<and>
       (\<forall>i r. Answered i r \<in> set t \<longrightarrow> (\<exists>rest. replies_to i t = r # rest)) \<and>
       \<not> ss_fault y)"

lemma session_invI:
  assumes "n < 2 ^ 64" "ls_nextID (ss_session y) = of_nat n" "\<And>i. Sent i \<in> set (ss_trace y) \<longleftrightarrow> unat i \<le> n"
    "distinct (map fst (ss_waiting y))" "distinct (map snd (ss_waiting y))" "distinct (ended_ids (ss_trace y))"
    "fst ` set (ss_waiting y) \<inter> set (ended_ids (ss_trace y)) = {}"
    "\<And>i. i \<in> fst ` set (ss_waiting y) \<Longrightarrow> unat i \<le> n" "\<And>i. i \<in> set (ended_ids (ss_trace y)) \<Longrightarrow> unat i \<le> n"
    "\<And>i c. ls_pending (ss_session y) i = Some c \<Longrightarrow> (i, c) \<in> set (ss_waiting y) \<and> ls_chan (ss_session y) c = Empty"
    "\<And>i c. (i, c) \<in> set (ss_waiting y) \<Longrightarrow> slot_ok (ss_session y) (ss_trace y) i c"
    "\<And>i r. Answered i r \<in> set (ss_trace y) \<Longrightarrow> \<exists>rest. replies_to i (ss_trace y) = r # rest" "\<not> ss_fault y"
  shows "session_inv n y"
  using assms unfolding session_inv_def Let_def by (simp add: subset_iff)

lemma session_invD:
  assumes "session_inv n y"
  shows "n < 2 ^ 64" "ls_nextID (ss_session y) = of_nat n" "\<And>i. Sent i \<in> set (ss_trace y) \<longleftrightarrow> unat i \<le> n"
    "distinct (map fst (ss_waiting y))" "distinct (map snd (ss_waiting y))" "distinct (ended_ids (ss_trace y))"
    "fst ` set (ss_waiting y) \<inter> set (ended_ids (ss_trace y)) = {}"
    "\<And>i. i \<in> fst ` set (ss_waiting y) \<Longrightarrow> unat i \<le> n" "\<And>i. i \<in> set (ended_ids (ss_trace y)) \<Longrightarrow> unat i \<le> n"
    "\<And>i c. ls_pending (ss_session y) i = Some c \<Longrightarrow> (i, c) \<in> set (ss_waiting y) \<and> ls_chan (ss_session y) c = Empty"
    "\<And>i c. (i, c) \<in> set (ss_waiting y) \<Longrightarrow> slot_ok (ss_session y) (ss_trace y) i c"
    "\<And>i r. Answered i r \<in> set (ss_trace y) \<Longrightarrow> \<exists>rest. replies_to i (ss_trace y) = r # rest" "\<not> ss_fault y"
  using assms unfolding session_inv_def Let_def by auto

lemma session_inv_started: "session_inv 0 (started_session pid endpoint)"
  by (auto simp: session_inv_def started_session_def session_register_def new_session_def handshakeID_def slot_ok_def
      ended_ids_def map_filter_simps replies_to_def Let_def unat_eq_zero split: if_splits)

lemma answered_sent: "Answered i r \<in> set t \<Longrightarrow> i \<in> set (ended_ids t)"
  by (auto simp: ended_ids_def List.map_filter_def intro!: image_eqI [where x = "Answered i r"])

lemma remove_nth:
  assumes "k < length w" "w ! k = (i, c)" "distinct (map fst w)" "distinct (map snd w)"
  shows "set (take k w @ drop (Suc k) w) = set w - {(i, c)}" "distinct (map fst (take k w @ drop (Suc k) w))"
    "distinct (map snd (take k w @ drop (Suc k) w))" "i \<notin> fst ` set (take k w @ drop (Suc k) w)"
    "c \<notin> snd ` set (take k w @ drop (Suc k) w)"
proof -
  obtain xs ys where w: "w = xs @ (i, c) # ys" "take k w = xs" "drop (Suc k) w = ys"
    using id_take_nth_drop [OF assms(1)] assms(2) by metis
  have f: "i \<notin> fst ` set xs" "i \<notin> fst ` set ys" "c \<notin> snd ` set xs" "c \<notin> snd ` set ys"
    using assms(3,4) by (simp_all add: w(1))
  then have "(i, c) \<notin> set xs" "(i, c) \<notin> set ys" by force+
  then show "set (take k w @ drop (Suc k) w) = set w - {(i, c)}" unfolding w(2,3) by (auto simp: w(1))
  show "distinct (map fst (take k w @ drop (Suc k) w))" unfolding w(2,3) using assms(3) by (simp add: w(1))
  show "distinct (map snd (take k w @ drop (Suc k) w))" unfolding w(2,3) using assms(4) by (simp add: w(1))
  show "i \<notin> fst ` set (take k w @ drop (Suc k) w)" "c \<notin> snd ` set (take k w @ drop (Suc k) w)"
    unfolding w(2,3) using f by auto
qed

lemma session_inv_end_trip:
  assumes inv: "session_inv n y" and k: "k < length (ss_waiting y)" "ss_waiting y ! k = (i, c)" and e: "ended_id ev = Some i"
    and s: "ls_nextID s = ls_nextID (ss_session y)" "ls_nextChan s = ls_nextChan (ss_session y)"
      "ls_pending s = (ls_pending (ss_session y))(i := None)"
      "\<And>c'. c' \<noteq> c \<Longrightarrow> ls_chan s c' = ls_chan (ss_session y) c'"
    and ev: "\<And>r. ev = Answered i r \<Longrightarrow> \<exists>rest. replies_to i (ss_trace y) = r # rest"
  shows "session_inv n (end_trip k ev s y)"
proof -
  note I = session_invD [OF inv]
  define w where "w = take k (ss_waiting y) @ drop (Suc k) (ss_waiting y)"
  note w = remove_nth [OF k I(4,5), folded w_def]
  have ic: "(i, c) \<in> set (ss_waiting y)" using nth_mem [OF k(1)] k(2) by simp
  have evs: "ev \<noteq> Sent j" "ev \<noteq> Read q" for j q using e by auto
  have rep: "replies_to j (ss_trace y @ [ev]) = replies_to j (ss_trace y)" if "unat j \<le> n" for j
    using that evs I(3) by (auto simp: replies_to_snoc split: session_event.split)
  have fs: "j \<in> fst ` set (ss_waiting y)" if "(j, d) \<in> set (ss_waiting y)" for j d using that by force
  have i: "unat i \<le> n" "i \<notin> set (ended_ids (ss_trace y))" using I(7,8) fs [OF ic] by blast+
  have y': "end_trip k ev s y = y\<lparr>ss_session := s, ss_waiting := w, ss_trace := ss_trace y @ [ev]\<rparr>"
    by (simp add: end_trip_def w_def)
  have ends: "ended_ids (ss_trace y @ [ev]) = ended_ids (ss_trace y) @ [i]" by (simp add: ended_ids_snoc e)
  have sub: "fst ` set w \<subseteq> fst ` set (ss_waiting y)" using w(1) by auto
  show ?thesis
    unfolding y'
  proof (rule session_invI, goal_cases)
    case (3 j) show ?case using I(3) evs(1) [of j] by auto
  next
    case 7
    have "fst ` set w \<inter> set (ended_ids (ss_trace y)) = {}" using I(7) sub by blast
    then show ?case using w(4) by (simp add: ends)
  next
    case (8 j) then show ?case using I(8) sub by (simp add: subset_iff)
  next
    case (9 j) then show ?case using I(9) i(1) by (auto simp: ends)
  next
    case (10 j d)
    then have j: "j \<noteq> i" "(j, d) \<in> set (ss_waiting y)" "ls_chan (ss_session y) d = Empty"
      using s(3) I(10) by (auto split: if_splits)
    then have "(j, d) \<in> set w" using w(1) by simp
    moreover have "d \<noteq> c" using w(5) calculation by force
    ultimately show ?case using j(3) s(4) by simp
  next
    case (11 j d)
    then have m: "(j, d) \<in> set w" by simp
    then have *: "(j, d) \<in> set (ss_waiting y)" "d \<noteq> c" "j \<noteq> i" using w by force+
    show ?case using * s by (simp, intro slot_ok_cong [OF I(11) [OF *(1)]]) (simp_all add: rep I(8) fs [OF *(1)])
  next
    case (12 j r)
    show ?case
    proof (cases "Answered j r \<in> set (ss_trace y)")
      case True
      then show ?thesis using I(12) [OF True] rep [OF I(9) [OF answered_sent [OF True]]] by simp
    next
      case False
      then have "ev = Answered j r" using 12 by auto
      then show ?thesis using ev e rep i(1) by auto
    qed
  qed (use I w(2,3) i(2) evs in \<open>auto simp: s(1) ends\<close>)
qed

lemma unat_Suc_of_nat: "Suc n < 2 ^ 64 \<Longrightarrow> unat (of_nat (Suc n) :: 64 word) = Suc n"
  by (simp add: unat_of_nat take_bit_nat_eq_self del: of_nat_Suc)

lemma session_inv_begin:
  assumes inv: "session_inv n y" and n: "Suc n < 2 ^ 64"
  shows "session_inv (Suc n) (session_act ABegin y)"
proof -
  note I = session_invD [OF inv]
  define i :: "64 word" where "i = of_nat (Suc n)"
  define c where "c = ls_nextChan (ss_session y)"
  define s where "s = (ss_session y)\<lparr>ls_nextID := i, ls_pending := (ls_pending (ss_session y))(i \<mapsto> c),
    ls_chan := (ls_chan (ss_session y))(c := Empty), ls_nextChan := Suc c\<rparr>"
  have i: "unat i = Suc n" unfolding i_def by (rule unat_Suc_of_nat [OF n])
  have act: "session_act ABegin y = y\<lparr>ss_session := s, ss_waiting := ss_waiting y @ [(i, c)], ss_trace := ss_trace y @ [Sent i]\<rparr>"
    by (simp add: session_act.simps(1) session_register_def Let_def I(2) i_def c_def s_def add.commute)
  have new: "Sent i \<notin> set (ss_trace y)" "i \<notin> fst ` set (ss_waiting y)" "i \<notin> set (ended_ids (ss_trace y))"
    using I(3,8,9) i by fastforce+
  have c: "d < c" if "(j, d) \<in> set (ss_waiting y)" for j d using I(11) [OF that] by (simp add: slot_ok_def c_def)
  have rep: "replies_to j (ss_trace y @ [Sent i]) = replies_to j (ss_trace y)" if "unat j \<le> n" for j
    using that I(3) by (simp add: replies_to_snoc)
  have ends: "ended_ids (ss_trace y @ [Sent i]) = ended_ids (ss_trace y)" by (simp add: ended_ids_snoc)
  show ?thesis
    unfolding act
  proof (rule session_invI, goal_cases)
    case 2 show ?case by (simp add: s_def i_def)
  next
    case (3 j) then show ?case using I(3) i by (auto simp: le_Suc_eq word_unat_eq_iff)
  next
    case 5 then show ?case using I(5) c by fastforce
  next
    case (8 j) then show ?case using I(8) i by (auto dest: le_SucI)
  next
    case (9 j) then show ?case using I(9) by (auto simp: ends dest: le_SucI)
  next
    case (10 j d) then show ?case using I(10) by (auto simp: s_def split: if_splits)
  next
    case (11 j d)
    show ?case
    proof (cases "(j, d) \<in> set (ss_waiting y)")
      case True
      then have "j \<in> fst ` set (ss_waiting y)" by force
      then have "j \<noteq> i" "unat j \<le> n" using new(2) I(8) by auto
      then show ?thesis using c [OF True]
        by (simp, intro slot_ok_cong [OF I(11) [OF True]]) (simp_all add: rep s_def c_def)
    next
      case False
      then show ?thesis using 11 new(1) by (simp add: slot_ok_def replies_to_new s_def)
    qed
  next
    case (12 j r)
    then have "Answered j r \<in> set (ss_trace y)" by simp
    then show ?case using I(12) rep [OF I(9) [OF answered_sent]] by simp
  qed (use I n new in \<open>auto simp: ends s_def\<close>)
qed

lemma session_inv_deliver:
  assumes inv: "session_inv n y" and d: "session_deliver r (ss_session y) = (f, s')"
  shows "session_inv n (y\<lparr>ss_session := s', ss_fault := ss_fault y \<or> f, ss_trace := ss_trace y @ [Read r]\<rparr>)"
proof -
  note I = session_invD [OF inv]
  define i where "i = wr_ID r"
  have rep: "replies_to j (ss_trace y @ [Read r]) = replies_to j (ss_trace y) @ (if j = i then [r] else [])" if "unat j \<le> n" for j
    using that I(3) by (simp add: replies_to_snoc i_def)
  have same: "ls_nextID s' = ls_nextID (ss_session y)" "ls_nextChan s' = ls_nextChan (ss_session y)"
    "ls_pending s' = (ls_pending (ss_session y))(i := None)"
    "f = (case ls_pending (ss_session y) i of None \<Rightarrow> False | Some c \<Rightarrow> ls_chan (ss_session y) c \<noteq> Empty)"
    "ls_chan s' = (case ls_pending (ss_session y) i of None \<Rightarrow> ls_chan (ss_session y)
       | Some c \<Rightarrow> (ls_chan (ss_session y))(c := Full r))"
    using d by (auto simp: session_deliver_def session_unregister_def Let_def i_def split: option.splits)
  have inj: "(j = k) = (d = c)" if "(j, d) \<in> set (ss_waiting y)" "(k, c) \<in> set (ss_waiting y)" for j d k c
    using that I(4,5) by (metis distinct_map fst_conv snd_conv inj_onD)
  have ends: "ended_ids (ss_trace y @ [Read r]) = ended_ids (ss_trace y)" by (simp add: ended_ids_snoc)
  show ?thesis
  proof (rule session_invI, goal_cases)
    case (10 j d)
    then have j: "j \<noteq> i" "(j, d) \<in> set (ss_waiting y)" "ls_chan (ss_session y) d = Empty"
      using I(10) by (auto simp: same(3) split: if_splits)
    have "d \<noteq> c" if "ls_pending (ss_session y) i = Some c" for c using I(10) [OF that] inj [OF j(2)] j(1) by blast
    then show ?case using j by (auto simp: same(5) split: option.split)
  next
    case (11 j d)
    then have w: "(j, d) \<in> set (ss_waiting y)" by simp
    then have "j \<in> fst ` set (ss_waiting y)" by force
    note rj = rep [OF I(8) [OF this]] and ok = I(11) [OF w]
    show ?case
    proof (cases "ls_pending (ss_session y) i")
      case None
      then show ?thesis using ok by (cases "ls_chan (ss_session y) d") (auto simp: slot_ok_def same rj)
    next
      case (Some c)
      have ic: "(i, c) \<in> set (ss_waiting y)" "ls_chan (ss_session y) c = Empty" using I(10) [OF Some] by auto
      then have "replies_to i (ss_trace y) = []" using I(11) [OF ic(1)] by (simp add: slot_ok_def)
      then show ?thesis using ok ic(2) inj [OF w ic(1)] Some
        by (cases "ls_chan (ss_session y) d") (auto simp: slot_ok_def same rj)
    qed
  next
    case (12 j q)
    then have "Answered j q \<in> set (ss_trace y)" by simp
    then show ?case using I(12) rep [OF I(9) [OF answered_sent]] by fastforce
  next
    case 13
    then show ?case using I(10,13) by (auto simp: same(4) split: option.split)
  qed (use I in \<open>auto simp: same(1) ends\<close>)
qed

lemma session_inv_reader_stops:
  assumes inv: "session_inv n y"
  shows "session_inv n (y\<lparr>ss_session := reader_stops err (ss_session y)\<rparr>)"
proof -
  note I = session_invD [OF inv]
  show ?thesis
  proof (rule session_invI, goal_cases)
    case (11 j d)
    then have w: "(j, d) \<in> set (ss_waiting y)" by simp
    have "ls_chan (ss_session y) d = Empty \<Longrightarrow> d \<in> ran (ls_pending (ss_session y))" using I(11) [OF w]
      by (auto simp: slot_ok_def ran_def)
    moreover have "d \<in> ran (ls_pending (ss_session y)) \<Longrightarrow> ls_chan (ss_session y) d = Empty" using I(10) by (auto simp: ran_def)
    ultimately show ?case using I(11) [OF w]
      by (cases "ls_chan (ss_session y) d") (auto simp: slot_ok_def reader_stops_def failPending_def)
  qed (use I in \<open>auto simp: reader_stops_def failPending_def\<close>)
qed


lemma read_line_cases:
  "read_line l s =
    (if \<not> ls_reading s then (False, s)
     else case response_in l of
       Some r \<Rightarrow> session_deliver r s
     | None \<Rightarrow> (case l of
         StdoutEnds err \<Rightarrow> (False, reader_stops (PipeError err) s)
       | StdoutLine text doc \<Rightarrow> if TrimSpace text = [] then (False, s) else (False, reader_stops (InvalidLine (TrimSpace text)) s)))"
  by (auto simp: read_line_def response_in_def Let_def split: worker_line.split prod.split)

lemma session_inv_act:
  assumes inv: "session_inv n y" and n: "Suc n < 2 ^ 64"
  shows "\<exists>m \<le> Suc n. session_inv m (session_act a y)"
proof (cases a)
  case ABegin
  then show ?thesis using session_inv_begin [OF inv n] by blast
next
  case (AWriteFails k err)
  obtain i c where "ss_waiting y ! k = (i, c)" by (cases "ss_waiting y ! k")
  then show ?thesis using inv AWriteFails
    by (auto simp: session_act.simps Let_def session_unregister_def intro!: exI [of _ n] session_inv_end_trip)
next
  case (ATake k)
  obtain i c where ic: "ss_waiting y ! k = (i, c)" by (cases "ss_waiting y ! k")
  show ?thesis
  proof (cases "k < length (ss_waiting y)")
    case True
    have ok: "slot_ok (ss_session y) (ss_trace y) i c" using session_invD(11) [OF inv] nth_mem [OF True] ic by simp
    have p: "(ls_pending (ss_session y))(i := None) = ls_pending (ss_session y)" if "ls_chan (ss_session y) c \<noteq> Empty"
      using ok that by (cases "ls_chan (ss_session y) c") (auto simp: slot_ok_def fun_eq_iff)
    show ?thesis
    proof (cases "ls_chan (ss_session y) c")
      case (Full r)
      then have "session_inv n (session_act a y)" using ATake True ic ok p
        by (auto simp: session_act.simps Let_def slot_ok_def intro!: session_inv_end_trip [OF inv])
      then show ?thesis using le_SucI by blast
    next
      case Closed
      then have "session_inv n (session_act a y)" using ATake True ic ok p
        by (auto simp: session_act.simps Let_def slot_ok_def intro!: session_inv_end_trip [OF inv])
      then show ?thesis using le_SucI by blast
    qed (use ATake True ic inv in \<open>auto simp: session_act.simps intro!: exI [of _ n]\<close>)
  qed (use ATake inv in \<open>auto simp: session_act.simps intro!: exI [of _ n]\<close>)
next
  case (ACtxDone k ctx)
  obtain i c where "ss_waiting y ! k = (i, c)" by (cases "ss_waiting y ! k")
  then show ?thesis using inv ACtxDone
    by (auto simp: session_act.simps Let_def session_unregister_def intro!: exI [of _ n] session_inv_end_trip)
next
  case (ALine l)
  have "session_inv n (session_act a y)"
  proof (cases "ls_reading (ss_session y)")
    case True
    show ?thesis
    proof (cases "response_in l")
      case None
      then show ?thesis using True ALine inv session_inv_reader_stops [OF inv]
        by (auto simp: session_act.simps Let_def read_line_cases split: worker_line.split)
    next
      case (Some r)
      obtain f s' where d: "session_deliver r (ss_session y) = (f, s')" by fastforce
      show ?thesis using session_inv_deliver [OF inv d] True ALine Some d by (simp add: session_act.simps Let_def read_line_cases)
    qed
  qed (use ALine inv in \<open>simp add: session_act.simps Let_def read_line_cases\<close>)
  then show ?thesis using le_SucI by blast
next
  case (AStderr line)
  have "session_inv n (session_act a y)"
    using session_invD [OF inv] unfolding AStderr
    by (intro session_invI) (simp_all add: session_act.simps captureStderr_def Let_def)
  then show ?thesis using le_SucI by blast
qed

lemma session_inv_run:
  "session_inv n y \<Longrightarrow> n + length acts < 2 ^ 64 \<Longrightarrow> \<exists>m \<le> n + length acts. session_inv m (run_session acts y)"
proof (induction acts arbitrary: n y)
  case (Cons a acts)
  have "Suc n < 2 ^ 64" using Cons.prems(2) by simp
  then obtain m where m: "m \<le> Suc n" "session_inv m (session_act a y)" using session_inv_act [OF Cons.prems(1)] by blast
  then have "m + length acts < 2 ^ 64" using Cons.prems(2) by simp
  then obtain k where "k \<le> m + length acts" "session_inv k (run_session acts (session_act a y))" using Cons.IH [OF m(2)] by blast
  then show ?case using m(1) by (intro exI [of _ k]) (simp add: run_session_def)
qed (auto simp: run_session_def)

text \<open>
  C13: Replies are never crossed. Whatever the process writes, whichever round trips give up or cannot
  write, and however all of it interleaves, a round trip that is answered got the first reply with its
  own id read since it began; a late reply reaches nobody; no round trip ends twice; and the reader
  neither blocks on a channel nor sends on a closed one. The ids are unique for 2^64 requests.
\<close>
theorem replies_match_requests:
  assumes "length acts < 2 ^ 64"
  shows "let y = run_session acts (started_session pid endpoint); t = ss_trace y in
    (\<forall>i r. Answered i r \<in> set t \<longrightarrow> (\<exists>late. replies_to i t = r # late)) \<and> distinct (ended_ids t) \<and> \<not> ss_fault y"
  using session_inv_run [OF session_inv_started, of acts pid endpoint] assms by (auto simp: Let_def dest: session_invD)


definition demo_reply :: "int \<Rightarrow> worker_line" where
  "demo_reply n = StdoutLine ''x'' (Some (JObj [(''id'', JInt n), (''ok'', JBool True)]))"

lemma demo_response:
  "0 \<le> n \<Longrightarrow> n < 2 ^ 64 \<Longrightarrow> response_in (demo_reply n) = Some \<lparr>wr_ID = of_int n, wr_OK = True, wr_Error = []\<rparr>"
proof -
  have "TrimSpace ''x'' = ''x''" by code_simp
  then show "0 \<le> n \<Longrightarrow> n < 2 ^ 64 \<Longrightarrow> ?thesis"
    by (simp add: demo_reply_def response_in_def Unmarshal_def dec_worker_response_def dec_struct_def dec_member_def
        find_field_def field_def dec_uint64_def dec_bool_def)
qed

text \<open>The second request gives up, its reply comes late, and the third gets its own.\<close>

definition demo_session :: session_sys where
  "demo_session = run_session
     [ALine (demo_reply 0), ATake 0, ABegin, ACtxDone 0 DeadlineExceeded, ABegin, ALine (demo_reply 1), ALine (demo_reply 2), ATake 0]
     (started_session 7 \<lparr>ti_Address = [], ti_Port = 0, ti_Type = ConnUSB, ti_Since = 0, ti_UserspacePort = 0\<rparr>)"

lemma demo_session_trace:
  "ss_trace demo_session = [Sent 0, Read \<lparr>wr_ID = 0, wr_OK = True, wr_Error = []\<rparr>,
     Answered 0 \<lparr>wr_ID = 0, wr_OK = True, wr_Error = []\<rparr>, Sent 1, Unanswered 1 (CtxDone DeadlineExceeded), Sent 2,
     Read \<lparr>wr_ID = 1, wr_OK = True, wr_Error = []\<rparr>, Read \<lparr>wr_ID = 2, wr_OK = True, wr_Error = []\<rparr>,
     Answered 2 \<lparr>wr_ID = 2, wr_OK = True, wr_Error = []\<rparr>]"
  by (simp add: demo_session_def run_session_def started_session_def session_act.simps session_register_def new_session_def
      handshakeID_def read_line_cases demo_response session_deliver_def session_unregister_def end_trip_def Let_def)

theorem replies_match_requests_witness:
  "Answered 2 \<lparr>wr_ID = 2, wr_OK = True, wr_Error = []\<rparr> \<in> set (ss_trace demo_session) \<and>
   replies_to 2 (ss_trace demo_session) = [\<lparr>wr_ID = 2, wr_OK = True, wr_Error = []\<rparr>] \<and> \<not> ss_fault demo_session"
  using replies_match_requests [of "[ALine (demo_reply 0), ATake 0, ABegin, ACtxDone 0 DeadlineExceeded, ABegin,
       ALine (demo_reply 1), ALine (demo_reply 2), ATake 0]" 7 "\<lparr>ti_Address = [], ti_Port = 0, ti_Type = ConnUSB, ti_Since = 0,
       ti_UserspacePort = 0\<rparr>", folded demo_session_def]
  unfolding Let_def by (simp add: demo_session_trace replies_to_def)

section \<open>A reader that has stopped\<close>

definition gives_up :: "session_event \<Rightarrow> bool" where
  "gives_up e = (case e of Sent _ \<Rightarrow> True | Unanswered _ (Unwritten _ _) \<Rightarrow> True | Unanswered _ (CtxDone _) \<Rightarrow> True | _ \<Rightarrow> False)"

definition reader_gone :: "session_sys \<Rightarrow> bool" where
  "reader_gone y \<longleftrightarrow> \<not> ls_reading (ss_session y) \<and> (\<forall>(i, c) \<in> set (ss_waiting y). ls_chan (ss_session y) c = Empty)"

lemma reader_gone_act:
  assumes "reader_gone y"
  shows "reader_gone (session_act a y) \<and> (\<exists>ext. ss_trace (session_act a y) = ss_trace y @ ext \<and> list_all gives_up ext)"
proof -
  have sub: "set (take k xs @ drop (Suc k) xs) \<subseteq> set xs" for k and xs :: "(64 word \<times> nat) list"
    using set_take_subset [of k xs] set_drop_subset [of "Suc k" xs] by auto
  show ?thesis
  proof (cases a)
    case (ATake k)
    obtain i c where ic: "ss_waiting y ! k = (i, c)" by (cases "ss_waiting y ! k")
    have "ls_chan (ss_session y) c = Empty" if "k < length (ss_waiting y)"
      using nth_mem [OF that] assms ic by (auto simp: reader_gone_def)
    then have "session_act a y = y" using ATake ic by (simp add: session_act.simps)
    then show ?thesis using assms by simp
  next
    case (AWriteFails k err)
    then show ?thesis using assms sub [of k "ss_waiting y"]
      by (auto simp: session_act.simps reader_gone_def Let_def end_trip_def session_unregister_def gives_up_def split: prod.split)
  next
    case (ACtxDone k ctx)
    then show ?thesis using assms sub [of k "ss_waiting y"]
      by (auto simp: session_act.simps reader_gone_def Let_def end_trip_def session_unregister_def gives_up_def split: prod.split)
  qed (use assms in \<open>auto simp: session_act.simps reader_gone_def Let_def session_register_def captureStderr_def read_line_cases
      gives_up_def split: option.split\<close>)
qed

lemma reader_gone_run:
  "reader_gone y \<Longrightarrow> \<exists>ext. ss_trace (run_session acts y) = ss_trace y @ ext \<and> list_all gives_up ext"
proof (induction acts arbitrary: y)
  case (Cons a acts)
  obtain e1 where 1: "reader_gone (session_act a y)" "ss_trace (session_act a y) = ss_trace y @ e1" "list_all gives_up e1"
    using reader_gone_act [OF Cons.prems] by blast
  then show ?case using Cons.IH [OF 1(1)] by (auto simp: run_session_def)
qed (simp add: run_session_def)

lemma await_reply_stopped:
  "\<not> ls_reading s \<Longrightarrow> ls_chan s c = Empty \<Longrightarrow> await_reply lines ctx i c s = (Some (CtxDone ctx), session_unregister i s)"
proof (induction lines)
  case (Cons l lines)
  then show ?case by (subst await_reply.simps) (simp add: read_line_cases)
qed (subst await_reply.simps, simp)

lemma roundTrip_stopped:
  assumes "\<not> ls_reading s"
  shows "\<exists>s'. roundTrip env s = (Some (case tp_write env of Some err \<Rightarrow> Unwritten err (stderrSuffix s) | None \<Rightarrow> CtxDone (tp_ctx env)), s')
    \<and> \<not> ls_reading s' \<and> ls_endpoint s' = ls_endpoint s \<and> ls_pid s' = ls_pid s"
  using assms
  by (auto simp: roundTrip_def session_register_def Let_def session_unregister_def await_reply_stopped stderrSuffix_def
      split: option.split)

end
