(* ===== verification/Pmd3.thy ===== *)
theory Pmd3
  imports Platform Location_Session Go_Flag
begin

text \<open>
  The pymobiledevice3 driver, \<open>internal/driver/pmd3\<close>: the tunnel it mounts through \<open>remote tunneld\<close> or,
  failing that, inside its own worker process, the worker session positions are sent through, and the
  commands and answers of the Python tool. The state is the \<open>Driver\<close> struct, with what was run appended
  to it and the worker processes that are alive.
\<close>

section \<open>The driver\<close>

record pmd3 =
  pm_binPaths :: "string \<rightharpoonup> string"
  pm_manual :: string
  pm_target :: string
  pm_timeout :: int
  pm_port :: int
  pm_transport :: transport_kind
  pm_py :: string
  pm_mount :: tunnel_mount
  pm_gate :: mount_gate
  pm_location :: "session option"
  pm_userspace :: bool
  pm_version :: "(int \<times> int) option"
  pm_log :: "cli_event list"
  pm_alive :: "nat set"

text \<open>
  The world of a call, with the worker's part: whether its process starts, what it writes until it is
  ready, the round trips of each request, and whether it exits in time when told to stop.
\<close>

record pm_world = cli_world +
  pw_script :: string
  pw_launch :: worker_launch
  pw_ready :: "worker_line list"
  pw_readyCtx :: ctx_error
  pw_set :: trip_env
  pw_clear :: trip_env
  pw_ping :: trip_env
  pw_stop :: trip_env
  pw_exits :: bool
  pw_stopCtx :: ctx_error

definition pm_default_timeout :: int where "pm_default_timeout = 60 * 1000"

definition New_pmd3 :: "host_lookup \<Rightarrow> driver_config \<Rightarrow> pmd3" where
  "New_pmd3 h cfg =
    \<lparr>pm_binPaths = dc_BinaryPaths cfg, pm_manual = dc_ManualAddress cfg, pm_target = dc_TargetUDID cfg,
     pm_timeout = (if dc_StartTimeout cfg \<le> 0 then pm_default_timeout else dc_StartTimeout cfg),
     pm_port = dc_DaemonAPIPort cfg, pm_transport = dc_Transport cfg,
     pm_py = (case Pmd3Command h (dc_BinaryPaths cfg) of Inr p \<Rightarrow> p | Inl _ \<Rightarrow> []),
     pm_mount = zero_mount, pm_gate = gate_zero, pm_location = None, pm_userspace = False, pm_version = None,
     pm_log = [], pm_alive = {}\<rparr>"

definition pyCommand :: "host_lookup \<Rightarrow> pmd3 \<Rightarrow> (string + string) \<times> pmd3" where
  "pyCommand h d =
    (if pm_py d \<noteq> [] then (Inr (pm_py d), d)
     else case Pmd3Command h (pm_binPaths d) of
       Inl err \<Rightarrow> (Inl err, d)
     | Inr p \<Rightarrow> (Inr p, d\<lparr>pm_py := p\<rparr>))"

definition pm_args :: "string list \<Rightarrow> string list" where
  "pm_args extra = [''-m'', ''pymobiledevice3''] @ extra"

text \<open>The interpreter with the given arguments, run to its end.\<close>

definition py_output :: "'a pm_world_scheme \<Rightarrow> string list \<Rightarrow> pmd3 \<Rightarrow> (driver_error + string \<times> json option) \<times> pmd3" where
  "py_output w args d =
    (case pyCommand (cl_host w) d of
       (Inl err, d) \<Rightarrow> (Inl (DriverError err), d)
     | (Inr py, d) \<Rightarrow>
         (case cl_run w (py # args) of
            CliFails err \<Rightarrow> (Inl (DriverError err), d\<lparr>pm_log := pm_log d @ [Ran (py # args)]\<rparr>)
          | CliPrints text doc \<Rightarrow> (Inr (text, doc), d\<lparr>pm_log := pm_log d @ [Ran (py # args)]\<rparr>)))"

section \<open>Devices\<close>

record usbmux_entry =
  ux_Identifier :: string
  ux_DeviceName :: string
  ux_ConnectionType :: string

definition dec_usbmux :: "usbmux_entry list decoder" where
  "dec_usbmux = dec_list \<lparr>ux_Identifier = [], ux_DeviceName = [], ux_ConnectionType = []\<rparr> (dec_struct
    [field ''Identifier'' ux_Identifier ux_Identifier_update dec_string,
     field ''DeviceName'' ux_DeviceName ux_DeviceName_update dec_string,
     field ''ConnectionType'' ux_ConnectionType ux_ConnectionType_update dec_string])"

definition parse_pm_devices :: "json option \<Rightarrow> device list" where
  "parse_pm_devices doc =
    (let (es, err) = Unmarshal dec_usbmux [] doc
     in if err then []
        else map (\<lambda>e. \<lparr>dv_UDID = ux_Identifier e, dv_Name = ux_DeviceName e, dv_Source = NormalizeSource (ux_ConnectionType e)\<rparr>) es)"

definition pm_ListDevices :: "'a pm_world_scheme \<Rightarrow> pmd3 \<Rightarrow> (driver_error + device list) \<times> pmd3" where
  "pm_ListDevices w d =
    (case py_output w (pm_args [''usbmux'', ''list'']) d of
       (Inl err, d) \<Rightarrow> (Inl err, d)
     | (Inr (text, doc), d) \<Rightarrow> (Inr (parse_pm_devices doc), d))"

definition infoScript :: string where
  \<open>infoScript = ''
import json, sys
from pymobiledevice3.lockdown import create_using_usbmux
udid = sys.argv[1] if len(sys.argv) > 1 and sys.argv[1] else None
try:
    lockdown = create_using_usbmux(udid=udid)
    print(json.dumps({
        "DeviceName": lockdown.device_name,
        "ProductType": lockdown.product_type,
        "ProductVersion": lockdown.product_version,
        "SerialNumber": lockdown.serial_number,
        "UniqueDeviceID": lockdown.udid,
        "WiFiAddress": lockdown.wifi_address,
    }))
except Exception as e:
    print(json.dumps({"error": str(e)}), file=sys.stderr)
    sys.exit(1)
''\<close>

definition pm_details_udid :: "'a pm_world_scheme \<Rightarrow> pmd3 \<Rightarrow> (driver_error + string) \<times> pmd3" where
  "pm_details_udid w d =
    (if pm_target d \<noteq> [] then (Inr (pm_target d), d)
     else case pm_ListDevices w d of
       (Inl err, d) \<Rightarrow> (Inl err, d)
     | (Inr [], d) \<Rightarrow> (Inl (DriverError ''no device detected''), d)
     | (Inr (dv # _), d) \<Rightarrow> (Inr (dv_UDID dv), d))"

definition pm_DeviceDetails :: "'a pm_world_scheme \<Rightarrow> pmd3 \<Rightarrow> (driver_error + device_details) \<times> pmd3" where
  "pm_DeviceDetails w d =
    (case pm_details_udid w d of
       (Inl err, d) \<Rightarrow> (Inl err, d)
     | (Inr udid, d) \<Rightarrow>
         (case py_output w [''-c'', infoScript, udid] d of
            (Inl err, d) \<Rightarrow> (Inl err, d)
          | (Inr (text, doc), d) \<Rightarrow>
              (case as_object doc of
                 None \<Rightarrow> (Inl (DriverError ''invalid JSON''), d)
               | Some raw \<Rightarrow>
                   (Inr (details_of udid raw (case Mount_Current (pm_mount d) of Some ti \<Rightarrow> ti_Address ti | None \<Rightarrow> [])), d))))"

definition pm_Pair :: "'a pm_world_scheme \<Rightarrow> pmd3 \<Rightarrow> driver_error option \<times> pmd3" where
  "pm_Pair w d =
    (case py_output w (pm_args [''lockdown'', ''pair''] @ (if pm_target d \<noteq> [] then [''--udid'', pm_target d] else [])) d of
       (Inl err, d) \<Rightarrow> (Some err, d)
     | (Inr out, d) \<Rightarrow> (None, d))"

section \<open>The state of the device\<close>

definition pm_mode_of :: "string \<times> json option \<Rightarrow> bool option" where
  "pm_mode_of out =
    (case out of (text, doc) \<Rightarrow>
       (let trimmed = ToLower (TrimSpace text)
        in if trimmed = ''true'' then Some True
           else if trimmed = ''false'' then Some False
           else (let (enabled, err) = Unmarshal dec_bool False doc in if err then None else Some enabled)))"

definition pm_developerModeEnabled :: "'a pm_world_scheme \<Rightarrow> pmd3 \<Rightarrow> bool option \<times> pmd3" where
  "pm_developerModeEnabled w d =
    (case py_output w (pm_args [''amfi'', ''developer-mode-status'']) d of
       (Inl err, d) \<Rightarrow> (None, d)
     | (Inr out, d) \<Rightarrow> (pm_mode_of out, d))"

definition pm_developerImageMounted :: "'a pm_world_scheme \<Rightarrow> pmd3 \<Rightarrow> bool option \<times> pmd3" where
  "pm_developerImageMounted w d =
    (case py_output w (pm_args [''mounter'', ''list'']) d of
       (Inl err, d) \<Rightarrow> (None, d)
     | (Inr (text, doc), d) \<Rightarrow> (map_option (\<lambda>js. js \<noteq> []) (as_array doc), d))"

definition pm_ProbeDeviceState :: "'a pm_world_scheme \<Rightarrow> pmd3 \<Rightarrow> device_state \<times> pmd3" where
  "pm_ProbeDeviceState w d =
    (case pyCommand (cl_host w) d of
       (Inl err, d) \<Rightarrow> (\<lparr>ds_DeveloperMode = None, ds_ImageMounted = None\<rparr>, d)
     | (Inr py, d) \<Rightarrow>
         (let (mode, d) = pm_developerModeEnabled w d;
              (image, d) = pm_developerImageMounted w d
          in (\<lparr>ds_DeveloperMode = mode, ds_ImageMounted = image\<rparr>, d)))"

definition pm_mountDeveloperImage :: "'a pm_world_scheme \<Rightarrow> pmd3 \<Rightarrow> pmd3" where
  "pm_mountDeveloperImage w d =
    (case pyCommand (cl_host w) d of
       (Inl err, d) \<Rightarrow> d
     | (Inr py, d) \<Rightarrow>
         (if Gate_Mounted (cl_now w) (pm_target d) (pm_gate d) then d
          else case pm_developerImageMounted w d of
            (Some True, d) \<Rightarrow> d\<lparr>pm_gate := MarkMounted (cl_now w) (pm_target d) (pm_gate d)\<rparr>
          | (_, d) \<Rightarrow>
              (case py_output w (pm_args [''mounter'', ''auto-mount'']) d of
                 (Inl err, d) \<Rightarrow> d
               | (Inr out, d) \<Rightarrow> d\<lparr>pm_gate := MarkMounted (cl_now w) (pm_target d) (pm_gate d)\<rparr>)))"

section \<open>The version of Python\<close>

text \<open>\<open>fmt.Sscanf\<close> with two \<open>%d\<close>: what could not be read stays zero.\<close>

definition scan_two :: "string \<Rightarrow> int \<times> int" where
  "scan_two s =
    (case scan_int s of
       None \<Rightarrow> (0, 0)
     | Some (a, s) \<Rightarrow> (case scan_int s of None \<Rightarrow> (a, 0) | Some (b, _) \<Rightarrow> (a, b)))"

definition version_code :: string where
  "version_code = ''import sys;print(sys.version_info[0], sys.version_info[1])''"

text \<open>The probe runs once, also when it fails.\<close>

definition pythonVersion :: "'a pm_world_scheme \<Rightarrow> pmd3 \<Rightarrow> (int \<times> int) \<times> pmd3" where
  "pythonVersion w d =
    (case pm_version d of
       Some v \<Rightarrow> (v, d)
     | None \<Rightarrow>
         (case py_output w [''-c'', version_code] d of
            (Inl err, d) \<Rightarrow> ((0, 0), d\<lparr>pm_version := Some (0, 0)\<rparr>)
          | (Inr (text, doc), d) \<Rightarrow> (let v = scan_two (TrimSpace text) in (v, d\<lparr>pm_version := Some v\<rparr>))))"

definition pythonSupportsTCPTunnel :: "'a pm_world_scheme \<Rightarrow> pmd3 \<Rightarrow> bool \<times> pmd3" where
  "pythonSupportsTCPTunnel w d =
    (let ((major, minor), d) = pythonVersion w d in (3 < major \<or> major = 3 \<and> 13 \<le> minor, d))"

section \<open>endpoint.go\<close>

definition defaultTunneldPort :: int where "defaultTunneldPort = 49151"

definition tunneld_port :: "pmd3 \<Rightarrow> int" where
  "tunneld_port d = (if 0 < pm_port d then pm_port d else defaultTunneldPort)"

definition tunneld_URL :: "pmd3 \<Rightarrow> string" where
  "tunneld_URL d = ''http://127.0.0.1:'' @ Itoa (tunneld_port d) @ ''/''"

record tunneld_entry =
  td_Address :: string
  td_Port :: int
  td_Interface :: string

definition dec_tunneld :: "(string \<times> tunneld_entry list) list decoder" where
  "dec_tunneld = dec_map [] (dec_list \<lparr>td_Address = [], td_Port = 0, td_Interface = []\<rparr> (dec_struct
    [field ''tunnel-address'' td_Address td_Address_update dec_string,
     field ''tunnel-port'' td_Port td_Port_update dec_int,
     field ''interface'' td_Interface td_Interface_update dec_string]))"

definition sortedUDIDs :: "(string \<times> tunneld_entry list) list \<Rightarrow> string list" where
  "sortedUDIDs m = sort (map fst m)"

definition entries_of :: "(string \<times> tunneld_entry list) list \<Rightarrow> string \<Rightarrow> tunneld_entry list" where
  "entries_of m udid = (case map_of m udid of Some ts \<Rightarrow> ts | None \<Rightarrow> [])"

fun first_tunnel :: "int \<Rightarrow> string \<Rightarrow> tunneld_entry list \<Rightarrow> tunnel_endpoint option" where
  "first_tunnel now udid [] = None"
| "first_tunnel now udid (t # ts) =
    (case NewTunnelEndpoint now (td_Address t) (td_Port t) udid of Some ep \<Rightarrow> Some ep | None \<Rightarrow> first_tunnel now udid ts)"

fun first_device :: "int \<Rightarrow> string \<Rightarrow> (string \<times> tunneld_entry list) list \<Rightarrow> string list \<Rightarrow> tunnel_endpoint option" where
  "first_device now target m [] = None"
| "first_device now target m (udid # udids) =
    (if target \<noteq> [] \<and> udid \<noteq> target then first_device now target m udids
     else case first_tunnel now udid (entries_of m udid) of
       Some ep \<Rightarrow> Some ep
     | None \<Rightarrow> first_device now target m udids)"

definition parseTunneld :: "int \<Rightarrow> string \<Rightarrow> json option \<Rightarrow> tunnel_endpoint option" where
  "parseTunneld now target doc =
    (let (m, err) = Unmarshal dec_tunneld [] doc in if err then None else first_device now target m (sortedUDIDs m))"

definition queryTunneld :: "int \<Rightarrow> string \<Rightarrow> json option option \<Rightarrow> tunnel_endpoint option" where
  "queryTunneld now target answer = (case answer of None \<Rightarrow> None | Some doc \<Rightarrow> parseTunneld now target doc)"

definition tunneld_device :: "string \<Rightarrow> tunneld_entry \<Rightarrow> network_device option" where
  "tunneld_device udid t =
    (if td_Address t = [] \<or> td_Port t \<le> 0 then None
     else Some \<lparr>nd_UDID = udid, nd_Address = td_Address t, nd_Port = td_Port t, nd_UserspacePort = 0\<rparr>)"

definition pm_ListNetworkDevices :: "'a pm_world_scheme \<Rightarrow> pmd3 \<Rightarrow> (driver_error + network_device list) \<times> pmd3" where
  "pm_ListNetworkDevices w d =
    (case cl_fetch w of
       None \<Rightarrow> Inl (DriverError ''tunneld'')
     | Some doc \<Rightarrow>
         (let (m, err) = Unmarshal dec_tunneld [] doc
          in if err then Inl (DriverError ''invalid JSON'')
             else Inr (concat (map (\<lambda>udid. List.map_filter (tunneld_device udid) (entries_of m udid)) (sortedUDIDs m)))),
     d\<lparr>pm_log := pm_log d @ [Asked (tunneld_URL d)]\<rparr>)"

section \<open>The location worker\<close>

definition sameEndpoint :: "tunnel_info \<Rightarrow> tunnel_info \<Rightarrow> bool" where
  "sameEndpoint a b \<longleftrightarrow> ti_Address a = ti_Address b \<and> ti_Port a = ti_Port b"

definition rsdWorkerArgs :: "tunnel_info \<Rightarrow> string list" where
  "rsdWorkerArgs ti = [''--rsd'', ti_Address ti, Itoa (ti_Port ti)]"

definition userspaceWorkerArgs :: "pmd3 \<Rightarrow> string list" where
  "userspaceWorkerArgs d = [''--userspace''] @ (if pm_target d \<noteq> [] then [''--udid'', pm_target d] else [])"

definition session_err :: "session_error \<Rightarrow> driver_error" where
  "session_err e = (case e of NotReady (CtxDone _) \<Rightarrow> Cancelled | _ \<Rightarrow> DriverError ''location worker'')"

definition trip_err :: "trip_error \<Rightarrow> driver_error" where
  "trip_err e = (case e of CtxDone _ \<Rightarrow> Cancelled | _ \<Rightarrow> DriverError ''location worker'')"

definition takeLocationSession :: "pmd3 \<Rightarrow> session option \<times> pmd3" where
  "takeLocationSession d = (pm_location d, d\<lparr>pm_location := None\<rparr>)"

definition worker_gone :: "session \<Rightarrow> pmd3 \<Rightarrow> pmd3" where
  "worker_gone s d = d\<lparr>pm_alive := pm_alive d - {ls_pid s}\<rparr>"

text \<open>A new worker; the process of one that does not become ready is killed.\<close>

definition open_session :: "'a pm_world_scheme \<Rightarrow> string \<Rightarrow> string list \<Rightarrow> tunnel_info \<Rightarrow> pmd3 \<Rightarrow> (driver_error + session) \<times> pmd3" where
  "open_session w py args endpoint d =
    (let d = d\<lparr>pm_log := pm_log d @ [Spawned (py # [''-u'', ''-c'', pw_script w] @ args) (case pw_launch w of LaunchedAs p \<Rightarrow> p | _ \<Rightarrow> 0)]\<rparr>
     in case newLocationSession (pw_launch w) (pw_ready w) (pw_readyCtx w) endpoint of
          (Inl err, killed) \<Rightarrow> (Inl (session_err err), d)
        | (Inr s, _) \<Rightarrow> (Inr s, d\<lparr>pm_alive := insert (ls_pid s) (pm_alive d)\<rparr>))"

definition connect :: "'a pm_world_scheme \<Rightarrow> tunnel_info \<Rightarrow> pmd3 \<Rightarrow> (driver_error + session) \<times> pmd3" where
  "connect w ti d =
    (case pyCommand (cl_host w) d of
       (Inl err, d) \<Rightarrow> (Inl (DriverError err), d)
     | (Inr py, d) \<Rightarrow>
         (case open_session w py (rsdWorkerArgs ti) ti d of
            (Inl err, d) \<Rightarrow> (Inl err, d)
          | (Inr s, d) \<Rightarrow> (Inr s, d\<lparr>pm_location := Some s\<rparr>)))"

text \<open>\<open>locationSession\<close>: on success the session is the driver's.\<close>

definition pm_locationSession :: "'a pm_world_scheme \<Rightarrow> pmd3 \<Rightarrow> (driver_error + session) \<times> pmd3" where
  "pm_locationSession w d =
    (case Mount_Current (pm_mount d) of
       None \<Rightarrow> (Inl (DriverError ''tunnel not started''), d)
     | Some ti \<Rightarrow>
         if pm_userspace d
         then (case pm_location d of
                 None \<Rightarrow> (Inl (DriverError ''userspace tunnel not started''), d)
               | Some s \<Rightarrow> (Inr s, d))
         else (case pm_location d of
                 Some s \<Rightarrow> if sameEndpoint (ls_endpoint s) ti then (Inr s, d)
                           else connect w ti ((worker_gone s d)\<lparr>pm_location := None\<rparr>)
               | None \<Rightarrow> connect w ti d))"

text \<open>
  A failed request ends the worker, unless the caller's own time ran out. The coordinates of the request
  are the worker's business.
\<close>

definition pm_SetLocation :: "'a pm_world_scheme \<Rightarrow> pmd3 \<Rightarrow> driver_error option \<times> pmd3" where
  "pm_SetLocation w d =
    (case pm_locationSession w d of
       (Inl err, d) \<Rightarrow> (Some err, d)
     | (Inr s, d) \<Rightarrow>
         (case roundTrip (pw_set w) s of
            (None, s) \<Rightarrow> (None, d\<lparr>pm_location := Some s\<rparr>)
          | (Some (CtxDone c), s) \<Rightarrow> (Some (trip_err (CtxDone c)), d\<lparr>pm_location := Some s\<rparr>)
          | (Some err, s) \<Rightarrow> (Some (trip_err err), (worker_gone s d)\<lparr>pm_location := None\<rparr>)))"

definition pm_ClearLocation :: "'a pm_world_scheme \<Rightarrow> pmd3 \<Rightarrow> driver_error option \<times> pmd3" where
  "pm_ClearLocation w d =
    (let (session, d) = takeLocationSession d;
         (got, d) = (case session of
             Some s \<Rightarrow> (Inr s, d)
           | None \<Rightarrow> (let (r, d) = pm_locationSession w d in
                       case r of Inl err \<Rightarrow> (Inl err, d) | Inr s \<Rightarrow> (Inr s, snd (takeLocationSession d))))
     in case got of
          Inl err \<Rightarrow> (Some err, d)
        | Inr s \<Rightarrow>
            (case roundTrip (pw_clear w) s of
               (Some err, s) \<Rightarrow> (Some (trip_err err), worker_gone s d)
             | (None, s) \<Rightarrow> (map_option trip_err (session_stop (pw_stop w) (pw_exits w) (pw_stopCtx w) s), worker_gone s d)))"

definition stopLocationSession :: "'a pm_world_scheme \<Rightarrow> pmd3 \<Rightarrow> driver_error option \<times> pmd3" where
  "stopLocationSession w d =
    (case takeLocationSession d of
       (None, d) \<Rightarrow> (None, d)
     | (Some s, d) \<Rightarrow>
         (map_option trip_err (session_stop (pw_stop w) (pw_exits w) (pw_stopCtx w) s), worker_gone s d))"

section \<open>userspace.go\<close>

definition userspaceEndpoint :: tunnel_info where
  "userspaceEndpoint = \<lparr>ti_Address = ''in-process'', ti_Port = 0, ti_Type = ConnUSB, ti_Since = 0, ti_UserspacePort = 0\<rparr>"

definition startUserspaceTunnel :: "'a pm_world_scheme \<Rightarrow> pmd3 \<Rightarrow> (driver_error + tunnel_info) \<times> pmd3" where
  "startUserspaceTunnel w d =
    (case pyCommand (cl_host w) d of
       (Inl err, d) \<Rightarrow> (Inl (DriverError err), d)
     | (Inr py, d) \<Rightarrow>
         (let d = (case takeLocationSession d of (None, d) \<Rightarrow> d | (Some old, d) \<Rightarrow> worker_gone old d)
          in case open_session w py (userspaceWorkerArgs d) userspaceEndpoint d of
               (Inl err, d) \<Rightarrow> (Inl err, d)
             | (Inr s, d) \<Rightarrow>
                 (let info = userspaceEndpoint\<lparr>ti_Since := cl_now w\<rparr>
                  in (Inr info, d\<lparr>pm_location := Some s, pm_userspace := True,
                                  pm_mount := SetActive info (pm_target d) (pm_mount d)\<rparr>))))"

text \<open>Without a worker there is nobody to answer.\<close>

definition checkUserspaceHealth :: "'a pm_world_scheme \<Rightarrow> pmd3 \<Rightarrow> bool \<times> pmd3" where
  "checkUserspaceHealth w d =
    (case pm_location d of
       None \<Rightarrow> (False, d)
     | Some s \<Rightarrow> (let (r, s) = roundTrip (pw_ping w) s in (r = None, d\<lparr>pm_location := Some s\<rparr>)))"

section \<open>tunnel.go\<close>

fun monitorArgs :: "transport_kind \<Rightarrow> string list" where
  "monitorArgs TransportUSB = [''--no-wifi'', ''--no-mobdev2'']"
| "monitorArgs TransportWiFi = [''--no-usb'', ''--no-usbmux'']"
| "monitorArgs TransportAuto = []"

definition tunneldArgs :: "'a pm_world_scheme \<Rightarrow> pmd3 \<Rightarrow> string list \<times> pmd3" where
  "tunneldArgs w d =
    (let (tcp, d) = pythonSupportsTCPTunnel w d
     in ([''remote'', ''tunneld'', ''--port'', Itoa (tunneld_port d)] @ (if tcp then [''--protocol'', ''tcp''] else []) @
         monitorArgs (pm_transport d), d))"

definition keepPmd3TunneldOutput :: "string \<Rightarrow> bool" where
  "keepPmd3TunneldOutput line =
    (let trimmed = TrimSpace line
     in \<not> (HasPrefix trimmed ''INFO:'' \<and>
           Contains trimmed ([CHR 0x22] @ ''GET / HTTP/1.1'' @ [CHR 0x22] @ '' 200 OK'')))"

text \<open>
  What the mount is given to start a daemon, and the driver after it was asked: the interpreter and its
  version are looked up only then.
\<close>

definition pm_starter :: "'a pm_world_scheme \<Rightarrow> pmd3 \<Rightarrow> daemon_start \<times> pmd3" where
  "pm_starter w d =
    (case pyCommand (cl_host w) d of
       (Inl err, d) \<Rightarrow> (StarterFails (DriverError err), d)
     | (Inr py, d) \<Rightarrow>
         (let (args, d) = tunneldArgs w d; argv = py # pm_args args
          in (case cl_launch w argv of Some err \<Rightarrow> ExecFails err | None \<Rightarrow> Launched,
              d\<lparr>pm_log := pm_log d @ [Spawned argv (cl_pid w False)]\<rparr>)))"

definition startTunneld :: "'a pm_world_scheme \<Rightarrow> pmd3 \<Rightarrow> (driver_error + tunnel_info) option \<times> nat option \<times> pmd3" where
  "startTunneld w d =
    (let asked = Mount_Current (pm_mount d) = None \<and> pm_manual d = [];
         (starter, d') = (if asked then pm_starter w d else (NoStarter, d));
         (r, killed, m) = Mount_Start (cl_now w)
           \<lparr>mc_ManualAddress = pm_manual d, mc_BeforeStart = None, mc_StartDaemon = starter, mc_HasResolve = True,
            mc_Filter = keepPmd3TunneldOutput\<rparr> (cl_pid w False)
           (map (\<lambda>q. \<lparr>po_resolve = queryTunneld (cl_now w) (pm_target d) (rp_fetch q), po_output = rp_output q,
                      po_select = rp_select q\<rparr>) (cl_polls w False)) (pm_mount d)
     in (r, killed, d'\<lparr>pm_mount := m\<rparr>))"

definition pm_StartTunnel :: "'a pm_world_scheme \<Rightarrow> pmd3 \<Rightarrow> (driver_error + tunnel_info) option \<times> nat option \<times> pmd3" where
  "pm_StartTunnel w d =
    (let d = pm_mountDeveloperImage w (d\<lparr>pm_userspace := False\<rparr>);
         (r, k, d) = startTunneld w d
     in if r = None \<or> (case r of Some (Inr _) \<Rightarrow> True | _ \<Rightarrow> False) \<or> pm_manual d \<noteq> [] \<or> cl_ctxDone w then (r, k, d)
        else (let (r, d) = startUserspaceTunnel w d in (Some r, k, d)))"

definition pm_StopTunnel :: "'a pm_world_scheme \<Rightarrow> pmd3 \<Rightarrow> driver_error option \<times> nat option \<times> pmd3" where
  "pm_StopTunnel w d =
    (let (err, d) = stopLocationSession w d;
         (k, m) = Mount_Stop (pm_mount d)
     in (err, k, d\<lparr>pm_userspace := False, pm_mount := m\<rparr>))"

definition pm_CheckHealth :: "'a pm_world_scheme \<Rightarrow> pmd3 \<Rightarrow> bool \<times> pmd3" where
  "pm_CheckHealth w d =
    (if pm_userspace d then checkUserspaceHealth w d else (Mount_CheckHealth (cl_dial w) (pm_mount d), d))"

definition pm_Reresolve :: "'a pm_world_scheme \<Rightarrow> pmd3 \<Rightarrow> (tunnel_info \<times> bool \<times> bool) \<times> pmd3" where
  "pm_Reresolve w d =
    (if pm_userspace d
     then (let (healthy, d) = checkUserspaceHealth w d
           in if \<not> healthy then ((zero_info, False, False), d)
              else (case Mount_Current (pm_mount d) of
                      Some ti \<Rightarrow> ((ti, True, True), d)
                    | None \<Rightarrow> ((zero_info, False, True), d)))
     else (let (devices, d) = (if IsManual (pm_mount d) then (Inr [], d) else pm_ListNetworkDevices w d);
               (r, m) = ReresolveActiveTunnel (cl_now w) devices (pm_mount d)
           in (r, d\<lparr>pm_mount := m\<rparr>)))"

section \<open>One worker\<close>

datatype pm_op = PmStart | PmStop | PmSet | PmClear | PmHealth | PmReresolve | PmDetails | PmProbe | PmPair | PmList | PmNetwork

fun pm_op_run :: "pm_op \<Rightarrow> 'a pm_world_scheme \<Rightarrow> pmd3 \<Rightarrow> pmd3" where
  "pm_op_run PmStart w d = snd (snd (pm_StartTunnel w d))"
| "pm_op_run PmStop w d = snd (snd (pm_StopTunnel w d))"
| "pm_op_run PmSet w d = snd (pm_SetLocation w d)"
| "pm_op_run PmClear w d = snd (pm_ClearLocation w d)"
| "pm_op_run PmHealth w d = snd (pm_CheckHealth w d)"
| "pm_op_run PmReresolve w d = snd (pm_Reresolve w d)"
| "pm_op_run PmDetails w d = snd (pm_DeviceDetails w d)"
| "pm_op_run PmProbe w d = snd (pm_ProbeDeviceState w d)"
| "pm_op_run PmPair w d = snd (pm_Pair w d)"
| "pm_op_run PmList w d = snd (pm_ListDevices w d)"
| "pm_op_run PmNetwork w d = snd (pm_ListNetworkDevices w d)"

definition pm_ops_run :: "(pm_op \<times> pm_world) list \<Rightarrow> pmd3 \<Rightarrow> pmd3" where
  "pm_ops_run ops d = fold (\<lambda>(p, w). pm_op_run p w) ops d"

text \<open>
  The worker the driver holds is the only one alive, and a tunnel inside a worker is mounted as such.
\<close>

definition pm_inv :: "pmd3 \<Rightarrow> bool" where
  "pm_inv d \<longleftrightarrow>
    pm_alive d = (case pm_location d of None \<Rightarrow> {} | Some s \<Rightarrow> {ls_pid s}) \<and>
    (pm_userspace d \<longrightarrow> tm_on (pm_mount d) \<and> tm_cmd (pm_mount d) = None \<and> ti_Address (tm_info (pm_mount d)) = ''in-process'')"

text \<open>What the commands of the Python tool leave alone.\<close>

definition same_session :: "pmd3 \<Rightarrow> pmd3 \<Rightarrow> bool" where
  "same_session d d' \<longleftrightarrow> pm_location d' = pm_location d \<and> pm_alive d' = pm_alive d \<and> pm_userspace d' = pm_userspace d \<and>
     pm_mount d' = pm_mount d \<and> pm_manual d' = pm_manual d \<and> pm_target d' = pm_target d"

lemma same_session_refl [simp]: "same_session d d" by (simp add: same_session_def)

lemma same_session_trans: "same_session d e \<Longrightarrow> same_session e f \<Longrightarrow> same_session d f"
  by (simp add: same_session_def)

lemma same_session_inv: "same_session d d' \<Longrightarrow> pm_inv d' = pm_inv d"
  by (simp add: same_session_def pm_inv_def)

lemma same_pyCommand: "same_session d (snd (pyCommand h d))"
  by (auto simp: pyCommand_def same_session_def split: sum.split)

lemma same_py_output: "same_session d (snd (py_output w args d))"
proof -
  obtain r d1 where b: "pyCommand (cl_host w) d = (r, d1)" by fastforce
  have 1: "same_session d d1" using same_pyCommand [of d "cl_host w"] b by simp
  then have "same_session d (d1\<lparr>pm_log := l\<rparr>)" for l by (simp add: same_session_def)
  then show ?thesis using 1 by (auto simp: py_output_def b split: sum.split cli_result.split)
qed

lemma same_image: "same_session d (snd (pm_developerImageMounted w d))"
  using same_py_output [of d w "pm_args [''mounter'', ''list'']"]
  by (simp add: pm_developerImageMounted_def case_prod_unfold split: sum.split)

lemma same_mode: "same_session d (snd (pm_developerModeEnabled w d))"
  using same_py_output [of d w "pm_args [''amfi'', ''developer-mode-status'']"]
  by (simp add: pm_developerModeEnabled_def case_prod_unfold split: sum.split)

lemma same_gate: "same_session d (d'\<lparr>pm_gate := g\<rparr>) = same_session d d'"
  by (simp add: same_session_def)

lemma same_mount_image: "same_session d (pm_mountDeveloperImage w d)"
proof -
  obtain r d1 where b: "pyCommand (cl_host w) d = (r, d1)" by fastforce
  have 1: "same_session d d1" using same_pyCommand [of d "cl_host w"] b by simp
  obtain i d2 where m: "pm_developerImageMounted w d1 = (i, d2)" by fastforce
  have 2: "same_session d d2" using same_session_trans [OF 1] same_image [of d1 w] m by simp
  have 3: "same_session d (snd (py_output w (pm_args [''mounter'', ''auto-mount'']) d2))"
    using same_session_trans [OF 2 same_py_output] .
  obtain o3 d3 where o3: "py_output w (pm_args [''mounter'', ''auto-mount'']) d2 = (o3, d3)" by fastforce
  show ?thesis
  proof (cases r)
    case (Inr py)
    show ?thesis
    proof (cases "Gate_Mounted (cl_now w) (pm_target d1) (pm_gate d1) \<or> i = Some True")
      case False
      then have "i = None \<or> i = Some False" by (cases i) auto
      then show ?thesis using False 3 o3 by (cases o3) (auto simp: pm_mountDeveloperImage_def b m Inr same_gate)
    qed (use 1 2 in \<open>auto simp: pm_mountDeveloperImage_def b m Inr same_gate\<close>)
  qed (use 1 in \<open>simp add: pm_mountDeveloperImage_def b\<close>)
qed

lemma same_version: "same_session d (snd (tunneldArgs w d))"
proof -
  have "same_session d (snd (pythonVersion w d))"
    using same_py_output [of d w "[''-c'', version_code]"]
    by (auto simp: pythonVersion_def same_session_def case_prod_unfold Let_def split: option.split sum.split)
  then show ?thesis by (simp add: tunneldArgs_def pythonSupportsTCPTunnel_def case_prod_unfold Let_def)
qed

lemma same_starter: "same_session d (snd (pm_starter w d))"
proof -
  obtain r d1 where b: "pyCommand (cl_host w) d = (r, d1)" by fastforce
  have 1: "same_session d d1" using same_pyCommand [of d "cl_host w"] b by simp
  have 2: "same_session d (snd (tunneldArgs w d1))" using same_session_trans [OF 1 same_version] .
  then have "same_session d ((snd (tunneldArgs w d1))\<lparr>pm_log := l\<rparr>)" for l by (simp add: same_session_def)
  then show ?thesis using 1 by (simp add: pm_starter_def b case_prod_unfold Let_def split: sum.split)
qed

lemma await_reply_keeps:
  "ls_pid (snd (await_reply lines ctx i c s)) = ls_pid s \<and> ls_endpoint (snd (await_reply lines ctx i c s)) = ls_endpoint s"
proof (induction lines arbitrary: s)
  case Nil
  then show ?case by (subst (1 2) await_reply.simps) (simp add: session_unregister_def split: channel.split)
next
  case (Cons l lines)
  have "ls_pid (snd (read_line l s)) = ls_pid s \<and> ls_endpoint (snd (read_line l s)) = ls_endpoint s"
    by (auto simp: read_line_cases session_deliver_def session_unregister_def reader_stops_def failPending_def Let_def
        split: option.split worker_line.split)
  then show ?case using Cons by (subst (1 2) await_reply.simps) (simp split: channel.split)
qed

lemma roundTrip_keeps: "ls_pid (snd (roundTrip env s)) = ls_pid s \<and> ls_endpoint (snd (roundTrip env s)) = ls_endpoint s"
  by (simp add: roundTrip_def session_register_def Let_def session_unregister_def await_reply_keeps split: option.split)

text \<open>A driver whose invariant holds once its worker, if any, is taken away.\<close>

definition no_worker :: "pmd3 \<Rightarrow> bool" where
  "no_worker d \<longleftrightarrow> pm_alive d = {} \<and> pm_location d = None \<and>
    (pm_userspace d \<longrightarrow> tm_on (pm_mount d) \<and> tm_cmd (pm_mount d) = None \<and> ti_Address (tm_info (pm_mount d)) = ''in-process'')"

lemma no_worker_inv: "no_worker d \<Longrightarrow> pm_inv d" by (simp add: no_worker_def pm_inv_def)

lemma inv_no_worker: "pm_inv d \<Longrightarrow> pm_location d = None \<Longrightarrow> no_worker d" by (simp add: no_worker_def pm_inv_def)

lemma inv_drop: "pm_inv d \<Longrightarrow> pm_location d = Some s \<Longrightarrow> ls_pid s' = ls_pid s \<Longrightarrow> no_worker ((worker_gone s' d)\<lparr>pm_location := None\<rparr>)"
  by (simp add: no_worker_def pm_inv_def worker_gone_def)

lemma inv_location: "pm_inv d \<Longrightarrow> pm_location d = Some s \<Longrightarrow> ls_pid s' = ls_pid s \<Longrightarrow> pm_inv (d\<lparr>pm_location := Some s'\<rparr>)"
  by (simp add: pm_inv_def)

lemma no_worker_same: "same_session d d' \<Longrightarrow> no_worker d' = no_worker d"
  by (simp add: same_session_def no_worker_def)

lemma inv_open:
  assumes "no_worker d" "open_session w py args ep d = (r, d')"
  shows "case r of Inl err \<Rightarrow> no_worker d' | Inr s \<Rightarrow> pm_inv (d'\<lparr>pm_location := Some s\<rparr>) \<and> ls_endpoint s = ep"
proof -
  have "ls_endpoint s = ep" if "newLocationSession l lines ctx ep = (Inr s, k)" for l lines ctx s k
    using that await_reply_keeps [of lines ctx handshakeID "fst (session_register handshakeID (new_session pid ep))"
        "snd (session_register handshakeID (new_session pid ep))" for pid]
    by (auto simp: newLocationSession_def new_session_def session_register_def Let_def split: worker_launch.splits prod.splits option.splits)
      (metis session.select_convs(1) session.surjective session.update_convs snd_conv)+
  then show ?thesis using assms
    by (auto simp: open_session_def no_worker_def pm_inv_def Let_def split: prod.splits sum.splits)
qed

lemma inv_connect:
  assumes "no_worker d" "connect w ti d = (r, d')"
  shows "case r of Inl err \<Rightarrow> no_worker d' | Inr s \<Rightarrow> pm_inv d' \<and> pm_location d' = Some s"
proof -
  obtain p d1 where b: "pyCommand (cl_host w) d = (p, d1)" by fastforce
  have 1: "no_worker d1" using same_pyCommand [of d "cl_host w"] b assms(1) no_worker_same by fastforce
  show ?thesis
  proof (cases p)
    case (Inr py)
    obtain q d2 where o: "open_session w py (rsdWorkerArgs ti) ti d1 = (q, d2)" by fastforce
    show ?thesis using inv_open [OF 1 o] assms(2) by (auto simp: connect_def b Inr o split: sum.splits)
  qed (use 1 assms(2) in \<open>auto simp: connect_def b\<close>)
qed

lemma inv_locationSession:
  assumes "pm_inv d" "pm_locationSession w d = (r, d')"
  shows "case r of Inl err \<Rightarrow> pm_inv d' \<and> (pm_location d = None \<longrightarrow> no_worker d') | Inr s \<Rightarrow> pm_inv d' \<and> pm_location d' = Some s"
proof (cases "Mount_Current (pm_mount d)")
  case None
  then show ?thesis using assms inv_no_worker by (auto simp: pm_locationSession_def)
next
  case (Some ti)
  show ?thesis
  proof (cases "pm_location d")
    case None
    note d = inv_no_worker [OF assms(1) None]
    show ?thesis
    proof (cases "pm_userspace d")
      case False
      then have "connect w ti d = (r, d')" using assms(2) Some None by (simp add: pm_locationSession_def)
      then show ?thesis using inv_connect [OF d] no_worker_inv by (fastforce split: sum.splits)
    qed (use assms d Some None in \<open>auto simp: pm_locationSession_def\<close>)
  next
    case (Some s)
    note d = inv_drop [OF assms(1) Some refl]
    show ?thesis
    proof (cases "pm_userspace d \<or> sameEndpoint (ls_endpoint s) ti")
      case False
      then have "connect w ti ((worker_gone s d)\<lparr>pm_location := None\<rparr>) = (r, d')"
        using assms(2) Some \<open>Mount_Current (pm_mount d) = Some ti\<close> by (simp add: pm_locationSession_def)
      then show ?thesis using inv_connect [OF d] no_worker_inv Some by (fastforce split: sum.splits)
    next
      case True
      have "pm_locationSession w d = (Inr s, d)"
        using True Some \<open>Mount_Current (pm_mount d) = Some ti\<close> by (cases "pm_userspace d") (simp_all add: pm_locationSession_def)
      then show ?thesis using assms Some by auto
    qed
  qed
qed

lemma pm_SetLocation_inv:
  assumes "pm_inv d"
  shows "pm_inv (snd (pm_SetLocation w d))"
proof -
  obtain r d1 where l: "pm_locationSession w d = (r, d1)" by fastforce
  note inv = inv_locationSession [OF assms l]
  show ?thesis
  proof (cases r)
    case (Inr s)
    obtain e s1 where t: "roundTrip (pw_set w) s = (e, s1)" by fastforce
    have pid: "ls_pid s1 = ls_pid s" using roundTrip_keeps [of "pw_set w" s] t by simp
    have 1: "pm_inv d1" "pm_location d1 = Some s" using inv Inr by auto
    show ?thesis using inv_location [OF 1 pid] no_worker_inv [OF inv_drop [OF 1 pid]]
      by (auto simp: pm_SetLocation_def l Inr t split: option.split trip_error.split)
  qed (use inv in \<open>simp add: pm_SetLocation_def l\<close>)
qed

lemma pm_ClearLocation_inv:
  assumes "pm_inv d"
  shows "pm_inv (snd (pm_ClearLocation w d))"
proof (cases "pm_location d")
  case None
  have d: "d\<lparr>pm_location := None\<rparr> = d" using None by simp
  obtain r d1 where l: "pm_locationSession w d = (r, d1)" by fastforce
  note inv = inv_locationSession [OF assms l]
  show ?thesis
  proof (cases r)
    case (Inl err)
    then show ?thesis using inv by (simp add: pm_ClearLocation_def takeLocationSession_def None d l Let_def)
  next
    case (Inr s)
    obtain e s1 where t: "roundTrip (pw_clear w) s = (e, s1)" by fastforce
    have pid: "ls_pid s1 = ls_pid s" using roundTrip_keeps [of "pw_clear w" s] t by simp
    have 1: "pm_inv d1" "pm_location d1 = Some s" using inv Inr by auto
    have "worker_gone s1 (d1\<lparr>pm_location := None\<rparr>) = (worker_gone s1 d1)\<lparr>pm_location := None\<rparr>" by (simp add: worker_gone_def)
    then show ?thesis using no_worker_inv [OF inv_drop [OF 1 pid]]
      by (simp add: pm_ClearLocation_def takeLocationSession_def None d l Inr t Let_def split: option.split)
  qed
next
  case (Some s)
  obtain e s1 where t: "roundTrip (pw_clear w) s = (e, s1)" by fastforce
  have pid: "ls_pid s1 = ls_pid s" using roundTrip_keeps [of "pw_clear w" s] t by simp
  have "worker_gone s1 (d\<lparr>pm_location := None\<rparr>) = (worker_gone s1 d)\<lparr>pm_location := None\<rparr>" by (simp add: worker_gone_def)
  then show ?thesis using no_worker_inv [OF inv_drop [OF assms Some pid]]
    by (simp add: pm_ClearLocation_def takeLocationSession_def Some t Let_def split: option.split)
qed

lemma inv_stopSession:
  assumes "pm_inv d"
  shows "no_worker (snd (stopLocationSession w d)) \<and> pm_mount (snd (stopLocationSession w d)) = pm_mount d"
proof (cases "pm_location d")
  case None
  then show ?thesis using inv_no_worker [OF assms None] by (simp add: stopLocationSession_def takeLocationSession_def no_worker_def)
next
  case (Some s)
  show ?thesis using inv_drop [OF assms Some refl]
    by (simp add: stopLocationSession_def takeLocationSession_def Some worker_gone_def no_worker_def)
qed

lemma pm_StopTunnel_inv: "pm_inv d \<Longrightarrow> pm_inv (snd (snd (pm_StopTunnel w d)))"
  using inv_stopSession [of d w]
  by (simp add: pm_StopTunnel_def case_prod_unfold Let_def no_worker_def pm_inv_def)

lemma inv_health: "pm_inv d \<Longrightarrow> pm_inv (snd (checkUserspaceHealth w d))"
  using inv_location [of d] roundTrip_keeps
  by (auto simp: checkUserspaceHealth_def case_prod_unfold Let_def split: option.split)

lemma inv_mount: "pm_inv d \<Longrightarrow> \<not> pm_userspace d \<Longrightarrow> pm_inv (d\<lparr>pm_mount := m\<rparr>)"
  by (simp add: pm_inv_def)

lemma startTunneld_same:
  assumes "startTunneld w d = (r, k, d')"
  shows "\<exists>d1. same_session d d1 \<and> d' = d1\<lparr>pm_mount := pm_mount d'\<rparr>"
proof -
  define d1 where "d1 = (if Mount_Current (pm_mount d) = None \<and> pm_manual d = [] then snd (pm_starter w d) else d)"
  have "same_session d d1" using same_starter [of d w] by (simp add: d1_def)
  moreover have "d' = d1\<lparr>pm_mount := pm_mount d'\<rparr>"
    using assms by (cases "Mount_Current (pm_mount d) = None \<and> pm_manual d = []")
      (auto simp: startTunneld_def case_prod_unfold Let_def d1_def)
  ultimately show ?thesis by blast
qed

lemma inv_startUserspace:
  assumes "pm_inv d" "\<not> pm_userspace d"
  shows "pm_inv (snd (startUserspaceTunnel w d))"
proof -
  obtain p d1 where b: "pyCommand (cl_host w) d = (p, d1)" by fastforce
  have 1: "pm_inv d1" using same_session_inv [of d d1] same_pyCommand [of d "cl_host w"] b assms(1) by simp
  show ?thesis
  proof (cases p)
    case (Inr py)
    define d2 where "d2 = (case takeLocationSession d1 of (None, d) \<Rightarrow> d | (Some old, d) \<Rightarrow> worker_gone old d)"
    have 2: "no_worker d2"
    proof (cases "pm_location d1")
      case None
      then show ?thesis using inv_no_worker [OF 1 None] by (simp add: d2_def takeLocationSession_def no_worker_def)
    next
      case (Some s)
      have "worker_gone s (d1\<lparr>pm_location := None\<rparr>) = (worker_gone s d1)\<lparr>pm_location := None\<rparr>" by (simp add: worker_gone_def)
      then show ?thesis using inv_drop [OF 1 Some refl] by (simp add: d2_def takeLocationSession_def Some)
    qed
    obtain q d3 where o: "open_session w py (userspaceWorkerArgs d2) userspaceEndpoint d2 = (q, d3)" by fastforce
    have s: "startUserspaceTunnel w d = (case q of Inl err \<Rightarrow> (Inl err, d3)
       | Inr s \<Rightarrow> let info = userspaceEndpoint\<lparr>ti_Since := cl_now w\<rparr> in
           (Inr info, d3\<lparr>pm_location := Some s, pm_userspace := True, pm_mount := SetActive info (pm_target d3) (pm_mount d3)\<rparr>))"
      by (simp add: startUserspaceTunnel_def b Inr d2_def [symmetric] o split: sum.split)
    show ?thesis
    proof (cases q)
      case (Inl err)
      then show ?thesis using inv_open [OF 2 o] no_worker_inv by (simp add: s)
    next
      case (Inr s')
      then show ?thesis using inv_open [OF 2 o]
        by (simp add: s Let_def pm_inv_def SetActive_def mount_set_def userspaceEndpoint_def)
    qed
  qed (use 1 in \<open>simp add: startUserspaceTunnel_def b\<close>)
qed

lemma pm_StartTunnel_inv:
  assumes "pm_inv d"
  shows "pm_inv (snd (snd (pm_StartTunnel w d)))"
proof -
  define d1 where "d1 = pm_mountDeveloperImage w (d\<lparr>pm_userspace := False\<rparr>)"
  have s1: "same_session (d\<lparr>pm_userspace := False\<rparr>) d1" by (simp add: d1_def same_mount_image)
  have "pm_inv (d\<lparr>pm_userspace := False\<rparr>)" using assms by (simp add: pm_inv_def)
  then have 1: "pm_inv d1" "\<not> pm_userspace d1" using same_session_inv [OF s1] s1 by (simp_all add: same_session_def)
  obtain r k d2 where t: "startTunneld w d1 = (r, k, d2)" by (metis prod_cases3)
  obtain d3 where d3: "same_session d1 d3" "d2 = d3\<lparr>pm_mount := pm_mount d2\<rparr>" using startTunneld_same [OF t] by blast
  have "pm_inv d3" "\<not> pm_userspace d3" using same_session_inv [OF d3(1)] d3(1) 1 by (simp_all add: same_session_def)
  then have "pm_inv (d3\<lparr>pm_mount := pm_mount d2\<rparr>)" "\<not> pm_userspace (d3\<lparr>pm_mount := pm_mount d2\<rparr>)" by (simp_all add: inv_mount)
  then have 2: "pm_inv d2" "\<not> pm_userspace d2" using d3(2) by simp_all
  show ?thesis using 2(1) inv_startUserspace [OF 2, of w]
    by (simp add: pm_StartTunnel_def d1_def [symmetric] t case_prod_unfold Let_def)
qed

lemma inv_Reresolve:
  assumes "pm_inv d"
  shows "pm_inv (snd (pm_Reresolve w d))"
proof (cases "pm_userspace d")
  case True
  then show ?thesis using inv_health [OF assms, of w]
    by (simp add: pm_Reresolve_def case_prod_unfold Let_def split: option.split)
next
  case False
  have "pm_inv (d\<lparr>pm_log := l\<rparr>)" for l using assms by (simp add: pm_inv_def)
  then show ?thesis using False assms inv_mount [of "d\<lparr>pm_log := l\<rparr>" for l] inv_mount [OF assms False]
    by (simp add: pm_Reresolve_def pm_ListNetworkDevices_def case_prod_unfold Let_def)
qed

lemma inv_pm_op:
  assumes "pm_inv d"
  shows "pm_inv (pm_op_run p w d)"
proof (cases p)
  case PmDetails
  have "same_session d (snd (pm_ListDevices w d))"
    using same_py_output [of d w "pm_args [''usbmux'', ''list'']"] by (simp add: pm_ListDevices_def case_prod_unfold split: sum.split)
  then have 1: "same_session d (snd (pm_details_udid w d))"
    by (simp add: pm_details_udid_def case_prod_unfold split: sum.split list.split)
  have "same_session d (snd (pm_DeviceDetails w d))"
    using 1 same_session_trans [OF 1 same_py_output [of _ w]]
    by (simp add: pm_DeviceDetails_def case_prod_unfold split: sum.split option.split)
  then show ?thesis using PmDetails assms same_session_inv by simp
next
  case PmProbe
  have "same_session d (snd (pm_ProbeDeviceState w d))"
    using same_pyCommand [of d "cl_host w"] same_session_trans [OF same_session_trans [OF same_pyCommand same_mode [of _ w]] same_image [of _ w]]
    by (simp add: pm_ProbeDeviceState_def case_prod_unfold Let_def split: sum.split)
  then show ?thesis using PmProbe assms same_session_inv by simp
next
  case PmPair
  have "same_session d (snd (pm_Pair w d))"
    by (simp add: pm_Pair_def case_prod_unfold same_py_output split: sum.split)
  then show ?thesis using PmPair assms same_session_inv by simp
next
  case PmList
  have "same_session d (snd (pm_ListDevices w d))"
    by (simp add: pm_ListDevices_def case_prod_unfold same_py_output split: sum.split)
  then show ?thesis using PmList assms same_session_inv by simp
next
  case PmHealth
  then show ?thesis using inv_health [OF assms, of w] assms by (simp add: pm_CheckHealth_def)
next
  case PmNetwork
  then show ?thesis using assms by (simp add: pm_ListNetworkDevices_def pm_inv_def)
qed (use assms pm_SetLocation_inv pm_ClearLocation_inv pm_StartTunnel_inv pm_StopTunnel_inv inv_Reresolve in simp_all)


section \<open>A position cleared in userspace mode\<close>

lemma clear_userspace:
  assumes "pm_userspace d" "pm_location d = Some s"
  shows "pm_location (snd (pm_ClearLocation w d)) = None \<and> pm_userspace (snd (pm_ClearLocation w d)) \<and>
    pm_mount (snd (pm_ClearLocation w d)) = pm_mount d \<and> ls_pid s \<notin> pm_alive (snd (pm_ClearLocation w d))"
  using roundTrip_keeps [of "pw_clear w" s] assms
  by (auto simp: pm_ClearLocation_def takeLocationSession_def Let_def worker_gone_def split: prod.split option.split)

text \<open>
  C19: Clearing the position in userspace mode ends the tunnel. The worker that is told to stop is the one
  that holds it: afterwards every position is refused and every health check fails, though the mount
  still shows a tunnel and a new start, unless a stop comes first, returns it as if it were up.
\<close>
theorem clearing_ends_userspace_tunnel:
  assumes "pm_userspace d" "pm_location d = Some s" "Mount_Current (pm_mount d) = Some ti"
  shows "let d' = snd (pm_ClearLocation w d) in
    ls_pid s \<notin> pm_alive d' \<and> pm_SetLocation w1 d' = (Some (DriverError ''userspace tunnel not started''), d') \<and>
    pm_CheckHealth w2 d' = (False, d') \<and> Mount_Current (pm_mount d') = Some ti \<and>
    fst (pm_StartTunnel w3 d') = Some (Inr ti)"
proof -
  define d' where "d' = snd (pm_ClearLocation w d)"
  have d: "pm_location d' = None" "pm_userspace d'" "pm_mount d' = pm_mount d" "ls_pid s \<notin> pm_alive d'"
    using clear_userspace [OF assms(1,2), of w] by (simp_all add: d'_def)
  define d1 where "d1 = pm_mountDeveloperImage w3 (d'\<lparr>pm_userspace := False\<rparr>)"
  have "pm_mount d1 = pm_mount d"
    using same_mount_image [of "d'\<lparr>pm_userspace := False\<rparr>" w3] d(3) by (simp add: d1_def same_session_def)
  then have m: "Mount_Current (pm_mount d1) = Some ti" using assms(3) by simp
  then have "fst (pm_StartTunnel w3 d') = Some (Inr ti)"
    by (simp add: pm_StartTunnel_def d1_def [symmetric] startTunneld_def Mount_Start_def Let_def)
  then show ?thesis using d assms(3) unfolding d'_def [symmetric] Let_def
    by (simp add: pm_SetLocation_def pm_locationSession_def pm_CheckHealth_def checkUserspaceHealth_def)
qed

section \<open>A worker whose output is no longer read\<close>

text \<open>Positions sent one after the other, and what each call returned.\<close>

fun set_each :: "pm_world list \<Rightarrow> pmd3 \<Rightarrow> driver_error option list \<times> pmd3" where
  "set_each [] d = ([], d)"
| "set_each (w # ws) d = (let (r, d) = pm_SetLocation w d; (rs, d) = set_each ws d in (r # rs, d))"

lemma set_unread:
  assumes "Mount_Current (pm_mount d) = Some ti" "pm_location d = Some s" "sameEndpoint (ls_endpoint s) ti"
    "\<not> ls_reading s" "tp_write (pw_set w) = None"
  shows "\<exists>s'. pm_SetLocation w d = (Some Cancelled, d\<lparr>pm_location := Some s'\<rparr>) \<and> \<not> ls_reading s' \<and>
    ls_endpoint s' = ls_endpoint s \<and> ls_pid s' = ls_pid s"
proof -
  obtain s' where "roundTrip (pw_set w) s = (Some (CtxDone (tp_ctx (pw_set w))), s')" "\<not> ls_reading s'"
      "ls_endpoint s' = ls_endpoint s" "ls_pid s' = ls_pid s"
    using roundTrip_stopped [OF assms(4), of "pw_set w"] assms(5) by auto
  then show ?thesis using assms(1,2,3)
    by (intro exI [of _ s']) (simp add: pm_SetLocation_def pm_locationSession_def trip_err_def)
qed

text \<open>
  A worker whose output stopped being understood, by a single line that is not a reply, is kept:
  as long as its input can be written, however many positions are sent, each waits for the whole time of
  its caller and fails, and the worker stays because the failure looks like the caller's.
\<close>
theorem unread_worker_is_kept:
  assumes "Mount_Current (pm_mount d) = Some ti" "pm_location d = Some s" "sameEndpoint (ls_endpoint s) ti"
    "\<not> ls_reading s" "list_all (\<lambda>w. tp_write (pw_set w) = None) ws"
  shows "fst (set_each ws d) = replicate (length ws) (Some Cancelled) \<and>
    (case pm_location (snd (set_each ws d)) of None \<Rightarrow> False | Some s' \<Rightarrow> ls_pid s' = ls_pid s)"
  using assms
proof (induction ws arbitrary: d s)
  case (Cons w ws)
  obtain s' where s': "pm_SetLocation w d = (Some Cancelled, d\<lparr>pm_location := Some s'\<rparr>)" "\<not> ls_reading s'"
      "ls_endpoint s' = ls_endpoint s" "ls_pid s' = ls_pid s"
    using set_unread [OF Cons.prems(1-4), of w] Cons.prems(5) by auto
  have "fst (set_each ws (d\<lparr>pm_location := Some s'\<rparr>)) = replicate (length ws) (Some Cancelled) \<and>
    (case pm_location (snd (set_each ws (d\<lparr>pm_location := Some s'\<rparr>))) of None \<Rightarrow> False | Some x \<Rightarrow> ls_pid x = ls_pid s')"
    using Cons.prems s' by (intro Cons.IH) simp_all
  then show ?case using s'(1,4) by (cases "pm_location (snd (set_each ws (d\<lparr>pm_location := Some s'\<rparr>)))") (simp_all add: case_prod_unfold Let_def)
qed simp

section \<open>Which tunnel is taken\<close>

lemma first_tunnel_filter: "first_tunnel now udid ts =
    (case List.map_filter (\<lambda>t. NewTunnelEndpoint now (td_Address t) (td_Port t) udid) ts of [] \<Rightarrow> None | ep # _ \<Rightarrow> Some ep)"
  by (induction ts) (auto simp: map_filter_simps split: option.split)

lemma first_device_cong: "(\<And>u. entries_of m u = entries_of m' u) \<Longrightarrow> first_device now target m us = first_device now target m' us"
proof (induction us)
  case (Cons u us)
  then have "entries_of m u = entries_of m' u" "first_device now target m us = first_device now target m' us" by blast+
  then show ?case unfolding first_device.simps by presburger
qed simp

lemma map_of_perm:
  assumes "mset m = mset m'" "distinct (map fst m)" "distinct (map fst m')"
  shows "map_of m = map_of m'"
proof
  fix k
  have e: "set m = set m'" by (rule mset_eq_setD [OF assms(1)])
  show "map_of m k = map_of m' k"
  proof (cases "map_of m' k")
    case None
    then have "k \<notin> fst ` set m" unfolding e by (simp add: map_of_eq_None_iff)
    then have "map_of m k = None" by (simp add: map_of_eq_None_iff)
    then show ?thesis using None by simp
  next
    case (Some v)
    then have "(k, v) \<in> set m" unfolding e by (rule map_of_SomeD)
    then show ?thesis using Some map_of_is_SomeI [OF assms(2)] by simp
  qed
qed

lemma entries_perm: "mset m = mset m' \<Longrightarrow> distinct (map fst m) \<Longrightarrow> entries_of m u = entries_of m' u"
proof -
  assume a: "mset m = mset m'" "distinct (map fst m)"
  then have "distinct (map fst m')" by (metis mset_eq_imp_distinct_iff mset_map)
  then have "map_of m = map_of m'" using map_of_perm [of m m'] a by blast
  then show ?thesis by (simp add: entries_of_def)
qed

lemma pinned_entry:
  "target \<noteq> [] \<Longrightarrow> first_device now target m us = (if target \<in> set us then first_tunnel now target (entries_of m target) else None)"
proof (induction us)
  case (Cons u us)
  show ?case
  proof (cases "u = target \<and> target \<in> set us")
    case True
    then show ?thesis using Cons by (auto split: option.split)
  qed (use Cons in \<open>auto split: option.split\<close>)
qed simp

text \<open>
  Which tunnel of the daemon's answer is taken does not depend on the order of its devices, which
  JSON and Go's maps leave open; and with a target it is a tunnel of that device.
\<close>
theorem tunnel_choice_is_stable:
  assumes "mset m = mset m'" "distinct (map fst m)"
  shows "first_device now target m (sortedUDIDs m) = first_device now target m' (sortedUDIDs m') \<and>
    (case first_device now target m (sortedUDIDs m) of
       None \<Rightarrow> True
     | Some ep \<Rightarrow> target = [] \<or> te_UDID ep = TrimSpace target)"
proof -
  have "sortedUDIDs m = sortedUDIDs m'" unfolding sortedUDIDs_def
    using assms(1) by (metis mset_map mset_sort properties_for_sort sorted_sort)
  moreover have "first_tunnel now u ts = Some ep \<Longrightarrow> te_UDID ep = TrimSpace u" for u ts ep
    by (induction ts) (auto simp: NewTunnelEndpoint_def Let_def split: if_splits option.splits)
  moreover have "target = [] \<or> te_UDID ep = TrimSpace target" if "first_device now target m (sortedUDIDs m) = Some ep" for ep
    using that pinned_entry [of target now m "sortedUDIDs m"] calculation(2) by (cases "target = []") (auto split: if_splits)
  ultimately show ?thesis
    using first_device_cong [of m m' now target, OF entries_perm [OF assms]] by (auto split: option.split)
qed

section \<open>Examples\<close>

definition demo_trip :: trip_env where "demo_trip = \<lparr>tp_write = None, tp_lines = [], tp_ctx = DeadlineExceeded\<rparr>"

definition demo_pm_host :: host_lookup where
  "demo_pm_host = \<lparr>hl_isFile = (\<lambda>_. False), hl_lookPath = (\<lambda>n. Some n), hl_executable = None, hl_abs = (\<lambda>_. None)\<rparr>"

text \<open>A machine without the right to create a network adapter: the daemon cannot be started.\<close>

definition demo_pm_world :: pm_world where
  "demo_pm_world = \<lparr>cl_now = 1000, cl_host = demo_pm_host, cl_ftoa = (\<lambda>_. []), cl_run = (\<lambda>_. CliFails []), cl_decode = (\<lambda>_. None),
     cl_fetch = None, cl_launch = (\<lambda>_. Some (DriverError ''denied'')), cl_pid = (\<lambda>_. 1), cl_polls = (\<lambda>_. []),
     cl_ctxDone = False, cl_dial = (\<lambda>_. True), cl_order = (\<lambda>m. m), pw_script = [], pw_launch = LaunchedAs 9,
     pw_ready = [demo_reply 0], pw_readyCtx = DeadlineExceeded, pw_set = demo_trip, pw_clear = demo_trip, pw_ping = demo_trip,
     pw_stop = demo_trip, pw_exits = True, pw_stopCtx = DeadlineExceeded\<rparr>"

definition demo_pm_config :: driver_config where
  "demo_pm_config = \<lparr>dc_Transport = TransportAuto, dc_BinaryPaths = Map.empty, dc_ManualAddress = [], dc_TargetUDID = [],
     dc_DaemonAPIPort = 0, dc_StartTimeout = 0\<rparr>"

definition demo_worker :: session where
  "demo_worker = (new_session 9 userspaceEndpoint)\<lparr>ls_reading := False\<rparr>"

definition demo_pmd3 :: pmd3 where
  "demo_pmd3 = (New_pmd3 demo_pm_host demo_pm_config)\<lparr>pm_location := Some demo_worker, pm_alive := {9}, pm_userspace := True,
     pm_mount := SetActive userspaceEndpoint [] zero_mount\<rparr>"

lemma demo_pmd3_simps:
  "pm_userspace demo_pmd3" "pm_location demo_pmd3 = Some demo_worker"
  "Mount_Current (pm_mount demo_pmd3) = Some userspaceEndpoint" "\<not> ls_reading demo_worker" "ls_pid demo_worker = 9"
  "ls_endpoint demo_worker = userspaceEndpoint"
  by (simp_all add: demo_pmd3_def demo_worker_def new_session_def Mount_Current_def SetActive_def mount_set_def)

theorem clearing_ends_userspace_tunnel_witness:
  "let d' = snd (pm_ClearLocation demo_pm_world demo_pmd3) in
     fst (pm_CheckHealth demo_pm_world d') = False \<and> fst (pm_StartTunnel demo_pm_world d') = Some (Inr userspaceEndpoint)"
  using clearing_ends_userspace_tunnel [OF demo_pmd3_simps(1-3), of demo_pm_world demo_pm_world demo_pm_world demo_pm_world]
  by (simp add: Let_def)

theorem unread_worker_is_kept_witness:
  "fst (set_each [demo_pm_world, demo_pm_world] demo_pmd3) = [Some Cancelled, Some Cancelled]"
  using unread_worker_is_kept [OF demo_pmd3_simps(3,2) _ demo_pmd3_simps(4), of "[demo_pm_world, demo_pm_world]"]
  by (simp add: sameEndpoint_def demo_pmd3_simps demo_pm_world_def demo_trip_def)

definition demo_tunnels :: "(string \<times> tunneld_entry list) list" where
  "demo_tunnels = [(''B'', [\<lparr>td_Address = ''fd00::b'', td_Port = 7, td_Interface = []\<rparr>]),
                   (''A'', [\<lparr>td_Address = ''fd00::a'', td_Port = 8, td_Interface = []\<rparr>])]"

theorem tunnel_choice_is_stable_witness:
  "first_device 0 [] demo_tunnels (sortedUDIDs demo_tunnels) = first_device 0 [] (rev demo_tunnels) (sortedUDIDs (rev demo_tunnels))"
  using tunnel_choice_is_stable [of demo_tunnels "rev demo_tunnels" 0 "[]"] by (simp add: demo_tunnels_def)

end
