(* ===== verification/Goios_Native.thy ===== *)
theory Goios_Native
  imports Driver_Mount
begin

text \<open>
  The go-ios driver that runs go-ios in its own process, \<open>internal/driver/goiosnative\<close>. go-ios itself is a
  parameter: the devices it lists, the tunnels a tunnel manager holds, whether a device handle can be
  built and a position sent. A manager is a number, and so is the loop that keeps it up to date; a handle
  is what it was built from.

  Each method is one step, except \<open>ReresolveTunnel\<close>, whose two critical sections are also given apart.
\<close>

section \<open>State and world\<close>

record native_tunnel =
  nt_Address :: string
  nt_RsdPort :: int
  nt_Udid :: string
  nt_UserspaceTUN :: bool
  nt_UserspaceTUNPort :: int

record native_handle =
  hd_udid :: string
  hd_endpoint :: tunnel_info

record native =
  gn_target :: string
  gn_manual :: string
  gn_timeout :: int
  gn_basePort :: int
  gn_manager :: "nat option"
  gn_info :: tunnel_info
  gn_on :: bool
  gn_udid :: string
  gn_device :: native_handle
  gn_bound :: tunnel_info
  gn_hasDev :: bool
  gn_next :: nat
  gn_loops :: "nat set"
  gn_sent :: "(native_handle \<times> tunnel_info) list"

text \<open>\<open>gn_loops\<close> and \<open>gn_sent\<close> are the loops running and the positions sent, with the tunnel of the time.\<close>

datatype native_select = NDeadline | NDone | NTick

record native_view =
  nv_list :: "native_tunnel list option"
  nv_find :: "string \<Rightarrow> native_tunnel option"

record native_world =
  nw_now :: int
  nw_usb :: "string list option"
  nw_pairing :: bool
  nw_view :: native_view
  nw_polls :: "bool \<Rightarrow> (native_view \<times> native_select) list"
  nw_build :: "string \<Rightarrow> tunnel_info \<Rightarrow> bool"
  nw_send :: "native_handle \<Rightarrow> bool"
  nw_ctxDone :: bool
  nw_dial :: "string \<Rightarrow> bool"

definition gn_default_timeout :: int where "gn_default_timeout = 45 * 1000"
definition defaultBasePort :: int where "defaultBasePort = 28100"

definition New_native :: "driver_config \<Rightarrow> native" where
  "New_native cfg =
    \<lparr>gn_target = dc_TargetUDID cfg, gn_manual = dc_ManualAddress cfg,
     gn_timeout = (if dc_StartTimeout cfg \<le> 0 then gn_default_timeout else dc_StartTimeout cfg),
     gn_basePort = (if dc_DaemonAPIPort cfg \<le> 0 then defaultBasePort else dc_DaemonAPIPort cfg),
     gn_manager = None, gn_info = zero_info, gn_on = False, gn_udid = dc_TargetUDID cfg,
     gn_device = \<lparr>hd_udid = [], hd_endpoint = zero_info\<rparr>, gn_bound = zero_info, gn_hasDev = False,
     gn_next = 0, gn_loops = {}, gn_sent = []\<rparr>"

section \<open>goiosnative.go\<close>

definition gn_ListDevices :: "native_world \<Rightarrow> driver_error + device list" where
  "gn_ListDevices w =
    (case nw_usb w of
       None \<Rightarrow> Inl (DriverError ''go-ios native list'')
     | Some us \<Rightarrow> Inr (map (\<lambda>u. \<lparr>dv_UDID = u, dv_Name = [], dv_Source = ''usbmux''\<rparr>) us))"

definition gn_Tunnel :: "native \<Rightarrow> tunnel_info option" where
  "gn_Tunnel d = (if gn_on d then Some (gn_info d) else None)"

definition resolveUDID :: "native_world \<Rightarrow> native \<Rightarrow> string \<times> native" where
  "resolveUDID w d =
    (if gn_target d \<noteq> [] then (gn_target d, d)
     else if gn_udid d \<noteq> [] then (gn_udid d, d)
     else case nw_usb w of
       Some (u # us) \<Rightarrow> (u, d\<lparr>gn_udid := u\<rparr>)
     | _ \<Rightarrow> ([], d))"

definition endpointFrom :: "int \<Rightarrow> native_tunnel \<Rightarrow> tunnel_info option" where
  "endpointFrom now t =
    map_option (\<lambda>ep. if nt_UserspaceTUN t then (te_Info ep)\<lparr>ti_UserspacePort := nt_UserspaceTUNPort t\<rparr> else te_Info ep)
      (NewTunnelEndpoint now (nt_Address t) (nt_RsdPort t) (nt_Udid t))"

definition gn_CheckHealth :: "native_world \<Rightarrow> native \<Rightarrow> bool" where
  "gn_CheckHealth w d = (case gn_Tunnel d of None \<Rightarrow> False | Some ti \<Rightarrow> nw_dial w (healthDialTarget ti))"

section \<open>tunnel.go\<close>

definition findTunnel :: "int \<Rightarrow> native_view \<Rightarrow> string \<Rightarrow> tunnel_info option" where
  "findTunnel now v udid =
    (if udid \<noteq> [] then (case nv_find v udid of None \<Rightarrow> None | Some t \<Rightarrow> endpointFrom now t)
     else case nv_list v of
       None \<Rightarrow> None
     | Some ts \<Rightarrow> (case List.map_filter (endpointFrom now) ts of [] \<Rightarrow> None | ti # _ \<Rightarrow> Some ti))"

definition setTunnel :: "tunnel_info \<Rightarrow> native \<Rightarrow> native" where
  "setTunnel ti d = d\<lparr>gn_info := ti, gn_on := True\<rparr>"

text \<open>\<open>teardown\<close>: the loop of the manager is cancelled and waited for, its tunnels are closed.\<close>

definition teardown :: "native \<Rightarrow> native" where
  "teardown d =
    d\<lparr>gn_manager := None, gn_info := zero_info, gn_on := False, gn_hasDev := False, gn_bound := zero_info,
      gn_loops := gn_loops d - set_option (gn_manager d)\<rparr>"

fun awaitTunnel :: "int \<Rightarrow> string \<Rightarrow> (native_view \<times> native_select) list \<Rightarrow> (driver_error + tunnel_info) option" where
  "awaitTunnel now udid [] = None"
| "awaitTunnel now udid ((v, sel) # qs) =
    (case findTunnel now v udid of
       Some ti \<Rightarrow> Some (Inr ti)
     | None \<Rightarrow>
         (case sel of
            NDeadline \<Rightarrow> Some (Inl (StartTimedOut []))
          | NDone \<Rightarrow> Some (Inl Cancelled)
          | NTick \<Rightarrow> awaitTunnel now udid qs))"

text \<open>\<open>None\<close> is an attempt that still polls.\<close>

definition startMode :: "native_world \<Rightarrow> bool \<Rightarrow> native \<Rightarrow> (driver_error + tunnel_info) option \<times> native" where
  "startMode w userspace d =
    (let (udid, d) = resolveUDID w d
     in if \<not> nw_pairing w then (Some (Inl (DriverError ''pair record manager'')), d)
        else (let m = gn_next d;
                  d = d\<lparr>gn_manager := Some m, gn_next := Suc m, gn_loops := insert m (gn_loops d)\<rparr>
              in case awaitTunnel (nw_now w) udid (nw_polls w userspace) of
                   None \<Rightarrow> (None, d)
                 | Some (Inl err) \<Rightarrow> (Some (Inl err), teardown d)
                 | Some (Inr ti) \<Rightarrow> (Some (Inr ti), setTunnel ti d)))"

definition gn_StartTunnel :: "native_world \<Rightarrow> native \<Rightarrow> (driver_error + tunnel_info) option \<times> native" where
  "gn_StartTunnel w d =
    (case gn_Tunnel d of
       Some ti \<Rightarrow> (Some (Inr ti), d)
     | None \<Rightarrow>
         if gn_manual d \<noteq> []
         then (case ParseManual (nw_now w) (gn_manual d) of
                 Inl err \<Rightarrow> (Some (Inl err), d)
               | Inr ti \<Rightarrow> (Some (Inr ti), setTunnel ti d))
         else (let (r, d) = startMode w False d
               in case r of
                    Some (Inl err) \<Rightarrow> if nw_ctxDone w then (r, d) else startMode w True d
                  | _ \<Rightarrow> (r, d)))"

definition gn_StopTunnel :: "native \<Rightarrow> native" where "gn_StopTunnel d = teardown d"

definition gn_network_device :: "native_tunnel \<Rightarrow> network_device option" where
  "gn_network_device t =
    (if nt_Address t = [] \<or> nt_RsdPort t \<le> 0 then None
     else Some \<lparr>nd_UDID = nt_Udid t, nd_Address = nt_Address t, nd_Port = nt_RsdPort t,
                nd_UserspacePort = (if nt_UserspaceTUN t then nt_UserspaceTUNPort t else 0)\<rparr>)"

definition gn_ListNetworkDevices :: "native_world \<Rightarrow> native \<Rightarrow> driver_error + network_device list" where
  "gn_ListNetworkDevices w d =
    (case gn_manager d of
       None \<Rightarrow> Inr []
     | Some m \<Rightarrow>
         (case nv_list (nw_view w) of
            None \<Rightarrow> Inl (DriverError ''list tunnels'')
          | Some ts \<Rightarrow> Inr (List.map_filter gn_network_device ts)))"

text \<open>\<open>ReresolveTunnel\<close>: what it reads under the lock, and what it does with it later.\<close>

definition reresolve_read :: "native \<Rightarrow> nat option \<times> string \<times> string" where
  "reresolve_read d = (gn_manager d, gn_udid d, gn_manual d)"

definition reresolve_finish :: "native_world \<Rightarrow> nat option \<times> string \<times> string \<Rightarrow> native \<Rightarrow> (tunnel_info \<times> bool \<times> bool) \<times> native" where
  "reresolve_finish w seen d =
    (case seen of (manager, udid, manual) \<Rightarrow>
       if manual \<noteq> [] then ((zero_info, False, True), d)
       else if manager = None then ((zero_info, False, False), d)
       else case findTunnel (nw_now w) (nw_view w) udid of
              None \<Rightarrow> ((zero_info, False, True), d)
            | Some ti \<Rightarrow> ((ti, True, True), setTunnel ti d))"

definition gn_Reresolve :: "native_world \<Rightarrow> native \<Rightarrow> (tunnel_info \<times> bool \<times> bool) \<times> native" where
  "gn_Reresolve w d = reresolve_finish w (reresolve_read d) d"

section \<open>location.go\<close>

definition deviceHandle :: "native_world \<Rightarrow> native \<Rightarrow> (driver_error + native_handle) \<times> native" where
  "deviceHandle w d =
    (case gn_Tunnel d of
       None \<Rightarrow> (Inl (DriverError ''tunnel not started''), d)
     | Some ti \<Rightarrow>
         if gn_hasDev d \<and> ti_Address (gn_bound d) = ti_Address ti \<and> ti_Port (gn_bound d) = ti_Port ti
         then (Inr (gn_device d), d)
         else if nw_build w (gn_udid d) ti
              then (let h = \<lparr>hd_udid = gn_udid d, hd_endpoint = ti\<rparr>
                    in (Inr h, d\<lparr>gn_device := h, gn_bound := ti, gn_hasDev := True\<rparr>))
              else (Inl (DriverError ''device handle''), d))"

definition invalidateDevice :: "native \<Rightarrow> native" where "invalidateDevice d = d\<lparr>gn_hasDev := False\<rparr>"

text \<open>\<open>SetLocation\<close> and \<open>ClearLocation\<close> differ in the message alone.\<close>

definition gn_SetLocation :: "native_world \<Rightarrow> native \<Rightarrow> driver_error option \<times> native" where
  "gn_SetLocation w d =
    (case deviceHandle w d of
       (Inl err, d) \<Rightarrow> (Some err, d)
     | (Inr h, d) \<Rightarrow>
         (let d = d\<lparr>gn_sent := gn_sent d @ [(h, gn_info d)]\<rparr>
          in if nw_send w h then (None, d) else (Some (DriverError ''setlocation''), invalidateDevice d)))"

section \<open>Handles and managers\<close>

datatype gn_op = GnStart | GnStop | GnLocate | GnReresolve

fun gn_op_run :: "gn_op \<Rightarrow> native_world \<Rightarrow> native \<Rightarrow> native" where
  "gn_op_run GnStart w d = snd (gn_StartTunnel w d)"
| "gn_op_run GnStop w d = gn_StopTunnel d"
| "gn_op_run GnLocate w d = snd (gn_SetLocation w d)"
| "gn_op_run GnReresolve w d = snd (gn_Reresolve w d)"

definition gn_ops_run :: "(gn_op \<times> native_world) list \<Rightarrow> native \<Rightarrow> native" where
  "gn_ops_run ops d = fold (\<lambda>(p, w). gn_op_run p w) ops d"

definition right_way :: "native_handle \<times> tunnel_info \<Rightarrow> bool" where
  "right_way p \<longleftrightarrow> ti_Address (hd_endpoint (fst p)) = ti_Address (snd p) \<and> ti_Port (hd_endpoint (fst p)) = ti_Port (snd p)"

definition gn_inv :: "native \<Rightarrow> bool" where
  "gn_inv d \<longleftrightarrow>
    gn_loops d = set_option (gn_manager d) \<and> (gn_on d \<and> gn_manual d = [] \<longrightarrow> gn_manager d \<noteq> None) \<and>
    (\<not> gn_on d \<longrightarrow> gn_manager d = None) \<and>
    (gn_hasDev d \<longrightarrow> hd_endpoint (gn_device d) = gn_bound d) \<and> list_all right_way (gn_sent d)"

text \<open>A world in which the deadline of a start, or its caller, ends the polling in the end.\<close>

definition patient :: "native_world \<Rightarrow> bool" where
  "patient w \<longleftrightarrow> list_all (\<lambda>u. nw_polls w u \<noteq> [] \<and> snd (last (nw_polls w u)) \<noteq> NTick) [False, True]"

lemma awaitTunnel_ends: "qs \<noteq> [] \<Longrightarrow> snd (last qs) \<noteq> NTick \<Longrightarrow> awaitTunnel now udid qs \<noteq> None"
  by (induction now udid qs rule: awaitTunnel.induct) (auto split: option.split native_select.split if_splits)

lemma startMode_inv:
  assumes "gn_inv d" "\<not> gn_on d" "patient w"
  shows "gn_inv (snd (startMode w u d)) \<and> fst (startMode w u d) \<noteq> None \<and>
    (case fst (startMode w u d) of Some (Inl err) \<Rightarrow> \<not> gn_on (snd (startMode w u d)) | _ \<Rightarrow> True)"
proof -
  obtain udid d1 where r: "resolveUDID w d = (udid, d1)" by fastforce
  have 1: "gn_inv d1" "\<not> gn_on d1"
    using assms(1,2) r by (auto simp: resolveUDID_def gn_inv_def split: if_splits option.splits list.splits)
  have "awaitTunnel (nw_now w) udid (nw_polls w u) \<noteq> None"
    using assms(3) by (intro awaitTunnel_ends) (cases u; simp add: patient_def)+
  then show ?thesis using 1
    by (auto simp: startMode_def r Let_def gn_inv_def teardown_def setTunnel_def split: sum.split)
qed

lemma gn_start_inv:
  assumes "gn_inv d" "patient w"
  shows "gn_inv (snd (gn_StartTunnel w d)) \<and> fst (gn_StartTunnel w d) \<noteq> None"
proof (cases "gn_on d \<or> gn_manual d \<noteq> []")
  case True
  then show ?thesis using assms(1)
    by (auto simp: gn_StartTunnel_def gn_Tunnel_def setTunnel_def gn_inv_def split: sum.split)
next
  case False
  obtain r d1 where s: "startMode w False d = (r, d1)" by fastforce
  have off: "\<not> gn_on d" "gn_manual d = []" using False by simp_all
  note 1 = startMode_inv [OF assms(1) off(1) assms(2), of False, unfolded s fst_conv snd_conv,
      THEN conjunct1] startMode_inv [OF assms(1) off(1) assms(2), of False, unfolded s fst_conv snd_conv, THEN conjunct2, THEN conjunct1]
    startMode_inv [OF assms(1) off(1) assms(2), of False, unfolded s fst_conv snd_conv, THEN conjunct2, THEN conjunct2]
  show ?thesis
  proof (cases "\<exists>err. r = Some (Inl err)")
    case True
    then have "\<not> gn_on d1" using 1(3) by auto
    then show ?thesis using startMode_inv [OF 1(1) _ assms(2), of True] True False s 1(1)
      by (auto simp: gn_StartTunnel_def gn_Tunnel_def)
  next
    case no: False
    then have "gn_StartTunnel w d = (r, d1)" using False s 1(2)
      by (auto simp: gn_StartTunnel_def gn_Tunnel_def split: option.split sum.split)
    then show ?thesis using 1 by simp
  qed
qed

lemma gn_op_inv:
  assumes "gn_inv d" "patient w"
  shows "gn_inv (gn_op_run p w d)"
proof (cases p)
  case GnStart
  then show ?thesis using gn_start_inv [OF assms] by simp
next
  case GnStop
  then show ?thesis using assms(1) by (auto simp: gn_StopTunnel_def teardown_def gn_inv_def)
next
  case GnLocate
  then show ?thesis using assms(1)
    by (auto simp: gn_SetLocation_def deviceHandle_def gn_Tunnel_def Let_def invalidateDevice_def gn_inv_def right_way_def
        split: option.split if_splits)
next
  case GnReresolve
  then show ?thesis using assms(1)
    by (auto simp: gn_Reresolve_def reresolve_read_def reresolve_finish_def setTunnel_def gn_inv_def split: option.split)
qed


text \<open>
  A stop that falls between the two critical sections of \<open>ReresolveTunnel\<close> is undone: the tunnel just
  closed is reported as up although no manager holds it, and the next start returns it without starting
  anything.
\<close>
theorem reresolve_revives_stopped_tunnel:
  assumes "gn_manual d = []" "gn_manager d \<noteq> None" "findTunnel (nw_now w) (nw_view w) (gn_udid d) = Some ti"
  shows "let d' = snd (reresolve_finish w (reresolve_read d) (gn_StopTunnel d)) in
    gn_manager d' = None \<and> gn_Tunnel d' = Some ti \<and> gn_StartTunnel w' d' = (Some (Inr ti), d')"
  using assms
  by (simp add: reresolve_read_def reresolve_finish_def gn_StopTunnel_def teardown_def setTunnel_def gn_Tunnel_def
      gn_StartTunnel_def Let_def)

section \<open>Examples\<close>

definition demo_native_tunnel :: native_tunnel where
  "demo_native_tunnel = \<lparr>nt_Address = ''fd00::a'', nt_RsdPort = 7, nt_Udid = ''A'', nt_UserspaceTUN = False, nt_UserspaceTUNPort = 0\<rparr>"

definition demo_native_world :: native_world where
  "demo_native_world = \<lparr>nw_now = 0, nw_usb = Some [''A''], nw_pairing = True,
     nw_view = \<lparr>nv_list = Some [demo_native_tunnel], nv_find = (\<lambda>_. Some demo_native_tunnel)\<rparr>,
     nw_polls = (\<lambda>_. [(\<lparr>nv_list = None, nv_find = (\<lambda>_. Some demo_native_tunnel)\<rparr>, NDeadline)]),
     nw_build = (\<lambda>_ _. True), nw_send = (\<lambda>_. True), nw_ctxDone = False, nw_dial = (\<lambda>_. True)\<rparr>"

definition demo_native_config :: driver_config where
  "demo_native_config = \<lparr>dc_Transport = TransportAuto, dc_BinaryPaths = Map.empty, dc_ManualAddress = [], dc_TargetUDID = [],
     dc_DaemonAPIPort = 0, dc_StartTimeout = 0\<rparr>"


theorem reresolve_revives_stopped_tunnel_witness:
  "let d = (New_native demo_native_config)\<lparr>gn_manager := Some 0, gn_on := True\<rparr>;
       d' = snd (reresolve_finish demo_native_world (reresolve_read d) (gn_StopTunnel d))
   in gn_manager d' = None \<and> gn_on d'"
proof -
  define d where "d = (New_native demo_native_config)\<lparr>gn_manager := Some 0, gn_on := True\<rparr>"
  have t: "NewTunnelEndpoint 0 ''fd00::a'' 7 ''A'' \<noteq> None"
  proof -
    have "TrimSpace ''fd00::a'' = ''fd00::a''" by code_simp
    then show ?thesis by (simp add: NewTunnelEndpoint_def Let_def)
  qed
  have u: "gn_udid d = []" by (simp add: d_def New_native_def demo_native_config_def)
  have "gn_manual d = []" "gn_manager d \<noteq> None" by (simp_all add: d_def New_native_def demo_native_config_def)
  moreover obtain ti where "findTunnel (nw_now demo_native_world) (nw_view demo_native_world) (gn_udid d) = Some ti"
    using t by (auto simp: findTunnel_def demo_native_world_def endpointFrom_def demo_native_tunnel_def map_filter_simps u)
  ultimately show ?thesis
    using reresolve_revives_stopped_tunnel [of d demo_native_world ti demo_native_world] unfolding d_def [symmetric]
    by (auto simp: Let_def gn_Tunnel_def split: if_splits)
qed

end
