(* ===== verification/Go_Regexp.thy ===== *)
theory Go_Regexp
  imports Go_Net
begin

text \<open>
  Package \<open>regexp\<close>, as far as the engine uses it: sequences of literals, repeated character classes,
  captured or not, and the two anchors. A match is the first one of a backtracking search, which is what
  \<open>regexp.MustCompile\<close> promises (leftmost, then first). Byte for byte: a class that excludes white space or
  a line end never stops inside a character of several bytes here, because what follows it does not either.
\<close>

section \<open>Expressions\<close>

datatype rx =
    Lit string
  | Many "char \<Rightarrow> bool"
  | Some1 "char \<Rightarrow> bool"
  | Lazy1 "char \<Rightarrow> bool"
  | Cap rx
  | AtEnd

definition ws :: "char \<Rightarrow> bool" where
  "ws c \<longleftrightarrow> c \<in> {CHR '' '', CHR 0x09, CHR 0x0A, CHR 0x0C, CHR 0x0D}"

abbreviation nws :: "char \<Rightarrow> bool" where "nws c \<equiv> \<not> ws c"

abbreviation digit :: "char \<Rightarrow> bool" where "digit c \<equiv> digit_val c \<noteq> None"

abbreviation dot :: "char \<Rightarrow> bool" where "dot c \<equiv> c \<noteq> CHR 0x0A"

text \<open>The lengths a part may match at the start of a text, the preferred one first.\<close>

fun rx_lengths :: "rx \<Rightarrow> string \<Rightarrow> nat list" where
  "rx_lengths (Lit p) s = (if HasPrefix s p then [length p] else [])"
| "rx_lengths (Many P) s = rev [0..<Suc (length (takeWhile P s))]"
| "rx_lengths (Some1 P) s = rev [1..<Suc (length (takeWhile P s))]"
| "rx_lengths (Lazy1 P) s = [1..<Suc (length (takeWhile P s))]"
| "rx_lengths (Cap r) s = rx_lengths r s"
| "rx_lengths AtEnd s = (if s = [] then [0] else [])"

fun captured :: "rx \<Rightarrow> string \<Rightarrow> string list" where
  "captured (Cap r) m = m # captured r m"
| "captured r m = []"

fun first_some :: "('a \<Rightarrow> 'b option) \<Rightarrow> 'a list \<Rightarrow> 'b option" where
  "first_some f [] = None"
| "first_some f (x # xs) = (case f x of Some y \<Rightarrow> Some y | None \<Rightarrow> first_some f xs)"

text \<open>An expression anchored at the start of the text: its captures.\<close>

primrec rx_match :: "rx list \<Rightarrow> string \<Rightarrow> string list option" where
  "rx_match [] s = Some []"
| "rx_match (r # rs) s =
    first_some (\<lambda>n. map_option (\<lambda>cs. captured r (take n s) @ cs) (rx_match rs (drop n s))) (rx_lengths r s)"

text \<open>\<open>FindStringSubmatch\<close> of an expression without the anchor: the leftmost match.\<close>

fun rx_find :: "rx list \<Rightarrow> string \<Rightarrow> string list option" where
  "rx_find rs [] = rx_match rs []"
| "rx_find rs (c # cs) = (case rx_match rs (c # cs) of Some m \<Rightarrow> Some m | None \<Rightarrow> rx_find rs cs)"

section \<open>Columns\<close>

lemma first_some_hd: "f x = Some y \<Longrightarrow> first_some f (x # xs) = Some y"
  by simp

lemma first_some_None: "first_some f xs = None \<longleftrightarrow> list_all (\<lambda>x. f x = None) xs"
  by (induction xs) (auto split: option.split)

lemma first_some_append: "first_some f (xs @ ys) = (case first_some f xs of Some y \<Rightarrow> Some y | None \<Rightarrow> first_some f ys)"
  by (induction xs) (auto split: option.split)

lemma takeWhile_column: "list_all P a \<Longrightarrow> (b = [] \<or> \<not> P (hd b)) \<Longrightarrow> takeWhile P (a @ b) = a"
  by (induction a) (auto simp: takeWhile_eq_Nil_iff)

text \<open>A greedy repetition takes the whole run of its class if the rest matches then.\<close>

lemma match_run:
  assumes "list_all P a" "a \<noteq> []" "b = [] \<or> \<not> P (hd b)" "rx_match rs b = Some cs"
  shows "rx_match (Some1 P # rs) (a @ b) = Some cs" "rx_match (Cap (Some1 P) # rs) (a @ b) = Some (a # cs)"
proof -
  have "rev [1..<Suc (length a)] = length a # rev [1..<length a]" using assms(2) by (cases a) simp_all
  then show "rx_match (Some1 P # rs) (a @ b) = Some cs" "rx_match (Cap (Some1 P) # rs) (a @ b) = Some (a # cs)"
    using assms(4) by (simp_all add: takeWhile_column [OF assms(1,3)])
qed

lemma match_lit: "rx_match (Lit p # rs) (p @ b) = rx_match rs b"
  by (simp add: HasPrefix_def split: option.split)

lemma match_lit_None: "\<not> HasPrefix s p \<Longrightarrow> rx_match (Lit p # rs) s = None"
  by simp

lemma match_blank_None: "s = [] \<or> \<not> P (hd s) \<Longrightarrow> rx_match (Some1 P # rs) s = None"
  by (cases s) simp_all

text \<open>A class that is not there anywhere cannot be repeated.\<close>

lemma match_needs:
  assumes "list_all (\<lambda>c. \<not> P c) s"
  shows "rx_match (Some1 P # rs) s = None"
  using assms by (cases s) simp_all

lemma match_tail: "rx_match [Many ws, AtEnd] s = (if list_all ws s then Some [] else None)"
proof -
  let ?n = "length (takeWhile ws s)"
  define f where "f k = (if length s \<le> k then Some [] else None :: string list option)" for k
  have m: "rx_match [Many ws, AtEnd] s = first_some f (rev [0..<Suc ?n])"
    unfolding f_def by (simp del: upt_Suc add: if_distrib [of "first_some _"] if_distrib [of "map_option _"] cong: if_cong)
  show ?thesis
  proof (cases "list_all ws s")
    case True
    then have "takeWhile ws s = s" by (simp add: takeWhile_eq_all_conv list_all_iff)
    then have "?n = length s" by (rule arg_cong)
    then show ?thesis using True unfolding m by (simp add: f_def)
  next
    case False
    then have "takeWhile ws s \<noteq> s" by (simp add: takeWhile_eq_all_conv list_all_iff)
    then have "?n < length s" using length_takeWhile_le [of ws s] takeWhile_eq_take [of ws s] by (metis le_neq_implies_less take_all_iff le_refl)
    then have "first_some f (rev [0..<Suc ?n]) = None" by (auto simp: first_some_None list_all_iff f_def simp del: upt_Suc)
    then show ?thesis using False m by simp
  qed
qed

text \<open>A lazy name before trailing white space: the whole name, with the spaces inside it.\<close>

lemma first_some_upt:
  assumes "m \<le> k" "k \<le> n" "\<And>i. m \<le> i \<Longrightarrow> i < k \<Longrightarrow> f i = None" "f k = Some y"
  shows "first_some f [m..<Suc n] = Some y"
proof -
  have "[m..<Suc n] = [m..<k] @ [k..<Suc n]" 
    using assms(1,2) upt_add_eq_append [of m k "Suc n - k"] by simp
  moreover have "first_some f [m..<k] = None" using assms(3) by (auto simp: first_some_None list_all_iff)
  moreover have "[k..<Suc n] = k # [Suc k..<Suc n]" using assms(2) by (simp add: upt_rec)
  ultimately show ?thesis using assms(4) by (simp add: first_some_append)
qed

lemma match_name:
  assumes "name \<noteq> []" "list_all dot name" "nws (last name)" "list_all ws tail" "list_all dot tail"
  shows "rx_match [Cap (Lazy1 dot), Many ws, AtEnd] (name @ tail) = Some [name]"
proof -
  let ?f = "\<lambda>n. map_option (\<lambda>cs. captured (Cap (Lazy1 dot)) (take n (name @ tail)) @ cs) (rx_match [Many ws, AtEnd] (drop n (name @ tail)))"
  have all: "takeWhile dot (name @ tail) = name @ tail" using assms(2,5) by (simp add: list_all_iff)
  have no: "?f i = None" if "i < length name" for i
  proof -
    have "last name \<in> set (drop i name)" using that by (metis last_drop last_in_set drop_eq_Nil not_less)
    then have "\<not> list_all ws (drop i (name @ tail))" using assms(3) by (auto simp: list_all_iff)
    then show ?thesis by (simp only: match_tail if_False option.map)
  qed
  have "?f (length name) = Some [name]" using assms(4) by (simp only: match_tail drop_append) simp
  then have "first_some ?f [1..<Suc (length (name @ tail))] = Some [name]"
    using no assms(1) by (intro first_some_upt [of _ "length name"]) (auto simp: Suc_le_eq)
  then show ?thesis by (simp only: rx_match.simps(2) [of "Cap (Lazy1 dot)"] rx_lengths.simps all)
qed

text \<open>A column and the gap after it.\<close>

lemma match_column:
  assumes "x \<noteq> []" "list_all nws x" "g \<noteq> []" "list_all ws g" "b \<noteq> []" "nws (hd b)" "rx_match rs b = Some cs"
  shows "rx_match (Some1 nws # Some1 ws # rs) (x @ g @ b) = Some cs"
    "rx_match (Cap (Some1 nws) # Some1 ws # rs) (x @ g @ b) = Some (x # cs)"
proof -
  have g: "rx_match (Some1 ws # rs) (g @ b) = Some cs" using assms by (intro match_run) auto
  have "g @ b = [] \<or> \<not> nws (hd (g @ b))" using assms(3,4) by (cases g) auto
  then show "rx_match (Some1 nws # Some1 ws # rs) (x @ g @ b) = Some cs"
    "rx_match (Cap (Some1 nws) # Some1 ws # rs) (x @ g @ b) = Some (x # cs)"
    by (rule match_run [OF assms(2,1) _ g])+
qed

declare rx_match.simps(2) [simp del]

end
