(* ===== verification/Go_Sort.thy ===== *)
theory Go_Sort
  imports Main "HOL-Library.Multiset"
begin

text \<open>
  \<open>sort.Slice\<close> on distinct keys. Its algorithm is not stable and Go traverses maps and schedules goroutines
  in any order; where no two elements share a key, the result depends on neither.
\<close>

lemma sort_key_perm:
  assumes "mset xs = mset ys" "distinct (map k ys)"
  shows "sort_key k xs = sort_key k ys" "sorted_wrt (<) (map k (sort_key k xs))"
proof -
  have srt: "sorted_wrt (<) (map k (sort_key k zs))" if "mset zs = mset ys" for zs
    using assms(2) that unfolding strict_sorted_iff by (metis mset_eq_imp_distinct_iff mset_map mset_sort sorted_sort_key)
  show "sorted_wrt (<) (map k (sort_key k xs))" by (rule srt [OF assms(1)])
  have sets: "set (sort_key k xs) = set ys" "set (sort_key k ys) = set ys" using mset_eq_setD [OF assms(1)] by simp_all
  have "map k (sort_key k xs) = map k (sort_key k ys)"
    using srt [OF assms(1)] srt [OF refl] sets unfolding strict_sorted_iff by (intro sorted_distinct_set_unique) (simp_all only: set_map)
  moreover have "inj_on k (set ys)" using assms(2) by (simp only: distinct_map)
  ultimately show "sort_key k xs = sort_key k ys" by (intro map_inj_on [of k]) (unfold sets Un_absorb)
qed

end
