(* ===== verification/Mdns_Wake.thy ===== *)
theory Mdns_Wake
  imports Engine_System
begin

text \<open>
  Keeping iPhones discoverable: the passive browses of \<open>internal/discovery/wake.go\<close> and what the engine
  logs of them (\<open>engine/mdns_wake.go\<close>), the restart of the system's responder (\<open>service\_control.go\<close>) and
  the probe of the RSD ports (\<open>rsd.go\<close>). Durations are milliseconds. What a browse process does, how
  long it runs and with what error it ends, is an argument.
\<close>

section \<open>Back-off and health\<close>

definition browseRestartDelay :: int where "browseRestartDelay = 2000"
definition browseRestartMax :: int where "browseRestartMax = 60000"
definition minHealthyRun :: int where "minHealthyRun = 3000"
definition failuresBeforeWarning :: nat where "failuresBeforeWarning = 3"

datatype wake_message = WakeUnavailable string | WakeActive | WakeFailing string string | WakeRecovered

record wake_health =
  wh_tool :: string
  wh_failures :: nat
  wh_warned :: bool

definition recordFailure :: "string option \<Rightarrow> wake_health \<Rightarrow> wake_message list \<times> wake_health" where
  "recordFailure err h =
    (let h = h\<lparr>wh_failures := wh_failures h + 1\<rparr>;
         shouldWarn = failuresBeforeWarning \<le> wh_failures h \<and> \<not> wh_warned h;
         h = (if shouldWarn then h\<lparr>wh_warned := True\<rparr> else h)
     in if \<not> shouldWarn then ([], h)
        else ([WakeFailing (wh_tool h) (case err of Some e \<Rightarrow> e | None \<Rightarrow> ''sortie imm'' @ [CHR 0xC3, CHR 0xA9] @ ''diate'')], h))"

definition recordSuccess :: "wake_health \<Rightarrow> wake_message list \<times> wake_health" where
  "recordSuccess h = (if wh_warned h then [WakeRecovered] else [], h\<lparr>wh_failures := 0, wh_warned := False\<rparr>)"

text \<open>One browse that ran for some time and ended with an error or without: the health and the next delay.\<close>

definition browse_ended :: "int \<times> string option \<Rightarrow> wake_health \<Rightarrow> wake_message list \<times> wake_health" where
  "browse_ended x h = (if minHealthyRun \<le> fst x then recordSuccess h else recordFailure (snd x) h)"

definition next_delay :: "int \<times> string option \<Rightarrow> int \<Rightarrow> int" where
  "next_delay x delay =
    (if minHealthyRun \<le> fst x then browseRestartDelay
     else if browseRestartMax < delay * 2 then browseRestartMax else delay * 2)"

text \<open>
  \<open>browseLoop\<close> for one service, through the given runs of the tool; the context ends after them. The
  waits between the runs and the messages.
\<close>

fun browseLoop :: "(int \<times> string option) list \<Rightarrow> int \<Rightarrow> wake_health \<Rightarrow> int list \<times> wake_message list \<times> wake_health" where
  "browseLoop [] delay h = ([], [], h)"
| "browseLoop (x # xs) delay h =
    (let (msgs, h) = browse_ended x h;
         delay = next_delay x delay;
         (waits, more, h) = browseLoop xs delay h
     in (delay # waits, msgs @ more, h))"

text \<open>The loops of all services share one health: the ends of their browses in the order they come.\<close>

fun wake_run :: "(int \<times> string option) list \<Rightarrow> wake_health \<Rightarrow> wake_message list \<times> wake_health" where
  "wake_run [] h = ([], h)"
| "wake_run (x # xs) h = (let (msgs, h) = browse_ended x h; (more, h) = wake_run xs h in (msgs @ more, h))"

definition new_health :: "string \<Rightarrow> wake_health" where
  "new_health tool = \<lparr>wh_tool = tool, wh_failures = 0, wh_warned = False\<rparr>"

section \<open>The waker\<close>

definition AppleMDNSServices :: "string list" where
  "AppleMDNSServices = [''_apple-mobdev2._tcp'', ''_remotepairing._tcp'', ''_remoted._tcp'']"

definition PassiveBrowseCommand :: "string \<Rightarrow> string \<Rightarrow> string list option" where
  "PassiveBrowseCommand goos svc =
    (if goos = ''windows'' \<or> goos = ''darwin'' then Some [''dns-sd'', ''-B'', svc]
     else if goos = ''linux'' then Some [''avahi-browse'', ''-r'', svc]
     else None)"

text \<open>
  Runs and contexts are numbered; a run is the context derived from the one \<open>Start\<close> was given. The loops
  are those spawned, each with its run and service.
\<close>

record waker =
  wk_cancel :: "nat option"
  wk_next :: nat
  wk_parent :: "nat \<Rightarrow> nat"
  wk_cancelled :: "nat set"
  wk_loops :: "(nat \<times> string) list"

definition new_waker :: waker where
  "new_waker = \<lparr>wk_cancel = None, wk_next = 0, wk_parent = (\<lambda>_. 0), wk_cancelled = {}, wk_loops = []\<rparr>"

definition waker_stop :: "waker \<Rightarrow> waker" where
  "waker_stop k =
    (case wk_cancel k of
       None \<Rightarrow> k
     | Some r \<Rightarrow> k\<lparr>wk_cancel := None, wk_cancelled := insert r (wk_cancelled k)\<rparr>)"

text \<open>The rest of \<open>Start\<close>, after its call of \<open>Stop\<close>: \<open>has\<close> says whether the tool is installed.\<close>

definition waker_install :: "string \<Rightarrow> (string \<Rightarrow> bool) \<Rightarrow> nat \<Rightarrow> waker \<Rightarrow> wake_message list \<times> waker" where
  "waker_install goos has ctx k =
    (case PassiveBrowseCommand goos [] of
       None \<Rightarrow> ([], k)
     | Some argv \<Rightarrow>
         if \<not> has (hd argv) then ([WakeUnavailable (hd argv)], k)
         else (let r = wk_next k
               in ([WakeActive],
                   k\<lparr>wk_cancel := Some r, wk_next := Suc r, wk_parent := (wk_parent k)(r := ctx),
                     wk_loops := wk_loops k @ map (\<lambda>svc. (r, svc)) AppleMDNSServices\<rparr>)))"

definition waker_start :: "string \<Rightarrow> (string \<Rightarrow> bool) \<Rightarrow> nat \<Rightarrow> waker \<Rightarrow> wake_message list \<times> waker" where
  "waker_start goos has ctx k = waker_install goos has ctx (waker_stop k)"

text \<open>\<open>ActiveBrowses\<close>: the loops whose context has not ended. \<open>dead\<close> are the contexts that have.\<close>

definition ActiveBrowses :: "nat set \<Rightarrow> waker \<Rightarrow> (nat \<times> string) list" where
  "ActiveBrowses dead k = filter (\<lambda>(r, svc). r \<notin> wk_cancelled k \<and> wk_parent k r \<notin> dead) (wk_loops k)"

section \<open>The engine's side\<close>

text \<open>The level of what \<open>mdnsWakeLogger\<close> logs.\<close>

fun wake_level :: "wake_message \<Rightarrow> string" where
  "wake_level (WakeUnavailable tool) = ''info''"
| "wake_level WakeActive = ''info''"
| "wake_level (WakeFailing tool err) = ''warn''"
| "wake_level WakeRecovered = ''info''"

definition RestartMDNSService :: "string \<Rightarrow> (string list \<Rightarrow> string option) \<Rightarrow> string list list \<times> string option" where
  "RestartMDNSService goos exec =
    (if goos = ''windows'' then
       ([[''net'', ''stop'', ''Bonjour Service''], [''net'', ''start'', ''Bonjour Service'']],
        exec [''net'', ''start'', ''Bonjour Service''])
     else if goos = ''linux'' then ([[''systemctl'', ''restart'', ''avahi-daemon'']], exec [''systemctl'', ''restart'', ''avahi-daemon''])
     else if goos = ''darwin'' then
       ([[''launchctl'', ''kickstart'', ''-k'', ''system/com.apple.mDNSResponder'']],
        exec [''launchctl'', ''kickstart'', ''-k'', ''system/com.apple.mDNSResponder''])
     else ([], Some ''unsupported platform''))"

definition log_wake :: "'d world \<Rightarrow> wake_message \<Rightarrow> 'd engine \<Rightarrow> 'd engine" where
  "log_wake w m e =
    LogEvent w (wake_level m) ''tunnel'' ''mdns'' ''wake''
      (case m of WakeFailing tool err \<Rightarrow> [(''tool'', LvS tool), (''error'', LvErr)] | _ \<Rightarrow> []) e"

definition StartMdnsWake :: "'d world \<Rightarrow> string \<Rightarrow> (string \<Rightarrow> bool) \<Rightarrow> nat \<Rightarrow> 'd engine \<times> waker \<Rightarrow> 'd engine \<times> waker" where
  "StartMdnsWake w goos has ctx s =
    (let (msgs, k) = waker_start goos has ctx (snd s) in (fold (log_wake w) msgs (fst s), k))"

text \<open>
  \<open>RESTART\_MDNS\<close>: the engine restarts the responder and the browses, under a context the dispatcher
  made for this request and ends when the engine returns. \<open>dead\<close> are the contexts that have ended.
\<close>

definition dispatch_restart_mdns :: "'d world \<Rightarrow> string \<Rightarrow> (string \<Rightarrow> bool) \<Rightarrow> nat \<Rightarrow> 'd engine \<times> waker \<times> nat set \<Rightarrow>
    driver_error option \<times> 'd engine \<times> waker \<times> nat set" where
  "dispatch_restart_mdns w goos has ctx s =
    (case s of (e, k, dead) \<Rightarrow>
       (let (err, e) = RestartMdns w e;
            (e, k) = StartMdnsWake w goos has ctx (e, k)
        in (err, e, k, insert ctx dead)))"

section \<open>rsd.go\<close>

definition rsdProbePorts :: "int list" where
  "rsdProbePorts = [53248] @ [53400..53460] @ [62000..62060]"

text \<open>The probes end in any order; \<open>order\<close> is the ports in the order of their ends.\<close>

definition ProbeRSDPorts :: "(int \<Rightarrow> bool) \<Rightarrow> int list \<Rightarrow> int list" where
  "ProbeRSDPorts accepts order = sort (filter accepts order)"

section \<open>One warning per outage\<close>

text \<open>The browses that failed at once since the last healthy one.\<close>

definition recent_failures :: "(int \<times> string option) list \<Rightarrow> nat" where
  "recent_failures ends = length (takeWhile (\<lambda>x. fst x < minHealthyRun) (rev ends))"

lemma recent_failures_snoc:
  "recent_failures (ends @ [x]) = (if minHealthyRun \<le> fst x then 0 else Suc (recent_failures ends))"
  by (simp add: recent_failures_def)

lemma wake_run_snoc:
  "wake_run (ends @ [x]) h =
    (let (msgs, h) = wake_run ends h; (more, h) = browse_ended x h in (msgs @ more, h))"
  by (induction ends arbitrary: h) (simp_all add: case_prod_unfold Let_def)

lemma wake_health_tracks:
  "snd (wake_run ends (new_health tool)) =
    \<lparr>wh_tool = tool, wh_failures = recent_failures ends, wh_warned = (failuresBeforeWarning \<le> recent_failures ends)\<rparr>"
proof (induction ends rule: rev_induct)
  case Nil
  then show ?case by (simp add: new_health_def recent_failures_def failuresBeforeWarning_def)
next
  case (snoc x ends)
  then show ?case
    by (auto simp: wake_run_snoc case_prod_unfold Let_def browse_ended_def recordSuccess_def recordFailure_def
        recent_failures_snoc failuresBeforeWarning_def)
qed

text \<open>
  An outage is reported once. Whatever the browses of the three services do, in whatever order they
  end, a warning is logged exactly when the third browse in a row failed at once, and a recovery exactly
  when a healthy one follows a reported outage.
\<close>
theorem outage_reported_once:
  "fst (wake_run (ends @ [x]) (new_health tool)) = fst (wake_run ends (new_health tool)) @
    (if minHealthyRun \<le> fst x then (if 3 \<le> recent_failures ends then [WakeRecovered] else [])
     else if recent_failures ends = 2 then fst (recordFailure (snd x) \<lparr>wh_tool = tool, wh_failures = 2, wh_warned = False\<rparr>) else [])"
  by (auto simp: wake_run_snoc case_prod_unfold Let_def wake_health_tracks browse_ended_def recordSuccess_def recordFailure_def
      failuresBeforeWarning_def)

text \<open>The count is shared: one failure of each service is already the outage.\<close>

lemma one_round_warns:
  "fst (wake_run (map (\<lambda>svc. (0, Some svc)) AppleMDNSServices) (new_health tool)) = [WakeFailing tool ''_remoted._tcp'']"
  by (simp add: AppleMDNSServices_def new_health_def browse_ended_def recordFailure_def minHealthyRun_def
      failuresBeforeWarning_def Let_def)

section \<open>The delays\<close>

text \<open>
  Between two browses of a service at least two seconds pass and at most a minute, and browses that
  fail at once are retried after 4, 8, 16, 32 seconds and then every minute: a host without mDNS costs a
  process a minute.
\<close>
theorem browse_delays:
  "list_all (\<lambda>d. browseRestartDelay \<le> d \<and> d \<le> browseRestartMax) (fst (browseLoop ends browseRestartDelay h)) \<and>
   fst (browseLoop (replicate n (0, err)) browseRestartDelay h) = map (\<lambda>k. min browseRestartMax (2000 * 2 ^ Suc k)) [0..<n]"
proof
  have b: "2000 \<le> next_delay x d \<and> next_delay x d \<le> 60000" if "2000 \<le> d" "d \<le> 60000" for x d
    using that by (simp add: next_delay_def browseRestartDelay_def browseRestartMax_def)
  have "list_all (\<lambda>d. 2000 \<le> d \<and> d \<le> 60000) (fst (browseLoop ends d h))" if "2000 \<le> d" "d \<le> 60000" for d
    using that
  proof (induction ends arbitrary: d h)
    case (Cons x ends)
    show ?case using Cons.IH [of "next_delay x d"] b [OF Cons.prems] by (simp add: case_prod_unfold Let_def)
  qed simp
  then show "list_all (\<lambda>d. browseRestartDelay \<le> d \<and> d \<le> browseRestartMax) (fst (browseLoop ends browseRestartDelay h))"
    by (simp add: browseRestartDelay_def browseRestartMax_def)
  have "fst (browseLoop (replicate n (0, err)) (min 60000 (2000 * 2 ^ j)) h) = map (\<lambda>k. min 60000 (2000 * 2 ^ Suc k)) [j..<j + n]" for j
  proof (induction n arbitrary: j h)
    case (Suc n)
    have "next_delay (0, err) (min 60000 (2000 * 2 ^ j)) = min 60000 (2000 * 2 ^ Suc j)"
      by (simp add: next_delay_def minHealthyRun_def browseRestartMax_def min_def)
    moreover have "[j..<j + Suc n] = j # [Suc j..<Suc j + n]" by (simp add: upt_conv_Cons)
    ultimately show ?case using Suc.IH [of "Suc j"] by (simp add: case_prod_unfold Let_def)
  qed simp
  from this [of 0] show "fst (browseLoop (replicate n (0, err)) browseRestartDelay h) =
      map (\<lambda>k. min browseRestartMax (2000 * 2 ^ Suc k)) [0..<n]"
    by (simp add: browseRestartDelay_def browseRestartMax_def)
qed

section \<open>Starting again\<close>

text \<open>The loops of the present run are the only ones that are not cancelled.\<close>

definition waker_inv :: "waker \<Rightarrow> bool" where
  "waker_inv k \<longleftrightarrow>
    list_all (\<lambda>(r, svc). r < wk_next k) (wk_loops k) \<and> (case wk_cancel k of None \<Rightarrow> True | Some r \<Rightarrow> r < wk_next k \<and> r \<notin> wk_cancelled k) \<and>
    filter (\<lambda>(r, svc). r \<notin> wk_cancelled k) (wk_loops k) =
      (case wk_cancel k of None \<Rightarrow> [] | Some r \<Rightarrow> map (\<lambda>svc. (r, svc)) AppleMDNSServices) \<and>
    wk_cancelled k \<subseteq> {..<wk_next k}"

lemma waker_inv_new: "waker_inv new_waker" by (simp add: waker_inv_def new_waker_def)

lemma waker_inv_stop:
  assumes "waker_inv k"
  shows "waker_inv (waker_stop k) \<and> wk_cancel (waker_stop k) = None"
proof (cases "wk_cancel k")
  case (Some r)
  have "filter (\<lambda>(q, svc). q \<notin> insert r (wk_cancelled k)) (wk_loops k) =
      filter (\<lambda>(q, svc). q \<noteq> r) (filter (\<lambda>(q, svc). q \<notin> wk_cancelled k) (wk_loops k))"
    by (simp add: case_prod_unfold conj_commute)
  also have "\<dots> = []" using assms Some by (simp add: waker_inv_def AppleMDNSServices_def)
  finally show ?thesis using assms Some by (simp add: waker_stop_def waker_inv_def)
qed (use assms in \<open>simp add: waker_stop_def\<close>)

lemma waker_inv_install:
  assumes "waker_inv k" "wk_cancel k = None"
  shows "waker_inv (snd (waker_install goos has ctx k))"
proof -
  have n: "wk_next k \<notin> wk_cancelled k" using assms(1) by (auto simp: waker_inv_def)
  have "list_all (\<lambda>(r, svc). r < Suc (wk_next k)) (wk_loops k)"
    using assms(1) by (auto simp: waker_inv_def list_all_iff less_Suc_eq)
  moreover have "wk_cancelled k \<subseteq> {..<Suc (wk_next k)}" using assms(1) by (auto simp: waker_inv_def)
  ultimately show ?thesis using assms n
    by (auto simp: waker_install_def waker_inv_def AppleMDNSServices_def Let_def split: option.split)
qed

lemma waker_inv_start: "waker_inv k \<Longrightarrow> waker_inv (snd (waker_start goos has ctx k))"
  using waker_inv_install waker_inv_stop by (simp add: waker_start_def)

lemma active_of_inv:
  assumes "waker_inv k"
  shows "ActiveBrowses dead k = (case wk_cancel k of None \<Rightarrow> []
    | Some r \<Rightarrow> if wk_parent k r \<in> dead then [] else map (\<lambda>svc. (r, svc)) AppleMDNSServices)"
proof -
  define live where "live = filter (\<lambda>(r, svc). r \<notin> wk_cancelled k) (wk_loops k)"
  have a: "ActiveBrowses dead k = filter (\<lambda>(r, svc). wk_parent k r \<notin> dead) live"
    unfolding ActiveBrowses_def live_def filter_filter by (rule filter_cong) auto
  have "live = (case wk_cancel k of None \<Rightarrow> [] | Some r \<Rightarrow> map (\<lambda>svc. (r, svc)) AppleMDNSServices)"
    using assms by (simp add: waker_inv_def live_def)
  then show ?thesis unfolding a by (cases "wk_cancel k") (simp_all add: AppleMDNSServices_def)
qed

text \<open>
  Started and stopped one call after the other, the waker never runs more than one browse per
  service, however often it is started.
\<close>
theorem browses_never_stack:
  "length (ActiveBrowses dead (fold (\<lambda>c k. case c of None \<Rightarrow> waker_stop k | Some (goos, has, ctx) \<Rightarrow> snd (waker_start goos has ctx k))
     calls new_waker)) \<in> {0, 3}"
proof -
  have "waker_inv (fold (\<lambda>c k. case c of None \<Rightarrow> waker_stop k | Some (goos, has, ctx) \<Rightarrow> snd (waker_start goos has ctx k)) calls k)"
    if "waker_inv k" for k
    using that by (induction calls arbitrary: k) (auto simp: waker_inv_stop waker_inv_start split: option.split)
  from this [OF waker_inv_new] show ?thesis by (auto simp: active_of_inv AppleMDNSServices_def split: option.split)
qed

text \<open>
  C38: Restarting mDNS from the application switches the browses off. The old ones are stopped, and the new
  ones belong to the context of the request, which ends with it: afterwards none is running, with the tool
  installed or not.
\<close>
theorem restart_mdns_ends_browsing:
  assumes "waker_inv k"
  shows "case dispatch_restart_mdns w goos has ctx (e, k, dead) of (err, e', k', dead') \<Rightarrow> ActiveBrowses dead' k' = []"
proof -
  define k1 where "k1 = waker_stop k"
  have k1: "waker_inv k1" "wk_cancel k1 = None" using waker_inv_stop [OF assms] by (simp_all add: k1_def)
  have "ActiveBrowses (insert ctx dead) (snd (waker_install goos has ctx k1)) = []"
    using k1 active_of_inv [OF waker_inv_install [OF k1, of goos has ctx], of "insert ctx dead"]
    by (auto simp: waker_install_def Let_def split: option.split)
  then show ?thesis
    by (simp add: dispatch_restart_mdns_def StartMdnsWake_def waker_start_def k1_def [symmetric] case_prod_unfold Let_def)
qed

lemma restart_mdns_ends_browsing_witness:
  "length (ActiveBrowses {} (snd (waker_start ''linux'' (\<lambda>_. True) 0 new_waker))) = 3 \<and>
   (case dispatch_restart_mdns demo_world ''linux'' (\<lambda>_. True) 7 (demo_engine, snd (waker_start ''linux'' (\<lambda>_. True) 0 new_waker), {})
    of (err, e', k', dead') \<Rightarrow> ActiveBrowses dead' k' = [])"
proof
  show "length (ActiveBrowses {} (snd (waker_start ''linux'' (\<lambda>_. True) 0 new_waker))) = 3"
    by (simp add: ActiveBrowses_def waker_start_def waker_stop_def waker_install_def new_waker_def PassiveBrowseCommand_def
        AppleMDNSServices_def Let_def)
  show "case dispatch_restart_mdns demo_world ''linux'' (\<lambda>_. True) 7 (demo_engine, snd (waker_start ''linux'' (\<lambda>_. True) 0 new_waker), {})
    of (err, e', k', dead') \<Rightarrow> ActiveBrowses dead' k' = []"
    by (rule restart_mdns_ends_browsing [OF waker_inv_start [OF waker_inv_new]])
qed

text \<open>
  Two starts that overlap leave browses behind that no stop ends: both stop the old run, then each
  installs its own, and the first to do so is forgotten.
\<close>
theorem overlapping_starts_leak:
  assumes "PassiveBrowseCommand goos [] = Some argv" "has (hd argv)" "waker_inv k" "ctx \<notin> dead" "ctx' \<notin> dead"
  shows "length (ActiveBrowses dead (waker_stop (snd (waker_install goos has ctx' (snd (waker_install goos has ctx
    (waker_stop (waker_stop k)))))))) = 3"
proof -
  define k1 where "k1 = waker_stop (waker_stop k)"
  have k1: "waker_inv k1" "wk_cancel k1 = None" using waker_inv_stop [OF assms(3)] waker_inv_stop by (simp_all add: k1_def)
  define k2 where "k2 = snd (waker_install goos has ctx k1)"
  define k3 where "k3 = waker_stop (snd (waker_install goos has ctx' k2))"
  have i2: "waker_inv k2" using waker_inv_install [OF k1] by (simp add: k2_def)
  have k2: "wk_cancel k2 = Some (wk_next k1)" "wk_next k2 = Suc (wk_next k1)" "wk_parent k2 (wk_next k1) = ctx"
    using assms(1,2) by (simp_all add: k2_def waker_install_def Let_def)
  have k3: "wk_loops k3 = wk_loops k2 @ map (\<lambda>svc. (wk_next k2, svc)) AppleMDNSServices"
    "wk_cancelled k3 = insert (wk_next k2) (wk_cancelled k2)" "wk_parent k3 = (wk_parent k2)(wk_next k2 := ctx')"
    using assms(1,2) by (simp_all add: k3_def waker_stop_def waker_install_def Let_def)
  have lt: "list_all (\<lambda>(r, svc). r < wk_next k2) (wk_loops k2)" using i2 by (simp add: waker_inv_def)
  have "filter (\<lambda>(r, svc). r \<notin> wk_cancelled k3 \<and> wk_parent k3 r \<notin> dead) (wk_loops k2) =
      filter (\<lambda>(r, svc). r \<notin> wk_cancelled k2 \<and> wk_parent k2 r \<notin> dead) (wk_loops k2)"
    using lt by (intro filter_cong) (auto simp: k3 list_all_iff)
  then have "ActiveBrowses dead k3 = ActiveBrowses dead k2" by (simp add: ActiveBrowses_def k3 filter_empty_conv)
  then show ?thesis using active_of_inv [OF i2, of dead] k2 assms(4)
    by (simp add: k3_def k2_def k1_def AppleMDNSServices_def)
qed

section \<open>The ports of a host\<close>

text \<open>
  The result of the port probe is the ascending list of the candidate ports that accept, in whatever
  order the concurrent probes end.
\<close>
theorem probe_order_irrelevant:
  assumes "mset order = mset rsdProbePorts"
  shows "ProbeRSDPorts accepts order = filter accepts rsdProbePorts"
proof -
  have "sorted ([a] @ [b..c] @ [d..e])" if "a < b" "c < d" "b \<le> c" for a b c d e :: int
    using that by (auto simp: sorted_append)
  from this [of 53248 53400 53460 62000 62060] have "sorted rsdProbePorts" unfolding rsdProbePorts_def by (auto simp del: upto.simps upto_rec_numeral)
  then have "sorted (filter accepts rsdProbePorts)" by (rule sorted_wrt_filter)
  moreover have "mset (filter accepts order) = mset (filter accepts rsdProbePorts)" using assms by (simp add: mset_filter)
  ultimately show ?thesis unfolding ProbeRSDPorts_def by (intro properties_for_sort) simp_all
qed

end
