(* ===== verification/Mdns_Scan.thy ===== *)
theory Mdns_Scan
  imports Go_Regexp Go_Sort Server_Dispatch Mdns_Wake Headless "HOL-Library.Product_Lexorder"
begin

text \<open>
  The active scan for iPhones: \<open>internal/discovery/mdns.go\<close>, behind the action \<open>SCAN_MDNS\<close>. What the
  browse and resolve programs print before their context ends is an argument; so is the order in which
  the goroutines add what they found.
\<close>

section \<open>The output of the programs\<close>

definition browseAddLineRe :: "rx list" where
  "browseAddLineRe =
    [Some1 nws, Some1 ws, Lit ''Add'', Some1 ws, Some1 nws, Some1 ws, Some1 nws, Some1 ws, Some1 nws, Some1 ws,
     Cap (Some1 nws), Some1 ws, Cap (Lazy1 dot), Many ws, AtEnd]"

definition avahiNewLineRe :: "rx list" where
  "avahiNewLineRe =
    [Lit ''+'', Some1 ws, Some1 nws, Some1 ws, Some1 nws, Some1 ws, Cap (Lazy1 dot), Some1 ws, Some1 nws, Some1 ws,
     Lit ''local'', Many ws, AtEnd]"

definition instanceReachedRe :: "rx list" where
  "instanceReachedRe = [Lit ''can be reached at'', Some1 ws, Cap (Some1 nws), Lit '':'', Cap (Some1 digit)]"

definition avahiResolveRe :: "rx list" where
  "avahiResolveRe =
    [Lit ''hostname'', Many ws, Lit ''='', Many ws, Lit ''['', Cap (Some1 (\<lambda>c. c \<noteq> CHR '':'' \<and> c \<noteq> CHR '']'')), Lit '':'',
     Cap (Some1 digit), Lit '']'']"

definition addressLineRe :: "rx list" where
  "addressLineRe =
    [Some1 nws, Some1 ws, Lit ''Add'', Some1 ws, Some1 nws, Some1 ws, Some1 nws, Some1 ws, Some1 nws, Some1 ws,
     Cap (Some1 nws), Some1 ws, Some1 digit, Many ws, AtEnd]"

section \<open>Browsing\<close>

definition BrowseCommand :: "string \<Rightarrow> string list option" where
  "BrowseCommand goos =
    (if goos = ''windows'' \<or> goos = ''darwin'' then Some [''dns-sd'', ''-B'']
     else if goos = ''linux'' then Some [''avahi-browse'', ''-r'', ''-p'']
     else None)"

definition line_instance :: "string \<Rightarrow> string" where
  "line_instance line =
    (if Contains line ''Add'' then
       (case rx_match browseAddLineRe line of Some m \<Rightarrow> m ! 1 | None \<Rightarrow> [])
     else if HasPrefix (TrimSpace line) ''+'' then
       (case rx_match avahiNewLineRe line of Some m \<Rightarrow> TrimSpace (m ! 0) | None \<Rightarrow> [])
     else [])"

fun collect_instances :: "string list \<Rightarrow> string list \<Rightarrow> string list" where
  "collect_instances seen [] = []"
| "collect_instances seen (line # lines) =
    (let name = line_instance line
     in if name \<noteq> [] \<and> name \<notin> set seen then name # collect_instances (name # seen) lines
        else collect_instances seen lines)"

text \<open>
  \<open>bufio.Scanner\<close>: the lines without their end, a carriage return before it included, up to the first
  one that does not fit its buffer of 64 KiB.
\<close>

definition scanner_lines :: "string \<Rightarrow> string list" where
  "scanner_lines out =
    (let ls = split_on (CHR 0x0A) out; ls = (if last ls = [] then butlast ls else ls)
     in map (\<lambda>l. TrimSuffix l [CHR 0x0D]) (takeWhile (\<lambda>l. length l < 65536) ls))"

text \<open>
  This machine: its system, which programs are on the path, what a command line prints, and whether it
  ended without an error; \<open>None\<close> where it cannot be started.
\<close>

record scan_world =
  sc_goos :: string
  sc_lookPath :: "string \<Rightarrow> bool"
  sc_exec :: "string list \<Rightarrow> (string \<times> bool) option"

definition browseInstances :: "scan_world \<Rightarrow> string \<Rightarrow> string list" where
  "browseInstances w svc =
    (case BrowseCommand (sc_goos w) of
       None \<Rightarrow> []
     | Some cmd \<Rightarrow>
         if \<not> sc_lookPath w (hd cmd) then []
         else case sc_exec w (cmd @ [svc]) of None \<Rightarrow> [] | Some (out, _) \<Rightarrow> collect_instances [] (scanner_lines out))"

section \<open>Resolving\<close>

text \<open>The output and the success of a command, as \<open>Output\<close> and \<open>CombinedOutput\<close> give them.\<close>

definition output_of :: "scan_world \<Rightarrow> string list \<Rightarrow> string \<times> bool" where
  "output_of w cmd = (case sc_exec w cmd of None \<Rightarrow> ([], False) | Some r \<Rightarrow> r)"

definition reached :: "string list \<Rightarrow> string \<times> int" where
  "reached m = (TrimSuffix (m ! 0) ''.'', Atoi_value (m ! 1))"

definition lookupInstance :: "scan_world \<Rightarrow> string \<Rightarrow> string \<Rightarrow> (string \<times> int) option" where
  "lookupInstance w inst svc =
    (if sc_goos w = ''windows'' \<or> sc_goos w = ''darwin''
     then map_option reached (rx_find instanceReachedRe (fst (output_of w [''dns-sd'', ''-L'', inst, svc, ''local''])))
     else if sc_goos w = ''linux''
     then (let (out, ok) = output_of w [''avahi-resolve-service'', ''-n'', inst, svc, ''local'']
           in if ok then map_option reached (rx_find avahiResolveRe out) else None)
     else None)"

function Fields :: "string \<Rightarrow> string list" where
  "Fields [] = []"
| "Fields (c # cs) =
    (if is_space c then Fields cs
     else (c # takeWhile (\<lambda>x. \<not> is_space x) cs) # Fields (dropWhile (\<lambda>x. \<not> is_space x) cs))"
  by pat_completeness auto
termination by (relation "measure length") (auto simp: less_Suc_eq_le length_dropWhile_le)

definition line_address :: "string \<Rightarrow> string option" where
  "line_address line = map_option (\<lambda>m. takeWhile (\<lambda>c. c \<noteq> CHR ''%'') (m ! 0)) (rx_match addressLineRe line)"

definition name_address :: "scan_world \<Rightarrow> string \<Rightarrow> string \<Rightarrow> string list" where
  "name_address w ver host =
    (let (out, ok) = output_of w [''avahi-resolve-host-name'', ver, host]; fields = Fields out
     in if ok \<and> length fields = 2 then [fields ! 1] else [])"

definition resolveHost :: "scan_world \<Rightarrow> string \<Rightarrow> string list \<times> string list" where
  "resolveHost w host =
    (if host = [] then ([], [])
     else if sc_goos w = ''windows'' \<or> sc_goos w = ''darwin''
     then (let as = List.map_filter line_address (split_on (CHR 0x0A) (fst (output_of w [''dns-sd'', ''-G'', ''v4v6'', host])))
           in (filter (\<lambda>a. \<not> Contains a '':'') as, filter (\<lambda>a. Contains a '':'') as))
     else if sc_goos w = ''linux'' then (name_address w ''-4'' host, name_address w ''-6'' host)
     else ([], []))"

section \<open>The scan\<close>

definition scan_instance :: "scan_world \<Rightarrow> string \<Rightarrow> string \<Rightarrow> mdns_device" where
  "scan_instance w svc inst =
    (case lookupInstance w inst svc of
       None \<Rightarrow> \<lparr>md_Service = svc, md_Instance = inst, md_Hostname = [], md_IPv4 = [], md_IPv6 = [], md_Port = 0\<rparr>
     | Some (host, port) \<Rightarrow>
         (let (v4, v6) = resolveHost w host
          in \<lparr>md_Service = svc, md_Instance = inst, md_Hostname = host, md_IPv4 = v4, md_IPv6 = v6, md_Port = port\<rparr>))"

text \<open>\<open>order\<close> is the order in which the goroutines of one service end, \<open>merge\<close> that of the services.\<close>

definition scanService :: "(string list \<Rightarrow> string list) \<Rightarrow> scan_world \<Rightarrow> string \<Rightarrow> mdns_device list" where
  "scanService order w svc = map (scan_instance w svc) (order (browseInstances w svc))"

definition ScanMDNSAll :: "(string list \<Rightarrow> string list) \<Rightarrow> (string list \<Rightarrow> string list) \<Rightarrow> scan_world \<Rightarrow> mdns_device list" where
  "ScanMDNSAll order merge w =
    sort_key (\<lambda>d. (md_Service d, md_Instance d)) (concat (map (scanService order w) (merge AppleMDNSServices)))"

text \<open>A server on this machine: its scanner is this one, which never returns an error.\<close>

definition scanning :: "(string list \<Rightarrow> string list) \<Rightarrow> (string list \<Rightarrow> string list) \<Rightarrow> scan_world \<Rightarrow> 'd server_world \<Rightarrow> 'd server_world" where
  "scanning order merge w sw = sw\<lparr>sw_scan := Inr (ScanMDNSAll order merge w)\<rparr>"

section \<open>What a line of dns-sd says\<close>

lemma Contains_middle: "Contains (a @ p @ b) p"
proof (induction a)
  case Nil
  have "HasPrefix (p @ b) p" by (simp add: HasPrefix_def)
  then show ?case by (cases "p @ b") (simp_all add: HasPrefix_def)
next
  case (Cons c a)
  then show ?case by simp
qed

text \<open>
  A line that announces an instance, in its columns: time, the word \<open>Add\<close>, flags, interface, domain, type,
  and the name of the instance, which may hold spaces.
\<close>

lemma browse_line_instance:
  assumes cols: "list_all (\<lambda>x. x \<noteq> [] \<and> list_all nws x) [t, f, i, d, ty]"
    and gaps: "list_all (\<lambda>x. x \<noteq> [] \<and> list_all ws x) [g1, g2, g3, g4, g5, g6]"
    and name: "name \<noteq> []" "nws (hd name)" "nws (last name)" "list_all dot name" and "list_all ws tail" "list_all dot tail"
  shows "line_instance (t @ g1 @ ''Add'' @ g2 @ f @ g3 @ i @ g4 @ d @ g5 @ ty @ g6 @ name @ tail) = name"
proof -
  note starts = list_all_iff append_is_Nil_conv hd_append2 hd_in_set
  have n: "rx_match [Cap (Lazy1 dot), Many ws, AtEnd] (name @ tail) = Some [name]" by (rule match_name [OF name(1,4,3) assms(7,8)])
  have 1: "rx_match [Cap (Some1 nws), Some1 ws, Cap (Lazy1 dot), Many ws, AtEnd] (ty @ g6 @ name @ tail) = Some [ty, name]"
    by (rule match_column(2)) (use cols gaps name n in \<open>simp_all add: starts\<close>)
  note 2 = match_column(1) [OF _ _ _ _ _ _ 1, of d g5]
  note 3 = match_column(1) [OF _ _ _ _ _ _ 2, of i g4]
  note 4 = match_column(1) [OF _ _ _ _ _ _ 3, of f g3]
  have 5: "rx_match (Lit ''Add'' # Some1 ws # drop 4 browseAddLineRe) (''Add'' @ g2 @ f @ g3 @ i @ g4 @ d @ g5 @ ty @ g6 @ name @ tail) = Some [ty, name]"
    unfolding match_lit browseAddLineRe_def
    by (rule match_run(1)) (use cols gaps 4 in \<open>simp_all add: starts\<close>)
  have "rx_match browseAddLineRe (t @ g1 @ ''Add'' @ g2 @ f @ g3 @ i @ g4 @ d @ g5 @ ty @ g6 @ name @ tail) = Some [ty, name]"
    unfolding browseAddLineRe_def
    by (rule match_column(1)) (use cols gaps 5 in \<open>simp_all add: starts browseAddLineRe_def ws_def\<close>)
  moreover have "Contains (t @ g1 @ ''Add'' @ g2 @ f @ g3 @ i @ g4 @ d @ g5 @ ty @ g6 @ name @ tail) ''Add''"
    using Contains_middle [of "t @ g1" "''Add''"] by simp
  ultimately show ?thesis by (simp add: line_instance_def)
qed



section \<open>On Linux\<close>

text \<open>
  The lines \<open>avahi-browse -p\<close> prints: a sign, a semicolon, and columns between semicolons. White space in a
  name is escaped, so it is only found where free text is, in the lines that resolve an instance.
\<close>

definition parsable_line :: "string \<Rightarrow> bool" where
  "parsable_line line \<longleftrightarrow>
    (case line of
       a # b # rest \<Rightarrow> a \<in> {CHR ''+'', CHR ''-'', CHR ''=''} \<and> b = CHR '';'' \<and> (\<not> Contains line ''Add'' \<or> list_all nws line)
     | _ \<Rightarrow> False)"

lemma parsable_ignored: "parsable_line line \<Longrightarrow> line_instance line = []"
proof -
  assume p: "parsable_line line"
  then obtain a rest where line: "line = a # CHR '';'' # rest" "a \<in> {CHR ''+'', CHR ''-'', CHR ''=''}"
    by (auto simp: parsable_line_def split: list.splits)
  show ?thesis
  proof (cases "Contains line ''Add''")
    case True
    then have all: "list_all nws line" using p line by (simp add: parsable_line_def)
    have "rx_match (Some1 ws # rs) (drop n line) = None" for rs n
      using all by (intro match_needs) (meson list_all_iff in_set_dropD)
    then have "rx_match (Some1 nws # Some1 ws # rs) line = None" for rs
      by (simp only: rx_match.simps(2) [of "Some1 nws"] first_some_None option.map) (simp add: list_all_iff)
    then show ?thesis using True by (simp add: line_instance_def browseAddLineRe_def)
  next
    case False
    have "rx_match avahiNewLineRe line = None"
    proof (cases "a = CHR ''+''")
      case True
      then have "rx_match avahiNewLineRe line = rx_match (tl avahiNewLineRe) (CHR '';'' # rest)"
        using match_lit [of "''+''" "tl avahiNewLineRe" "CHR '';'' # rest"] line by (simp add: avahiNewLineRe_def)
      then show ?thesis by (simp add: avahiNewLineRe_def match_blank_None ws_def)
    next
      case False
      then show ?thesis unfolding avahiNewLineRe_def using line by (intro match_lit_None) (simp add: HasPrefix_def)
    qed
    then show ?thesis using False by (simp add: line_instance_def)
  qed
qed

lemma collect_nothing: "list_all (\<lambda>l. line_instance l = []) lines \<Longrightarrow> collect_instances seen lines = []"
  by (induction lines) (simp_all add: Let_def)


lemma distinct_collect: "distinct (collect_instances seen lines) \<and> set (collect_instances seen lines) \<inter> set seen = {}"
  by (induction seen lines rule: collect_instances.induct) (auto simp: Let_def)

lemma distinct_browse: "distinct (browseInstances w svc)"
  by (simp add: browseInstances_def distinct_collect split: option.split)

text \<open>
  The answer to a scan does not depend on which program ends first. Where a service lists an instance
  once, and it does, any order in which the goroutines append what they found gives the same devices, each
  once, in ascending order of service and instance.
\<close>
theorem scan_is_stable:
  assumes "\<And>xs. mset (order xs) = mset xs" "\<And>xs. mset (order' xs) = mset xs"
    "\<And>xs. mset (merge xs) = mset xs" "\<And>xs. mset (merge' xs) = mset xs"
  shows "ScanMDNSAll order merge w = ScanMDNSAll order' merge' w \<and>
    sorted_wrt (<) (map (\<lambda>d. (md_Service d, md_Instance d)) (ScanMDNSAll order merge w))"
proof -
  let ?k = "\<lambda>d. (md_Service d, md_Instance d)"
  define found where "found svc = map (scan_instance w svc) (browseInstances w svc)" for svc
  have key: "?k (scan_instance w svc i) = (svc, i)" for svc i
    by (simp add: scan_instance_def Let_def split: option.split prod.split)
  have keys: "map ?k (concat (map found svcs)) = concat (map (\<lambda>svc. map (Pair svc) (browseInstances w svc)) svcs)" for svcs
    by (simp only: map_concat map_map comp_def found_def key)
  have "distinct (concat (map (\<lambda>svc. map (Pair svc) (browseInstances w svc)) svcs))" if "distinct svcs" for svcs
    using that by (induction svcs) (auto simp: distinct_map inj_on_def distinct_browse)
  moreover have "distinct AppleMDNSServices" by (simp add: AppleMDNSServices_def)
  ultimately have dist: "distinct (map ?k (concat (map found AppleMDNSServices)))" by (simp only: keys)
  have perm: "mset (concat (map (scanService ord w) (mrg AppleMDNSServices))) = mset (concat (map found AppleMDNSServices))"
    if "\<And>xs. mset (ord xs) = mset xs" "\<And>xs. mset (mrg xs) = mset xs" for ord mrg
  proof -
    have "mset (scanService ord w svc) = mset (found svc)" for svc by (simp add: scanService_def found_def that(1))
    then have "mset (concat (map (scanService ord w) (mrg AppleMDNSServices))) = (\<Sum>svc \<in># mset (mrg AppleMDNSServices). mset (found svc))"
      by (simp add: mset_concat comp_def flip: sum_mset_sum_list)
    then show ?thesis by (simp add: that(2) mset_concat comp_def flip: sum_mset_sum_list)
  qed
  show ?thesis
    unfolding ScanMDNSAll_def using sort_key_perm [OF perm [OF assms(1,3)] dist] sort_key_perm(1) [OF perm [OF assms(2,4)] dist] by simp
qed

section \<open>Examples\<close>

definition demo_scan :: scan_world where
  "demo_scan =
    \<lparr>sc_goos = ''linux'', sc_lookPath = (\<lambda>_. True),
     sc_exec = (\<lambda>_. Some (''+;eth0;IPv4;iPhone;_remoted._tcp;local'' @ [CHR 0x0A], True))\<rparr>"


theorem scan_is_stable_witness:
  "ScanMDNSAll (\<lambda>is. is) (\<lambda>ss. ss) (demo_scan\<lparr>sc_goos := ''darwin''\<rparr>) = ScanMDNSAll rev rev (demo_scan\<lparr>sc_goos := ''darwin''\<rparr>)"
  using scan_is_stable [of "\<lambda>is. is" rev "\<lambda>ss. ss" rev] by simp

end
