(* ===== verification/Http_Routes.thy ===== *)
theory Http_Routes
  imports Server_Auth Diagnostics
begin

text \<open>
  What the engine answers on which path: the routes \<open>server.New\<close> registers (\<open>internal/server/server.go\<close>,
  \<open>internal/cluster/cluster\_http.go\<close>), how \<open>http.ServeMux\<close> picks one, and the handler of the built-in web
  interface (\<open>internal/webui/webui.go\<close>). A path is the escaped path of the request.
\<close>

section \<open>http.ServeMux\<close>

text \<open>
  A pattern is a method, empty for any, and a path: a literal one, one whose last element is arbitrary, or
  the whole tree. Methods other than \<open>CONNECT\<close>, whose paths the multiplexer does not clean.
\<close>

datatype route_path = Exact string | OneMore string | Everything

datatype endpoint =
    EpHealth | EpStatus | EpLogs | EpMetrics | EpSet | EpClear | EpEnroll | EpWS
  | EpPairCode | EpPair | EpDevices | EpRevoke
  | EpClusterStatus | EpPing | EpTakeover | EpPlists | EpSyncPlist
  | EpWebUI

type_synonym route = "string \<times> route_path \<times> endpoint"

fun path_matches :: "route_path \<Rightarrow> string \<Rightarrow> bool" where
  "path_matches (Exact p) path \<longleftrightarrow> path = p"
| "path_matches (OneMore p) path \<longleftrightarrow> HasPrefix path p \<and> drop (length p) path \<noteq> [] \<and> slash \<notin> set (drop (length p) path)"
| "path_matches Everything path \<longleftrightarrow> True"

definition match_method :: "route list \<Rightarrow> string \<Rightarrow> string \<Rightarrow> endpoint option" where
  "match_method rs meth path =
    map_option (\<lambda>(m, p, e). e) (find (\<lambda>(m, p, e). m = meth \<and> path_matches p path) rs)"

text \<open>The patterns of the method come first, those of \<open>GET\<close> also serve \<open>HEAD\<close>, those of any method come last.\<close>

definition match_route :: "route list \<Rightarrow> string \<Rightarrow> string \<Rightarrow> endpoint option" where
  "match_route rs meth path =
    (case match_method rs meth path of
       Some e \<Rightarrow> Some e
     | None \<Rightarrow>
         (case (if meth = ''HEAD'' then match_method rs ''GET'' path else None) of
            Some e \<Rightarrow> Some e
          | None \<Rightarrow> match_method rs [] path))"

definition cleanPath :: "string \<Rightarrow> string" where
  "cleanPath p =
    (if p = [] then [slash]
     else let p = (if hd p = slash then p else slash # p); np = Clean p
          in if last p = slash \<and> np \<noteq> [slash] then np @ [slash] else np)"

datatype mux_answer = Serve endpoint | Redirect string | MethodNotAllowed | NotFound

definition mux :: "route list \<Rightarrow> string \<Rightarrow> string \<Rightarrow> mux_answer" where
  "mux rs meth path =
    (let p = cleanPath path
     in if p \<noteq> path then Redirect p
        else case match_route rs meth p of
          Some e \<Rightarrow> Serve e
        | None \<Rightarrow> if list_ex (\<lambda>(m, q, e). path_matches q p) rs then MethodNotAllowed else NotFound)"

section \<open>The routes of the server\<close>

definition api_routes :: "route list" where
  "api_routes =
    [(''GET'', Exact ''/api/health'', EpHealth),
     (''GET'', Exact ''/api/status'', EpStatus),
     (''GET'', Exact ''/api/logs'', EpLogs),
     (''GET'', Exact ''/metrics'', EpMetrics),
     (''POST'', Exact ''/api/location/set'', EpSet),
     (''POST'', Exact ''/api/location/clear'', EpClear),
     (''POST'', Exact ''/api/device/enroll'', EpEnroll),
     ([], Exact ''/ws'', EpWS)]"

definition pair_routes :: "route list" where
  "pair_routes =
    [(''GET'', Exact ''/api/pair/code'', EpPairCode),
     (''POST'', Exact ''/api/pair'', EpPair),
     (''GET'', Exact ''/api/pair/devices'', EpDevices),
     (''DELETE'', OneMore ''/api/pair/devices/'', EpRevoke)]"

definition cluster_routes :: "route list" where
  "cluster_routes =
    [(''GET'', Exact ''/api/cluster/status'', EpClusterStatus),
     (''GET'', Exact ''/api/cluster/ping'', EpPing),
     (''POST'', Exact ''/api/cluster/takeover'', EpTakeover),
     (''GET'', Exact ''/api/cluster/plists'', EpPlists),
     (''POST'', Exact ''/api/cluster/sync-plist'', EpSyncPlist)]"

text \<open>
  With remote access, with a cluster manager, with the web interface built in. \<open>/ws\<close> is more specific than
  \<open>/\<close>, and comes before it here.
\<close>

definition server_routes :: "bool \<Rightarrow> bool \<Rightarrow> bool \<Rightarrow> route list" where
  "server_routes auth cluster ui =
    api_routes @ (if auth then pair_routes else []) @ (if cluster then cluster_routes else []) @
    (if ui then [([], Everything, EpWebUI)] else [])"

section \<open>The web interface\<close>

text \<open>
  The embedded files: for each path whether it is a directory. What is served: the page of the
  application, a bundled file, the listing of a directory, or a redirection by \<open>http.FileServer\<close>.
\<close>

datatype ui_answer = Index | Asset string | Listing string | Moved

definition webui_serve :: "(string \<Rightarrow> bool option) \<Rightarrow> string \<Rightarrow> ui_answer" where
  "webui_serve assets path =
    (let p = TrimPrefix (Clean path) [slash]; q = (if p = [] then ''index.html'' else p)
     in case assets q of
          None \<Rightarrow> Index
        | Some dir \<Rightarrow>
            if p = [] then Index
            else if HasSuffix path ''/index.html'' then Moved
            else if dir \<noteq> HasSuffix path [slash] then Moved
            else if \<not> dir then Asset q
            else if assets (q @ ''/index.html'') = Some False then Asset (q @ ''/index.html'')
            else Listing q)"

definition ui_status :: "ui_answer \<Rightarrow> int" where
  "ui_status a = (if a = Moved then 301 else 200)"

section \<open>Which path is what\<close>

lemma match_api:
  "match_route (server_routes auth cluster ui) ''POST'' ''/api/device/enroll'' = Some EpEnroll"
  "match_route (server_routes auth cluster ui) ''POST'' ''/api/enroll'' = (if ui then Some EpWebUI else None)"
  "match_route (server_routes auth cluster ui) ''POST'' ''/api/pair'' =
     (if auth then Some EpPair else if ui then Some EpWebUI else None)"
  by (simp_all add: match_route_def match_method_def server_routes_def api_routes_def pair_routes_def cluster_routes_def
      HasPrefix_def)

lemma clean_api:
  "cleanPath ''/api/device/enroll'' = ''/api/device/enroll''"
  "cleanPath ''/api/enroll'' = ''/api/enroll''" "cleanPath ''/api/pair'' = ''/api/pair''"
  by code_simp+

lemma unrouted:
  "\<not> list_ex (\<lambda>(m, q, e). path_matches q ''/api/enroll'') (server_routes auth cluster False)"
  "\<not> list_ex (\<lambda>(m, q, e). path_matches q ''/api/pair'') (server_routes False cluster False)"
  by (simp_all add: server_routes_def api_routes_def pair_routes_def cluster_routes_def HasPrefix_def)

lemma mux_api:
  "mux (server_routes auth cluster ui) ''POST'' ''/api/device/enroll'' = Serve EpEnroll"
  "mux (server_routes auth cluster ui) ''POST'' ''/api/enroll'' = (if ui then Serve EpWebUI else NotFound)"
  "mux (server_routes auth cluster ui) ''POST'' ''/api/pair'' =
     (if auth then Serve EpPair else if ui then Serve EpWebUI else NotFound)"
  by (simp_all add: mux_def clean_api match_api unrouted Let_def)

text \<open>
  The web interface hides what the server does not have. Where it is built in, a request of any method
  to a clean path no handler is registered for is answered with the page of the application or one of its
  files, and never with 404 or 405; without it, the registered patterns alone decide.
\<close>
theorem web_interface_answers_the_rest:
  "(case mux (server_routes auth cluster True) meth path of
      Serve e \<Rightarrow> if e = EpWebUI then case mux (server_routes auth cluster False) meth path of Serve _ \<Rightarrow> False | _ \<Rightarrow> True
                 else mux (server_routes auth cluster False) meth path = Serve e
    | Redirect p \<Rightarrow> mux (server_routes auth cluster False) meth path = Redirect p
    | _ \<Rightarrow> False)"
proof -
  let ?rs = "server_routes auth cluster False" let ?ui = "[([], Everything, EpWebUI)] :: route list"
  have rs: "server_routes auth cluster True = ?rs @ ?ui" by (simp add: server_routes_def)
  have app: "find P (xs @ ys) = (case find P xs of None \<Rightarrow> find P ys | Some x \<Rightarrow> Some x)" for P and xs ys :: "route list"
    by (induction xs) simp_all
  have mm: "match_method (?rs @ ?ui) m p = (case match_method ?rs m p of None \<Rightarrow> if m = [] then Some EpWebUI else None | Some e \<Rightarrow> Some e)" for m p
    by (auto simp: match_method_def app split: option.split)
  have no_ui: "match_method ?rs m p \<noteq> Some EpWebUI" for m p
  proof -
    have "list_all (\<lambda>(m, p, e). e \<noteq> EpWebUI) ?rs"
      by (simp add: server_routes_def api_routes_def pair_routes_def cluster_routes_def)
    moreover have "x \<in> set ?rs" if "find P ?rs = Some x" for P x using that by (auto simp: find_Some_iff)
    ultimately show ?thesis by (fastforce simp: match_method_def list_all_iff)
  qed
  have with_ui: "match_route (?rs @ ?ui) meth p = (case match_route ?rs meth p of None \<Rightarrow> Some EpWebUI | Some e \<Rightarrow> Some e)" for p
    by (cases "meth = []"; cases "match_method ?rs meth p"; cases "match_method ?rs ''GET'' p")
      (simp_all add: match_route_def mm split: option.split)
  have ours: "match_route ?rs meth p \<noteq> Some EpWebUI" for p
    using no_ui [of meth p] no_ui [of "''GET''" p] no_ui [of "[]" p] by (auto simp: match_route_def split: option.split if_split_asm)
  show ?thesis unfolding rs using ours
    by (cases "cleanPath path = path"; cases "match_route ?rs meth path") (auto simp: mux_def with_ui Let_def)
qed

end
