(* ===== verification/Enroller_Cli.thy ===== *)
theory Enroller_Cli
  imports Http_Routes Go_Flag Go_Json Go_Sort
begin

text \<open>
  The enrolment tool, \<open>src/ios-enroller-cli/main.go\<close>: it finds an engine on the network, gets a token for
  it, finds the pairing record of the iPhone on this machine and sends it. On Unix. The network is an
  argument, a function from a request and the state of what is behind it to the answer; the second half
  puts the engine's own handlers there.

  What the tool prints on success or progress is left out; its errors are constructors of what they say.
\<close>

section \<open>Requests and answers\<close>

text \<open>A \<open>POST\<close> with its \<open>Authorization\<close> header and the members of its JSON body.\<close>

record http_call =
  hc_url :: string
  hc_auth :: string
  hc_body :: "(string \<times> string) list"

text \<open>The client's own refusal of an address, a failure of the network, or a status with the document in the body.\<close>

datatype post_reply = BadURL string | NetFails bool string | Answered int "json option"

type_synonym 's net = "http_call \<Rightarrow> 's \<Rightarrow> post_reply \<times> 's"

datatype net_error =
    NoAnswer string
  | ConnectionRefused string
  | HostUnreachable string
  | NotReached string string

definition describeNetErr :: "bool \<Rightarrow> string \<Rightarrow> string \<Rightarrow> net_error" where
  "describeNetErr timeout msg url =
    (if timeout then NoAnswer url
     else if Contains msg ''connection refused'' then ConnectionRefused url
     else if Contains msg ''no such host'' \<or> Contains msg ''unreachable'' then HostUnreachable url
     else NotReached url msg)"

section \<open>Finding an engine\<close>

record discovered_server =
  dsv_Name :: string
  dsv_Addr :: string
  dsv_Port :: int

definition server_key :: "string \<Rightarrow> int \<Rightarrow> string" where
  "server_key addr port = addr @ '':'' @ Itoa port"

definition server_URL :: "discovered_server \<Rightarrow> string" where
  "server_URL d = ''http://'' @ dsv_Addr d @ '':'' @ Itoa (dsv_Port d)"

record announcement =
  an_Instance :: string
  an_IPv4 :: "string list"
  an_IPv6 :: "string list"
  an_Port :: int

definition announced :: "announcement \<Rightarrow> discovered_server option" where
  "announced a =
    (case an_IPv4 a @ an_IPv6 a of
       [] \<Rightarrow> None
     | addr # _ \<Rightarrow>
         Some \<lparr>dsv_Name = TrimSuffix (an_Instance a) ''._gpsmock._tcp'', dsv_Addr = addr, dsv_Port = an_Port a\<rparr>)"

definition see_server :: "announcement \<Rightarrow> (string \<times> discovered_server) list \<Rightarrow> (string \<times> discovered_server) list" where
  "see_server a seen =
    (case announced a of None \<Rightarrow> seen | Some d \<Rightarrow> AList.update (server_key (dsv_Addr d) (dsv_Port d)) d seen)"

text \<open>
  The announcements in the order they came, \<open>None\<close> where browsing fails; \<open>order\<close> is the order Go's map
  is traversed in.
\<close>

definition discoverServers :: "((string \<times> discovered_server) list \<Rightarrow> (string \<times> discovered_server) list) \<Rightarrow>
    announcement list option \<Rightarrow> discovered_server list" where
  "discoverServers order heard =
    (case heard of
       None \<Rightarrow> []
     | Some as \<Rightarrow> sort_key server_URL (map snd (order (fold see_server as []))))"

definition default_server :: string where "default_server = ''http://localhost:8080''"

definition choose_server :: "string \<Rightarrow> discovered_server list \<Rightarrow> discovered_server" where
  "choose_server choice ds =
    (let choice = TrimSpace choice; idx = (case scan_int choice of Some (n, rest) \<Rightarrow> n | None \<Rightarrow> 0)
     in if choice \<noteq> [] \<and> 1 \<le> idx \<and> idx \<le> int (length ds) then ds ! nat (idx - 1) else hd ds)"

definition resolveServerUrl :: "string \<Rightarrow> discovered_server list \<Rightarrow> string" where
  "resolveServerUrl choice ds =
    (case ds of
       [] \<Rightarrow> default_server
     | [d] \<Rightarrow> server_URL d
     | _ \<Rightarrow> server_URL (choose_server choice ds))"

section \<open>The iPhone and its record\<close>

definition getLockdownDir :: "string \<Rightarrow> string" where
  "getLockdownDir goos = (if goos = ''darwin'' then ''/var/db/lockdown'' else ''/var/lib/lockdown'')"

definition join_all :: "string list \<Rightarrow> string" where
  "join_all es = (case es of [] \<Rightarrow> [] | e # rest \<Rightarrow> foldl Join e rest)"

definition ios_candidates :: "string \<Rightarrow> string list" where
  "ios_candidates cwd =
    [join_all [cwd, ''ios.exe''], join_all [cwd, ''ios''],
     join_all [cwd, ''tauri-app'', ''src-tauri'', ''resources'', ''ios.exe''],
     join_all [cwd, ''tauri-app'', ''src-tauri'', ''resources'', ''ios''],
     join_all [cwd, ''..'', ''tauri-app'', ''src-tauri'', ''resources'', ''ios.exe''],
     join_all [cwd, ''..'', ''server'', ''resources'', ''ios.exe'']]"

definition findGoIosBinary :: "(string \<Rightarrow> bool) \<Rightarrow> (string \<Rightarrow> string option) \<Rightarrow> string \<Rightarrow> string \<Rightarrow> string" where
  "findGoIosBinary exists lookPath cwd override =
    (if override \<noteq> [] \<and> exists override then override
     else case lookPath ''ios'' of
       Some p \<Rightarrow> p
     | None \<Rightarrow>
         (case lookPath ''go-ios'' of
            Some p \<Rightarrow> p
          | None \<Rightarrow> (case find exists (ios_candidates cwd) of Some p \<Rightarrow> p | None \<Rightarrow> [])))"

record listed_device =
  ld_udid :: string
  ld_Udid :: string

definition dec_device_list :: "string list decoder" where
  "dec_device_list = dec_struct [field ''deviceList'' (\<lambda>x. x) (\<lambda>f. f) (dec_list [] dec_string)]"

definition dec_listed :: "listed_device list decoder" where
  "dec_listed = dec_list \<lparr>ld_udid = [], ld_Udid = []\<rparr> (dec_struct
    [field ''udid'' ld_udid ld_udid_update dec_string,
     field ''Udid'' ld_Udid ld_Udid_update dec_string])"

definition line_udid :: "json option \<Rightarrow> string option" where
  "line_udid doc =
    (case Unmarshal dec_device_list [] doc of
       (u # us, False) \<Rightarrow> Some u
     | _ \<Rightarrow>
         (case Unmarshal dec_listed [] doc of
            (d # ds, False) \<Rightarrow> Some (if ld_udid d \<noteq> [] then ld_udid d else ld_Udid d)
          | _ \<Rightarrow> None))"

text \<open>The output of \<open>ios list\<close>, line by line; \<open>dec\<close> is the JSON decoder.\<close>

fun first_udid :: "(string \<Rightarrow> json option) \<Rightarrow> string list \<Rightarrow> string" where
  "first_udid dec [] = []"
| "first_udid dec (line # lines) =
    (let trimmed = TrimSpace line
     in if trimmed = [] then first_udid dec lines
        else case line_udid (dec trimmed) of Some u \<Rightarrow> u | None \<Rightarrow> first_udid dec lines)"

definition detectUDID :: "(string \<Rightarrow> json option) \<Rightarrow> string option \<Rightarrow> string option" where
  "detectUDID dec out = map_option (\<lambda>text. first_udid dec (split_on (CHR 0x0A) text)) out"

section \<open>Talking to the engine\<close>

datatype tool_error =
    NotSent string
  | Network net_error
  | CodeRefused
  | PairingOff
  | PairStatus int
  | PairUnreadable
  | NoToken
  | NeedsToken
  | TokenRefused
  | EnrolStatus int

definition pair_label :: "string \<Rightarrow> string" where
  "pair_label hostname = (if hostname \<noteq> [] then ''ios-enroller ('' @ hostname @ '')'' else ''ios-enroller'')"

definition redeemPairCode :: "'s net \<Rightarrow> string \<Rightarrow> string \<Rightarrow> string \<Rightarrow> 's \<Rightarrow> (tool_error + string) \<times> 's" where
  "redeemPairCode net serverUrl hostname code s =
    (let url = serverUrl @ ''/api/pair''
     in case net \<lparr>hc_url = url, hc_auth = [], hc_body = [(''code'', code), (''label'', pair_label hostname)]\<rparr> s of
          (BadURL err, s) \<Rightarrow> (Inl (NotSent err), s)
        | (NetFails timeout msg, s) \<Rightarrow> (Inl (Network (describeNetErr timeout msg url)), s)
        | (Answered status doc, s) \<Rightarrow>
            (if status = 401 then Inl CodeRefused
             else if status = 404 then Inl PairingOff
             else if status \<noteq> 200 then Inl (PairStatus status)
             else (let (token, err) = Unmarshal (dec_struct [field ''token'' (\<lambda>x. x) (\<lambda>f. f) dec_string]) [] doc
                   in if err then Inl PairUnreadable else if token = [] then Inl NoToken else Inr token), s))"

definition errUnauthorized :: "string \<Rightarrow> tool_error" where
  "errUnauthorized token = (if token = [] then NeedsToken else TokenRefused)"

definition enroll_call :: "string \<Rightarrow> string \<Rightarrow> string \<Rightarrow> string \<Rightarrow> http_call" where
  "enroll_call url udid deviceRecord token =
    \<lparr>hc_url = url, hc_auth = (if token \<noteq> [] then ''Bearer '' @ token else []),
     hc_body = [(''udid'', udid), (''deviceRecord'', deviceRecord)]\<rparr>"

definition sendEnrollment :: "'s net \<Rightarrow> string \<Rightarrow> string \<Rightarrow> string \<Rightarrow> string \<Rightarrow> 's \<Rightarrow> tool_error option \<times> 's" where
  "sendEnrollment net serverUrl udid deviceRecord token s =
    (let url = serverUrl @ ''/api/device/enroll''; fallbackUrl = serverUrl @ ''/api/enroll''
     in case net (enroll_call url udid deviceRecord token) s of
          (BadURL err, s) \<Rightarrow> (Some (Network (describeNetErr False err url)), s)
        | (NetFails timeout msg, s) \<Rightarrow> (Some (Network (describeNetErr timeout msg url)), s)
        | (Answered status doc, s) \<Rightarrow>
            (if status = 200 then (None, s)
             else if status = 401 then (Some (errUnauthorized token), s)
             else case net (enroll_call fallbackUrl udid deviceRecord token) s of
               (BadURL err, s) \<Rightarrow> (Some (Network (describeNetErr False err fallbackUrl)), s)
             | (NetFails timeout msg, s) \<Rightarrow> (Some (Network (describeNetErr timeout msg fallbackUrl)), s)
             | (Answered status doc, s) \<Rightarrow>
                 (if status = 200 then None
                  else if status = 401 then Some (errUnauthorized token)
                  else Some (EnrolStatus status), s)))"

section \<open>main\<close>

record tool_flags =
  tf_server :: string
  tf_udid :: string
  tf_iosBin :: string
  tf_token :: string
  tf_pairCode :: string
  tf_discoverTimeout :: int

definition tool_defaults :: tool_flags where
  "tool_defaults = \<lparr>tf_server = [], tf_udid = [], tf_iosBin = [], tf_token = [], tf_pairCode = [], tf_discoverTimeout = 3 * 10 ^ 9\<rparr>"

definition tool_flag_table :: "fpu \<Rightarrow> (string \<times> tool_flags flag_def) list" where
  "tool_flag_table u =
    [(''server'', string_flag tf_server_update),
     (''udid'', string_flag tf_udid_update),
     (''ios-bin'', string_flag tf_iosBin_update),
     (''token'', string_flag tf_token_update),
     (''pair-code'', string_flag tf_pairCode_update),
     (''discover-timeout'', duration_flag u tf_discoverTimeout_update)]"

text \<open>
  This machine: the command line, the key in the environment, what is heard on the network and what the
  user answers, the programs, what \<open>ios list\<close> prints, and the record file. \<open>os.Stat\<close> and \<open>os.ReadFile\<close>
  of the record answer by the seconds the tool has waited for it.
\<close>

datatype stat = Present | Missing | StatFails

record tool_world =
  tw_args :: "string list"
  tw_apiKey :: string
  tw_heard :: "int \<Rightarrow> announcement list option"
  tw_order :: "(string \<times> discovered_server) list \<Rightarrow> (string \<times> discovered_server) list"
  tw_choice :: string
  tw_hostname :: string
  tw_goos :: string
  tw_exists :: "string \<Rightarrow> bool"
  tw_lookPath :: "string \<Rightarrow> string option"
  tw_cwd :: string
  tw_iosList :: "string \<Rightarrow> string option"
  tw_decode :: "string \<Rightarrow> json option"
  tw_stat :: "nat \<Rightarrow> string \<Rightarrow> stat"
  tw_read :: "nat \<Rightarrow> string \<Rightarrow> string option"

datatype tool_exit =
    Enrolled
  | BadFlags
  | PairingFailed tool_error
  | NoLockdown
  | NoUDIDAndNoTool
  | DetectionFailed
  | NoIPhone
  | NotPaired
  | Unreadable
  | SendingFailed tool_error

definition tool_server :: "tool_world \<Rightarrow> tool_flags \<Rightarrow> string" where
  "tool_server w f =
    (let serverUrl = TrimSuffix (tf_server f) ''/''
     in if serverUrl = [] then resolveServerUrl (tw_choice w) (discoverServers (tw_order w) (tw_heard w (tf_discoverTimeout f)))
        else serverUrl)"

definition given_token :: "tool_world \<Rightarrow> tool_flags \<Rightarrow> string" where
  "given_token w f = (let token = TrimSpace (tf_token f) in if token = [] then TrimSpace (tw_apiKey w) else token)"

text \<open>The token to send: the one given, or one the pairing code is redeemed for.\<close>

definition tool_token :: "tool_world \<Rightarrow> tool_flags \<Rightarrow> 's net \<Rightarrow> string \<Rightarrow> 's \<Rightarrow> (tool_error + string) \<times> 's" where
  "tool_token w f net serverUrl s =
    (let token = given_token w f; code = TrimSpace (tf_pairCode f)
     in if token = [] \<and> code \<noteq> [] then redeemPairCode net serverUrl (tw_hostname w) code s else (Inr token, s))"

definition tool_udid :: "tool_world \<Rightarrow> tool_flags \<Rightarrow> string \<Rightarrow> tool_exit + string" where
  "tool_udid w f iosBin =
    (if tf_udid f \<noteq> [] then Inr (tf_udid f)
     else if iosBin = [] then Inl NoUDIDAndNoTool
     else case detectUDID (tw_decode w) (tw_iosList w iosBin) of
       None \<Rightarrow> Inl DetectionFailed
     | Some u \<Rightarrow> if u = [] then Inl NoIPhone else Inr u)"

text \<open>The five checks, two seconds apart, after the prompt of the iPhone: the seconds waited.\<close>

fun await_trust :: "(nat \<Rightarrow> stat) \<Rightarrow> nat \<Rightarrow> nat \<Rightarrow> nat" where
  "await_trust st 0 t = t"
| "await_trust st (Suc n) t = (if st (t + 2) = Present then t + 2 else await_trust st n (t + 2))"

definition tool_record :: "tool_world \<Rightarrow> string \<Rightarrow> string \<Rightarrow> tool_exit + string" where
  "tool_record w iosBin plistPath =
    (let st = (\<lambda>t. tw_stat w t plistPath);
         t = (if st 0 = Missing \<and> iosBin \<noteq> [] then await_trust st 5 0 else 0)
     in if st 0 = Missing \<and> st t = Missing then Inl NotPaired
        else case tw_read w t plistPath of None \<Rightarrow> Inl Unreadable | Some content \<Rightarrow> Inr (EncodeBase64 content))"

definition tool_main :: "fpu \<Rightarrow> tool_world \<Rightarrow> 's net \<Rightarrow> 's \<Rightarrow> tool_exit \<times> 's" where
  "tool_main u w net s =
    (case parse_flags (tool_flag_table u) (tw_args w) tool_defaults of
       None \<Rightarrow> (BadFlags, s)
     | Some f \<Rightarrow>
         (let serverUrl = tool_server w f
          in case tool_token w f net serverUrl s of
               (Inl err, s) \<Rightarrow> (PairingFailed err, s)
             | (Inr token, s) \<Rightarrow>
                 (let lockdownDir = getLockdownDir (tw_goos w);
                      iosBin = findGoIosBinary (tw_exists w) (tw_lookPath w) (tw_cwd w) (tf_iosBin f)
                  in if lockdownDir = [] then (NoLockdown, s)
                     else case tool_udid w f iosBin of
                       Inl e \<Rightarrow> (e, s)
                     | Inr udid \<Rightarrow>
                         (case tool_record w iosBin (Join lockdownDir (udid @ ''.plist'')) of
                            Inl e \<Rightarrow> (e, s)
                          | Inr deviceRecordB64 \<Rightarrow>
                              (case sendEnrollment net serverUrl udid deviceRecordB64 token s of
                                 (None, s) \<Rightarrow> (Enrolled, s)
                               | (Some err, s) \<Rightarrow> (SendingFailed err, s))))))"

section \<open>The engine behind the network\<close>

text \<open>
  The engine at an address: its store and throttle if it has remote access, its files, and for each request
  the clock and the machine at that time. The other routes are an argument.
\<close>

record site_state =
  si_auth :: "pair_server option"
  si_files :: files

record site =
  sw_base :: string
  sw_remote :: string
  sw_ui :: "(string \<Rightarrow> bool option) option"
  sw_cluster :: bool
  sw_env :: environment
  sw_auth :: "string \<Rightarrow> auth_world"
  sw_now :: "string \<Rightarrow> int"
  sw_cert :: cert_world
  sw_other :: "endpoint \<Rightarrow> post_reply"
  sw_moved :: "string \<Rightarrow> post_reply"

definition site_request :: "site \<Rightarrow> http_call \<Rightarrow> request" where
  "site_request w c =
    \<lparr>rq_Origin = [], rq_Authorization = hc_auth c, rq_Protocol = [], rq_QueryToken = [], rq_Host = sw_base w,
     rq_RemoteAddr = sw_remote w\<rparr>"

definition member_text :: "http_call \<Rightarrow> string \<Rightarrow> string" where
  "member_text c key = (case map_of (hc_body c) key of Some v \<Rightarrow> v | None \<Rightarrow> [])"

fun pair_status :: "pair_reply \<Rightarrow> int" where
  "pair_status PairForbidden = 403"
| "pair_status TooManyAttempts = 429"
| "pair_status BadBody = 400"
| "pair_status BadCode = 401"
| "pair_status PairFailed = 500"
| "pair_status (Paired token dev) = 200"

text \<open>Of the document in the answer, the member the tool reads; it ignores the device.\<close>

definition pair_document :: "pair_reply \<Rightarrow> json option" where
  "pair_document r = (case r of Paired token dev \<Rightarrow> Some (JObj [(''token'', JStr token)]) | _ \<Rightarrow> Some (JObj []))"

definition site_pair :: "fpu \<Rightarrow> site \<Rightarrow> string \<Rightarrow> http_call \<Rightarrow> site_state \<Rightarrow> post_reply \<times> site_state" where
  "site_pair u w path c s =
    (case si_auth s of
       None \<Rightarrow> (Answered 404 None, s)
     | Some a \<Rightarrow>
         (let (r, a) = handlePair u (sw_now w path) (sw_auth w path) (sw_env w) (site_request w c)
                (Some (member_text c ''code'', member_text c ''label'')) a
          in (Answered (pair_status r) (pair_document r), s\<lparr>si_auth := Some a\<rparr>)))"

definition site_enroll :: "site \<Rightarrow> string \<Rightarrow> http_call \<Rightarrow> site_state \<Rightarrow> post_reply \<times> site_state" where
  "site_enroll w path c s =
    (let (g, st) = checkAuth (sw_auth w path) (sw_env w) (site_request w c) (map_option ps_store (si_auth s));
         s = s\<lparr>si_auth := (case (si_auth s, st) of (Some a, Some st) \<Rightarrow> Some (a\<lparr>ps_store := st\<rparr>) | _ \<Rightarrow> None)\<rparr>
     in case g of
          Forbidden \<Rightarrow> (Answered 403 None, s)
        | Unauthorized \<Rightarrow> (Answered 401 None, s)
        | Allowed \<Rightarrow>
            (let (status, fs) = handleEnroll (sw_cert w)
                   (Some \<lparr>er_UDID = member_text c ''udid'', er_DeviceRecord = member_text c ''deviceRecord''\<rparr>) (si_files s)
             in (Answered status (Some (JObj [])), s\<lparr>si_files := fs\<rparr>)))"

definition engine_net :: "fpu \<Rightarrow> site \<Rightarrow> site_state net" where
  "engine_net u w c s =
    (if \<not> HasPrefix (hc_url c) (sw_base w) then (NetFails False ''no such host'', s)
     else let path = drop (length (sw_base w)) (hc_url c) in
       case mux (server_routes (si_auth s \<noteq> None) (sw_cluster w) (sw_ui w \<noteq> None)) ''POST'' path of
         Serve e \<Rightarrow>
           (if e = EpEnroll then site_enroll w path c s
            else if e = EpPair then site_pair u w path c s
            else if e = EpWebUI then
              (Answered (ui_status (webui_serve (case sw_ui w of Some assets \<Rightarrow> assets | None \<Rightarrow> Map.empty) path)) None, s)
            else (sw_other w e, s))
       | Redirect p \<Rightarrow> (sw_moved w p, s)
       | MethodNotAllowed \<Rightarrow> (Answered 405 None, s)
       | NotFound \<Rightarrow> (Answered 404 None, s))"


section \<open>What a reported success means\<close>

definition enroll_path :: string where "enroll_path = ''/api/device/enroll''"

lemma net_enroll:
  "engine_net u w (enroll_call (sw_base w @ ''/api/device/enroll'') udid rec token) s =
     site_enroll w enroll_path (enroll_call (sw_base w @ ''/api/device/enroll'') udid rec token) s"
  by (simp add: engine_net_def enroll_call_def HasPrefix_def mux_api enroll_path_def Let_def)

lemma net_fallback:
  "engine_net u w (enroll_call (sw_base w @ ''/api/enroll'') udid rec token) s =
     (Answered (case sw_ui w of None \<Rightarrow> 404 | Some assets \<Rightarrow> ui_status (webui_serve assets ''/api/enroll'')) None, s)"
  by (cases "sw_ui w") (simp_all add: engine_net_def enroll_call_def HasPrefix_def mux_api Let_def)

lemma ui_unknown: "assets ''api/enroll'' = None \<Longrightarrow> ui_status (webui_serve assets ''/api/enroll'') = 200"
proof -
  have "TrimPrefix (Clean ''/api/enroll'') [slash] = ''api/enroll''" by code_simp
  then show "assets ''api/enroll'' = None \<Longrightarrow> ?thesis" by (simp add: webui_serve_def ui_status_def)
qed

definition tool_gate :: "site \<Rightarrow> string \<Rightarrow> site_state \<Rightarrow> gate" where
  "tool_gate w token s =
    fst (checkAuth (sw_auth w enroll_path) (sw_env w) (site_request w (enroll_call [] [] [] token)) (map_option ps_store (si_auth s)))"

lemma site_enroll_result:
  "fst (site_enroll w enroll_path (enroll_call url udid rec token) s) =
    (case tool_gate w token s of
       Forbidden \<Rightarrow> Answered 403 None
     | Unauthorized \<Rightarrow> Answered 401 None
     | Allowed \<Rightarrow>
         Answered (fst (handleEnroll (sw_cert w) (Some \<lparr>er_UDID = udid, er_DeviceRecord = rec\<rparr>) (si_files s))) (Some (JObj [])))"
  "si_files (snd (site_enroll w enroll_path (enroll_call url udid rec token) s)) =
     (if tool_gate w token s = Allowed
      then snd (handleEnroll (sw_cert w) (Some \<lparr>er_UDID = udid, er_DeviceRecord = rec\<rparr>) (si_files s)) else si_files s)"
proof -
  have r: "site_request w (enroll_call url udid rec token) = site_request w (enroll_call [] [] [] token)"
    "member_text (enroll_call url udid rec token) ''udid'' = udid"
    "member_text (enroll_call url udid rec token) ''deviceRecord'' = rec"
    by (simp_all add: enroll_call_def site_request_def member_text_def)
  obtain g st where g: "checkAuth (sw_auth w enroll_path) (sw_env w) (site_request w (enroll_call [] [] [] token))
      (map_option ps_store (si_auth s)) = (g, st)" by fastforce
  show "fst (site_enroll w enroll_path (enroll_call url udid rec token) s) =
    (case tool_gate w token s of
       Forbidden \<Rightarrow> Answered 403 None
     | Unauthorized \<Rightarrow> Answered 401 None
     | Allowed \<Rightarrow>
         Answered (fst (handleEnroll (sw_cert w) (Some \<lparr>er_UDID = udid, er_DeviceRecord = rec\<rparr>) (si_files s))) (Some (JObj [])))"
    by (cases g) (simp_all add: site_enroll_def tool_gate_def r g case_prod_unfold Let_def)
  show "si_files (snd (site_enroll w enroll_path (enroll_call url udid rec token) s)) =
     (if tool_gate w token s = Allowed
      then snd (handleEnroll (sw_cert w) (Some \<lparr>er_UDID = udid, er_DeviceRecord = rec\<rparr>) (si_files s)) else si_files s)"
    by (cases g) (simp_all add: site_enroll_def tool_gate_def r g case_prod_unfold Let_def)
qed

lemma handleEnroll_status:
  "fst (handleEnroll c (Some r) fs) = 200 \<longleftrightarrow> (\<exists>path. fst (Enroll c r fs) = Inr path)"
  "fst (handleEnroll c (Some r) fs) \<noteq> 401"
  "snd (handleEnroll c (Some r) fs) = snd (Enroll c r fs)"
  by (auto simp: handleEnroll_def Enroll_def Let_def split: option.split prod.split sum.split)

text \<open>
  C18: What the tool's success is worth. Against an engine without the web interface it reports success
  exactly when the engine accepted the caller and wrote the record. With the web interface built in it
  reports success whenever it was not refused with 401: the fallback request is answered with the page
  of the application, so a record the engine refused or could not write counts as enrolled. The files of
  the engine are those its own enrolment leaves.
\<close>
theorem reported_success_iff:
  assumes "case sw_ui w of None \<Rightarrow> True | Some assets \<Rightarrow> assets ''api/enroll'' = None"
  shows "let (err, s') = sendEnrollment (engine_net u w) (sw_base w) udid rec token s;
             (r, fs) = Enroll (sw_cert w) \<lparr>er_UDID = udid, er_DeviceRecord = rec\<rparr> (si_files s)
         in (err = None \<longleftrightarrow> (if sw_ui w = None then tool_gate w token s = Allowed \<and> (\<exists>path. r = Inr path)
                            else tool_gate w token s \<noteq> Unauthorized)) \<and>
            si_files s' = (if tool_gate w token s = Allowed then fs else si_files s)"
proof -
  let ?c = "enroll_call (sw_base w @ ''/api/device/enroll'') udid rec token"
  obtain reply s1 where s1: "site_enroll w enroll_path ?c s = (reply, s1)" by fastforce
  note e = site_enroll_result [of w "sw_base w @ ''/api/device/enroll''" udid rec token s, unfolded s1 fst_conv snd_conv]
  have f: "engine_net u w (enroll_call (sw_base w @ ''/api/enroll'') udid rec token) s1 =
      (Answered (if sw_ui w = None then 404 else 200) None, s1)"
    using assms by (simp add: net_fallback ui_unknown split: option.splits)
  show ?thesis
    using e handleEnroll_status [of "sw_cert w" "\<lparr>er_UDID = udid, er_DeviceRecord = rec\<rparr>" "si_files s"] f
    by (cases "tool_gate w token s") (auto simp: sendEnrollment_def net_enroll s1 case_prod_unfold Let_def)
qed


section \<open>A code shown by the engine enrols the iPhone\<close>

lemma space_free: "s \<noteq> [] \<Longrightarrow> \<not> is_space (hd s) \<Longrightarrow> \<not> is_space (last s) \<Longrightarrow> TrimSpace s = s"
proof -
  assume s: "s \<noteq> []" "\<not> is_space (hd s)" "\<not> is_space (last s)"
  then have "dropWhile is_space s = s" "dropWhile is_space (rev s) = rev s"
    unfolding dropWhile_eq_self_iff by (simp_all add: hd_rev)
  then show ?thesis by (simp add: TrimSpace_def)
qed

text \<open>The request carries a token the way the engine reads it.\<close>

lemma tool_token_read:
  "token \<noteq> [] \<Longrightarrow> TrimSpace token = token \<Longrightarrow>
     bearerOrQueryToken (site_request w (enroll_call url udid rec token)) = token"
  by (simp add: bearerOrQueryToken_def site_request_def enroll_call_def HasPrefix_def TrimPrefix_def)

lemma remote_addr: "rq_RemoteAddr (site_request w c) = sw_remote w"
  by (simp add: site_request_def)

definition tool_ip :: "site \<Rightarrow> string" where "tool_ip w = clientIP (site_request w (enroll_call [] [] [] []))"

lemma tool_ip: "clientIP (site_request w c) = tool_ip w"
  by (simp only: tool_ip_def clientIP_def remote_addr)

lemma tool_origin: "checkOrigin v (site_request w c)"
  by (simp add: checkOrigin_def site_request_def)

lemma paired_token_accepted:
  assumes "Pair_device wp label st = (Inr (token, dev), st')" "aw_uuid wp \<noteq> []" "CHR ''.'' \<notin> set (aw_uuid wp)"
    "\<not> is_space (hd (aw_uuid wp))" "aw_random wp 32 \<noteq> Some []" "aw_read_ok we"
  shows "token \<noteq> [] \<and> bearerOrQueryToken (site_request w (enroll_call url udid rec token)) = token \<and> fst (VerifyToken we token st')"
proof -
  obtain secret where t: "token = aw_uuid wp @ CHR ''.'' # secret" "secret \<noteq> []"
    "cut_on (CHR ''.'') token = Some (aw_uuid wp, secret)" "hash_of (aw_uuid wp) st' = Some (hashSecret secret)"
    "set secret \<subseteq> set base64_url_alphabet"
    using Pair_device_token [OF assms(1,3,5)] by metis
  have "\<forall>x \<in> set base64_url_alphabet. \<not> is_space x" by (simp add: base64_url_alphabet_def is_space_def)
  then have "\<not> is_space (last secret)" using t(2,5) by (meson last_in_set subsetD)
  then have "TrimSpace token = token" using assms(2,4) t(1,2) by (intro space_free) simp_all
  then show ?thesis using assms(2,6) t(1,2,4) unfolding VerifyToken_iff [OF t(3)] by (simp add: tool_token_read)
qed

text \<open>
  An engine that shows a code: it has remote access, its seed yields the code at some second of the last
  half minute, and the caller has guesses left. It can write its database and draw random bytes, and the
  identifier it draws is a new one.
\<close>

definition shows_code :: "fpu \<Rightarrow> site \<Rightarrow> string \<Rightarrow> site_state \<Rightarrow> bool" where
  "shows_code u w code s \<longleftrightarrow>
    (case si_auth s of
       None \<Rightarrow> False
     | Some a \<Rightarrow>
         (let wp = sw_auth w ''/api/pair'' in
            fst (pair_allow u (tool_ip w) (sw_now w ''/api/pair'') (ps_throttle a)) \<and>
            fst (VerifyCode wp code (aw_now wp) (ps_store a)) \<and>
            aw_write_ok wp \<and> aw_uuid wp \<noteq> [] \<and> CHR ''.'' \<notin> set (aw_uuid wp) \<and> \<not> is_space (hd (aw_uuid wp)) \<and>
            (case aw_random wp 32 of None \<Rightarrow> False | Some raw \<Rightarrow> raw \<noteq> []) \<and>
            \<not> list_ex (\<lambda>r. dr_id r = aw_uuid wp) (au_devices (ps_store a))))"

lemma VerifyCode_devices: "au_devices (snd (VerifyCode w code t s)) = au_devices s"
  using ensureSeed_devices [of w s] by (simp add: VerifyCode_def case_prod_unfold Let_def)

lemma redeem_shown_code:
  assumes "shows_code u w code s" "aw_read_ok (sw_auth w enroll_path)"
  obtains token s' where "redeemPairCode (engine_net u w) (sw_base w) hostname code s = (Inr token, s')" "token \<noteq> []"
    "tool_gate w token s' = Allowed" "si_files s' = si_files s"
proof -
  let ?wp = "sw_auth w ''/api/pair''" and ?c = "\<lparr>hc_url = sw_base w @ ''/api/pair'', hc_auth = [], hc_body = [(''code'', code), (''label'', pair_label hostname)]\<rparr>"
  obtain a where a: "si_auth s = Some a" using assms(1) by (auto simp: shows_code_def split: option.splits)
  obtain t where allow: "pair_allow u (tool_ip w) (sw_now w ''/api/pair'') (ps_throttle a) = (True, t)"
    using assms(1) a by (cases "pair_allow u (tool_ip w) (sw_now w ''/api/pair'') (ps_throttle a)") (simp add: shows_code_def Let_def)
  obtain st where code: "VerifyCode ?wp code (aw_now ?wp) (ps_store a) = (True, st)"
    using assms(1) a by (cases "VerifyCode ?wp code (aw_now ?wp) (ps_store a)") (simp add: shows_code_def Let_def)
  have "au_devices st = au_devices (ps_store a)" using VerifyCode_devices [of ?wp code "aw_now ?wp" "ps_store a"] code by simp
  then obtain token dev st' where pair: "Pair_device ?wp (pair_label hostname) st = (Inr (token, dev), st')"
    using assms(1) a by (auto simp: shows_code_def Pair_device_def Let_def split: option.splits)
  define a' where "a' = a\<lparr>ps_store := st', ps_throttle := pair_refund u (tool_ip w) t\<rparr>"
  have "handlePair u (sw_now w ''/api/pair'') ?wp (sw_env w) (site_request w ?c) (Some (code, pair_label hostname)) a = (Paired token dev, a')"
    by (simp add: handlePair_def tool_origin tool_ip allow code pair Let_def a'_def)
  then have net: "engine_net u w ?c s = (Answered 200 (Some (JObj [(''token'', JStr token)])), s\<lparr>si_auth := Some a'\<rparr>)"
    by (simp add: engine_net_def HasPrefix_def mux_api a site_pair_def member_text_def pair_document_def Let_def)
  have ok: "token \<noteq> []" "\<And>url udid rec. bearerOrQueryToken (site_request w (enroll_call url udid rec token)) = token"
      "fst (VerifyToken (sw_auth w enroll_path) token st')"
    using paired_token_accepted [OF pair] assms a by (auto simp: shows_code_def Let_def split: option.splits)
  have "redeemPairCode (engine_net u w) (sw_base w) hostname code s = (Inr token, s\<lparr>si_auth := Some a'\<rparr>)"
    using ok(1) by (simp add: redeemPairCode_def net Unmarshal_def dec_struct_def dec_member_def find_field_def field_def dec_string_def Let_def)
  moreover have "tool_gate w token (s\<lparr>si_auth := Some a'\<rparr>) = Allowed"
    unfolding tool_gate_def using ok(2,3) by (simp add: token_allowed tool_origin a'_def)
  ultimately show ?thesis using ok(1) by (intro that [of token "s\<lparr>si_auth := Some a'\<rparr>"]) simp_all
qed


text \<open>
  A run of the tool that has what it needs: it was given a code and no token, its address is the engine's,
  and it finds the iPhone and its record.
\<close>

definition tool_can :: "fpu \<Rightarrow> tool_world \<Rightarrow> string \<Rightarrow> string \<Rightarrow> string \<Rightarrow> string \<Rightarrow> bool" where
  "tool_can u h base code udid content \<longleftrightarrow>
    (case parse_flags (tool_flag_table u) (tw_args h) tool_defaults of
       None \<Rightarrow> False
     | Some f \<Rightarrow>
         (let iosBin = findGoIosBinary (tw_exists h) (tw_lookPath h) (tw_cwd h) (tf_iosBin f)
          in tool_server h f = base \<and> given_token h f = [] \<and> TrimSpace (tf_pairCode f) = code \<and> code \<noteq> [] \<and>
             tool_udid h f iosBin = Inr udid \<and>
             tool_record h iosBin (Join (getLockdownDir (tw_goos h)) (udid @ ''.plist'')) = Inr (EncodeBase64 content)))"

lemma send_accepted:
  assumes "tool_gate w token s = Allowed" "Enroll (sw_cert w) \<lparr>er_UDID = udid, er_DeviceRecord = rec\<rparr> (si_files s) = (Inr path, fs)"
  obtains s' where "sendEnrollment (engine_net u w) (sw_base w) udid rec token s = (None, s')" "si_files s' = fs"
proof -
  let ?c = "enroll_call (sw_base w @ ''/api/device/enroll'') udid rec token"
  have "fst (site_enroll w enroll_path ?c s) = Answered 200 (Some (JObj [])) \<and> si_files (snd (site_enroll w enroll_path ?c s)) = fs"
    using site_enroll_result [of w "sw_base w @ ''/api/device/enroll''" udid rec token s] assms
      handleEnroll_status [of "sw_cert w" "\<lparr>er_UDID = udid, er_DeviceRecord = rec\<rparr>" "si_files s"] by auto
  then show ?thesis
    by (intro that [of "snd (site_enroll w enroll_path ?c s)"]) (simp_all add: sendEnrollment_def net_enroll case_prod_unfold)
qed

text \<open>
  C17: From a code to a paired device. When the engine shows a code and the tool is run with it, on a
  machine that holds the pairing record of the iPhone, then the tool reports success, the engine holds
  that record byte for byte under the name of the device and nothing else has changed in its files, and
  the device counts as paired there.
\<close>
theorem shown_code_enrols:
  assumes "tool_can u h (sw_base w) code udid content" "shows_code u w code s" "aw_read_ok (sw_auth w enroll_path)"
    "Validate_Enroll \<lparr>er_UDID = udid, er_DeviceRecord = EncodeBase64 content\<rparr> = None" "LockdownDir (si_files s) \<noteq> []"
    "cw_writable (sw_cert w) (file_in lockdown_path (udid @ ''.plist''))"
    "case map_of (si_files s) (file_in lockdown_path (udid @ ''.plist'')) of None \<Rightarrow> True | Some n \<Rightarrow> \<not> is_dir n"
  shows "let (x, s') = tool_main u h (engine_net u w) s in x = Enrolled \<and>
    map_of (si_files s') = (map_of (si_files s))(file_in lockdown_path (udid @ ''.plist'') \<mapsto> Regular content (cw_now (sw_cert w))) \<and>
    IsPaired (si_files s') udid"
proof -
  let ?path = "file_in lockdown_path (udid @ ''.plist'')"
  let ?fs = "put ?path (Regular content (cw_now (sw_cert w))) (si_files s)"
  obtain f where f: "parse_flags (tool_flag_table u) (tw_args h) tool_defaults = Some f" "tool_server h f = sw_base w"
    "given_token h f = []" "TrimSpace (tf_pairCode f) = code" "code \<noteq> []"
    "tool_udid h f (findGoIosBinary (tw_exists h) (tw_lookPath h) (tw_cwd h) (tf_iosBin f)) = Inr udid"
    "tool_record h (findGoIosBinary (tw_exists h) (tw_lookPath h) (tw_cwd h) (tf_iosBin f))
       (Join (getLockdownDir (tw_goos h)) (udid @ ''.plist'')) = Inr (EncodeBase64 content)"
    using assms(1) by (auto simp: tool_can_def Let_def split: option.splits)
  obtain token s1 where t: "redeemPairCode (engine_net u w) (sw_base w) (tw_hostname h) code s = (Inr token, s1)"
    "tool_gate w token s1 = Allowed" "si_files s1 = si_files s"
    using redeem_shown_code [OF assms(2,3)] by metis
  note r = record_written [of "\<lparr>er_UDID = udid, er_DeviceRecord = EncodeBase64 content\<rparr>" "si_files s", unfolded enroll_request.simps, OF assms(4,5)]
  have "Enroll (sw_cert w) \<lparr>er_UDID = udid, er_DeviceRecord = EncodeBase64 content\<rparr> (si_files s1) = (Inr ?path, ?fs)"
    using assms(4-7) r(1,2) by (simp add: Enroll_def t(3) DecodeBase64_Encode Let_def split: option.splits)
  then obtain s2 where s2: "sendEnrollment (engine_net u w) (sw_base w) udid (EncodeBase64 content) token s1 = (None, s2)" "si_files s2 = ?fs"
    using send_accepted [OF t(2)] by metis
  have "getLockdownDir (tw_goos h) \<noteq> []" by (simp add: getLockdownDir_def)
  then have "tool_main u h (engine_net u w) s = (Enrolled, s2)"
    using f by (simp add: tool_main_def tool_token_def t(1) s2(1) Let_def)
  then show ?thesis using s2(2) r(3,4) by simp
qed


section \<open>What is discovered\<close>

text \<open>The servers held under each key, and that a key belongs to one address.\<close>

lemma keys_of_URL: "server_URL d = server_URL d' \<longleftrightarrow> server_key (dsv_Addr d) (dsv_Port d) = server_key (dsv_Addr d') (dsv_Port d')"
  by (simp add: server_URL_def server_key_def)

lemma in_update: "x \<in> set (AList.update k v al) \<Longrightarrow> x = (k, v) \<or> x \<in> set al"
  by (induction al) (auto split: if_splits)

lemma seen_keys:
  "\<forall>(k, d) \<in> set seen. k = server_key (dsv_Addr d) (dsv_Port d) \<Longrightarrow> distinct (map fst seen) \<Longrightarrow>
    (\<forall>(k, d) \<in> set (fold see_server as seen). k = server_key (dsv_Addr d) (dsv_Port d)) \<and> distinct (map fst (fold see_server as seen))"
proof (induction as arbitrary: seen)
  case (Cons a as)
  have "(\<forall>(k, d) \<in> set (see_server a seen). k = server_key (dsv_Addr d) (dsv_Port d)) \<and> distinct (map fst (see_server a seen))"
    using Cons.prems by (auto simp: see_server_def distinct_update split: option.split dest!: in_update)
  then show ?case using Cons.IH [of "see_server a seen"] by simp
qed simp

text \<open>
  What is discovered does not depend on chance. The servers offered are in ascending order of their
  address, no address twice, and the same for every order in which Go may traverse its map.
\<close>
theorem discovery_is_stable:
  assumes "\<And>xs. mset (order xs) = mset xs" "\<And>xs. mset (order' xs) = mset xs"
  shows "discoverServers order heard = discoverServers order' heard \<and>
    sorted_wrt (<) (map server_URL (discoverServers order heard))"
proof (cases heard)
  case (Some as)
  define seen where "seen = fold see_server as []"
  have k: "\<forall>(k, d) \<in> set seen. k = server_key (dsv_Addr d) (dsv_Port d)" "distinct (map fst seen)"
    using seen_keys [of "[]" as] by (simp_all add: seen_def)
  have "map fst seen = map (\<lambda>d. server_key (dsv_Addr d) (dsv_Port d)) (map snd seen)" using k(1) by (auto simp: comp_def)
  then have urls: "distinct (map server_URL (map snd seen))"
    using k(2) keys_of_URL by (auto simp: distinct_map inj_on_def)
  have perm: "mset (map snd (ord seen)) = mset (map snd seen)" if "\<And>xs. mset (ord xs) = mset xs" for ord
    using that by (metis mset_map)
  show ?thesis
    using sort_key_perm [OF perm [OF assms(1)] urls] sort_key_perm(1) [OF perm [OF assms(2)] urls]
    by (simp add: discoverServers_def Some seen_def)
qed (simp add: discoverServers_def)


section \<open>Examples\<close>

definition demo_base :: string where "demo_base = ''http://10.0.0.1:8080''"

text \<open>An engine with the web interface, and its folder, or without it.\<close>

definition demo_site :: "string \<Rightarrow> site" where
  "demo_site key =
    \<lparr>sw_base = demo_base, sw_remote = ''10.0.0.7:5000'', sw_ui = Some (\<lambda>p. if p = ''index.html'' then Some False else None),
     sw_cluster = True, sw_env = \<lparr>ev_ApiKey = key, ev_AllowedOrigins = []\<rparr>, sw_auth = (\<lambda>_. demo_auth_world), sw_now = (\<lambda>_. 0),
     sw_cert = \<lparr>cw_now = 5, cw_readable = (\<lambda>_. True), cw_writable = (\<lambda>_. True), cw_chtimes = (\<lambda>_. True)\<rparr>,
     sw_other = (\<lambda>_. Answered 500 None), sw_moved = (\<lambda>_. Answered 301 None)\<rparr>"

definition demo_tool :: "string \<Rightarrow> tool_world" where
  "demo_tool code =
    \<lparr>tw_args = [''-server'', demo_base, ''-pair-code'', code, ''-udid'', ''A1''], tw_apiKey = [], tw_heard = (\<lambda>_. None),
     tw_order = (\<lambda>xs. xs), tw_choice = [], tw_hostname = ''pc'', tw_goos = ''linux'', tw_exists = (\<lambda>_. False),
     tw_lookPath = (\<lambda>_. None), tw_cwd = ''/home'', tw_iosList = (\<lambda>_. None), tw_decode = (\<lambda>_. None),
     tw_stat = (\<lambda>_ _. Present), tw_read = (\<lambda>_ _. Some ''plist'')\<rparr>"

text \<open>The engine has no Lockdown folder, and the tool is told that all went well.\<close>

theorem reported_success_iff_witness:
  "let (err, s') = sendEnrollment (engine_net exact_fpu (demo_site ''k'')) (sw_base (demo_site ''k'')) ''A1'' ''AAAA'' ''k''
                     \<lparr>si_auth = None, si_files = []\<rparr>
   in err = None \<and> si_files s' = [] \<and> LockdownDir [] = []"
proof -
  let ?s = "\<lparr>si_auth = None, si_files = []\<rparr>"
  have dir: "LockdownDir [] = []" by (simp add: LockdownDir_def)
  have v: "Validate_Enroll \<lparr>er_UDID = ''A1'', er_DeviceRecord = ''AAAA''\<rparr> = None" by code_simp
  have k: "TrimSpace ''k'' = ''k''" by code_simp
  have tok: "bearerOrQueryToken (site_request (demo_site ''k'') (enroll_call [] [] [] ''k'')) = ''k''"
    by (rule tool_token_read) (simp_all add: k)
  have g: "tool_gate (demo_site ''k'') ''k'' ?s = Allowed"
    by (simp add: tool_gate_def checkAuth_def tool_origin tok Let_def) (simp add: demo_site_def)
  have e: "Enroll (sw_cert (demo_site ''k'')) \<lparr>er_UDID = ''A1'', er_DeviceRecord = ''AAAA''\<rparr> [] = (Inl NoLockdownDir, [])"
    by (rule enrol_needs_folder [OF dir v])
  have ui: "sw_ui (demo_site ''k'') = Some (\<lambda>p. if p = ''index.html'' then Some False else None)" by (simp add: demo_site_def)
  show ?thesis
    using reported_success_iff [of "demo_site ''k''" exact_fpu "''A1''" "''AAAA''" "''k''" ?s] g e ui dir
    by (simp add: case_prod_unfold Let_def)
qed

theorem discovery_is_stable_witness:
  "discoverServers (\<lambda>xs. xs) (Some [\<lparr>an_Instance = ''a'', an_IPv4 = [''10.0.0.2''], an_IPv6 = [], an_Port = 1\<rparr>,
      \<lparr>an_Instance = ''b'', an_IPv4 = [''10.0.0.1''], an_IPv6 = [], an_Port = 1\<rparr>]) =
   discoverServers rev (Some [\<lparr>an_Instance = ''a'', an_IPv4 = [''10.0.0.2''], an_IPv6 = [], an_Port = 1\<rparr>,
      \<lparr>an_Instance = ''b'', an_IPv4 = [''10.0.0.1''], an_IPv6 = [], an_Port = 1\<rparr>])"
  using discovery_is_stable [of "\<lambda>xs. xs" rev] by simp

text \<open>The command line of the tool, evaluated.\<close>

lemma demo_tool_args: "tw_args (demo_tool code) = [''-server'', demo_base, ''-pair-code'', code, ''-udid'', ''A1'']"
  by (simp only: demo_tool_def tool_world.simps)

lemma demo_site_base: "sw_base (demo_site key) = demo_base"
  by (simp only: demo_site_def site.simps)

lemma demo_flags:
  assumes "TrimSpace code = code" "code \<noteq> []"
  shows "case parse_flags (tool_flag_table u) [''-server'', demo_base, ''-pair-code'', code, ''-udid'', ''A1''] tool_defaults of
      None \<Rightarrow> False
    | Some f \<Rightarrow>
        (let iosBin = findGoIosBinary (tw_exists (demo_tool code)) (tw_lookPath (demo_tool code)) (tw_cwd (demo_tool code)) (tf_iosBin f)
         in tool_server (demo_tool code) f = demo_base \<and> given_token (demo_tool code) f = [] \<and> TrimSpace (tf_pairCode f) = code \<and>
            code \<noteq> [] \<and> tool_udid (demo_tool code) f iosBin = Inr ''A1'' \<and>
            tool_record (demo_tool code) iosBin (Join (getLockdownDir (tw_goos (demo_tool code))) (''A1'' @ ''.plist'')) =
              Inr (EncodeBase64 ''plist''))"
proof -
  have cls: "classify_arg ''-server'' = FlagArg ''server'' None" "classify_arg ''-pair-code'' = FlagArg ''pair-code'' None"
    "classify_arg ''-udid'' = FlagArg ''udid'' None" by code_simp+
  have tbl: "map_of (tool_flag_table u) ''server'' = Some (string_flag tf_server_update)"
    "map_of (tool_flag_table u) ''pair-code'' = Some (string_flag tf_pairCode_update)"
    "map_of (tool_flag_table u) ''udid'' = Some (string_flag tf_udid_update)"
    by (simp_all only: tool_flag_table_def map_of.simps fun_upd_apply prod.case fst_conv snd_conv) simp_all
  have set: "fl_set (string_flag upd) v c = Some (upd (\<lambda>_. v) c)" "\<not> fl_bool (string_flag upd)" for upd v and c :: tool_flags
    by (simp_all add: string_flag_def)
  have p: "parse_flags (tool_flag_table u) [''-server'', demo_base, ''-pair-code'', code, ''-udid'', ''A1''] tool_defaults =
      Some (tool_defaults\<lparr>tf_server := demo_base, tf_pairCode := code, tf_udid := ''A1''\<rparr>)"
    by (simp only: parse_flags.simps cls arg_kind.case tbl option.case set if_False list.case)
  have server: "TrimSuffix demo_base ''/'' = demo_base" "demo_base \<noteq> []" by (simp_all add: demo_base_def, code_simp)
  have blank: "TrimSpace [] = []" by (simp add: TrimSpace_def)
  have w: "tw_apiKey (demo_tool code) = []" "tw_stat (demo_tool code) = (\<lambda>_ _. Present)" "tw_read (demo_tool code) = (\<lambda>_ _. Some ''plist'')"
    by (simp_all only: demo_tool_def tool_world.simps)
  show ?thesis
    unfolding p option.case Let_def
    by (simp add: tool_server_def given_token_def tool_udid_def tool_record_def tool_defaults_def server blank w assms Let_def)
qed

theorem shown_code_enrols_witness:
  "\<exists>code. let (x, s') = tool_main exact_fpu (demo_tool code) (engine_net exact_fpu (demo_site []))
      \<lparr>si_auth = Some \<lparr>ps_store = \<lparr>au_seed = Some (EncodeBase32 (demo_bytes 20)), au_devices = []\<rparr>, ps_throttle = newPairThrottle\<rparr>,
       si_files = [(lockdown_path, Directory 1)]\<rparr>
     in x = Enrolled \<and> IsPaired (si_files s') ''A1''"
proof -
  let ?seed = "EncodeBase32 (demo_bytes 20)"
  let ?s = "\<lparr>si_auth = Some \<lparr>ps_store = \<lparr>au_seed = Some ?seed, au_devices = []\<rparr>, ps_throttle = newPairThrottle\<rparr>,
       si_files = [(lockdown_path, Directory 1)]\<rparr>"
  have w: "aw_random demo_auth_world n = Some (demo_bytes n)" "aw_read_ok demo_auth_world" "aw_write_ok demo_auth_world"
    "aw_uuid demo_auth_world = ''dev''" "aw_now demo_auth_world = 100" for n
    by (simp_all only: demo_auth_world_def auth_world.simps)
  obtain code where c: "codeAt ?seed 100 = Some code"
    unfolding codeAt_def ToUpper_base32 DecodeBase32_Encode option.map by blast
  have digits: "TrimSpace code = code" "code \<noteq> []"
    using codeAt_digits [OF c] TrimSpace_digits by (auto simp: totpDigits_def)
  have "verifyCodeAt ?seed code 100" by (rule verifyCodeAt_window [OF c]) simp_all
  then have vc: "fst (VerifyCode demo_auth_world code 100 \<lparr>au_seed = Some ?seed, au_devices = []\<rparr>)"
    by (simp only: VerifyCode_def ensureSeed_def w store.simps option.case Let_def if_True not_True_eq_False if_False sum.case
        prod.case fst_conv)
  have allow: "fst (pair_allow exact_fpu ip 0 newPairThrottle)" for ip
    by (subst pair_allow_exact) (simp_all add: pair_ok_def newPairThrottle_def pair_avail_def)
  have sc: "shows_code exact_fpu (demo_site []) code ?s"
    using allow vc by (simp add: shows_code_def demo_site_def w is_space_def Let_def)
  have can: "tool_can exact_fpu (demo_tool code) (sw_base (demo_site [])) code ''A1'' ''plist''"
    using demo_flags [OF digits] by (simp add: tool_can_def demo_tool_args demo_site_base)
  have "Validate_Enroll \<lparr>er_UDID = ''A1'', er_DeviceRecord = ''AAAA''\<rparr> = None" by code_simp
  moreover have "DecodeBase64 [] = Some []" by code_simp
  then have "EncodeBase64 ''plist'' \<noteq> []" using DecodeBase64_Encode [of "''plist''"] by auto
  ultimately have "Validate_Enroll \<lparr>er_UDID = ''A1'', er_DeviceRecord = EncodeBase64 ''plist''\<rparr> = None"
    by (simp add: Validate_Enroll_def split: if_split_asm)
  moreover have "LockdownDir (si_files ?s) \<noteq> []" by (simp add: LockdownDir_def lockdown_nonempty)
  moreover have "plain (''A1'' @ ''.plist'')" by (rule no_slash_plain) simp
  then have "map_of (si_files ?s) (file_in lockdown_path (''A1'' @ ''.plist'')) = None" using file_in_differs by simp
  ultimately show ?thesis
    using shown_code_enrols [OF can sc] by (intro exI [of _ code]) (simp add: demo_site_def w case_prod_unfold Let_def)
qed

end
