(* ===== verification/Ws_Session.thy ===== *)
theory Ws_Session
  imports Server_Dispatch Server_Hub
begin

text \<open>
  A WebSocket session from the handshake to its end, \<open>internal/server/websocket.go\<close>: who gets in, the
  greeting, and the loop that reads messages, limits their rate and dispatches them. It puts the limiter
  of \<open>Rate_Limits\<close> before the dispatcher of \<open>Server_Dispatch\<close>; the way of the answers to the client is
  the subject of \<open>Server_Hub\<close>.

  A frame that \<open>ReadMessage\<close> returns has the time it is read at and its JSON document, if it is one. The
  list ends where the connection does: closed, silent for \<open>pongWait\<close>, or with a message over 16 MiB. The
  upgrade of an authorized request is taken to succeed; its origin check is the one of \<open>checkAuth\<close>.
\<close>

section \<open>Envelopes\<close>

record envelope =
  ep_Type :: string
  ep_Data :: "json option"

definition dec_envelope :: "envelope decoder" where
  "dec_envelope = dec_struct
    [field ''type'' ep_Type ep_Type_update dec_string,
     field ''data'' ep_Data ep_Data_update (\<lambda>j x. (Some j, False))]"

definition no_envelope :: envelope where
  "no_envelope = \<lparr>ep_Type = [], ep_Data = None\<rparr>"

section \<open>The session\<close>

text \<open>What the rest of the program does while the reader waits: other clients and jobs, the engine's goroutines.\<close>

datatype 'd other_step = OtherEvent "'d server_world" server_event | OwnStep "'d world" Engine_System.action

fun elsewhere :: "'d other_step \<Rightarrow> 'd server \<Rightarrow> 'd server" where
  "elsewhere (OtherEvent w ev) s = serve_event w ev s"
| "elsewhere (OwnStep w a) s = s\<lparr>sv_engine := perform w a (sv_engine s)\<rparr>"

record 'd frame =
  fr_at :: int
  fr_doc :: "json option"
  fr_world :: "'d server_world"
  fr_before :: "'d other_step list"

datatype session_event = Greeting status | Malformed | Handled "reply list" | RateExceeded

fun readPump :: "fpu \<Rightarrow> nat \<Rightarrow> bool \<Rightarrow> 'd frame list \<Rightarrow> rate_limiter \<Rightarrow> 'd server \<Rightarrow> session_event list \<times> 'd server" where
  "readPump u c loopback [] rl s = ([], s)"
| "readPump u c loopback (f # fs) rl s =
    (let s = fold elsewhere (fr_before f) s;
         (ok, rl) = limiter_allow u (fr_at f) rl
     in if \<not> ok then ([RateExceeded], s)
        else
          (let (env, bad) = Unmarshal dec_envelope no_envelope (fr_doc f);
               (x, s) = (if bad then (Malformed, s)
                         else let (rs, s) = dispatch (fr_world f) c loopback (ep_Type env) (ep_Data env) s in (Handled rs, s));
               (es, s) = readPump u c loopback fs rl s
           in (x # es, s)))"

definition handleWS ::
  "fpu \<Rightarrow> 'd server_world \<Rightarrow> request \<Rightarrow> int \<Rightarrow> nat \<Rightarrow> 'd frame list \<Rightarrow> 'd server \<Rightarrow> gate \<times> session_event list \<times> 'd server" where
  "handleWS u w r now c fs s =
    (let (g, s) = authorized w r s
     in if g \<noteq> Allowed then (g, [], s)
        else (let (es, s') = readPump u c (isLoopback r) fs (newRateLimiter now (Fin 10) (Fin 20)) s
              in (Allowed, Greeting (Status (sv_engine s)) # es, s')))"

section \<open>What a session does\<close>

lemma run_elsewhere: "run (sv_engine s) (sv_engine (fold elsewhere xs s))"
proof (induction xs arbitrary: s)
  case (Cons x xs)
  have "run (sv_engine s) (sv_engine (elsewhere x s))"
    by (cases x) (simp_all add: run_serve_event run_perform)
  then show ?case using Cons.IH run_trans by fastforce
qed (simp add: run_refl)

lemma run_readPump: "run (sv_engine s) (sv_engine (snd (readPump u c lo fs rl s)))"
proof (induction fs arbitrary: rl s)
  case (Cons f fs)
  let ?s = "fold elsewhere (fr_before f) s"
  have d: "run (sv_engine s) (sv_engine (snd (dispatch w c lo name doc ?s)))" for w name doc
    using run_elsewhere run_dispatch run_trans by metis
  show ?case
    using run_elsewhere [of s "fr_before f"] run_trans [OF Cons.IH run_elsewhere] run_trans [OF Cons.IH d]
    by (simp add: case_prod_unfold Let_def)
qed (simp add: run_refl)

definition messages_handled :: "session_event list \<Rightarrow> nat" where
  "messages_handled es = length (filter (\<lambda>e. case e of Handled rs \<Rightarrow> True | _ \<Rightarrow> False) es)"

lemma readPump_grants:
  "messages_handled (fst (readPump u c lo fs rl s)) \<le> length (filter (\<lambda>b. b) (grants (limiter_allow u) (map fr_at fs) rl))"
proof (induction fs arbitrary: rl s)
  case (Cons f fs)
  have s1: "s' \<le> n \<Longrightarrow> s' \<le> Suc n" for s' n :: nat by simp
  show ?case
    by (cases "limiter_allow u (fr_at f) rl") (auto simp: messages_handled_def case_prod_unfold Let_def
        intro: Cons.IH [unfolded messages_handled_def] s1 [OF Cons.IH [unfolded messages_handled_def]])
qed (simp add: messages_handled_def)

lemma readPump_cut:
  "RateExceeded \<notin> set (butlast (fst (readPump u c lo fs rl s)))"
  "RateExceeded \<notin> set (fst (readPump u c lo fs rl s)) \<longleftrightarrow> list_all (\<lambda>b. b) (grants (limiter_allow u) (map fr_at fs) rl)"
  "RateExceeded \<notin> set (fst (readPump u c lo fs rl s)) \<Longrightarrow> length (fst (readPump u c lo fs rl s)) = length fs"
  by (induction fs arbitrary: rl s) (auto simp: case_prod_unfold Let_def)

text \<open>
  C25: What a session may do. A request that is not authorized gets no event and leaves the engine alone.
  An authorized one is greeted, and from then on its messages only ever run operations of the engine,
  whatever happens elsewhere in between; at most twenty of them and ten a second are handled; it is cut at
  the first message in excess and nothing is handled after it; and a client that waits a tenth of a second
  between messages is never cut: every message it sends is answered for or found malformed.
\<close>
theorem session_is_limited:
  assumes "sorted (t0 # map fr_at fs)"
  shows "let (g, es, s') = handleWS exact_fpu w r t0 c fs s in
    run (sv_engine s) (sv_engine s') \<and>
    (if g \<noteq> Allowed then es = [] \<and> sv_engine s' = sv_engine s
     else real (messages_handled es) \<le> 20 + 10 * (last (t0 # map fr_at fs) - t0) / second \<and>
       RateExceeded \<notin> set (butlast es) \<and>
       (spaced (second div 10) (map fr_at fs) \<longrightarrow> RateExceeded \<notin> set es \<and> length es = Suc (length fs)))"
proof (cases "fst (authorized w r s) = Allowed")
  case True
  obtain s1 where s1: "authorized w r s = (Allowed, s1)" "sv_engine s1 = sv_engine s"
    using True authorized_engine [of w r s] by (cases "authorized w r s") auto
  let ?rl = "newRateLimiter t0 (Fin 10) (Fin 20)"
  obtain es s' where p: "readPump exact_fpu c (isLoopback r) fs ?rl s1 = (es, s')" by fastforce
  note pump = readPump_grants [of exact_fpu c "isLoopback r" fs ?rl s1] readPump_cut [of exact_fpu c "isLoopback r" fs ?rl s1]
    run_readPump [of s1 exact_fpu c "isLoopback r" fs ?rl]
  have rate: "real (length (filter (\<lambda>b. b) (grants (limiter_allow exact_fpu) (map fr_at fs) ?rl))) \<le>
      20 + 10 * (last (t0 # map fr_at fs) - t0) / second"
    using message_rate [OF assms] by (rule conjunct1)
  have "spaced (second div 10) (map fr_at fs) \<Longrightarrow> list_all (\<lambda>b. b) (grants (limiter_allow exact_fpu) (map fr_at fs) ?rl)"
    using message_rate [OF assms] by simp
  then show ?thesis
    using pump rate s1 by (auto simp: handleWS_def s1(1) p messages_handled_def)
next
  case False
  then show ?thesis using authorized_engine [of w r s]
    by (cases "authorized w r s") (simp add: handleWS_def run_refl)
qed

text \<open>
  A name the server does not know is counted under that name, so every client decides which counters the
  server keeps.
\<close>

lemma unknown_names_are_counted:
  "action_of name = None \<Longrightarrow> sv_actions (snd (dispatch w c lo name doc s)) name ''error'' = sv_actions s name ''error'' + 1"
  if "name \<noteq> ''SWITCH_DRIVER''" "name \<noteq> ''RESTART_SERVICES''"
  using that by (simp add: dispatch_def trackAction_def incrementActionMetric_def)

section \<open>Example\<close>

text \<open>A local client sends two messages, the second one not an object.\<close>

definition demo_frames :: "latlon list frame list" where
  "demo_frames =
    [\<lparr>fr_at = 0, fr_doc = Some (JObj [(''type'', json.JStr ''RELANCE'')]), fr_world = demo_server_world, fr_before = []\<rparr>,
     \<lparr>fr_at = 100000000, fr_doc = Some (JArr []), fr_world = demo_server_world, fr_before = []\<rparr>]"

definition demo_request :: request where
  "demo_request = \<lparr>rq_Origin = [], rq_Authorization = [], rq_Protocol = [], rq_QueryToken = [], rq_Host = ''localhost:8080'',
     rq_RemoteAddr = ''127.0.0.1:5000''\<rparr>"

theorem session_is_limited_witness:
  "let (g, es, s') = handleWS exact_fpu demo_server_world demo_request 0 1 demo_frames demo_server in
     run (sv_engine demo_server) (sv_engine s') \<and> (if g = Allowed then length es = 3 \<and> RateExceeded \<notin> set es else es = [])"
  using session_is_limited [of 0 demo_frames demo_server_world demo_request 1 demo_server]
  by (simp add: demo_frames_def second_def case_prod_unfold Let_def)

end
