(* ===== verification/Server_Metrics.thy ===== *)
theory Server_Metrics
  imports Server_Dispatch Server_Hub Cluster_Node "HOL-Library.Sublist"
begin

text \<open>
  What \<open>GET /metrics\<close> shows, \<open>internal/server/metrics.go\<close>: the exposition as the list of its lines, before
  names, labels and numbers are rendered. The counters of the actions are a Go map: the order of its
  traversal is an argument.
\<close>

section \<open>Lines\<close>

datatype metric_kind = Gauge | Counter

datatype metric_value = Float f64 | Whole int

datatype exposition =
    Help string string
  | Kind string metric_kind
  | Sample string "(string \<times> string) list" metric_value

definition boolGauge :: "bool \<Rightarrow> f64" where
  "boolGauge v = (if v then Fin 1 else Fin 0)"

definition writeGauge :: "string \<Rightarrow> string \<Rightarrow> f64 \<Rightarrow> exposition list" where
  "writeGauge name help v = [Help name help, Kind name Gauge, Sample name [] (Float v)]"

definition writeCounter :: "string \<Rightarrow> string \<Rightarrow> f64 \<Rightarrow> exposition list" where
  "writeCounter name help v = [Help name help, Kind name Counter, Sample name [] (Float v)]"

definition writeGaugeLabeled :: "string \<Rightarrow> string \<Rightarrow> string \<Rightarrow> string \<Rightarrow> exposition list" where
  "writeGaugeLabeled name help label activeValue =
    [Help name help, Kind name Gauge, Sample name [(label, activeValue)] (Whole 1)]"

section \<open>The figures\<close>

definition of_uint64 :: "fpu \<Rightarrow> 64 word \<Rightarrow> f64" where
  "of_uint64 u n = rnd u (real (unat n))"

definition connection_text :: "connection_type \<Rightarrow> string" where
  "connection_text t =
    (case t of ConnUSB \<Rightarrow> ''USB'' | ConnWiFi \<Rightarrow> ''WiFi'' | ConnManual \<Rightarrow> ''MANUAL'' | ConnUnknown \<Rightarrow> ''UNKNOWN'')"

text \<open>The time is in nanoseconds, the stamps of the tunnel in milliseconds.\<close>

definition health_metrics :: "fpu \<Rightarrow> int \<Rightarrow> tunnel_health \<Rightarrow> exposition list" where
  "health_metrics u now th =
    (if 0 < th_establishedAt th
     then writeGauge ''gpsmock_tunnel_uptime_seconds'' ''Seconds since the current tunnel was established.'' (duration_seconds u (now - th_establishedAt th * 1000000))
     else []) @
    writeGauge ''gpsmock_tunnel_health_rtt_seconds'' ''Round-trip time of the last successful tunnel health probe, in seconds.'' 
       (fdiv u (rnd u (of_int (th_lastCheckRTTms th))) (Fin 1000)) @
    writeGauge ''gpsmock_tunnel_inject_failures_consecutive'' ''Consecutive failed position injections. A tunnel can pass its health probe while every injection fails.'' 
       (rnd u (of_int (th_failures th))) @
    writeGauge ''gpsmock_tunnel_searching'' ''Whether the tunnel daemon is currently hunting for the device across transports (1) or not (0).'' 
       (boolGauge (th_searching th))"

definition engine_counters :: "fpu \<Rightarrow> metrics_snapshot \<Rightarrow> exposition list" where
  "engine_counters u m =
    writeCounter ''gpsmock_injections_total'' ''Position injections that succeeded, since startup.'' (of_uint64 u (mt_InjectionsOK m)) @
    writeCounter ''gpsmock_injection_failures_total'' ''Position injections that failed, since startup.'' (of_uint64 u (mt_InjectionsFailed m)) @
    writeCounter ''gpsmock_tunnel_starts_total'' ''Tunnels successfully established, since startup.'' (of_uint64 u (mt_TunnelStarts m)) @
    writeCounter ''gpsmock_tunnel_start_failures_total'' ''Tunnel start attempts that failed, since startup.'' (of_uint64 u (mt_TunnelStartFailures m)) @
    writeCounter ''gpsmock_tunnel_reresolves_total'' ''Times the active endpoint was re-resolved because the device moved, since startup.'' (of_uint64 u (mt_TunnelReresolves m)) @
    writeCounter ''gpsmock_tunnel_restarts_total'' ''Times the watchdog restarted a dead tunnel daemon, since startup.'' (of_uint64 u (mt_TunnelRestarts m)) @
    writeGauge ''gpsmock_tunnel_last_start_seconds'' ''How long the last successful tunnel start took, developer-image mount included.'' 
       (rnd u (mt_LastStartSeconds m))"

definition writeTunnelMetrics :: "fpu \<Rightarrow> int \<Rightarrow> 'd engine \<Rightarrow> exposition list" where
  "writeTunnelMetrics u now e =
    (let st = Status e; active = st_TunnelActive st; t = connection_text (st_ConnectionType st)
     in writeGauge ''gpsmock_tunnel_up'' ''Whether an RSD tunnel is currently established (1) or not (0).'' (boolGauge active) @
        (if active \<and> t \<noteq> []
         then writeGaugeLabeled ''gpsmock_tunnel_connection_type'' ''The transport the active tunnel was classified as.'' ''type'' t
         else []) @
        (case st_TunnelHealth st of None \<Rightarrow> [] | Some th \<Rightarrow> health_metrics u now th) @
        engine_counters u (Metrics e))"

definition action_metrics :: "(string \<times> string) list \<Rightarrow> (string \<Rightarrow> string \<Rightarrow> 64 word) \<Rightarrow> exposition list" where
  "action_metrics entries counts =
    (if entries = [] then []
     else [Help ''gpsmock_ws_actions_total'' ''Total WebSocket actions processed by action and status.'', Kind ''gpsmock_ws_actions_total'' Counter] @
       map (\<lambda>(action, result). Sample ''gpsmock_ws_actions_total'' [(''action'', action), (''status'', result)]
              (Whole (sint (counts action result)))) entries)"

definition cluster_metrics :: "fpu \<Rightarrow> manager option \<Rightarrow> exposition list" where
  "cluster_metrics u mgr =
    (case mgr of
       None \<Rightarrow> []
     | Some m \<Rightarrow>
       writeGauge ''gpsmock_cluster_epoch'' ''Current cluster master election term.'' (rnd u (of_int (mg_epoch m))) @
       writeGaugeLabeled ''gpsmock_cluster_role'' ''Whether this node currently holds a given cluster role (1) or not (0).'' 
         ''role'' (mg_role m) @
       writeGauge ''gpsmock_cluster_peer_latency_seconds'' ''Mean round-trip time to reachable cluster peers, in seconds.'' 
         (fdiv u (AverageLatencyMs u m) (Fin 1000)))"

definition metrics_text ::
  "fpu \<Rightarrow> int \<Rightarrow> int \<Rightarrow> (string \<times> string) list \<Rightarrow> hub \<Rightarrow> manager option \<Rightarrow> 'd server \<Rightarrow> exposition list" where
  "metrics_text u now startedAt entries h mgr s =
    (let (totalBytes, totalDropped) = totals h
     in writeGauge ''gpsmock_uptime_seconds'' ''Seconds since the engine process started.'' (duration_seconds u (now - startedAt)) @
        writeGauge ''gpsmock_ws_clients_connected'' ''Currently connected WebSocket clients.'' (rnd u (of_int (clientCount h))) @
        writeCounter ''gpsmock_ws_bytes_sent_total'' ''Bytes broadcast to WebSocket clients since startup.'' (of_uint64 u totalBytes) @
        writeCounter ''gpsmock_ws_clients_dropped_total'' ''WebSocket clients dropped for being too slow to keep up, since startup.'' (of_uint64 u totalDropped) @
        action_metrics entries (sv_actions s) @
        writeTunnelMetrics u now (sv_engine s) @
        cluster_metrics u mgr)"

definition handleMetrics ::
  "fpu \<Rightarrow> int \<Rightarrow> int \<Rightarrow> (string \<times> string) list \<Rightarrow> hub \<Rightarrow> manager option \<Rightarrow> 'd server_world \<Rightarrow> request \<Rightarrow> 'd server \<Rightarrow>
     (gate + exposition list) \<times> 'd server" where
  "handleMetrics u now startedAt entries h mgr w r s =
    (let (g, s) = authorized w r s
     in (if g \<noteq> Allowed then Inl g else Inr (metrics_text u now startedAt entries h mgr s), s))"


section \<open>The exposition is well formed\<close>

text \<open>
  What a scraper asks for: a family is announced once, by its help and its kind, and its samples follow; no
  series occurs twice.
\<close>

fun follows_line :: "exposition option \<Rightarrow> exposition \<Rightarrow> bool" where
  "follows_line (Some (Help n t)) (Kind m k) \<longleftrightarrow> m = n"
| "follows_line (Some (Kind n k)) (Sample m l v) \<longleftrightarrow> m = n"
| "follows_line (Some (Sample n l' v')) (Sample m l v) \<longleftrightarrow> m = n"
| "follows_line (Some (Sample n l v)) (Help m t) \<longleftrightarrow> True"
| "follows_line None (Help m t) \<longleftrightarrow> True"
| "follows_line _ _ \<longleftrightarrow> False"

fun lines_ok :: "exposition option \<Rightarrow> exposition list \<Rightarrow> bool" where
  "lines_ok prev [] \<longleftrightarrow> (case prev of Some (Sample n l v) \<Rightarrow> True | None \<Rightarrow> True | _ \<Rightarrow> False)"
| "lines_ok prev (x # xs) \<longleftrightarrow> follows_line prev x \<and> lines_ok (Some x) xs"

definition declared :: "exposition list \<Rightarrow> string list" where
  "declared xs = List.map_filter (\<lambda>x. case x of Help n t \<Rightarrow> Some n | _ \<Rightarrow> None) xs"

definition series :: "exposition list \<Rightarrow> (string \<times> (string \<times> string) list) list" where
  "series xs = List.map_filter (\<lambda>x. case x of Sample n l v \<Rightarrow> Some (n, l) | _ \<Rightarrow> None) xs"

definition between_families :: "exposition option \<Rightarrow> bool" where
  "between_families prev \<longleftrightarrow> (case prev of Some (Sample n l v) \<Rightarrow> True | None \<Rightarrow> True | _ \<Rightarrow> False)"

definition families :: "exposition list \<Rightarrow> bool" where
  "families xs \<longleftrightarrow> (\<forall>prev ys. between_families prev \<and> (\<forall>p. between_families p \<longrightarrow> lines_ok p ys) \<longrightarrow> lines_ok prev (xs @ ys))"

lemma families_append [intro]: "families xs \<Longrightarrow> families ys \<Longrightarrow> families (xs @ ys)"
  by (simp add: families_def)

lemma families_Nil [intro, simp]: "families []"
  by (simp add: families_def)

lemma families_written [intro, simp]:
  "families (writeGauge n h v)" "families (writeCounter n h v)" "families (writeGaugeLabeled n h l a)"
  by (auto simp: families_def writeGauge_def writeCounter_def writeGaugeLabeled_def between_families_def
      split: option.splits exposition.splits)

lemma families_actions [intro, simp]: "families (action_metrics entries counts)"
proof -
  have more: "lines_ok (Some (Sample n l v)) (map (\<lambda>(a, r). Sample n [(x, a), (y, r)] (Whole (sint (counts a r)))) es @ ys)"
    if "\<And>p. between_families p \<Longrightarrow> lines_ok p ys" for n l v x y es ys
    using that by (induction es arbitrary: l v) (auto simp: between_families_def)
  have "lines_ok prev (action_metrics entries counts @ ys)"
    if "between_families prev" "\<And>p. between_families p \<Longrightarrow> lines_ok p ys" for prev ys
  proof (cases entries)
    case (Cons e es)
    have "follows_line prev (Help n t)" for n t
      using that(1) by (auto simp: between_families_def split: option.splits exposition.splits)
    then show ?thesis using more [OF that(2)] Cons by (simp add: action_metrics_def case_prod_unfold)
  qed (simp add: action_metrics_def that)
  then show ?thesis by (simp add: families_def)
qed

lemma declared_simps [simp]:
  "declared (xs @ ys) = declared xs @ declared ys" "declared [] = []"
  "declared (writeGauge n h v) = [n]" "declared (writeCounter n h v) = [n]" "declared (writeGaugeLabeled n h l a) = [n]"
  "declared (action_metrics entries counts) = (if entries = [] then [] else [''gpsmock_ws_actions_total''])"
proof -
  have "List.map_filter (\<lambda>x. case x of Help n t \<Rightarrow> Some n | _ \<Rightarrow> None) (map (\<lambda>(a, r). Sample n (l a r) (v a r)) es) = []" for n l v and es :: "(string \<times> string) list"
    by (induction es) (auto simp: map_filter_simps)
  then show "declared (action_metrics entries counts) = (if entries = [] then [] else [''gpsmock_ws_actions_total''])"
    by (simp add: declared_def action_metrics_def map_filter_simps)
qed (simp_all add: declared_def writeGauge_def writeCounter_def writeGaugeLabeled_def map_filter_simps List.map_filter_def)

lemma series_simps [simp]:
  "series (xs @ ys) = series xs @ series ys" "series [] = []"
  "series (writeGauge n h v) = [(n, [])]" "series (writeCounter n h v) = [(n, [])]" "series (writeGaugeLabeled n h l a) = [(n, [(l, a)])]"
  "series (action_metrics entries counts) = map (\<lambda>(a, r). (''gpsmock_ws_actions_total'', [(''action'', a), (''status'', r)])) entries"
proof -
  have "List.map_filter (\<lambda>x. case x of Sample n l v \<Rightarrow> Some (n, l) | _ \<Rightarrow> None) (map (\<lambda>(a, r). Sample n (l a r) (v a r)) es) =
      map (\<lambda>(a, r). (n, l a r)) es" for n l v and es :: "(string \<times> string) list"
    by (induction es) (auto simp: map_filter_simps)
  then show "series (action_metrics entries counts) = map (\<lambda>(a, r). (''gpsmock_ws_actions_total'', [(''action'', a), (''status'', r)])) entries"
    by (simp add: series_def action_metrics_def map_filter_simps)
qed (simp_all add: series_def writeGauge_def writeCounter_def writeGaugeLabeled_def map_filter_simps List.map_filter_def)

text \<open>The families other than the counters of the actions, in the order they are written when all are there.\<close>

definition tunnel_names :: "string list" where
  "tunnel_names =
    [''gpsmock_tunnel_up''] @ [''gpsmock_tunnel_connection_type''] @
    [''gpsmock_tunnel_uptime_seconds'', ''gpsmock_tunnel_health_rtt_seconds'', ''gpsmock_tunnel_inject_failures_consecutive'', ''gpsmock_tunnel_searching''] @
    [''gpsmock_injections_total'', ''gpsmock_injection_failures_total'', ''gpsmock_tunnel_starts_total'', ''gpsmock_tunnel_start_failures_total'', ''gpsmock_tunnel_reresolves_total'', ''gpsmock_tunnel_restarts_total'', ''gpsmock_tunnel_last_start_seconds''] @
    [''gpsmock_cluster_epoch'', ''gpsmock_cluster_role'', ''gpsmock_cluster_peer_latency_seconds'']"

lemma tunnel_declared:
  "subseq (declared (writeTunnelMetrics u now e @ cluster_metrics u mgr)) tunnel_names"
proof -
  have "subseq (declared (health_metrics u now th)) [''gpsmock_tunnel_uptime_seconds'', ''gpsmock_tunnel_health_rtt_seconds'', ''gpsmock_tunnel_inject_failures_consecutive'', ''gpsmock_tunnel_searching'']" for th
    by (simp add: health_metrics_def)
  moreover have "subseq (declared (cluster_metrics u mgr)) [''gpsmock_cluster_epoch'', ''gpsmock_cluster_role'', ''gpsmock_cluster_peer_latency_seconds'']"
    by (cases mgr) (simp_all add: cluster_metrics_def)
  ultimately show ?thesis
    unfolding writeTunnelMetrics_def tunnel_names_def declared_simps(1) Let_def append_assoc
    by (intro list_emb_append_mono) (auto simp: engine_counters_def split: option.split)
qed

lemma tunnel_series: "map fst (series (writeTunnelMetrics u now e @ cluster_metrics u mgr)) = declared (writeTunnelMetrics u now e @ cluster_metrics u mgr)"
  by (auto simp: writeTunnelMetrics_def health_metrics_def engine_counters_def cluster_metrics_def Let_def split: option.split)

lemma disjoint_by_fst: "(\<And>n. n \<in> fst ` A \<Longrightarrow> n \<notin> fst ` B) \<Longrightarrow> A \<inter> B = {}"
  by auto

definition server_names :: "string list" where
  "server_names = [''gpsmock_uptime_seconds'', ''gpsmock_ws_clients_connected'', ''gpsmock_ws_bytes_sent_total'', ''gpsmock_ws_clients_dropped_total'']"

lemma names_distinct: "distinct (server_names @ [''gpsmock_ws_actions_total''] @ tunnel_names)"
  unfolding server_names_def tunnel_names_def by code_simp

text \<open>What the families of the tunnel and of the cluster declare are names of their own.\<close>

lemma rest_names:
  assumes "ns = declared (writeTunnelMetrics u now e @ cluster_metrics u mgr)"
  shows "distinct ns" "set ns \<subseteq> set tunnel_names" "n \<in> set (server_names @ [''gpsmock_ws_actions_total'']) \<Longrightarrow> n \<notin> set ns"
proof -
  obtain N where N: "ns = nths tunnel_names N" using tunnel_declared subseq_conv_nths assms by metis
  show "distinct ns" and sub: "set ns \<subseteq> set tunnel_names"
    unfolding N using names_distinct by (simp_all only: distinct_append distinct_nthsI set_nths_subset)
  have "set (server_names @ [''gpsmock_ws_actions_total'']) \<inter> set tunnel_names = {}"
    using names_distinct unfolding append_assoc [symmetric] distinct_append [of "server_names @ _"] by (elim conjE)
  then show "n \<notin> set ns" if "n \<in> set (server_names @ [''gpsmock_ws_actions_total''])" using that sub by (meson disjoint_iff subsetD)
qed

lemma metrics_lines: "lines_ok None (metrics_text u now startedAt entries h mgr s)"
proof -
  have "families (metrics_text u now startedAt entries h mgr s)"
    by (auto simp: metrics_text_def writeTunnelMetrics_def health_metrics_def engine_counters_def cluster_metrics_def case_prod_unfold Let_def
        intro!: families_append split: option.split)
  from this [unfolded families_def, rule_format, of None "[]"] show ?thesis
    by (auto simp: between_families_def split: option.splits exposition.splits)
qed

lemma metrics_declared: "distinct (declared (metrics_text u now startedAt entries h mgr s))"
proof -
  let ?rest = "writeTunnelMetrics u now (sv_engine s) @ cluster_metrics u mgr"
  have d: "declared (metrics_text u now startedAt entries h mgr s) =
      server_names @ (if entries = [] then [] else [''gpsmock_ws_actions_total'']) @ declared ?rest"
    by (simp add: metrics_text_def server_names_def case_prod_unfold Let_def)
  show ?thesis
    unfolding d using names_distinct rest_names [of "declared ?rest" u now "sv_engine s" mgr, OF refl]
    by (cases entries) (auto simp del: declared_simps)
qed

lemma metrics_series:
  assumes "distinct entries"
  shows "distinct (series (metrics_text u now startedAt entries h mgr s))"
proof -
  let ?rest = "writeTunnelMetrics u now (sv_engine s) @ cluster_metrics u mgr"
  let ?mine = "map (\<lambda>n. (n, [])) server_names"
  let ?actions = "map (\<lambda>(a, r). (''gpsmock_ws_actions_total'', [(''action'', a), (''status'', r)])) entries"
  have s: "series (metrics_text u now startedAt entries h mgr s) = ?mine @ ?actions @ series ?rest"
    unfolding series_simps(6) [of entries "sv_actions s", symmetric]
    by (simp add: metrics_text_def server_names_def case_prod_unfold Let_def del: series_simps(6))
  have fst: "map fst (series ?rest) = declared ?rest" by (rule tunnel_series)
  have far: "n \<notin> fst ` set (series ?rest)" if "n \<in> set (server_names @ [''gpsmock_ws_actions_total''])" for n
    using rest_names(3) [OF fst that] unfolding set_map .
  have "distinct ?mine" using names_distinct by (simp add: distinct_map inj_on_def)
  moreover have "distinct ?actions" using assms by (auto simp: distinct_map inj_on_def)
  moreover have "distinct (series ?rest)" using rest_names(1) [OF fst] unfolding distinct_map by (rule conjunct1)
  moreover have "set ?actions \<inter> set (series ?rest) = {}" by (rule disjoint_by_fst, rule far) auto
  moreover have "set ?mine \<inter> set (series ?rest) = {}"
    by (rule disjoint_by_fst, rule far) (simp only: set_map image_image fst_conv image_ident set_append Un_iff simp_thms)
  moreover have "set ?mine \<inter> set ?actions = {}" by auto
  ultimately show ?thesis unfolding s distinct_append set_append Int_Un_distrib by simp
qed

end
