(* ===== verification/Bundled_Drivers.thy ===== *)
theory Bundled_Drivers
  imports Go_Path
begin

text \<open>
  The portable Windows build carries the iOS drivers in one archive and unpacks it once per version,
  \<open>internal/platform/drivers_embed.go\<close>. A path is the list of its elements, volume included. Of the disk
  the files and their contents are kept; directories only exist or cannot be made. The archive, as
  \<open>archive/zip\<close> reads it, and the success of every operation on the disk are arguments, so a launch may
  stop at any point of the work, with a file half written.
\<close>

type_synonym win_path = "string list"

type_synonym disk = "win_path \<rightharpoonup> string"

record zip_entry =
  ze_Name :: string
  ze_Dir :: bool
  ze_Content :: string

text \<open>\<open>filepath.Join\<close> of a rooted path and a name, on Windows: both slashes separate.\<close>

definition below :: "win_path \<Rightarrow> string \<Rightarrow> win_path" where
  "below root name =
    fold (\<lambda>e p. if e = [] \<or> e = ''.'' then p else if e = ''..'' then butlast p else p @ [e])
      (split_on slash (map (\<lambda>c. if c = CHR 0x5C then slash else c) name)) root"

text \<open>
  One launch. \<open>xw_copied\<close> tells after how many bytes writing a file fails, if it does.
\<close>

record extract_world =
  xw_cacheDir :: "win_path option"
  xw_version :: string
  xw_zip :: "zip_entry list option"
  xw_mkdir :: "win_path \<Rightarrow> bool"
  xw_open :: "string \<Rightarrow> bool"
  xw_create :: "win_path \<Rightarrow> bool"
  xw_copied :: "win_path \<Rightarrow> nat option"

section \<open>Unpacking\<close>

definition write_file :: "extract_world \<Rightarrow> win_path \<Rightarrow> string \<Rightarrow> disk \<Rightarrow> bool \<times> disk" where
  "write_file w dst content d =
    (if \<not> xw_create w dst then (False, d)
     else case xw_copied w dst of
       None \<Rightarrow> (True, d(dst \<mapsto> content))
     | Some n \<Rightarrow> (False, d(dst \<mapsto> take n content)))"

definition writeZipEntry :: "extract_world \<Rightarrow> zip_entry \<Rightarrow> win_path \<Rightarrow> disk \<Rightarrow> bool \<times> disk" where
  "writeZipEntry w f dst d = (if \<not> xw_open w (ze_Name f) then (False, d) else write_file w dst (ze_Content f) d)"

fun extract_entries :: "extract_world \<Rightarrow> win_path \<Rightarrow> zip_entry list \<Rightarrow> disk \<Rightarrow> bool \<times> disk" where
  "extract_entries w root [] d = (True, d)"
| "extract_entries w root (f # fs) d =
    (let dst = below root (ze_Name f)
     in if \<not> xw_mkdir w (if ze_Dir f then dst else butlast dst) then (False, d)
        else if ze_Dir f then extract_entries w root fs d
        else (let (ok, d) = writeZipEntry w f dst d in if \<not> ok then (False, d) else extract_entries w root fs d))"

definition drivers_root :: "win_path \<Rightarrow> string \<Rightarrow> win_path" where
  "drivers_root base version = below (base @ [''gpsmock'', ''drivers'']) version"

definition marker :: "win_path \<Rightarrow> win_path" where
  "marker root = root @ [''.extracted'']"

definition extractBundledDrivers :: "extract_world \<Rightarrow> disk \<Rightarrow> win_path option \<times> disk" where
  "extractBundledDrivers w d =
    (case xw_cacheDir w of
       None \<Rightarrow> (None, d)
     | Some base \<Rightarrow>
         (let root = drivers_root base (xw_version w)
          in if d (marker root) \<noteq> None then (Some root, d)
             else case xw_zip w of
               None \<Rightarrow> (None, d)
             | Some es \<Rightarrow>
                 (let (ok, d) = extract_entries w root es d
                  in if \<not> ok then (None, d)
                     else (let (ok, d) = write_file w (marker root) (xw_version w) d
                           in (if ok then Some root else None, d)))))"

definition BundledDriverPaths :: "extract_world \<Rightarrow> disk \<Rightarrow> (win_path option \<times> win_path option) \<times> disk" where
  "BundledDriverPaths w d =
    (case extractBundledDrivers w d of
       (None, d) \<Rightarrow> ((None, None), d)
     | (Some root, d) \<Rightarrow>
         (let g = root @ [''ios.exe'']; p = root @ [''python-embed'', ''python.exe'']
          in ((if d g \<noteq> None then Some g else None, if d p \<noteq> None then Some p else None), d)))"

section \<open>The marker vouches for the files\<close>

definition targets :: "win_path \<Rightarrow> zip_entry list \<Rightarrow> win_path list" where
  "targets root es = map (\<lambda>f. below root (ze_Name f)) (filter (\<lambda>f. \<not> ze_Dir f) es)"

definition unpacked :: "win_path \<Rightarrow> zip_entry list \<Rightarrow> disk \<Rightarrow> bool" where
  "unpacked root es d \<longleftrightarrow> list_all (\<lambda>f. ze_Dir f \<or> d (below root (ze_Name f)) = Some (ze_Content f)) es"

lemma write_elsewhere: "p \<noteq> dst \<Longrightarrow> snd (write_file w dst content d) p = d p"
  "p \<noteq> dst \<Longrightarrow> snd (writeZipEntry w f dst d) p = d p"
  by (simp_all add: write_file_def writeZipEntry_def split: option.split)

lemma write_done: "write_file w dst content d = (True, d') \<Longrightarrow> d' = d(dst \<mapsto> content)"
  "writeZipEntry w f dst d = (True, d') \<Longrightarrow> d' = d(dst \<mapsto> ze_Content f)"
  by (auto simp: write_file_def writeZipEntry_def split: if_splits option.splits)

lemma extract_elsewhere: "p \<notin> set (targets root es) \<Longrightarrow> snd (extract_entries w root es d) p = d p"
proof (induction es arbitrary: d)
  case (Cons f es)
  have "snd (writeZipEntry w f (below root (ze_Name f)) d) p = d p" if "\<not> ze_Dir f"
    using Cons.prems that by (intro write_elsewhere) (simp add: targets_def)
  moreover have "snd (extract_entries w root es d1) p = d1 p" for d1
    using Cons.prems by (intro Cons.IH) (simp add: targets_def split: if_split_asm)
  ultimately show ?case by (simp add: case_prod_unfold Let_def)
qed simp

lemma extract_done:
  "extract_entries w root es d = (True, d') \<Longrightarrow> distinct (targets root es) \<Longrightarrow> unpacked root es d'"
proof (induction es arbitrary: d)
  case (Cons f es)
  show ?case
  proof (cases "ze_Dir f")
    case True
    then show ?thesis using Cons by (auto simp: unpacked_def targets_def Let_def split: if_splits)
  next
    case False
    let ?dst = "below root (ze_Name f)"
    obtain d1 where d1: "writeZipEntry w f ?dst d = (True, d1)" "extract_entries w root es d1 = (True, d')"
      using Cons.prems(1) False by (auto simp: Let_def split: if_splits prod.splits)
    have "?dst \<notin> set (targets root es)" using Cons.prems(2) False by (simp add: targets_def)
    then have "d' ?dst = d1 ?dst" using extract_elsewhere [of ?dst root es w d1] d1(2) by simp
    then show ?thesis using Cons.IH [OF d1(2)] Cons.prems(2) False write_done(2) [OF d1(1)]
      by (simp add: unpacked_def targets_def)
  qed
qed (simp add: unpacked_def)

definition same_bundle :: "win_path \<Rightarrow> string \<Rightarrow> zip_entry list \<Rightarrow> extract_world \<Rightarrow> bool" where
  "same_bundle base version es w \<longleftrightarrow> xw_cacheDir w = Some base \<and> xw_version w = version \<and> xw_zip w = Some es"

lemma launch_keeps:
  assumes "same_bundle base version es w" "distinct (targets root es)" "marker root \<notin> set (targets root es)"
    and root: "root = drivers_root base version"
    and inv: "d (marker root) \<noteq> None \<Longrightarrow> unpacked root es d"
    and now: "snd (BundledDriverPaths w d) (marker root) \<noteq> None"
  shows "unpacked root es (snd (BundledDriverPaths w d))"
proof (cases "d (marker root)")
  case None
  obtain ok d1 where d1: "extract_entries w root es d = (ok, d1)" by fastforce
  obtain ok2 d2 where d2: "write_file w (marker root) version d1 = (ok2, d2)" by fastforce
  have m: "d1 (marker root) = None" using extract_elsewhere [OF assms(3), of w d] d1 None by simp
  have r: "snd (BundledDriverPaths w d) = (if ok then d2 else d1)"
    using assms(1) None d1 d2 by (simp add: BundledDriverPaths_def extractBundledDrivers_def same_bundle_def root [symmetric] Let_def)
  then have ok: "ok" using now m by (auto split: if_splits)
  then have all: "unpacked root es d1" using extract_done [OF _ assms(2)] d1 by simp
  have same: "d2 p = d1 p" if "p \<in> set (targets root es)" for p
    using write_elsewhere(1) [of p "marker root" w version d1] d2 that assms(3) by auto
  have kept: "d2 (below root (ze_Name f)) = d1 (below root (ze_Name f))" if "f \<in> set es" "\<not> ze_Dir f" for f
    using that by (intro same) (simp add: targets_def)
  have "unpacked root es d2" using all kept unfolding unpacked_def list_all_iff by metis
  then show ?thesis using r ok by simp
next
  case (Some x)
  then have "snd (BundledDriverPaths w d) = d"
    using assms(1) by (simp add: BundledDriverPaths_def extractBundledDrivers_def same_bundle_def root [symmetric] Let_def)
  then show ?thesis using inv Some by simp
qed

lemma launches_keep:
  assumes "list_all (same_bundle base version es) ws" "distinct (targets root es)" "marker root \<notin> set (targets root es)"
    "root = drivers_root base version" "d (marker root) \<noteq> None \<Longrightarrow> unpacked root es d"
  shows "fold (\<lambda>w d. snd (BundledDriverPaths w d)) ws d (marker root) \<noteq> None \<Longrightarrow>
    unpacked root es (fold (\<lambda>w d. snd (BundledDriverPaths w d)) ws d)"
  using assms(1,5)
proof (induction ws arbitrary: d)
  case (Cons w ws)
  show ?case
    using Cons.prems Cons.IH [of "snd (BundledDriverPaths w d)"] launch_keeps [OF _ assms(2-4), of w d] by auto
qed simp


section \<open>Example\<close>

definition demo_entries :: "zip_entry list" where
  "demo_entries =
    [\<lparr>ze_Name = ''python-embed/'', ze_Dir = True, ze_Content = []\<rparr>,
     \<lparr>ze_Name = ''python-embed/python.exe'', ze_Dir = False, ze_Content = ''py''\<rparr>,
     \<lparr>ze_Name = ''ios.exe'', ze_Dir = False, ze_Content = ''ios''\<rparr>]"

text \<open>A launch whose disk is full after a byte of \<open>ios.exe\<close>, and one in which nothing fails.\<close>

definition demo_launch :: "nat option \<Rightarrow> extract_world" where
  "demo_launch n =
    \<lparr>xw_cacheDir = Some [''C:'', ''Cache''], xw_version = ''1.2'', xw_zip = Some demo_entries, xw_mkdir = (\<lambda>_. True),
     xw_open = (\<lambda>_. True), xw_create = (\<lambda>_. True), xw_copied = (\<lambda>p. if last p = ''ios.exe'' then n else None)\<rparr>"

definition demo_disk :: disk where
  "demo_disk = snd (BundledDriverPaths (demo_launch (Some 1)) Map.empty)"


end
