(* ===== verification/Ws_Client.thy ===== *)
theory Ws_Client
  imports Ws_Session Go_Flag
begin

text \<open>
  The command \<open>cmd/wsclient\<close>, which sends one action to an engine and prints the reply, and what it prints
  when the engine of \<open>Ws_Session\<close> is at the other end. The connection is an argument: at which attempts it
  can be opened, whether the action can be sent, and what is received before the deadline.
\<close>

section \<open>The command\<close>

definition replyTypeFor :: "string \<Rightarrow> string option" where
  "replyTypeFor = map_of
    [(''GET_STATUS'', ''STATUS''), (''GET_DIAGNOSTICS'', ''DIAGNOSTICS''), (''GET_NETWORK_DEVICES'', ''NETWORK_DEVICES''),
     (''SCAN_MDNS'', ''MDNS_DEVICES''), (''PROBE_RSD_PORTS'', ''RSD_PORTS''), (''GET_DEVICE_INFO'', ''DEVICE_INFO''),
     (''GET_LOGS'', ''LOGS''), (''SET_LOCATION'', ''STATUS''), (''CLEAR_LOCATION'', ''STATUS''), (''HEARTBEAT'', ''PONG''),
     (''SWITCH_DRIVER'', ''STATUS''), (''PAIR_DEVICE'', ''PAIR_RESULT'')]"

text \<open>Durations are nanoseconds.\<close>

definition longTimeoutActions :: "string \<Rightarrow> int option" where
  "longTimeoutActions = map_of
    [(''SWITCH_DRIVER'', 30000000000), (''SCAN_MDNS'', 15000000000), (''PROBE_RSD_PORTS'', 10000000000),
     (''PAIR_DEVICE'', 45000000000)]"

record client_flags =
  cf_addr :: string
  cf_timeout :: int

definition client_defaults :: client_flags where
  "client_defaults = \<lparr>cf_addr = ''localhost:8080'', cf_timeout = 5000000000\<rparr>"

definition client_flag_table :: "fpu \<Rightarrow> (string \<times> client_flags flag_def) list" where
  "client_flag_table u = [(''addr'', string_flag cf_addr_update), (''timeout'', duration_flag u cf_timeout_update)]"

text \<open>\<open>flag.Args\<close>: what the loop of the flags leaves; two dashes end it and are dropped.\<close>

fun flag_rest :: "(string \<times> 'c flag_def) list \<Rightarrow> string list \<Rightarrow> string list" where
  "flag_rest formal [] = []"
| "flag_rest formal (s # args) =
    (case classify_arg s of
       EndOfFlags \<Rightarrow> if s = ''--'' then args else s # args
     | BadSyntax \<Rightarrow> []
     | FlagArg name given \<Rightarrow>
         (case map_of formal name of
            None \<Rightarrow> []
          | Some f \<Rightarrow>
              (if given \<noteq> None \<or> fl_bool f then flag_rest formal args
               else case args of [] \<Rightarrow> [] | v # args' \<Rightarrow> flag_rest formal args')))"

text \<open>A message received: its type, empty where it has none, and what it holds; or one that does not decode.\<close>

datatype 'p incoming = NotAnEvent | Event string 'p

datatype 'p client_exit = BadFlag | Usage | BadData | NoConnection | NotSent | NoReply | Printed string 'p

fun await_event :: "string option \<Rightarrow> 'p incoming list \<Rightarrow> 'p client_exit" where
  "await_event want [] = NoReply"
| "await_event want (NotAnEvent # xs) = await_event want xs"
| "await_event want (Event t p # xs) =
    (if t = ''ERROR'' \<or> want = None \<or> want = Some t then Printed t p else await_event want xs)"

record 'p client_world =
  cl_args :: "string list"
  cl_decode :: "string \<Rightarrow> json option"
  cl_dial :: "string \<Rightarrow> nat \<Rightarrow> bool"
  cl_write :: bool
  cl_received :: "int \<Rightarrow> json \<Rightarrow> 'p incoming list"

definition client_envelope :: "string \<Rightarrow> json \<Rightarrow> json" where
  "client_envelope action data = JObj ((if data \<noteq> JNull then [(''data'', data)] else []) @ [(''type'', json.JStr action)])"

definition client_deadline :: "client_flags \<Rightarrow> string \<Rightarrow> int" where
  "client_deadline f action = (case longTimeoutActions action of Some d \<Rightarrow> d | None \<Rightarrow> cf_timeout f)"

text \<open>Twenty attempts to connect.\<close>

definition client_main :: "fpu \<Rightarrow> 'p client_world \<Rightarrow> 'p client_exit" where
  "client_main u w =
    (case parse_flags (client_flag_table u) (cl_args w) client_defaults of
       None \<Rightarrow> BadFlag
     | Some f \<Rightarrow>
         (case flag_rest (client_flag_table u) (cl_args w) of
            [] \<Rightarrow> Usage
          | action # extra \<Rightarrow>
              (case (case extra of [] \<Rightarrow> Some JNull | text # _ \<Rightarrow> cl_decode w text) of
                 None \<Rightarrow> BadData
               | Some data \<Rightarrow>
                   (if \<not> list_ex (cl_dial w (cf_addr f)) [1..<21] then NoConnection
                    else if \<not> cl_write w then NotSent
                    else await_event (replyTypeFor action)
                      (cl_received w (client_deadline f action) (client_envelope action data))))))"

section \<open>What the engine sends\<close>

definition event_type :: "reply \<Rightarrow> string" where
  "event_type r =
    (case r of
       EventStatus _ \<Rightarrow> ''STATUS'' | EventPong _ \<Rightarrow> ''PONG'' | EventLogs _ \<Rightarrow> ''LOGS'' | EventDeviceInfo _ \<Rightarrow> ''DEVICE_INFO''
     | EventNetworkDevices _ \<Rightarrow> ''NETWORK_DEVICES'' | EventMdnsDevices _ \<Rightarrow> ''MDNS_DEVICES'' | EventRsdPorts _ \<Rightarrow> ''RSD_PORTS''
     | EventPairResult _ \<Rightarrow> ''PAIR_RESULT'' | EventPairCode _ \<Rightarrow> ''PAIR_CODE'' | EventPairedDevices _ \<Rightarrow> ''PAIRED_DEVICES''
     | EventDiagnostics _ \<Rightarrow> ''DIAGNOSTICS'' | EventRestartServicesResult _ \<Rightarrow> ''RESTART_SERVICES_RESULT''
     | EventRestartTunnelResult _ \<Rightarrow> ''RESTART_TUNNEL_RESULT'' | EventRestartMdnsResult _ \<Rightarrow> ''RESTART_MDNS_RESULT'')"

definition reply_event :: "reply \<Rightarrow> reply option incoming" where
  "reply_event r = Event (event_type r) (Some r)"

text \<open>The messages of a session on the wire; the broadcasts of the engine come between them.\<close>

fun session_wire :: "session_event \<Rightarrow> reply option incoming list" where
  "session_wire (Greeting st) = [reply_event (EventStatus st)]"
| "session_wire Malformed = []"
| "session_wire (Handled rs) = map reply_event rs"
| "session_wire RateExceeded = [Event ''LOG'' None]"

section \<open>What the client prints\<close>

lemma await_event_find:
  "await_event (Some t) (map reply_event rs @ xs) =
    (case find (\<lambda>r. event_type r = t) rs of Some r \<Rightarrow> Printed (event_type r) (Some r) | None \<Rightarrow> await_event (Some t) xs)"
proof (induction rs)
  case (Cons r rs)
  have "event_type r \<noteq> ''ERROR''" by (cases r) (simp_all add: event_type_def)
  then show ?case using Cons by (auto simp: reply_event_def)
qed simp

lemma fresh_limiter: "fst (limiter_allow exact_fpu t0 (newRateLimiter t0 (Fin 10) (Fin 20)))"
  by (subst limiter_allow_exact) (simp_all add: limiter_ok_def limiter_avail_def newRateLimiter_def)

text \<open>The envelope the client builds is the one the reader decodes.\<close>

lemma envelope_roundtrip:
  "Unmarshal dec_envelope no_envelope (Some (client_envelope action data)) =
    (\<lparr>ep_Type = action, ep_Data = (if data = JNull then None else Some data)\<rparr>, False)"
  by (simp add: Unmarshal_def client_envelope_def dec_envelope_def dec_struct_def dec_member_def find_field_def field_def
      dec_string_def no_envelope_def)

text \<open>
  What the client takes for the reply. Connected to an engine that lets it in, with nothing broadcast
  meanwhile, the client prints for an action with a reply of its own the first reply of that type the
  dispatcher gives. For the actions it expects a status for, and for those it does not know, it prints the
  greeting: the status before its action, which is what it was before the action was even sent.
\<close>
theorem client_prints_greeting:
  "let (g, es, s') = handleWS exact_fpu w r t0 c
         [\<lparr>fr_at = t0, fr_doc = Some (client_envelope action data), fr_world = wld, fr_before = []\<rparr>] s;
       (rs, s1) = dispatch wld c (isLoopback r) action (if data = JNull then None else Some data) (snd (authorized w r s))
   in if g \<noteq> Allowed then es = []
      else s' = s1 \<and>
        await_event (replyTypeFor action) (concat (map session_wire es)) =
          (if replyTypeFor action = None \<or> replyTypeFor action = Some ''STATUS''
           then Printed ''STATUS'' (Some (EventStatus (Status (sv_engine s))))
           else case find (\<lambda>x. Some (event_type x) = replyTypeFor action) rs of
                  Some x \<Rightarrow> Printed (event_type x) (Some x) | None \<Rightarrow> NoReply)"
proof (cases "authorized w r s")
  case (Pair g s0)
  have e: "sv_engine s0 = sv_engine s" using authorized_engine [of w r s] Pair by simp
  obtain rs s1 where d: "dispatch wld c (isLoopback r) action (if data = JNull then None else Some data) s0 = (rs, s1)" by fastforce
  obtain rl where l: "limiter_allow exact_fpu t0 (newRateLimiter t0 (Fin 10) (Fin 20)) = (True, rl)"
    using fresh_limiter [of t0] by (cases "limiter_allow exact_fpu t0 (newRateLimiter t0 (Fin 10) (Fin 20))") simp
  have ws: "handleWS exact_fpu w r t0 c [\<lparr>fr_at = t0, fr_doc = Some (client_envelope action data), fr_world = wld, fr_before = []\<rparr>] s =
      (if g \<noteq> Allowed then (g, [], s0) else (Allowed, [Greeting (Status (sv_engine s0)), Handled rs], s1))"
    by (simp add: handleWS_def Pair l envelope_roundtrip d)
  show ?thesis
  proof (cases "replyTypeFor action")
    case None
    then show ?thesis by (simp add: ws Pair d e reply_event_def event_type_def)
  next
    case (Some t)
    then show ?thesis using await_event_find [of t rs "[]"]
      by (auto simp: ws Pair d e reply_event_def [of "EventStatus _"] event_type_def [of "EventStatus _"] split: option.split)
  qed
qed

end
